(* ===== verification/Prelude.thy ===== *)
theory Prelude
  imports Main "HOL-Library.Word"
begin

text \<open>
  Shared vocabulary of the development: the ESP-IDF error codes the firmware returns
  (\<open>esp_err_t\<close>), the early-return discipline of the \<open>AUG_RETURN_CHECK\<close> and
  \<open>ESP_ERROR_CHECK\<close> macros of \<open>src/main/include/aug_utility.h\<close>, the byte type of the
  flash blobs, and generic lemmas on lists and counting that the component theories share.
\<close>

named_theorems model_simps "equations that evaluate the firmware model on concrete inputs"

section \<open>Error codes\<close>

text \<open>
  The codes of \<open>esp_err.h\<close> that the firmware and the SDK calls it makes can return.
  \<open>ESP_OK\<close> is success; every other code is a failure.
\<close>

datatype esp_err =
    ESP_OK
  | ESP_FAIL
  | ESP_ERR_NO_MEM
  | ESP_ERR_INVALID_ARG
  | ESP_ERR_INVALID_STATE
  | ESP_ERR_INVALID_SIZE
  | ESP_ERR_NOT_FOUND
  | ESP_ERR_TIMEOUT
  | ESP_ERR_NVS_NOT_FOUND
  | ESP_ERR_NVS_NO_FREE_PAGES
  | ESP_ERR_NVS_NEW_VERSION_FOUND
  | ESP_ERR_HTTPD_RESULT_TRUNC

type_synonym byte = "8 word"

section \<open>The early-return macros\<close>

text \<open>
  \<open>AUG_RETURN_CHECK(e)\<close> evaluates \<open>e\<close> and returns its code from the enclosing
  function unless it is \<open>ESP_OK\<close>. With explicit state passing a call is a pair of a
  code and the state after the call, and the rest of the function is a continuation.
\<close>

definition aug_return_check :: "esp_err \<times> 's \<Rightarrow> ('s \<Rightarrow> esp_err \<times> 's) \<Rightarrow> esp_err \<times> 's" where
  "aug_return_check r k = (if fst r = ESP_OK then k (snd r) else r)"

lemma aug_return_check_ok [simp]: "aug_return_check (ESP_OK, s) k = k s"
  by (simp add: aug_return_check_def)

lemma aug_return_check_err [simp]: "e \<noteq> ESP_OK \<Longrightarrow> aug_return_check (e, s) k = (e, s)"
  by (simp add: aug_return_check_def)

lemma aug_return_check_cases:
  "P (aug_return_check (e, s) k) \<longleftrightarrow> (e = ESP_OK \<longrightarrow> P (k s)) \<and> (e \<noteq> ESP_OK \<longrightarrow> P (e, s))"
  by (cases "e = ESP_OK") simp_all

text \<open>
  The same early return in a function whose result may not exist (\<open>None\<close>: the call
  blocks for ever, for instance waiting on an event that never comes).
\<close>

definition aug_return_check_opt ::
  "esp_err \<times> 's \<Rightarrow> ('s \<Rightarrow> (esp_err \<times> 's) option) \<Rightarrow> (esp_err \<times> 's) option" where
  "aug_return_check_opt r k = (if fst r = ESP_OK then k (snd r) else Some r)"

lemma aug_return_check_opt_ok [simp]: "aug_return_check_opt (ESP_OK, s) k = k s"
  by (simp add: aug_return_check_opt_def)

lemma aug_return_check_opt_err [simp]:
  "e \<noteq> ESP_OK \<Longrightarrow> aug_return_check_opt (e, s) k = Some (e, s)"
  by (simp add: aug_return_check_opt_def)

section \<open>Arithmetic\<close>

text \<open>Splitting a quotient at a remainder, for counters that restart at a bound.\<close>

lemma div_mod_add_split:
  fixes a k n :: int
  assumes "n \<noteq> 0"
  shows "a div n + (a mod n + k) div n = (a + k) div n"
    and "(a mod n + k) mod n = (a + k) mod n"
proof -
  have eq: "a + k = (a mod n + k) + a div n * n" by simp
  show "a div n + (a mod n + k) div n = (a + k) div n"
    by (subst eq, subst div_mult_self1 [OF assms]) simp
  show "(a mod n + k) mod n = (a + k) mod n"
    by (simp add: mod_add_left_eq)
qed

section \<open>Minima\<close>

lemma arg_min_list_le:
  "xs \<noteq> [] \<Longrightarrow> \<forall>d \<in> set xs. f (arg_min_list f xs) \<le> f d"
  by (simp add: f_arg_min_list_f)

section \<open>Counting\<close>

text \<open>Occurrences of one value in a list of emitted actions or events.\<close>

lemma count_list_replicate_same [simp]: "count_list (replicate n x) x = n"
  by (induction n) auto

lemma count_list_replicate_other [simp]: "y \<noteq> x \<Longrightarrow> count_list (replicate n y) x = 0"
  by (induction n) auto

end
