(* ===== verification/Utility.thy ===== *)
theory Utility
  imports Prelude
begin

text \<open>
  Model of \<open>src/main/aug_utility.c\<close>: the two enumerations the control surface accepts as
  text (Wi-Fi authentication threshold and WPA3 SAE method), their string tables, the
  \<open>string_cmp\<close> helper, the four conversion loops and the buffer-size constants built with
  the \<open>MAX_OF_n\<close> macros of \<open>aug_utility.h\<close>. The lemmas show that each string/enum pair
  round-trips, that every enum value outside the table is rejected, and that a converted
  string always fits the buffer the caller allocates.
\<close>

section \<open>The SDK enumerations\<close>

text \<open>
  \<open>wifi_auth_mode_t\<close> of \<open>esp_wifi_types.h\<close>, in the SDK's order. The firmware's table
  covers eight of them; \<open>WIFI_AUTH_ENTERPRISE\<close>, \<open>WIFI_AUTH_OWE\<close> and
  \<open>WIFI_AUTH_WPA3_ENT_192\<close> are SDK values outside it.
\<close>

datatype wifi_auth_mode_t =
    WIFI_AUTH_OPEN
  | WIFI_AUTH_WEP
  | WIFI_AUTH_WPA_PSK
  | WIFI_AUTH_WPA2_PSK
  | WIFI_AUTH_WPA_WPA2_PSK
  | WIFI_AUTH_ENTERPRISE
  | WIFI_AUTH_WPA3_PSK
  | WIFI_AUTH_WPA2_WPA3_PSK
  | WIFI_AUTH_WAPI_PSK
  | WIFI_AUTH_OWE
  | WIFI_AUTH_WPA3_ENT_192

datatype wifi_sae_pwe_method_t =
    WPA3_SAE_PWE_UNSPECIFIED
  | WPA3_SAE_PWE_HUNT_AND_PECK
  | WPA3_SAE_PWE_HASH_TO_ELEMENT
  | WPA3_SAE_PWE_BOTH

section \<open>Tables and sizes\<close>

definition AUG_AUTH_MODES_STR :: "string list" where
  "AUG_AUTH_MODES_STR = [''open'', ''wep'', ''wpa_psk'', ''wpa2_psk'', ''wpa_wpa2_psk'',
                         ''wpa3_psk'', ''wpa2_wpa3_psk'', ''wapi_psk'']"

definition AUG_AUTH_MODES_ENUM :: "wifi_auth_mode_t list" where
  "AUG_AUTH_MODES_ENUM = [WIFI_AUTH_OPEN, WIFI_AUTH_WEP, WIFI_AUTH_WPA_PSK, WIFI_AUTH_WPA2_PSK,
                          WIFI_AUTH_WPA_WPA2_PSK, WIFI_AUTH_WPA3_PSK, WIFI_AUTH_WPA2_WPA3_PSK,
                          WIFI_AUTH_WAPI_PSK]"

definition AUG_SAE_MODES_STR :: "string list" where
  "AUG_SAE_MODES_STR = [''unspecified'', ''hunt_and_peck'', ''h2e'', ''both'']"

definition AUG_SAE_MODES_ENUM :: "wifi_sae_pwe_method_t list" where
  "AUG_SAE_MODES_ENUM = [WPA3_SAE_PWE_UNSPECIFIED, WPA3_SAE_PWE_HUNT_AND_PECK,
                         WPA3_SAE_PWE_HASH_TO_ELEMENT, WPA3_SAE_PWE_BOTH]"

text \<open>\<open>sizeof\<close> of a string literal counts its terminating NUL.\<close>

definition c_sizeof_str :: "string \<Rightarrow> nat" where
  "c_sizeof_str s = length s + 1"

definition MAX_OF_2 :: "nat \<Rightarrow> nat \<Rightarrow> nat" where
  "MAX_OF_2 a b = (if a > b then a else b)"

definition MAX_OF_4 :: "nat \<Rightarrow> nat \<Rightarrow> nat \<Rightarrow> nat \<Rightarrow> nat" where
  "MAX_OF_4 a b c d = MAX_OF_2 (MAX_OF_2 (MAX_OF_2 a b) c) d"

definition MAX_OF_8 :: "nat \<Rightarrow> nat \<Rightarrow> nat \<Rightarrow> nat \<Rightarrow> nat \<Rightarrow> nat \<Rightarrow> nat \<Rightarrow> nat \<Rightarrow> nat" where
  "MAX_OF_8 a b c d e f g h = MAX_OF_2 (MAX_OF_4 a b c d) (MAX_OF_4 e f g h)"

definition AUG_AUTH_MODE_MAX_SIZE :: nat where
  "AUG_AUTH_MODE_MAX_SIZE =
     MAX_OF_8 (c_sizeof_str ''open'') (c_sizeof_str ''wep'') (c_sizeof_str ''wpa_psk'')
              (c_sizeof_str ''wpa2_psk'') (c_sizeof_str ''wpa_wpa2_psk'')
              (c_sizeof_str ''wpa3_psk'') (c_sizeof_str ''wpa2_wpa3_psk'')
              (c_sizeof_str ''wapi_psk'')"

definition AUG_SAE_MODE_MAX_SIZE :: nat where
  "AUG_SAE_MODE_MAX_SIZE =
     MAX_OF_4 (c_sizeof_str ''unspecified'') (c_sizeof_str ''hunt_and_peck'')
              (c_sizeof_str ''h2e'') (c_sizeof_str ''both'')"

section \<open>The conversion loops\<close>

text \<open>
  \<open>string_cmp\<close>: equal lengths, then \<open>strncmp\<close> over the second length. For the
  NUL-free strings the firmware passes, \<open>strncmp(a, b, n) == 0\<close> is equality of the first
  \<open>n\<close> characters.
\<close>

definition string_cmp :: "string \<Rightarrow> nat \<Rightarrow> string \<Rightarrow> nat \<Rightarrow> bool" where
  "string_cmp str1 len1 str2 len2 = (len1 = len2 \<and> take len2 str1 = take len2 str2)"

text \<open>
  The body of \<open>aug_str_to_auth_mode\<close> and \<open>aug_str_to_sae_mode\<close>: walk the two parallel
  tables and stop at the first string that matches (\<open>break\<close>). \<open>None\<close> is the
  \<open>ESP_FAIL\<close> return, with the output parameter left untouched.
\<close>

fun str_to_enum_loop :: "string \<Rightarrow> nat \<Rightarrow> string list \<Rightarrow> 'a list \<Rightarrow> 'a option" where
  "str_to_enum_loop buf len (s # ss) (m # ms) =
     (if string_cmp buf len s (length s) then Some m else str_to_enum_loop buf len ss ms)"
| "str_to_enum_loop buf len _ _ = None"

text \<open>The body of \<open>aug_auth_mode_to_str\<close> and \<open>aug_sae_mode_to_str\<close> after the size check.\<close>

fun enum_to_str_loop :: "'a \<Rightarrow> string list \<Rightarrow> 'a list \<Rightarrow> string option" where
  "enum_to_str_loop m (s # ss) (m' # ms) = (if m' = m then Some s else enum_to_str_loop m ss ms)"
| "enum_to_str_loop m _ _ = None"

definition aug_str_to_auth_mode :: "string \<Rightarrow> nat \<Rightarrow> wifi_auth_mode_t option" where
  "aug_str_to_auth_mode buffer buffer_len =
     str_to_enum_loop buffer buffer_len AUG_AUTH_MODES_STR AUG_AUTH_MODES_ENUM"

text \<open>
  The result of a \<open>..._to_str\<close> conversion is the error code or the string written into
  the caller's buffer (followed by its NUL).
\<close>

definition aug_auth_mode_to_str :: "wifi_auth_mode_t \<Rightarrow> nat \<Rightarrow> esp_err + string" where
  "aug_auth_mode_to_str auth_mode buffer_size =
     (if buffer_size < AUG_AUTH_MODE_MAX_SIZE then Inl ESP_FAIL
      else case enum_to_str_loop auth_mode AUG_AUTH_MODES_STR AUG_AUTH_MODES_ENUM of
             None \<Rightarrow> Inl ESP_FAIL
           | Some s \<Rightarrow> Inr s)"

definition aug_str_to_sae_mode :: "string \<Rightarrow> nat \<Rightarrow> wifi_sae_pwe_method_t option" where
  "aug_str_to_sae_mode buffer buffer_len =
     str_to_enum_loop buffer buffer_len AUG_SAE_MODES_STR AUG_SAE_MODES_ENUM"

definition aug_sae_mode_to_str :: "wifi_sae_pwe_method_t \<Rightarrow> nat \<Rightarrow> esp_err + string" where
  "aug_sae_mode_to_str sae_mode buffer_size =
     (if buffer_size < AUG_SAE_MODE_MAX_SIZE then Inl ESP_FAIL
      else case enum_to_str_loop sae_mode AUG_SAE_MODES_STR AUG_SAE_MODES_ENUM of
             None \<Rightarrow> Inl ESP_FAIL
           | Some s \<Rightarrow> Inr s)"

definition aug_get_auth_mode_size :: nat where
  "aug_get_auth_mode_size = AUG_AUTH_MODE_MAX_SIZE"

definition aug_get_sae_mode_size :: nat where
  "aug_get_sae_mode_size = AUG_SAE_MODE_MAX_SIZE"

section \<open>Generic facts on the table loops\<close>

lemma string_cmp_own_length [simp]:
  "string_cmp b (length b) s (length s) \<longleftrightarrow> b = s"
  by (auto simp: string_cmp_def)

lemma str_to_enum_loop_in_set:
  "str_to_enum_loop b n ss ms = Some m \<Longrightarrow> m \<in> set ms"
  by (induction b n ss ms rule: str_to_enum_loop.induct) (auto split: if_splits)

lemma enum_to_str_loop_in_set:
  "enum_to_str_loop m ss ms = Some s \<Longrightarrow> s \<in> set ss"
  by (induction m ss ms rule: enum_to_str_loop.induct) (auto split: if_splits)

lemma enum_to_str_loop_None:
  "length ss = length ms \<Longrightarrow> enum_to_str_loop m ss ms = None \<longleftrightarrow> m \<notin> set ms"
  by (induction m ss ms rule: enum_to_str_loop.induct) auto

text \<open>
  Parsing a table string and printing the value back gives the string, provided the
  enum column has no repeated value (the first match is then the only one).
\<close>

lemma str_to_enum_loop_inverse:
  "str_to_enum_loop b (length b) ss ms = Some m \<Longrightarrow> distinct ms \<Longrightarrow>
   enum_to_str_loop m ss ms = Some b"
proof (induction ss arbitrary: ms)
  case Nil
  then show ?case by simp
next
  case (Cons s ss)
  then obtain m' ms' where ms: "ms = m' # ms'" by (cases ms) auto
  show ?case
  proof (cases "b = s")
    case True
    with Cons.prems ms show ?thesis by simp
  next
    case False
    with Cons.prems ms have rec: "str_to_enum_loop b (length b) ss ms' = Some m" by simp
    with Cons.prems(2) ms have "m' \<noteq> m" by (auto dest: str_to_enum_loop_in_set)
    with Cons.IH [OF rec] Cons.prems(2) ms show ?thesis by simp
  qed
qed

lemma enum_to_str_loop_inverse:
  "enum_to_str_loop m ss ms = Some s \<Longrightarrow> distinct ss \<Longrightarrow>
   str_to_enum_loop s (length s) ss ms = Some m"
proof (induction ss arbitrary: ms)
  case Nil
  then show ?case by simp
next
  case (Cons s' ss)
  then obtain m' ms' where ms: "ms = m' # ms'" by (cases ms) auto
  show ?case
  proof (cases "m' = m")
    case True
    with Cons.prems ms show ?thesis by simp
  next
    case False
    with Cons.prems ms have rec: "enum_to_str_loop m ss ms' = Some s" by simp
    with Cons.prems(2) have "s' \<noteq> s" by (auto dest: enum_to_str_loop_in_set)
    with Cons.IH [OF rec] Cons.prems(2) ms show ?thesis by simp
  qed
qed

text \<open>The loop with the buffer's own length is a lookup in the table read as a map.\<close>

lemma str_to_enum_loop_map_of:
  "str_to_enum_loop b (length b) ss ms = map_of (zip ss ms) b"
proof (induction ss arbitrary: ms)
  case Nil
  then show ?case by simp
next
  case (Cons s ss)
  then show ?case by (cases ms) auto
qed

lemma enum_to_str_loop_length:
  "enum_to_str_loop m ss ms = Some s \<Longrightarrow> \<forall>t \<in> set ss. c_sizeof_str t \<le> k \<Longrightarrow> c_sizeof_str s \<le> k"
  by (blast dest: enum_to_str_loop_in_set)

section \<open>The firmware's tables\<close>

lemma AUG_AUTH_MODE_MAX_SIZE_val [model_simps]: "AUG_AUTH_MODE_MAX_SIZE = 14"
  by (simp add: AUG_AUTH_MODE_MAX_SIZE_def MAX_OF_8_def MAX_OF_4_def MAX_OF_2_def c_sizeof_str_def)

lemma AUG_SAE_MODE_MAX_SIZE_val [model_simps]: "AUG_SAE_MODE_MAX_SIZE = 14"
  by (simp add: AUG_SAE_MODE_MAX_SIZE_def MAX_OF_4_def MAX_OF_2_def c_sizeof_str_def)

lemma auth_tables_wf:
  "distinct AUG_AUTH_MODES_STR" "distinct AUG_AUTH_MODES_ENUM"
  "length AUG_AUTH_MODES_STR = length AUG_AUTH_MODES_ENUM"
  "\<forall>t \<in> set AUG_AUTH_MODES_STR. c_sizeof_str t \<le> AUG_AUTH_MODE_MAX_SIZE"
  by (simp_all add: AUG_AUTH_MODES_STR_def AUG_AUTH_MODES_ENUM_def AUG_AUTH_MODE_MAX_SIZE_val
      c_sizeof_str_def)

lemma sae_tables_wf:
  "distinct AUG_SAE_MODES_STR" "distinct AUG_SAE_MODES_ENUM"
  "length AUG_SAE_MODES_STR = length AUG_SAE_MODES_ENUM"
  "\<forall>t \<in> set AUG_SAE_MODES_STR. c_sizeof_str t \<le> AUG_SAE_MODE_MAX_SIZE"
  by (simp_all add: AUG_SAE_MODES_STR_def AUG_SAE_MODES_ENUM_def AUG_SAE_MODE_MAX_SIZE_val
      c_sizeof_str_def)

lemma set_AUG_SAE_MODES_ENUM: "set AUG_SAE_MODES_ENUM = UNIV"
proof -
  have "x \<in> set AUG_SAE_MODES_ENUM" for x by (cases x) (simp_all add: AUG_SAE_MODES_ENUM_def)
  then show ?thesis by blast
qed

lemmas conversion_defs = aug_str_to_auth_mode_def aug_auth_mode_to_str_def
  aug_str_to_sae_mode_def aug_sae_mode_to_str_def aug_get_auth_mode_size_def
  aug_get_sae_mode_size_def

section \<open>Properties of the conversions\<close>

text \<open>Printing an authentication mode to text and parsing the text gives the mode back.\<close>

theorem auth_mode_print_parse:
  "aug_auth_mode_to_str m n = Inr s \<Longrightarrow> aug_str_to_auth_mode s (length s) = Some m"
  using enum_to_str_loop_inverse auth_tables_wf
  by (auto simp: conversion_defs split: if_splits option.splits)

text \<open>
  C28: Parsing then printing gives the string back when the caller's buffer has the size
  \<open>aug_get_auth_mode_size\<close> returns, as \<open>send_sta_info\<close> allocates it.
\<close>

theorem auth_mode_parse_print:
  "aug_str_to_auth_mode b (length b) = Some m \<Longrightarrow> aug_get_auth_mode_size \<le> n \<Longrightarrow>
   aug_auth_mode_to_str m n = Inr b"
  using str_to_enum_loop_inverse [of b AUG_AUTH_MODES_STR AUG_AUTH_MODES_ENUM m] auth_tables_wf
  by (simp add: conversion_defs)

theorem sae_mode_print_parse:
  "aug_sae_mode_to_str m n = Inr s \<Longrightarrow> aug_str_to_sae_mode s (length s) = Some m"
  using enum_to_str_loop_inverse sae_tables_wf
  by (auto simp: conversion_defs split: if_splits option.splits)

theorem sae_mode_parse_print:
  "aug_str_to_sae_mode b (length b) = Some m \<Longrightarrow> aug_get_sae_mode_size \<le> n \<Longrightarrow>
   aug_sae_mode_to_str m n = Inr b"
  using str_to_enum_loop_inverse [of b AUG_SAE_MODES_STR AUG_SAE_MODES_ENUM m] sae_tables_wf
  by (simp add: conversion_defs)

text \<open>
  The printed string and its NUL fit in the caller's buffer: the \<open>memcpy\<close> of
  \<open>strlen + 1\<close> bytes never writes past \<open>buffer_size\<close>.
\<close>

theorem auth_mode_to_str_fits:
  "aug_auth_mode_to_str m n = Inr s \<Longrightarrow> c_sizeof_str s \<le> n"
proof -
  assume r: "aug_auth_mode_to_str m n = Inr s"
  then have n: "AUG_AUTH_MODE_MAX_SIZE \<le> n"
    and loop: "enum_to_str_loop m AUG_AUTH_MODES_STR AUG_AUTH_MODES_ENUM = Some s"
    by (auto simp: aug_auth_mode_to_str_def split: if_splits option.splits)
  from loop auth_tables_wf(4) have "c_sizeof_str s \<le> AUG_AUTH_MODE_MAX_SIZE"
    by (rule enum_to_str_loop_length)
  with n show ?thesis by simp
qed

text \<open>
  The error branches: a buffer below the table's maximum, and an SDK mode outside the
  table, are both \<open>ESP_FAIL\<close>; every SAE method is in its table.
\<close>

theorem auth_mode_to_str_errors:
  "aug_auth_mode_to_str m n = Inl e \<longleftrightarrow>
     e = ESP_FAIL \<and> (n < aug_get_auth_mode_size \<or> m \<notin> set AUG_AUTH_MODES_ENUM)"
  using enum_to_str_loop_None [OF auth_tables_wf(3), of m]
  by (auto simp: conversion_defs split: option.splits)

lemma sae_mode_to_str_total:
  "aug_get_sae_mode_size \<le> n \<Longrightarrow> \<exists>s. aug_sae_mode_to_str m n = Inr s"
  using enum_to_str_loop_None [OF sae_tables_wf(3), of m] set_AUG_SAE_MODES_ENUM
  by (auto simp: conversion_defs split: option.splits)

section \<open>Witnesses\<close>

theorem auth_mode_print_parse_witness:
  "aug_auth_mode_to_str WIFI_AUTH_WPA2_PSK 14 = Inr ''wpa2_psk''
   \<and> aug_str_to_auth_mode ''wpa2_psk'' (length ''wpa2_psk'') = Some WIFI_AUTH_WPA2_PSK"
proof -
  have h: "aug_auth_mode_to_str WIFI_AUTH_WPA2_PSK 14 = Inr ''wpa2_psk''"
    by (simp add: aug_auth_mode_to_str_def AUG_AUTH_MODE_MAX_SIZE_val AUG_AUTH_MODES_STR_def
        AUG_AUTH_MODES_ENUM_def)
  show ?thesis using h auth_mode_print_parse [OF h] by simp
qed

theorem auth_mode_parse_print_witness:
  "aug_str_to_auth_mode ''wpa3_psk'' (length ''wpa3_psk'') = Some WIFI_AUTH_WPA3_PSK \<and> aug_get_auth_mode_size \<le> 14
   \<and> aug_auth_mode_to_str WIFI_AUTH_WPA3_PSK 14 = Inr ''wpa3_psk''"
proof -
  have h1: "aug_str_to_auth_mode ''wpa3_psk'' (length ''wpa3_psk'') = Some WIFI_AUTH_WPA3_PSK"
    by (simp add: aug_str_to_auth_mode_def AUG_AUTH_MODES_STR_def AUG_AUTH_MODES_ENUM_def
        string_cmp_def)
  have h2: "aug_get_auth_mode_size \<le> 14"
    by (simp add: aug_get_auth_mode_size_def AUG_AUTH_MODE_MAX_SIZE_val)
  show ?thesis using h1 h2 auth_mode_parse_print [OF h1 h2] by simp
qed

theorem auth_mode_to_str_fits_witness:
  "aug_auth_mode_to_str WIFI_AUTH_WPA2_WPA3_PSK 14 = Inr ''wpa2_wpa3_psk''
   \<and> c_sizeof_str ''wpa2_wpa3_psk'' \<le> 14"
proof -
  have h: "aug_auth_mode_to_str WIFI_AUTH_WPA2_WPA3_PSK 14 = Inr ''wpa2_wpa3_psk''"
    by (simp add: aug_auth_mode_to_str_def AUG_AUTH_MODE_MAX_SIZE_val AUG_AUTH_MODES_STR_def
        AUG_AUTH_MODES_ENUM_def)
  show ?thesis using h auth_mode_to_str_fits [OF h] by simp
qed

theorem auth_mode_to_str_errors_witness:
  "aug_auth_mode_to_str WIFI_AUTH_ENTERPRISE 64 = Inl ESP_FAIL
   \<and> aug_auth_mode_to_str WIFI_AUTH_OPEN 13 = Inl ESP_FAIL"
  using auth_mode_to_str_errors [of WIFI_AUTH_ENTERPRISE 64 ESP_FAIL]
    auth_mode_to_str_errors [of WIFI_AUTH_OPEN 13 ESP_FAIL]
  by (simp add: aug_get_auth_mode_size_def AUG_AUTH_MODE_MAX_SIZE_val AUG_AUTH_MODES_ENUM_def)

end
