(* ===== verification/WifiConfig.thy ===== *)
theory WifiConfig
  imports Utility
begin

text \<open>
  The configuration data of the firmware: the build-time options of \<open>sdkconfig\<close> that
  \<open>src/main/aug_wifi.c\<close> and the headers read through \<open>CONFIG_*\<close> macros, the station
  and access-point configuration structs of \<open>aug_wifi.h\<close> (with the parts of the SDK's
  \<open>wifi_config_t\<close> the firmware writes), and the two default-configuration functions.
\<close>

section \<open>Build configuration\<close>

text \<open>
  The \<open>CONFIG_*\<close> values the sources use. \<open>kc_wifi_info\<close> is \<open>CONFIG_WIFI_INFO\<close>
  (compiled-in station credentials), \<open>kc_softap_sae\<close> is
  \<open>CONFIG_ESP_WIFI_SOFTAP_SAE_SUPPORT\<close>. The access point's channel is the automatic
  one: with \<open>CONFIG_AP_MANUAL_CHANNEL\<close> set, \<open>aug_wifi_get_default_ap_config\<close> names an
  undeclared identifier \<open>channel\<close> and does not compile.
\<close>

record kconfig =
  kc_wifi_info :: bool
  kc_sta_ssid :: string
  kc_sta_password :: string
  kc_maximum_retry :: int
  kc_sae_mode :: wifi_sae_pwe_method_t
  kc_pw_id :: string
  kc_scan_auth_threshold :: wifi_auth_mode_t
  kc_ap_ssid :: string
  kc_ap_password :: string
  kc_max_sta_conn :: nat
  kc_timeout_idle :: int
  kc_softap_sae :: bool
  kc_scan_list_size :: nat
  kc_max_uri_len :: nat
  kc_broker_uri :: string

section \<open>Configuration structs\<close>

text \<open>
  Sizes of the fixed character arrays of the SDK's \<open>wifi_sta_config_t\<close> and
  \<open>wifi_ap_config_t\<close> (\<open>esp_wifi_types.h\<close>).
\<close>

definition SSID_SIZE :: nat where "SSID_SIZE = 32"
definition PASSWORD_SIZE :: nat where "PASSWORD_SIZE = 64"
definition SAE_H2E_IDENTIFIER_LEN :: nat where "SAE_H2E_IDENTIFIER_LEN = 32"

record wifi_sta_config_t =
  sta_ssid :: string
  sta_password :: string
  sta_threshold_authmode :: wifi_auth_mode_t
  sta_sae_pwe_h2e :: wifi_sae_pwe_method_t
  sta_sae_h2e_identifier :: string

text \<open>\<open>aug_wifi_sta_config_t\<close>: the SDK struct and the retry bound.\<close>

record aug_wifi_sta_config_t =
  sta_wifi_config :: wifi_sta_config_t
  max_retry :: int

record wifi_ap_config_t =
  ap_ssid :: string
  ap_ssid_len :: nat
  ap_channel :: byte
  ap_password :: string
  ap_max_connection :: nat
  ap_authmode :: wifi_auth_mode_t
  ap_sae_pwe_h2e :: wifi_sae_pwe_method_t
  ap_pmf_required :: bool

text \<open>\<open>aug_wifi_ap_config_t\<close>: the SDK struct and the idle timeout in seconds.\<close>

record aug_wifi_ap_config_t =
  ap_wifi_config :: wifi_ap_config_t
  timeout_idle :: int

text \<open>The zero-initialised structs (\<open>= {}\<close> and \<open>memset(.., 0, ..)\<close>).\<close>

definition zero_sta_config :: aug_wifi_sta_config_t where
  "zero_sta_config =
     \<lparr>sta_wifi_config = \<lparr>sta_ssid = [], sta_password = [], sta_threshold_authmode = WIFI_AUTH_OPEN,
        sta_sae_pwe_h2e = WPA3_SAE_PWE_UNSPECIFIED, sta_sae_h2e_identifier = []\<rparr>,
      max_retry = 0\<rparr>"

definition zero_ap_config :: aug_wifi_ap_config_t where
  "zero_ap_config =
     \<lparr>ap_wifi_config = \<lparr>ap_ssid = [], ap_ssid_len = 0, ap_channel = 0, ap_password = [],
        ap_max_connection = 0, ap_authmode = WIFI_AUTH_OPEN,
        ap_sae_pwe_h2e = WPA3_SAE_PWE_UNSPECIFIED, ap_pmf_required = False\<rparr>,
      timeout_idle = 0\<rparr>"

section \<open>Default configurations\<close>

text \<open>
  \<open>aug_wifi_get_default_ap_config\<close>: compiled-in SSID and password, WPA3 with SAE when
  the SoftAP supports it and WPA2 otherwise, and an open network when the password is
  empty. The channel is left 0: \<open>aug_wifi_ap_start\<close> chooses it.
\<close>

definition aug_wifi_get_default_ap_config :: "kconfig \<Rightarrow> aug_wifi_ap_config_t" where
  "aug_wifi_get_default_ap_config kc =
     (let ap = \<lparr>ap_ssid = kc_ap_ssid kc, ap_ssid_len = length (kc_ap_ssid kc), ap_channel = 0,
                ap_password = kc_ap_password kc, ap_max_connection = kc_max_sta_conn kc,
                ap_authmode = (if kc_softap_sae kc then WIFI_AUTH_WPA3_PSK else WIFI_AUTH_WPA2_PSK),
                ap_sae_pwe_h2e = (if kc_softap_sae kc then WPA3_SAE_PWE_BOTH
                                  else WPA3_SAE_PWE_UNSPECIFIED),
                ap_pmf_required = True\<rparr>;
          ap' = (if length (kc_ap_password kc) = 0 then ap\<lparr>ap_authmode := WIFI_AUTH_OPEN\<rparr> else ap)
      in \<lparr>ap_wifi_config = ap', timeout_idle = kc_timeout_idle kc\<rparr>)"

text \<open>
  \<open>aug_wifi_get_default_sta_config\<close> (compiled only with \<open>CONFIG_WIFI_INFO\<close>): the
  password identifier is empty for hunt-and-peck and \<open>CONFIG_WIFI_PW_ID\<close> otherwise.
\<close>

definition aug_wifi_get_default_sta_config :: "kconfig \<Rightarrow> aug_wifi_sta_config_t" where
  "aug_wifi_get_default_sta_config kc =
     \<lparr>sta_wifi_config =
        \<lparr>sta_ssid = kc_sta_ssid kc, sta_password = kc_sta_password kc,
         sta_threshold_authmode = kc_scan_auth_threshold kc,
         sta_sae_pwe_h2e = kc_sae_mode kc,
         sta_sae_h2e_identifier =
           (if kc_sae_mode kc = WPA3_SAE_PWE_HUNT_AND_PECK then [] else kc_pw_id kc)\<rparr>,
      max_retry = kc_maximum_retry kc\<rparr>"

section \<open>Network stack initialisation\<close>

datatype wifi_sdk_call =
    Esp_netif_init
  | Esp_event_loop_create_default
  | Esp_event_loop_delete_default

text \<open>\<open>aug_wifi_init\<close>: the TCP/IP stack, then the default event loop.\<close>

definition aug_wifi_init :: "(wifi_sdk_call \<Rightarrow> esp_err) \<Rightarrow> esp_err" where
  "aug_wifi_init sdk =
     (if sdk Esp_netif_init \<noteq> ESP_OK then sdk Esp_netif_init
      else if sdk Esp_event_loop_create_default \<noteq> ESP_OK then sdk Esp_event_loop_create_default
      else ESP_OK)"

definition aug_wifi_deinit :: "(wifi_sdk_call \<Rightarrow> esp_err) \<Rightarrow> esp_err" where
  "aug_wifi_deinit sdk =
     (if sdk Esp_event_loop_delete_default \<noteq> ESP_OK then sdk Esp_event_loop_delete_default
      else ESP_OK)"

section \<open>Properties of the defaults\<close>

text \<open>The default access point is open exactly when its compiled-in password is empty.\<close>

lemma default_ap_open_iff:
  "ap_authmode (ap_wifi_config (aug_wifi_get_default_ap_config kc)) = WIFI_AUTH_OPEN
   \<longleftrightarrow> kc_ap_password kc = []"
  by (simp add: aug_wifi_get_default_ap_config_def Let_def)

lemma default_ap_fields:
  "ap_ssid_len (ap_wifi_config (aug_wifi_get_default_ap_config kc)) = length (kc_ap_ssid kc)"
  "ap_channel (ap_wifi_config (aug_wifi_get_default_ap_config kc)) = 0"
  "timeout_idle (aug_wifi_get_default_ap_config kc) = kc_timeout_idle kc"
  "ap_pmf_required (ap_wifi_config (aug_wifi_get_default_ap_config kc))"
  by (simp_all add: aug_wifi_get_default_ap_config_def Let_def)

end
