(* ===== verification/WifiSta.thy ===== *)
theory WifiSta
  imports WifiConfig
begin

text \<open>
  Model of \<open>src/main/aug_wifi_sta.c\<close>, the station (Wi-Fi client) module and the
  retry policy of the firmware. Its static variables are the record \<open>sta_module\<close>; the
  radio driver is the environment: a function \<open>sdk\<close> giving the result of each SDK call
  and the list of radio events the default event loop delivers to \<open>event_handler\<close>.
  The handler's effects on the outside world, a new \<open>esp_wifi_connect\<close> attempt or a
  \<open>FAILED_ATTEMPTS\<close> event posted to the application loop, are appended to a log in the
  state, so that they can be counted and passed on to the event bus.
\<close>

section \<open>State, events and effects\<close>

text \<open>The radio events the handler is registered for (\<open>WIFI_EVENT\<close> any id, \<open>IP_EVENT_STA_GOT_IP\<close>).\<close>

datatype sta_event =
    WIFI_EVENT_STA_START
  | WIFI_EVENT_STA_CONNECTED
  | WIFI_EVENT_STA_DISCONNECTED
  | IP_EVENT_STA_GOT_IP

datatype sta_action =
    Esp_wifi_connect
  | Post_failed_attempts

text \<open>The SDK calls of \<open>aug_wifi_sta_connect\<close> and \<open>aug_wifi_sta_disconnect\<close> that can fail.\<close>

datatype sta_sdk_call =
    Sta_esp_wifi_init
  | Sta_register_any_id
  | Sta_register_got_ip
  | Sta_set_mode
  | Sta_set_config
  | Sta_esp_wifi_start
  | Sta_unregister_any_id
  | Sta_unregister_got_ip
  | Sta_esp_wifi_restore
  | Sta_esp_wifi_deinit

text \<open>
  The statics of the module: the configuration, \<open>sta_netif\<close> (non-\<open>NULL\<close>), the retry
  counter \<open>retry_num\<close>, the event group (\<open>NULL\<close> or its two bits), the two handler
  instances and the stored event-loop handle, and the log of effects.
\<close>

record sta_module =
  sta_config :: aug_wifi_sta_config_t
  sta_netif :: bool
  retry_num :: int
  sta_group :: bool
  connected_bit :: bool
  fail_bit :: bool
  sta_any_registered :: bool
  sta_got_ip_registered :: bool
  sta_loop_set :: bool
  sta_log :: "sta_action list"

definition sta_module_init :: sta_module where
  "sta_module_init =
     \<lparr>sta_config = zero_sta_config, sta_netif = False, retry_num = 0, sta_group = False,
      connected_bit = False, fail_bit = False, sta_any_registered = False,
      sta_got_ip_registered = False, sta_loop_set = False, sta_log = []\<rparr>"

section \<open>The event handler: the retry policy\<close>

text \<open>
  \<open>event_handler\<close>: on start, connect; on a disconnect, retry while
  \<open>retry_num < max_retry\<close> and count the retry, otherwise post \<open>FAILED_ATTEMPTS\<close>, set
  the fail bit and reset the counter; on an address, reset the counter and set the
  connected bit. Other Wi-Fi events are ignored.
\<close>

fun event_handler :: "sta_module \<Rightarrow> sta_event \<Rightarrow> sta_module" where
  "event_handler s WIFI_EVENT_STA_START = s\<lparr>sta_log := sta_log s @ [Esp_wifi_connect]\<rparr>"
| "event_handler s WIFI_EVENT_STA_DISCONNECTED =
     (if retry_num s < max_retry (sta_config s)
      then s\<lparr>sta_log := sta_log s @ [Esp_wifi_connect], retry_num := retry_num s + 1\<rparr>
      else s\<lparr>sta_log := sta_log s @ [Post_failed_attempts], fail_bit := True, retry_num := 0\<rparr>)"
| "event_handler s IP_EVENT_STA_GOT_IP = s\<lparr>retry_num := 0, connected_bit := True\<rparr>"
| "event_handler s WIFI_EVENT_STA_CONNECTED = s"

text \<open>The default event loop delivers radio events to the handler one after the other.\<close>

fun sta_handle_all :: "sta_module \<Rightarrow> sta_event list \<Rightarrow> sta_module" where
  "sta_handle_all s [] = s"
| "sta_handle_all s (e # es) = sta_handle_all (event_handler s e) es"

section \<open>Connecting and disconnecting\<close>

text \<open>
  \<open>xEventGroupWaitBits\<close> in \<open>aug_wifi_sta_connect\<close>: the caller blocks until the
  handler has set one of the two bits. The remaining radio events are returned with the
  result. If the radio events run out first the call never returns: \<open>None\<close>.
\<close>

fun sta_wait :: "sta_module \<Rightarrow> sta_event list \<Rightarrow> (esp_err \<times> sta_module \<times> sta_event list) option" where
  "sta_wait s [] =
     (if connected_bit s then Some (ESP_OK, s, [])
      else if fail_bit s then Some (ESP_FAIL, s, []) else None)"
| "sta_wait s (e # es) =
     (if connected_bit s then Some (ESP_OK, s, e # es)
      else if fail_bit s then Some (ESP_FAIL, s, e # es)
      else sta_wait (event_handler s e) es)"

text \<open>
  \<open>aug_wifi_sta_connect\<close>: store the loop handle, create the netif, initialise the
  driver, create the event group, register the two handler instances, set station mode
  and configuration, start, and wait. Every SDK call is behind \<open>AUG_RETURN_CHECK\<close>,
  so a failure returns its code with the resources acquired so far still held.
  \<open>retry_num\<close> is not touched.
\<close>

definition aug_wifi_sta_connect ::
  "(sta_sdk_call \<Rightarrow> esp_err) \<Rightarrow> sta_event list \<Rightarrow> sta_module \<Rightarrow>
   (esp_err \<times> sta_module \<times> sta_event list) option" where
  "aug_wifi_sta_connect sdk evs s =
     (let s1 = s\<lparr>sta_loop_set := True, sta_netif := True\<rparr> in
      if sdk Sta_esp_wifi_init \<noteq> ESP_OK then Some (sdk Sta_esp_wifi_init, s1, evs) else
      let s2 = s1\<lparr>sta_group := True, connected_bit := False, fail_bit := False\<rparr> in
      if sdk Sta_register_any_id \<noteq> ESP_OK then Some (sdk Sta_register_any_id, s2, evs) else
      let s3 = s2\<lparr>sta_any_registered := True\<rparr> in
      if sdk Sta_register_got_ip \<noteq> ESP_OK then Some (sdk Sta_register_got_ip, s3, evs) else
      let s4 = s3\<lparr>sta_got_ip_registered := True\<rparr> in
      if sdk Sta_set_mode \<noteq> ESP_OK then Some (sdk Sta_set_mode, s4, evs) else
      if sdk Sta_set_config \<noteq> ESP_OK then Some (sdk Sta_set_config, s4, evs) else
      if sdk Sta_esp_wifi_start \<noteq> ESP_OK then Some (sdk Sta_esp_wifi_start, s4, evs) else
      sta_wait s4 evs)"

text \<open>
  \<open>aug_wifi_sta_disconnect\<close>: forget the loop handle, unregister both handlers,
  restore the driver's settings, delete the event group, deinitialise the driver and
  destroy the netif, returning early on any failed SDK call. \<open>retry_num\<close> is not reset.
\<close>

definition aug_wifi_sta_disconnect :: "(sta_sdk_call \<Rightarrow> esp_err) \<Rightarrow> sta_module \<Rightarrow> esp_err \<times> sta_module" where
  "aug_wifi_sta_disconnect sdk s =
     (let s1 = s\<lparr>sta_loop_set := False\<rparr> in
      aug_return_check (sdk Sta_unregister_any_id, s1) (\<lambda>s2.
      aug_return_check (sdk Sta_unregister_got_ip, s2\<lparr>sta_any_registered := False\<rparr>) (\<lambda>s3.
      aug_return_check (sdk Sta_esp_wifi_restore, s3\<lparr>sta_got_ip_registered := False\<rparr>) (\<lambda>s4.
      let s5 = s4\<lparr>sta_group := False\<rparr> in
      aug_return_check (sdk Sta_esp_wifi_deinit, s5) (\<lambda>s6.
      (ESP_OK, s6\<lparr>sta_netif := False\<rparr>))))))"

definition aug_wifi_sta_is_init :: "sta_module \<Rightarrow> bool" where
  "aug_wifi_sta_is_init s = sta_netif s"

text \<open>
  The part of \<open>aug_wifi_sta_connect\<close> before \<open>xEventGroupWaitBits\<close>, for callers that
  interleave the wait with other activity: \<open>Inl\<close> of an early return, or \<open>Inr\<close> of the
  state in which the caller starts waiting.
\<close>

definition aug_wifi_sta_connect_begin ::
  "(sta_sdk_call \<Rightarrow> esp_err) \<Rightarrow> sta_module \<Rightarrow> (esp_err \<times> sta_module) + sta_module" where
  "aug_wifi_sta_connect_begin sdk s =
     (let s1 = s\<lparr>sta_loop_set := True, sta_netif := True\<rparr> in
      if sdk Sta_esp_wifi_init \<noteq> ESP_OK then Inl (sdk Sta_esp_wifi_init, s1) else
      let s2 = s1\<lparr>sta_group := True, connected_bit := False, fail_bit := False\<rparr> in
      if sdk Sta_register_any_id \<noteq> ESP_OK then Inl (sdk Sta_register_any_id, s2) else
      let s3 = s2\<lparr>sta_any_registered := True\<rparr> in
      if sdk Sta_register_got_ip \<noteq> ESP_OK then Inl (sdk Sta_register_got_ip, s3) else
      let s4 = s3\<lparr>sta_got_ip_registered := True\<rparr> in
      if sdk Sta_set_mode \<noteq> ESP_OK then Inl (sdk Sta_set_mode, s4) else
      if sdk Sta_set_config \<noteq> ESP_OK then Inl (sdk Sta_set_config, s4) else
      if sdk Sta_esp_wifi_start \<noteq> ESP_OK then Inl (sdk Sta_esp_wifi_start, s4) else
      Inr s4)"

text \<open>The result bits \<open>aug_wifi_sta_connect\<close> returns on, in the order it tests them.\<close>

definition sta_wait_result :: "sta_module \<Rightarrow> esp_err option" where
  "sta_wait_result s =
     (if connected_bit s then Some ESP_OK else if fail_bit s then Some ESP_FAIL else None)"

section \<open>Observations\<close>

text \<open>\<open>FAILED_ATTEMPTS\<close> posts in the log, and the driver that never fails.\<close>

abbreviation sta_posts :: "sta_module \<Rightarrow> nat" where
  "sta_posts s \<equiv> count_list (sta_log s) Post_failed_attempts"

abbreviation sdk_all_ok :: "sta_sdk_call \<Rightarrow> esp_err" where
  "sdk_all_ok \<equiv> \<lambda>_. ESP_OK"

text \<open>
  The retry invariant: the counter stays between 0 and the configured bound (or 0 when
  the bound is negative).
\<close>

definition sta_retry_inv :: "sta_module \<Rightarrow> bool" where
  "sta_retry_inv s \<longleftrightarrow> 0 \<le> retry_num s \<and> retry_num s \<le> max 0 (max_retry (sta_config s))"

section \<open>The retry policy\<close>

lemma event_handler_config [simp]: "sta_config (event_handler s e) = sta_config s"
  by (cases e) simp_all

lemma sta_handle_all_config [simp]: "sta_config (sta_handle_all s es) = sta_config s"
  by (induction es arbitrary: s) simp_all

lemma sta_handle_all_append:
  "sta_handle_all s (xs @ ys) = sta_handle_all (sta_handle_all s xs) ys"
  by (induction xs arbitrary: s) simp_all

lemma event_handler_retry_inv: "sta_retry_inv s \<Longrightarrow> sta_retry_inv (event_handler s e)"
  by (cases e) (auto simp: sta_retry_inv_def)

text \<open>
  C12: Whatever radio events arrive, the handler keeps the retry counter between 0 and
  the configured bound: it never exceeds \<open>max_retry\<close> before the fallback is posted.
\<close>

theorem sta_handle_all_retry_inv: "sta_retry_inv s \<Longrightarrow> sta_retry_inv (sta_handle_all s es)"
  by (induction es arbitrary: s) (simp_all add: event_handler_retry_inv)

text \<open>
  One disconnect, in closed form: below the bound the counter grows, at the bound the
  handler posts and the counter restarts at 0.
\<close>

lemma disconnect_step:
  assumes "0 \<le> retry_num s" "retry_num s \<le> max_retry (sta_config s)"
  defines "N \<equiv> max_retry (sta_config s)"
  shows "int (sta_posts (event_handler s WIFI_EVENT_STA_DISCONNECTED))
           = int (sta_posts s) + (retry_num s + 1) div (N + 1)
         \<and> retry_num (event_handler s WIFI_EVENT_STA_DISCONNECTED) = (retry_num s + 1) mod (N + 1)"
proof (cases "retry_num s < N")
  case True
  with assms show ?thesis by simp
next
  case False
  with assms have "retry_num s = N" by simp
  with assms show ?thesis by simp
qed

text \<open>
  \<open>k\<close> consecutive disconnects from counter \<open>r\<close>: the handler has posted
  \<open>(r + k) div (N + 1)\<close> times and the counter is \<open>(r + k) mod (N + 1)\<close>.
\<close>

lemma disconnects_closed_form:
  "0 \<le> retry_num s \<Longrightarrow> retry_num s \<le> max_retry (sta_config s) \<Longrightarrow>
   int (sta_posts (sta_handle_all s (replicate k WIFI_EVENT_STA_DISCONNECTED)))
     = int (sta_posts s) + (retry_num s + int k) div (max_retry (sta_config s) + 1)
   \<and> retry_num (sta_handle_all s (replicate k WIFI_EVENT_STA_DISCONNECTED))
     = (retry_num s + int k) mod (max_retry (sta_config s) + 1)"
proof (induction k arbitrary: s)
  case 0
  then show ?case by simp
next
  case (Suc k)
  let ?s1 = "event_handler s WIFI_EVENT_STA_DISCONNECTED"
  let ?N = "max_retry (sta_config s)"
  have N0: "0 \<le> ?N" using Suc.prems by linarith
  from disconnect_step [OF Suc.prems]
  have p1: "int (sta_posts ?s1) = int (sta_posts s) + (retry_num s + 1) div (?N + 1)"
    and r1: "retry_num ?s1 = (retry_num s + 1) mod (?N + 1)" by simp_all
  have "0 \<le> retry_num ?s1" "retry_num ?s1 \<le> max_retry (sta_config ?s1)"
    using r1 N0 pos_mod_sign [of "?N + 1" "retry_num s + 1"]
      pos_mod_bound [of "?N + 1" "retry_num s + 1"] by auto
  note IH = Suc.IH [OF this]
  have dm: "(retry_num s + 1) div (?N + 1) + ((retry_num s + 1) mod (?N + 1) + int k) div (?N + 1)
            = (retry_num s + int (Suc k)) div (?N + 1)"
    and mm: "((retry_num s + 1) mod (?N + 1) + int k) mod (?N + 1)
            = (retry_num s + int (Suc k)) mod (?N + 1)"
    using div_mod_add_split [of "?N + 1" "retry_num s + 1" "int k"] N0 by (simp_all add: add.assoc)
  show ?case using IH p1 r1 dm mm by simp
qed

text \<open>
  C7: Spec section 8 asks for exactly one \<open>FailedAttempts\<close> after \<open>max_retry\<close> consecutive
  disconnects. From a fresh counter the handler posts once per \<open>max_retry + 1\<close>
  disconnects: the first post comes with disconnect number \<open>max_retry + 1\<close>.
\<close>

theorem failed_attempts_count:
  assumes "retry_num s = 0" and "0 \<le> max_retry (sta_config s)"
  shows "sta_posts (sta_handle_all s (replicate k WIFI_EVENT_STA_DISCONNECTED))
         = sta_posts s + k div (nat (max_retry (sta_config s)) + 1)"
proof -
  let ?N = "max_retry (sta_config s)"
  from disconnects_closed_form [of s k] assms
  have "int (sta_posts (sta_handle_all s (replicate k WIFI_EVENT_STA_DISCONNECTED)))
        = int (sta_posts s) + int k div (?N + 1)" by simp
  also have "int k div (?N + 1) = int (k div (nat ?N + 1))"
    using assms(2) by (simp add: zdiv_int add.commute)
  finally show ?thesis by linarith
qed

section \<open>Waiting for the connection\<close>

lemma sta_wait_retries:
  "\<not> connected_bit s \<Longrightarrow> \<not> fail_bit s \<Longrightarrow> retry_num s + int k \<le> max_retry (sta_config s) \<Longrightarrow>
   sta_wait s (replicate k WIFI_EVENT_STA_DISCONNECTED @ es)
   = sta_wait (s\<lparr>sta_log := sta_log s @ replicate k Esp_wifi_connect,
                 retry_num := retry_num s + int k\<rparr>) es"
proof (induction k arbitrary: s)
  case 0
  then show ?case by simp
next
  case (Suc k)
  let ?s1 = "event_handler s WIFI_EVENT_STA_DISCONNECTED"
  from Suc.prems have s1: "?s1 = s\<lparr>sta_log := sta_log s @ [Esp_wifi_connect],
                                    retry_num := retry_num s + 1\<rparr>" by simp
  have "sta_wait ?s1 (replicate k WIFI_EVENT_STA_DISCONNECTED @ es)
        = sta_wait (?s1\<lparr>sta_log := sta_log ?s1 @ replicate k Esp_wifi_connect,
                       retry_num := retry_num ?s1 + int k\<rparr>) es"
    using Suc.prems by (intro Suc.IH) (simp_all add: s1)
  with Suc.prems show ?case by (simp add: s1 add.assoc)
qed

lemma aug_wifi_sta_connect_ok:
  "aug_wifi_sta_connect sdk_all_ok evs s =
   sta_wait (s\<lparr>sta_loop_set := True, sta_netif := True, sta_group := True,
               connected_bit := False, fail_bit := False, sta_any_registered := True,
               sta_got_ip_registered := True\<rparr>) evs"
  by (simp add: aug_wifi_sta_connect_def)

text \<open>
  Giving up from any counter below the bound: \<open>aug_wifi_sta_connect\<close> does not reset
  \<open>retry_num\<close>, so a station whose counter is \<open>r\<close> gives up at disconnect
  \<open>max_retry + 1 - r\<close>.
\<close>

lemma sta_connect_gives_up_from:
  assumes "0 \<le> retry_num s" and "retry_num s \<le> max_retry (sta_config s)"
  shows "aug_wifi_sta_connect sdk_all_ok
           (WIFI_EVENT_STA_START # replicate (nat (max_retry (sta_config s) - retry_num s))
              WIFI_EVENT_STA_DISCONNECTED) s = None
       \<and> (\<exists>s'. aug_wifi_sta_connect sdk_all_ok
           (WIFI_EVENT_STA_START # replicate (Suc (nat (max_retry (sta_config s) - retry_num s)))
              WIFI_EVENT_STA_DISCONNECTED @ es) s
           = Some (ESP_FAIL, s', es) \<and> sta_posts s' = Suc (sta_posts s) \<and> retry_num s' = 0)"
proof
  let ?N = "nat (max_retry (sta_config s) - retry_num s)"
  have N: "retry_num s + int ?N = max_retry (sta_config s)" using assms by simp
  show "aug_wifi_sta_connect sdk_all_ok (WIFI_EVENT_STA_START # replicate ?N WIFI_EVENT_STA_DISCONNECTED) s
        = None"
    using sta_wait_retries [where k = ?N and es = "[]"] N
    by (simp add: aug_wifi_sta_connect_ok)
  show "\<exists>s'. aug_wifi_sta_connect sdk_all_ok
           (WIFI_EVENT_STA_START # replicate (Suc ?N) WIFI_EVENT_STA_DISCONNECTED @ es) s
           = Some (ESP_FAIL, s', es) \<and> sta_posts s' = Suc (sta_posts s) \<and> retry_num s' = 0"
    using sta_wait_retries [where k = ?N and es = "WIFI_EVENT_STA_DISCONNECTED # es"] N
    by (cases es) (simp_all add: aug_wifi_sta_connect_ok replicate_append_same [symmetric])
qed

text \<open>
  C8: With a working driver and a station that never associates, \<open>aug_wifi_sta_connect\<close>
  started with its counter at \<open>r\<close>, \<open>0 \<le> r \<le> max_retry\<close>, is still blocked after
  \<open>max_retry - r\<close> disconnects and returns \<open>ESP_FAIL\<close> at the next one, having posted
  \<open>FAILED_ATTEMPTS\<close> exactly once and reset the counter. From a fresh counter
  (\<open>r = 0\<close>) that is \<open>max_retry\<close> disconnects and failure at the next.
\<close>

theorem sta_connect_gives_up:
  assumes "0 \<le> retry_num s" and "retry_num s \<le> max_retry (sta_config s)"
  shows "aug_wifi_sta_connect sdk_all_ok
           (WIFI_EVENT_STA_START # replicate (nat (max_retry (sta_config s) - retry_num s))
              WIFI_EVENT_STA_DISCONNECTED) s = None
       \<and> (\<exists>s'. aug_wifi_sta_connect sdk_all_ok
           (WIFI_EVENT_STA_START # replicate (Suc (nat (max_retry (sta_config s) - retry_num s)))
              WIFI_EVENT_STA_DISCONNECTED @ es) s
           = Some (ESP_FAIL, s', es) \<and> sta_posts s' = Suc (sta_posts s) \<and> retry_num s' = 0)"
  using sta_connect_gives_up_from [OF assms] .

text \<open>
  C22: An address before the bound is reached makes \<open>aug_wifi_sta_connect\<close> return
  \<open>ESP_OK\<close> with the counter reset, nothing posted and the netif up.
\<close>

theorem sta_connect_succeeds:
  assumes "0 \<le> retry_num s" and "retry_num s + int k \<le> max_retry (sta_config s)"
  shows "\<exists>s'. aug_wifi_sta_connect sdk_all_ok
           (WIFI_EVENT_STA_START # replicate k WIFI_EVENT_STA_DISCONNECTED @ IP_EVENT_STA_GOT_IP # es) s
           = Some (ESP_OK, s', es) \<and> retry_num s' = 0 \<and> sta_posts s' = sta_posts s \<and> sta_netif s'"
  using sta_wait_retries [where k = k and es = "IP_EVENT_STA_GOT_IP # es"] assms
  by (cases es) (simp_all add: aug_wifi_sta_connect_ok)

section \<open>The counter across reconnections\<close>

lemma aug_wifi_sta_disconnect_retry [simp]:
  "retry_num (snd (aug_wifi_sta_disconnect sdk s)) = retry_num s"
  by (simp add: aug_wifi_sta_disconnect_def aug_return_check_def Let_def)

lemma aug_wifi_sta_disconnect_ok:
  "aug_wifi_sta_disconnect sdk_all_ok s =
   (ESP_OK, s\<lparr>sta_loop_set := False, sta_any_registered := False, sta_got_ip_registered := False,
              sta_group := False, sta_netif := False\<rparr>)"
  by (simp add: aug_wifi_sta_disconnect_def)


text \<open>
  C23: The counter is reset only by an address or by giving up, never by
  \<open>aug_wifi_sta_disconnect\<close> or \<open>aug_wifi_sta_connect\<close>. A station whose counter is at
  \<open>r\<close> (\<open>0 \<le> r \<le> max_retry\<close>, e.g. after \<open>r\<close> losses of its access point) keeps it
  through \<open>aug_wifi_sta_disconnect\<close>, and the next \<open>aug_wifi_sta_connect\<close> gives up
  with \<open>ESP_FAIL\<close> at disconnect \<open>max_retry + 1 - r\<close> instead of \<open>max_retry + 1\<close>.
\<close>

theorem stale_retry_counter:
  assumes "0 \<le> retry_num s" and "retry_num s \<le> max_retry (sta_config s)"
  shows "retry_num (snd (aug_wifi_sta_disconnect sdk_all_ok s)) = retry_num s
       \<and> aug_wifi_sta_connect sdk_all_ok
           (WIFI_EVENT_STA_START # replicate (nat (max_retry (sta_config s) - retry_num s))
              WIFI_EVENT_STA_DISCONNECTED) (snd (aug_wifi_sta_disconnect sdk_all_ok s)) = None
       \<and> (\<exists>s'. aug_wifi_sta_connect sdk_all_ok
           (WIFI_EVENT_STA_START # replicate (Suc (nat (max_retry (sta_config s) - retry_num s)))
              WIFI_EVENT_STA_DISCONNECTED @ es) (snd (aug_wifi_sta_disconnect sdk_all_ok s))
           = Some (ESP_FAIL, s', es))"
proof -
  let ?s0 = "snd (aug_wifi_sta_disconnect sdk_all_ok s)"
  have c: "sta_config ?s0 = sta_config s" "retry_num ?s0 = retry_num s"
    by (simp_all add: aug_wifi_sta_disconnect_ok)
  show ?thesis
    using sta_connect_gives_up_from [of ?s0 es] assms unfolding c by blast
qed

section \<open>Witnesses\<close>

theorem sta_handle_all_retry_inv_witness:
  "sta_retry_inv (sta_module_init\<lparr>sta_config := zero_sta_config\<lparr>max_retry := 3\<rparr>\<rparr>)
   \<and> sta_retry_inv (sta_handle_all (sta_module_init\<lparr>sta_config := zero_sta_config\<lparr>max_retry := 3\<rparr>\<rparr>)
        [WIFI_EVENT_STA_START, WIFI_EVENT_STA_DISCONNECTED, WIFI_EVENT_STA_DISCONNECTED])"
  using sta_handle_all_retry_inv [of "sta_module_init\<lparr>sta_config := zero_sta_config\<lparr>max_retry := 3\<rparr>\<rparr>"
      "[WIFI_EVENT_STA_START, WIFI_EVENT_STA_DISCONNECTED, WIFI_EVENT_STA_DISCONNECTED]"]
  by (simp add: sta_retry_inv_def sta_module_init_def zero_sta_config_def)

theorem failed_attempts_count_witness:
  "retry_num (sta_module_init\<lparr>sta_config := zero_sta_config\<lparr>max_retry := 3\<rparr>\<rparr>) = 0
   \<and> 0 \<le> max_retry (sta_config (sta_module_init\<lparr>sta_config := zero_sta_config\<lparr>max_retry := 3\<rparr>\<rparr>))
   \<and> sta_posts (sta_handle_all (sta_module_init\<lparr>sta_config := zero_sta_config\<lparr>max_retry := 3\<rparr>\<rparr>)
        (replicate 4 WIFI_EVENT_STA_DISCONNECTED)) = 1"
  using failed_attempts_count [of "sta_module_init\<lparr>sta_config := zero_sta_config\<lparr>max_retry := 3\<rparr>\<rparr>" 4]
  by (simp add: sta_module_init_def zero_sta_config_def)

theorem sta_connect_gives_up_witness:
  "0 \<le> retry_num (sta_module_init\<lparr>sta_config := zero_sta_config\<lparr>max_retry := 3\<rparr>, retry_num := 1\<rparr>)
   \<and> aug_wifi_sta_connect sdk_all_ok
     (WIFI_EVENT_STA_START # replicate 2 WIFI_EVENT_STA_DISCONNECTED)
     (sta_module_init\<lparr>sta_config := zero_sta_config\<lparr>max_retry := 3\<rparr>, retry_num := 1\<rparr>) = None
   \<and> (\<exists>s'. aug_wifi_sta_connect sdk_all_ok
     (WIFI_EVENT_STA_START # replicate 3 WIFI_EVENT_STA_DISCONNECTED)
     (sta_module_init\<lparr>sta_config := zero_sta_config\<lparr>max_retry := 3\<rparr>, retry_num := 1\<rparr>) = Some (ESP_FAIL, s', [])
     \<and> sta_posts s' = 1)"
  using sta_connect_gives_up [of "sta_module_init\<lparr>sta_config := zero_sta_config\<lparr>max_retry := 3\<rparr>, retry_num := 1\<rparr>" "[]"]
  by (auto simp: sta_module_init_def zero_sta_config_def numeral_eq_Suc)

theorem stale_retry_counter_witness:
  "0 \<le> retry_num (sta_module_init\<lparr>sta_config := zero_sta_config\<lparr>max_retry := 3\<rparr>, retry_num := 2\<rparr>)
   \<and> retry_num (snd (aug_wifi_sta_disconnect sdk_all_ok
        (sta_module_init\<lparr>sta_config := zero_sta_config\<lparr>max_retry := 3\<rparr>, retry_num := 2\<rparr>))) = 2
   \<and> (\<exists>s'. aug_wifi_sta_connect sdk_all_ok
        [WIFI_EVENT_STA_START, WIFI_EVENT_STA_DISCONNECTED, WIFI_EVENT_STA_DISCONNECTED]
        (snd (aug_wifi_sta_disconnect sdk_all_ok
          (sta_module_init\<lparr>sta_config := zero_sta_config\<lparr>max_retry := 3\<rparr>, retry_num := 2\<rparr>)))
      = Some (ESP_FAIL, s', []))"
  using stale_retry_counter [of "sta_module_init\<lparr>sta_config := zero_sta_config\<lparr>max_retry := 3\<rparr>, retry_num := 2\<rparr>" "[]"]
  by (simp add: sta_module_init_def zero_sta_config_def numeral_eq_Suc)

theorem sta_connect_succeeds_witness:
  "\<exists>s'. aug_wifi_sta_connect sdk_all_ok
     (WIFI_EVENT_STA_START # replicate 2 WIFI_EVENT_STA_DISCONNECTED @ [IP_EVENT_STA_GOT_IP])
     (sta_module_init\<lparr>sta_config := zero_sta_config\<lparr>max_retry := 3\<rparr>\<rparr>) = Some (ESP_OK, s', [])
     \<and> retry_num s' = 0"
  using sta_connect_succeeds [of "sta_module_init\<lparr>sta_config := zero_sta_config\<lparr>max_retry := 3\<rparr>\<rparr>" 2 "[]"]
  by (auto simp: sta_module_init_def zero_sta_config_def)

section \<open>The connection split at its wait\<close>

text \<open>
  \<open>aug_wifi_sta_connect\<close> is its non-blocking prefix followed by the wait, and the wait
  returns at the first event after which a result bit is set.
\<close>

lemma aug_wifi_sta_connect_split:
  "aug_wifi_sta_connect sdk evs s =
     (case aug_wifi_sta_connect_begin sdk s of
        Inl (e, s') \<Rightarrow> Some (e, s', evs)
      | Inr s' \<Rightarrow> sta_wait s' evs)"
  by (simp add: aug_wifi_sta_connect_def aug_wifi_sta_connect_begin_def Let_def)

lemma sta_wait_cons_result:
  "sta_wait_result s = Some r \<Longrightarrow> sta_wait s evs = Some (r, s, evs)"
  by (cases evs) (auto simp: sta_wait_result_def split: if_splits)

lemma sta_wait_cons_none:
  "sta_wait_result s = None \<Longrightarrow> sta_wait s (e # evs) = sta_wait (event_handler s e) evs"
  by (simp add: sta_wait_result_def split: if_splits)

end
