(* ===== verification/Scan.thy ===== *)
theory Scan
  imports Prelude
begin

text \<open>
  Model of \<open>src/main/aug_wifi_scan.c\<close>: \<open>aug_get_least_freq_channel\<close> scans the
  visible access points, counts them per primary channel in an array of 256
  \<open>uint8_t\<close> counters, and picks among channels 1 to 13 the first one whose counter is
  strictly below the running minimum, which starts at \<open>UINT8_MAX\<close>. The counters are
  8-bit words, so a channel seen 256 times counts as 0. The SDK calls of the scan are
  wrapped in \<open>ESP_ERROR_CHECK\<close>: a failure aborts the firmware, the \<open>Inl\<close> result.
  The lemmas show that with fewer than 255 scan records the result is exactly the
  abstract choice of the spec (the channel with the fewest access points, ties to the
  lowest number), and, for any number of records, that the choice is made on the counts
  mod 256: 256 records on one channel make the busiest channel look free, and 255 on
  every channel give the invalid channel 0.
\<close>

section \<open>The scan\<close>

datatype scan_sdk_call =
    Scan_esp_wifi_init
  | Scan_set_mode
  | Scan_esp_wifi_start
  | Scan_get_ap_records
  | Scan_get_ap_num
  | Scan_esp_wifi_stop
  | Scan_esp_wifi_deinit

text \<open>\<open>count[ap_info[i].primary]++\<close> over the records the driver returned.\<close>

fun count_channels :: "byte list \<Rightarrow> (nat \<Rightarrow> byte) \<Rightarrow> nat \<Rightarrow> byte" where
  "count_channels [] count = count"
| "count_channels (p # ps) count = count_channels ps (count(unat p := count (unat p) + 1))"

text \<open>
  The selection loop \<open>for (i = 1; i < 14; i++) if (i <= 13 && count[i] < min_count)\<close>,
  with the running pair \<open>(min_elem, min_count)\<close>.
\<close>

fun min_channel_loop :: "(nat \<Rightarrow> byte) \<Rightarrow> nat list \<Rightarrow> byte \<times> byte \<Rightarrow> byte \<times> byte" where
  "min_channel_loop count [] acc = acc"
| "min_channel_loop count (i # is) (min_elem, min_count) =
     min_channel_loop count is
       (if i \<le> 13 \<and> count i < min_count then (of_nat i, count i) else (min_elem, min_count))"

text \<open>
  The whole function. \<open>scan_list_size\<close> is \<open>CONFIG_SCAN_LIST_SIZE\<close>, the capacity of
  \<open>ap_info\<close>; the driver returns at most that many of the records in \<open>aps\<close>.
\<close>

definition aug_get_least_freq_channel ::
  "(scan_sdk_call \<Rightarrow> esp_err) \<Rightarrow> nat \<Rightarrow> byte list \<Rightarrow> esp_err + byte" where
  "aug_get_least_freq_channel sdk scan_list_size aps =
     (if sdk Scan_esp_wifi_init \<noteq> ESP_OK then Inl (sdk Scan_esp_wifi_init)
      else if sdk Scan_set_mode \<noteq> ESP_OK then Inl (sdk Scan_set_mode)
      else if sdk Scan_esp_wifi_start \<noteq> ESP_OK then Inl (sdk Scan_esp_wifi_start)
      else if sdk Scan_get_ap_records \<noteq> ESP_OK then Inl (sdk Scan_get_ap_records)
      else if sdk Scan_get_ap_num \<noteq> ESP_OK then Inl (sdk Scan_get_ap_num)
      else
        let count = count_channels (take scan_list_size aps) (\<lambda>_. 0);
            (min_elem, _) = min_channel_loop count [1..<14] (0, 255)
        in if sdk Scan_esp_wifi_stop \<noteq> ESP_OK then Inl (sdk Scan_esp_wifi_stop)
           else if sdk Scan_esp_wifi_deinit \<noteq> ESP_OK then Inl (sdk Scan_esp_wifi_deinit)
           else Inr min_elem)"

section \<open>The abstract choice\<close>

text \<open>
  The spec's channel: among 1 to 13, the one with the fewest observed access points,
  ties broken by the lowest number: the first channel of \<open>[1..<14]\<close> whose count is
  below or equal to every other.
\<close>

definition least_busy_channel :: "nat list \<Rightarrow> nat" where
  "least_busy_channel primaries =
     hd [c \<leftarrow> [1..<14]. \<forall>d \<in> set [1..<14]. count_list primaries c \<le> count_list primaries d]"


section \<open>Counting\<close>

lemma count_channels_eq:
  "count_channels ps count c = count c + of_nat (count_list (map unat ps) c)"
  by (induction ps arbitrary: count) auto

lemma count_channels_unat:
  assumes "length ps < 256"
  shows "unat (count_channels ps (\<lambda>_. 0) c) = count_list (map unat ps) c"
proof -
  have "count_list (map unat ps) c \<le> length ps"
    using count_le_length [of "map unat ps" c] by simp
  with assms have "count_list (map unat ps) c < 2 ^ LENGTH(8)" by simp
  then show ?thesis by (simp add: count_channels_eq unat_of_nat)
qed

section \<open>The selection loop is a first-minimum search\<close>

text \<open>
  The strict comparison keeps the earliest channel among those with the smallest
  counter, and only if that counter is below the starting minimum.
\<close>

lemma min_channel_loop_first_min:
  fixes count :: "nat \<Rightarrow> byte"
  assumes "\<forall>i \<in> set is. i \<le> 13"
  shows "min_channel_loop count is (e, m) =
         (case [i \<leftarrow> is. count i < m \<and> (\<forall>j \<in> set is. count i \<le> count j)] of
            [] \<Rightarrow> (e, m)
          | i # _ \<Rightarrow> (of_nat i, count i))"
  using assms
proof (induction "is" arbitrary: e m)
  case Nil
  then show ?case by simp
next
  case (Cons i "is")
  show ?case
  proof (cases "count i < m")
    case lt: True
    have IH: "min_channel_loop count is (of_nat i, count i) =
              (case [j \<leftarrow> is. count j < count i \<and> (\<forall>k \<in> set is. count j \<le> count k)] of
                 [] \<Rightarrow> (of_nat i, count i) | j # _ \<Rightarrow> (of_nat j, count j))"
      using Cons by simp
    show ?thesis
    proof (cases "\<exists>j \<in> set is. count j < count i")
      case True
      then have notmin: "\<not> (\<forall>j \<in> set (i # is). count i \<le> count j)" by (auto simp: not_le)
      have feq: "[j \<leftarrow> is. count j < m \<and> (\<forall>k \<in> set (i # is). count j \<le> count k)]
            = [j \<leftarrow> is. count j < count i \<and> (\<forall>k \<in> set is. count j \<le> count k)]"
        using True lt by (intro filter_cong) auto
      have ne: "[j \<leftarrow> is. count j < count i \<and> (\<forall>k \<in> set is. count j \<le> count k)] \<noteq> []"
      proof -
        from True have nonempty: "is \<noteq> []" by auto
        let ?j = "arg_min_list count is"
        have j_in: "?j \<in> set is" using nonempty by (rule arg_min_list_in)
        have j_min: "\<forall>k \<in> set is. count ?j \<le> count k"
          using nonempty by (rule arg_min_list_le)
        with True have "count ?j < count i" by (meson order_le_less_trans)
        with j_in j_min show ?thesis by (auto simp: filter_empty_conv)
      qed
      with IH lt notmin feq Cons.prems show ?thesis by (auto split: list.splits)
    next
      case False
      then have "[j \<leftarrow> is. count j < count i \<and> (\<forall>k \<in> set is. count j \<le> count k)] = []"
        by (auto simp: filter_empty_conv)
      with IH lt False Cons.prems show ?thesis by (auto simp: not_less)
    qed
  next
    case ge: False
    have IH: "min_channel_loop count is (e, m) =
              (case [j \<leftarrow> is. count j < m \<and> (\<forall>k \<in> set is. count j \<le> count k)] of
                 [] \<Rightarrow> (e, m) | j # _ \<Rightarrow> (of_nat j, count j))"
      using Cons by simp
    have "[j \<leftarrow> is. count j < m \<and> (\<forall>k \<in> set (i # is). count j \<le> count k)]
          = [j \<leftarrow> is. count j < m \<and> (\<forall>k \<in> set is. count j \<le> count k)]"
      using ge by (intro filter_cong) auto
    with IH ge Cons.prems show ?thesis by simp
  qed
qed


section \<open>The channel choice\<close>

lemma least_busy_channel_exists:
  "[c \<leftarrow> [1..<14]. \<forall>d \<in> set [1..<14]. f c \<le> (f d :: nat)] \<noteq> []"
proof -
  let ?c = "arg_min_list f [1..<14]"
  have "?c \<in> set [1..<14]" by (rule arg_min_list_in) simp
  moreover have "\<forall>d \<in> set [1..<14]. f ?c \<le> f d"
    by (rule arg_min_list_le) simp
  ultimately show ?thesis by (auto simp: filter_empty_conv)
qed

text \<open>
  The first channel of \<open>[1..<14]\<close> whose weight is below or equal to every other, for
  any weight: it is in range, minimal, and strictly below every lower channel.
\<close>

lemma first_min_range:
  "hd [c \<leftarrow> [1..<14]. \<forall>d \<in> set [1..<14]. f c \<le> (f d :: nat)] \<in> {1..13}"
  and first_min_minimal:
  "d \<in> {1..13} \<Longrightarrow> f (hd [c \<leftarrow> [1..<14]. \<forall>d \<in> set [1..<14]. f c \<le> (f d :: nat)]) \<le> f d"
proof -
  let ?xs = "[c \<leftarrow> [1..<14]. \<forall>d \<in> set [1..<14]. f c \<le> f d]"
  have "hd ?xs \<in> set ?xs" using least_busy_channel_exists [of f] by (rule hd_in_set)
  then show "hd ?xs \<in> {1..13}" "d \<in> {1..13} \<Longrightarrow> f (hd ?xs) \<le> f d" by auto
qed

lemma first_min_first:
  assumes "d \<in> {1..<hd [c \<leftarrow> [1..<14]. \<forall>d \<in> set [1..<14]. f c \<le> (f d :: nat)]}"
  shows "f (hd [c \<leftarrow> [1..<14]. \<forall>d \<in> set [1..<14]. f c \<le> f d]) < f d"
proof -
  let ?P = "\<lambda>c. \<forall>d \<in> set [1..<14]. f c \<le> f d"
  obtain c cs where fc: "filter ?P [1..<14] = c # cs"
    using least_busy_channel_exists [of f] by (cases "filter ?P [1..<14]") auto
  then obtain us vs where split: "[1..<14] = us @ c # vs" and notP: "\<forall>u \<in> set us. \<not> ?P u"
    and Pc: "?P c" using fc unfolding filter_eq_Cons_iff by blast
  have hc: "hd (filter ?P [1..<14]) = c" by (simp only: fc list.sel)
  have "sorted (us @ c # vs)" by (simp only: split [symmetric]) simp
  then have ge: "\<forall>x \<in> set (c # vs). c \<le> x" by (simp add: sorted_append)
  have "d \<in> set [1..<14]" using assms first_min_range [of f] by auto
  then have "d \<in> set (us @ c # vs)" by (simp only: split)
  moreover have "d < c" using assms hc by simp
  ultimately have "d \<in> set us" using ge by auto
  with notP obtain e where "e \<in> set [1..<14]" "f e < f d" by (auto simp: not_le)
  with Pc hc show ?thesis by (metis order_le_less_trans)
qed

lemma least_busy_channel_range: "1 \<le> least_busy_channel ps \<and> least_busy_channel ps \<le> 13"
  using first_min_range [of "count_list ps"] by (simp add: least_busy_channel_def)

lemma least_busy_channel_minimal:
  "d \<in> {1..13} \<Longrightarrow> count_list ps (least_busy_channel ps) \<le> count_list ps d"
  unfolding least_busy_channel_def by (rule first_min_minimal)

lemma least_busy_channel_first:
  "d \<in> {1..<least_busy_channel ps} \<Longrightarrow> count_list ps (least_busy_channel ps) < count_list ps d"
  unfolding least_busy_channel_def by (rule first_min_first)

text \<open>
  With every SDK call of the scan succeeding and fewer than 255 scan records, the 8-bit
  counters do not wrap and the loop computes \<open>least_busy_channel\<close>.
\<close>

lemma least_freq_channel_eq:
  assumes "length (take n aps) < 255"
  shows "aug_get_least_freq_channel (\<lambda>_. ESP_OK) n aps
         = Inr (of_nat (least_busy_channel (map unat (take n aps))))"
proof -
  let ?ps = "take n aps"
  let ?cnt = "count_channels ?ps (\<lambda>_. 0)"
  let ?f = "count_list (map unat ?ps)"
  have u: "unat (?cnt c) = ?f c" for c
    using assms by (intro count_channels_unat) simp
  have small: "?f c < 255" for c
    using count_le_length [of "map unat ?ps" c] assms by (metis length_map order_le_less_trans)
  have lt255: "?cnt c < 255" for c
    using small [of c] by (simp add: word_less_nat_alt u)
  have "[i \<leftarrow> [1..<14]. ?cnt i < 255 \<and> (\<forall>j \<in> set [1..<14]. ?cnt i \<le> ?cnt j)]
        = [c \<leftarrow> [1..<14]. \<forall>d \<in> set [1..<14]. ?f c \<le> ?f d]"
    by (intro filter_cong) (simp_all add: lt255 word_le_nat_alt u)
  moreover obtain c cs where "[c \<leftarrow> [1..<14]. \<forall>d \<in> set [1..<14]. ?f c \<le> ?f d] = c # cs"
    using least_busy_channel_exists [of ?f] by (cases "[c \<leftarrow> [1..<14]. \<forall>d \<in> set [1..<14]. ?f c \<le> ?f d]") auto
  ultimately have "min_channel_loop ?cnt [1..<14] (0, 255) = (of_nat (least_busy_channel (map unat ?ps)), ?cnt c)"
    by (simp add: min_channel_loop_first_min least_busy_channel_def)
  then show ?thesis by (simp add: aug_get_least_freq_channel_def)
qed

text \<open>
  C9: The channel choice meets the spec's contract (4.3): with every SDK call of the
  scan succeeding and fewer than 255 scan records, \<open>aug_get_least_freq_channel\<close>
  returns a channel between 1 and 13 whose count of observed access points is at most
  that of every channel in range and below that of every lower channel.
\<close>

theorem least_freq_channel_refines:
  assumes "length (take n aps) < 255"
  shows "\<exists>c. aug_get_least_freq_channel (\<lambda>_. ESP_OK) n aps = Inr (of_nat c) \<and> c \<in> {1..13}
           \<and> (\<forall>d \<in> {1..13}. count_list (map unat (take n aps)) c \<le> count_list (map unat (take n aps)) d)
           \<and> (\<forall>d \<in> {1..<c}. count_list (map unat (take n aps)) c < count_list (map unat (take n aps)) d)"
  by (intro exI [of _ "least_busy_channel (map unat (take n aps))"] conjI ballI)
     (simp_all add: least_freq_channel_eq [OF assms] least_busy_channel_range [simplified]
        least_busy_channel_minimal least_busy_channel_first)

text \<open>
  Whatever the number of records, each 8-bit counter holds its channel's count mod 256,
  and the loop returns the first channel of 1 to 13 whose wrapped count is minimal,
  provided one of them is below the starting minimum \<open>UINT8_MAX\<close>; otherwise it
  returns \<open>min_elem\<close>'s initial value 0.
\<close>

lemma count_channels_mod:
  "unat (count_channels ps (\<lambda>_. 0) c) = count_list (map unat ps) c mod 256"
  by (simp add: count_channels_eq unat_of_nat)

lemma least_freq_channel_wrap_eq:
  fixes aps :: "byte list" and n :: nat
  defines "w \<equiv> \<lambda>d. count_list (map unat (take n aps)) d mod 256"
  shows "aug_get_least_freq_channel (\<lambda>_. ESP_OK) n aps
         = Inr (if \<exists>d \<in> {1..13}. w d < 255
                then of_nat (hd [c \<leftarrow> [1..<14]. \<forall>d \<in> set [1..<14]. w c \<le> w d]) else 0)"
proof -
  let ?cnt = "count_channels (take n aps) (\<lambda>_. 0)"
  have u: "unat (?cnt c) = w c" for c by (simp add: w_def count_channels_mod)
  have lt: "(?cnt i < 255) = (w i < 255)" "(?cnt i \<le> ?cnt j) = (w i \<le> w j)" for i j
    by (simp_all add: word_less_nat_alt word_le_nat_alt u)
  have f: "[i \<leftarrow> [1..<14]. ?cnt i < 255 \<and> (\<forall>j \<in> set [1..<14]. ?cnt i \<le> ?cnt j)]
        = [i \<leftarrow> [1..<14]. w i < 255 \<and> (\<forall>j \<in> set [1..<14]. w i \<le> w j)]"
    by (intro filter_cong) (simp_all add: lt)
  show ?thesis
  proof (cases "\<exists>d \<in> {1..13}. w d < 255")
    case True
    then obtain d where d: "d \<in> {1..13}" "w d < 255" by blast
    have "[i \<leftarrow> [1..<14]. w i < 255 \<and> (\<forall>j \<in> set [1..<14]. w i \<le> w j)]
          = [c \<leftarrow> [1..<14]. \<forall>d \<in> set [1..<14]. w c \<le> w d]"
      using d by (intro filter_cong) (auto dest: bspec [of _ _ d])
    moreover obtain c cs where "[c \<leftarrow> [1..<14]. \<forall>d \<in> set [1..<14]. w c \<le> w d] = c # cs"
      using least_busy_channel_exists [of w] by (cases "[c \<leftarrow> [1..<14]. \<forall>d \<in> set [1..<14]. w c \<le> w d]") auto
    ultimately show ?thesis using True f
      by (simp add: aug_get_least_freq_channel_def min_channel_loop_first_min)
  next
    case False
    then have "[i \<leftarrow> [1..<14]. w i < 255 \<and> (\<forall>j \<in> set [1..<14]. w i \<le> w j)] = []"
      by (auto simp: filter_empty_conv)
    with False f show ?thesis
      by (simp add: aug_get_least_freq_channel_def min_channel_loop_first_min)
  qed
qed

text \<open>
  C26: The counters wrap: for any scan, with the SDK calls succeeding, a channel's
  counter is its count of access points mod 256, and \<open>aug_get_least_freq_channel\<close>
  returns the first channel of 1 to 13 whose wrapped count is minimal when one wrapped
  count is below 255, and the invalid channel 0 when every one is 255. So 256 access
  points on a channel make it look free, and 255 on every channel give channel 0.
\<close>

theorem least_freq_channel_wraps:
  "\<exists>c. aug_get_least_freq_channel (\<lambda>_. ESP_OK) n aps = Inr (of_nat c)
     \<and> (\<forall>x. unat (count_channels (take n aps) (\<lambda>_. 0) x) = count_list (map unat (take n aps)) x mod 256)
     \<and> (if \<exists>d \<in> {1..13}. count_list (map unat (take n aps)) d mod 256 < 255
        then c \<in> {1..13}
          \<and> (\<forall>d \<in> {1..13}. count_list (map unat (take n aps)) c mod 256
                              \<le> count_list (map unat (take n aps)) d mod 256)
          \<and> (\<forall>d \<in> {1..<c}. count_list (map unat (take n aps)) c mod 256
                              < count_list (map unat (take n aps)) d mod 256)
        else c = 0)"
proof -
  let ?w = "\<lambda>d. count_list (map unat (take n aps)) d mod 256"
  let ?c = "if \<exists>d \<in> {1..13}. ?w d < 255 then hd [c \<leftarrow> [1..<14]. \<forall>d \<in> set [1..<14]. ?w c \<le> ?w d] else 0"
  have r: "aug_get_least_freq_channel (\<lambda>_. ESP_OK) n aps = Inr (of_nat ?c)"
    by (simp add: least_freq_channel_wrap_eq)
  show ?thesis
    using first_min_range [of ?w] first_min_minimal [of _ ?w] first_min_first [of _ ?w]
    by (intro exI [of _ ?c] conjI allI r count_channels_mod) auto
qed

text \<open>A failing SDK call of the scan aborts the firmware through \<open>ESP_ERROR_CHECK\<close>.\<close>

lemma least_freq_channel_abort:
  "sdk Scan_esp_wifi_start = ESP_FAIL \<Longrightarrow> aug_get_least_freq_channel sdk n aps = Inl e \<Longrightarrow> e \<noteq> ESP_OK"
  by (auto simp: aug_get_least_freq_channel_def Let_def split: if_splits prod.splits)

theorem least_freq_channel_refines_witness:
  "length (take 10 [1, 1, 6 :: byte]) < 255
   \<and> (\<exists>c. aug_get_least_freq_channel (\<lambda>_. ESP_OK) 10 [1, 1, 6] = Inr (of_nat c) \<and> c \<in> {1..13}
          \<and> (\<forall>d \<in> {1..13}. count_list (map unat (take 10 [1, 1, 6 :: byte])) c
                              \<le> count_list (map unat (take 10 [1, 1, 6 :: byte])) d)
          \<and> (\<forall>d \<in> {1..<c}. count_list (map unat (take 10 [1, 1, 6 :: byte])) c
                              < count_list (map unat (take 10 [1, 1, 6 :: byte])) d))"
proof -
  have h: "length (take 10 [1, 1, 6 :: byte]) < 255" by simp
  show ?thesis using h least_freq_channel_refines [OF h] by (rule conjI)
qed

theorem least_freq_channel_wraps_witness:
  "aug_get_least_freq_channel (\<lambda>_. ESP_OK) 300 (replicate 256 1) = Inr 1
   \<and> least_busy_channel (map unat (replicate 256 (1 :: byte))) = 2"
proof -
  have w: "count_list (map unat (take 300 (replicate 256 (1 :: byte)))) d mod 256 = 0" for d
    by (cases "d = 1") simp_all
  obtain c where c: "aug_get_least_freq_channel (\<lambda>_. ESP_OK) 300 (replicate 256 1) = Inr (of_nat c)"
    and c1: "c \<in> {1..13}" and m: "\<forall>d \<in> {1..<c}. count_list (map unat (take 300 (replicate 256 (1 :: byte)))) c mod 256
                              < count_list (map unat (take 300 (replicate 256 (1 :: byte)))) d mod 256"
    using least_freq_channel_wraps [of 300 "replicate 256 1"] unfolding w by (auto simp: if_splits)
  have "c = 1"
  proof (rule ccontr)
    assume "c \<noteq> 1"
    then have "(1::nat) \<in> {1..<c}" using c1 by auto
    with m have "count_list (map unat (take 300 (replicate 256 (1 :: byte)))) c mod 256
                 < count_list (map unat (take 300 (replicate 256 (1 :: byte)))) 1 mod 256" by blast
    then show False by (simp only: w)
  qed
  then show ?thesis using c by (simp add: least_busy_channel_def upt_rec)
qed

end
