(* ===== verification/WifiAp.thy ===== *)
theory WifiAp
  imports WifiConfig Scan
begin

text \<open>
  Model of \<open>src/main/aug_wifi_ap.c\<close>, the access-point module and its idle monitor.
  The statics are the record \<open>ap_module\<close>. Two activities change it while the access
  point runs: the Wi-Fi driver's association events, counted by
  \<open>wifi_event_handler\<close> in \<open>current_connections\<close>, and the wake-ups of
  \<open>idle_check_task\<close>, which sleeps \<open>DEFAULT_TIMEOUT_IDLE\<close> seconds and then posts
  \<open>AUG_WIFI_AP_EVENT_IDLE\<close> if the counter is zero at that instant. A run of the module
  is a list of such inputs in the order they happen. Start and stop follow the source's
  sequence of SDK calls, each of which may fail; the channel scan's failure aborts.
\<close>

section \<open>State, inputs and effects\<close>

datatype ap_event =
    WIFI_EVENT_AP_START
  | WIFI_EVENT_AP_STACONNECTED
  | WIFI_EVENT_AP_STADISCONNECTED

datatype ap_action = Post_idle

datatype ap_sdk_call =
    Ap_esp_wifi_init
  | Ap_register_any_id
  | Ap_set_mode
  | Ap_set_config
  | Ap_esp_wifi_start
  | Ap_task_create
  | Ap_unregister_any_id
  | Ap_esp_wifi_stop
  | Ap_esp_wifi_restore
  | Ap_esp_wifi_deinit

text \<open>
  An input of a running access point: a driver event, or the end of one sleep of the
  idle task (\<open>vTaskDelay(pdMS_TO_TICKS(DEFAULT_TIMEOUT_IDLE * 1000))\<close>).
\<close>

datatype ap_input = Ap_radio ap_event | Idle_period

record ap_module =
  ap_config :: aug_wifi_ap_config_t
  ap_netif :: bool
  ap_loop_set :: bool
  current_connections :: int
  idle_task :: bool
  ap_handler_registered :: bool
  ap_log :: "ap_action list"

definition ap_module_init :: ap_module where
  "ap_module_init =
     \<lparr>ap_config = zero_ap_config, ap_netif = False, ap_loop_set = False, current_connections = 0,
      idle_task = False, ap_handler_registered = False, ap_log = []\<rparr>"

section \<open>Association counting and the idle check\<close>

fun wifi_event_handler :: "ap_module \<Rightarrow> ap_event \<Rightarrow> ap_module" where
  "wifi_event_handler s WIFI_EVENT_AP_STACONNECTED =
     s\<lparr>current_connections := current_connections s + 1\<rparr>"
| "wifi_event_handler s WIFI_EVENT_AP_STADISCONNECTED =
     s\<lparr>current_connections := current_connections s - 1\<rparr>"
| "wifi_event_handler s WIFI_EVENT_AP_START = s"

text \<open>One iteration of \<open>idle_check_task\<close> after its sleep.\<close>

definition idle_check_task :: "ap_module \<Rightarrow> ap_module" where
  "idle_check_task s =
     (if current_connections s = 0 then s\<lparr>ap_log := ap_log s @ [Post_idle]\<rparr> else s)"

fun ap_run :: "ap_module \<Rightarrow> ap_input list \<Rightarrow> ap_module" where
  "ap_run s [] = s"
| "ap_run s (Ap_radio e # ins) =
     ap_run (if ap_handler_registered s then wifi_event_handler s e else s) ins"
| "ap_run s (Idle_period # ins) = ap_run (if idle_task s then idle_check_task s else s) ins"

section \<open>Start and stop\<close>

text \<open>
  \<open>aug_wifi_ap_start\<close>: store the loop handle, reset the counter and the task handle,
  choose the channel by scanning, create the netif, initialise the driver, register the
  handler, set mode and configuration, start, and create the idle task. The result is
  \<open>Inl e\<close> when the scan's \<open>ESP_ERROR_CHECK\<close> aborts, otherwise the returned code
  and the state.
\<close>

definition aug_wifi_ap_start ::
  "(ap_sdk_call \<Rightarrow> esp_err) \<Rightarrow> (scan_sdk_call \<Rightarrow> esp_err) \<Rightarrow> nat \<Rightarrow> byte list \<Rightarrow> ap_module \<Rightarrow>
   esp_err + (esp_err \<times> ap_module)" where
  "aug_wifi_ap_start sdk scan_sdk scan_list_size aps s =
     (let s1 = s\<lparr>ap_loop_set := True, current_connections := 0, idle_task := False\<rparr> in
      case aug_get_least_freq_channel scan_sdk scan_list_size aps of
        Inl e \<Rightarrow> Inl e
      | Inr ch \<Rightarrow>
          let s2 = s1\<lparr>ap_config := (ap_config s1)\<lparr>ap_wifi_config :=
                      (ap_wifi_config (ap_config s1))\<lparr>ap_channel := ch\<rparr>\<rparr>, ap_netif := True\<rparr> in
          Inr (aug_return_check (sdk Ap_esp_wifi_init, s2) (\<lambda>s3.
               aug_return_check (sdk Ap_register_any_id, s3) (\<lambda>s4.
               let s5 = s4\<lparr>ap_handler_registered := True\<rparr> in
               aug_return_check (sdk Ap_set_mode, s5) (\<lambda>s6.
               aug_return_check (sdk Ap_set_config, s6) (\<lambda>s7.
               aug_return_check (sdk Ap_esp_wifi_start, s7) (\<lambda>s8.
               if sdk Ap_task_create \<noteq> ESP_OK then (ESP_FAIL, s8)
               else (ESP_OK, s8\<lparr>idle_task := True\<rparr>))))))))"

text \<open>
  \<open>aug_wifi_ap_stop\<close>: reset the counter, delete the idle task, then unregister the
  handler, stop, restore and deinitialise the driver and destroy the netif. When no idle
  task was created the source's \<open>vTaskDelete(NULL)\<close> deletes the calling task; the model
  only records that no idle task runs.
\<close>

definition aug_wifi_ap_stop :: "(ap_sdk_call \<Rightarrow> esp_err) \<Rightarrow> ap_module \<Rightarrow> esp_err \<times> ap_module" where
  "aug_wifi_ap_stop sdk s =
     (let s1 = s\<lparr>current_connections := 0, idle_task := False\<rparr> in
      aug_return_check (sdk Ap_unregister_any_id, s1) (\<lambda>s2.
      let s3 = s2\<lparr>ap_handler_registered := False\<rparr> in
      aug_return_check (sdk Ap_esp_wifi_stop, s3) (\<lambda>s4.
      aug_return_check (sdk Ap_esp_wifi_restore, s4) (\<lambda>s5.
      aug_return_check (sdk Ap_esp_wifi_deinit, s5) (\<lambda>s6.
      (ESP_OK, s6\<lparr>ap_netif := False\<rparr>))))))"

definition aug_wifi_ap_is_init :: "ap_module \<Rightarrow> bool" where
  "aug_wifi_ap_is_init s = ap_netif s"

section \<open>Observations\<close>

abbreviation ap_posts :: "ap_module \<Rightarrow> nat" where
  "ap_posts s \<equiv> count_list (ap_log s) Post_idle"

text \<open>A freshly started access point: handler registered, idle task running, no station.\<close>

definition ap_started_example :: ap_module where
  "ap_started_example = ap_module_init\<lparr>ap_handler_registered := True, idle_task := True\<rparr>"

text \<open>Associations minus disassociations in a run.\<close>

fun net_associations :: "ap_input list \<Rightarrow> int" where
  "net_associations [] = 0"
| "net_associations (Ap_radio WIFI_EVENT_AP_STACONNECTED # ins) = net_associations ins + 1"
| "net_associations (Ap_radio WIFI_EVENT_AP_STADISCONNECTED # ins) = net_associations ins - 1"
| "net_associations (_ # ins) = net_associations ins"


section \<open>Runs of a started access point\<close>

lemma ap_run_append: "ap_run s (xs @ ys) = ap_run (ap_run s xs) ys"
  by (induction s xs rule: ap_run.induct) simp_all

lemma wifi_event_handler_frame [simp]:
  "ap_config (wifi_event_handler s e) = ap_config s"
  "ap_handler_registered (wifi_event_handler s e) = ap_handler_registered s"
  "idle_task (wifi_event_handler s e) = idle_task s"
  "ap_log (wifi_event_handler s e) = ap_log s"
  by (cases e; simp)+

lemma idle_check_task_frame [simp]:
  "ap_config (idle_check_task s) = ap_config s"
  "ap_handler_registered (idle_check_task s) = ap_handler_registered s"
  "idle_task (idle_check_task s) = idle_task s"
  "current_connections (idle_check_task s) = current_connections s"
  by (simp_all add: idle_check_task_def)

lemma ap_run_frame [simp]:
  "ap_handler_registered (ap_run s ins) = ap_handler_registered s"
  "idle_task (ap_run s ins) = idle_task s"
  by (induction s ins rule: ap_run.induct) simp_all

lemma ap_run_connections:
  "ap_handler_registered s \<Longrightarrow>
   current_connections (ap_run s ins) = current_connections s + net_associations ins"
proof (induction s ins rule: ap_run.induct)
  case (2 s e ins)
  then show ?case by (cases e) simp_all
qed simp_all

text \<open>
  C11: The idle monitor: on a started access point (handler registered, idle task
  running), the end of a sleep posts \<open>IDLE\<close> exactly when the association count,
  the stations that joined minus those that left, is zero at that instant.
\<close>

theorem idle_tick_posts_iff_no_station:
  assumes "ap_handler_registered s" and "idle_task s"
  shows "ap_posts (ap_run s (ins @ [Idle_period]))
         = ap_posts (ap_run s ins) + (if current_connections s + net_associations ins = 0 then 1 else 0)"
  using assms ap_run_connections [OF assms(1), of ins]
  by (simp add: ap_run_append idle_check_task_def)



section \<open>Starting and stopping\<close>

lemma aug_wifi_ap_start_all_ok:
  "aug_get_least_freq_channel scan_sdk n aps = Inr ch \<Longrightarrow>
   aug_wifi_ap_start (\<lambda>_. ESP_OK) scan_sdk n aps s =
   Inr (ESP_OK, s\<lparr>ap_loop_set := True, current_connections := 0,
          ap_config := (ap_config s)\<lparr>ap_wifi_config := (ap_wifi_config (ap_config s))\<lparr>ap_channel := ch\<rparr>\<rparr>,
          ap_netif := True, ap_handler_registered := True, idle_task := True\<rparr>)"
  by (simp add: aug_wifi_ap_start_def)

text \<open>
  With a working driver and fewer than 255 scan records, \<open>aug_wifi_ap_start\<close>
  returns \<open>ESP_OK\<close> with the netif, handler and idle task up, no station counted, and
  the channel set to the least busy of channels 1 to 13.
\<close>

theorem ap_start_ok:
  assumes "length (take n aps) < 255"
  shows "\<exists>s'. aug_wifi_ap_start (\<lambda>_. ESP_OK) (\<lambda>_. ESP_OK) n aps s = Inr (ESP_OK, s')
           \<and> ap_netif s' \<and> ap_handler_registered s' \<and> idle_task s' \<and> current_connections s' = 0
           \<and> unat (ap_channel (ap_wifi_config (ap_config s'))) = least_busy_channel (map unat (take n aps))
           \<and> unat (ap_channel (ap_wifi_config (ap_config s'))) \<in> {1..13}"
proof -
  let ?c = "least_busy_channel (map unat (take n aps))"
  have ch: "aug_get_least_freq_channel (\<lambda>_. ESP_OK) n aps = Inr (of_nat ?c)"
    using assms by (rule least_freq_channel_eq)
  have r: "1 \<le> ?c \<and> ?c \<le> 13" by (rule least_busy_channel_range)
  then have u: "unat (of_nat ?c :: byte) = ?c" by (simp add: unat_of_nat)
  show ?thesis using aug_wifi_ap_start_all_ok [OF ch] u r by simp
qed

lemma aug_wifi_ap_stop_all_ok:
  "aug_wifi_ap_stop (\<lambda>_. ESP_OK) s =
   (ESP_OK, s\<lparr>current_connections := 0, idle_task := False, ap_handler_registered := False,
               ap_netif := False\<rparr>)"
  by (simp add: aug_wifi_ap_stop_def)

lemma aug_wifi_ap_stop_config [simp]: "ap_config (snd (aug_wifi_ap_stop sdk s)) = ap_config s"
  by (simp add: aug_wifi_ap_stop_def aug_return_check_def Let_def)

lemma aug_wifi_ap_start_config:
  "aug_wifi_ap_start sdk scan_sdk n aps s = Inr (e, s') \<Longrightarrow>
   ap_config s' = (ap_config s)\<lparr>ap_wifi_config := (ap_wifi_config (ap_config s))\<lparr>ap_channel :=
     ap_channel (ap_wifi_config (ap_config s'))\<rparr>\<rparr>"
  by (auto simp: aug_wifi_ap_start_def aug_return_check_def Let_def split: sum.splits if_splits)

section \<open>Witnesses\<close>

theorem idle_tick_posts_iff_no_station_witness:
  "ap_handler_registered ap_started_example \<and> idle_task ap_started_example
   \<and> ap_posts (ap_run ap_started_example [Ap_radio WIFI_EVENT_AP_STACONNECTED, Idle_period]) = 0"
proof -
  have h: "ap_handler_registered ap_started_example" "idle_task ap_started_example"
    by (simp_all add: ap_started_example_def)
  from idle_tick_posts_iff_no_station [OF h, of "[Ap_radio WIFI_EVENT_AP_STACONNECTED]"] h
  show ?thesis by (simp add: ap_started_example_def ap_module_init_def)
qed

theorem ap_start_ok_witness:
  "length (take 10 [1, 1, 6 :: byte]) < 255
   \<and> (\<exists>s'. aug_wifi_ap_start (\<lambda>_. ESP_OK) (\<lambda>_. ESP_OK) 10 [1, 1, 6] ap_module_init = Inr (ESP_OK, s')
          \<and> unat (ap_channel (ap_wifi_config (ap_config s'))) = 2)"
proof -
  have h: "length (take 10 [1, 1, 6 :: byte]) < 255" by simp
  have c: "least_busy_channel (map unat (take 10 [1, 1, 6 :: byte])) = 2"
    by (simp add: least_busy_channel_def upt_rec)
  from ap_start_ok [OF h, of ap_module_init] h c show ?thesis by auto
qed


end
