(* ===== verification/Nvs.thy ===== *)
theory Nvs
  imports WifiConfig
begin

text \<open>
  Model of \<open>src/main/aug_nvs.c\<close>, the configuration store, and of \<open>aug_nvs_init\<close> in
  \<open>src/main/main.c\<close>. The flash partition is a map from (namespace, key) to the byte
  blob stored there. \<open>get_blob\<close> and \<open>set_blob\<close> follow the source's sequence of NVS
  calls, each of which may fail. The two configuration structs are copied to and from
  flash with \<open>memcpy\<close> of \<open>sizeof\<close> bytes; that layout is the compiler's, so it is a
  parameter: a \<open>codec\<close>, with \<open>codec_ok\<close> saying that the encoding has the struct's size
  and that decoding reverses it. The broker URI is the character buffer \<open>uri_str\<close> of
  \<open>MQTT_MAX_URI_LEN\<close> bytes, whose layout is known: the string and NUL padding.
\<close>

section \<open>Flash and its calls\<close>

type_synonym nvs_store = "string \<times> string \<Rightarrow> byte list option"

datatype nvs_sdk_call =
    Nvs_open
  | Nvs_get_blob_size
  | Nvs_malloc
  | Nvs_get_blob_data
  | Nvs_set_blob
  | Nvs_commit

text \<open>
  \<open>get_blob\<close>: open, ask the stored size (\<open>ESP_ERR_NVS_NOT_FOUND\<close> when the key is
  absent), refuse a size other than \<open>buffer_size\<close>, allocate, read, copy. The caller's
  buffer is written only on the last, successful, path.
\<close>

definition get_blob :: "(nvs_sdk_call \<Rightarrow> esp_err) \<Rightarrow> string \<Rightarrow> string \<Rightarrow> nat \<Rightarrow> nvs_store \<Rightarrow>
                        esp_err + byte list" where
  "get_blob sdk namespace str buffer_size st =
     (if sdk Nvs_open \<noteq> ESP_OK then Inl (sdk Nvs_open)
      else case st (namespace, str) of
        None \<Rightarrow> Inl ESP_ERR_NVS_NOT_FOUND
      | Some blob \<Rightarrow>
          if sdk Nvs_get_blob_size \<noteq> ESP_OK then Inl (sdk Nvs_get_blob_size)
          else if length blob \<noteq> buffer_size then Inl ESP_FAIL
          else if sdk Nvs_malloc \<noteq> ESP_OK then Inl ESP_ERR_NO_MEM
          else if sdk Nvs_get_blob_data \<noteq> ESP_OK then Inl (sdk Nvs_get_blob_data)
          else Inr blob)"

text \<open>
  \<open>set_blob\<close>: open read-write, write the blob, commit. The write reaches flash when
  \<open>nvs_set_blob\<close> succeeds; a failed commit is reported after it.
\<close>

definition set_blob :: "(nvs_sdk_call \<Rightarrow> esp_err) \<Rightarrow> string \<Rightarrow> string \<Rightarrow> byte list \<Rightarrow> nvs_store \<Rightarrow>
                        esp_err \<times> nvs_store" where
  "set_blob sdk namespace str buffer st =
     (if sdk Nvs_open \<noteq> ESP_OK then (sdk Nvs_open, st)
      else if sdk Nvs_set_blob \<noteq> ESP_OK then (sdk Nvs_set_blob, st)
      else let st' = st((namespace, str) \<mapsto> buffer) in
           if sdk Nvs_commit \<noteq> ESP_OK then (sdk Nvs_commit, st') else (ESP_OK, st'))"

section \<open>Layouts\<close>

record 'c codec =
  encode :: "'c \<Rightarrow> byte list"
  decode :: "byte list \<Rightarrow> 'c"

definition codec_ok :: "'c codec \<Rightarrow> nat \<Rightarrow> bool" where
  "codec_ok cd n \<longleftrightarrow> (\<forall>c. length (encode cd c) = n \<and> decode cd (encode cd c) = c)"

text \<open>\<open>sizeof\<close> and the \<open>memcpy\<close> layout of the two configuration structs.\<close>

record layout =
  sta_size :: nat
  sta_codec :: "aug_wifi_sta_config_t codec"
  ap_size :: nat
  ap_codec :: "aug_wifi_ap_config_t codec"

text \<open>
  The URI buffer of \<open>uri_len\<close> bytes: the characters, then NULs; reading stops at the
  first NUL, as every C string function the firmware applies to it does.
\<close>

definition uri_bytes :: "nat \<Rightarrow> string \<Rightarrow> byte list" where
  "uri_bytes uri_len s = take uri_len (map of_char s @ replicate uri_len 0)"

definition uri_of_bytes :: "byte list \<Rightarrow> string" where
  "uri_of_bytes bs = map (\<lambda>b. char_of (unat b)) (takeWhile (\<lambda>b. b \<noteq> 0) bs)"

section \<open>The six accessors\<close>

definition wifi_ap_config_namespace_str :: string where "wifi_ap_config_namespace_str = ''wifi_ap_config''"
definition wifi_sta_config_namespace_str :: string where "wifi_sta_config_namespace_str = ''wifi_sta_config''"
definition mqtt_config_namespace_str :: string where "mqtt_config_namespace_str = ''mqtt_config''"
definition config_str :: string where "config_str = ''config''"
definition uri_str_key :: string where "uri_str_key = ''uri''"

text \<open>
  Each getter returns the code and the module's configuration afterwards: decoded from
  flash on success, unchanged otherwise.
\<close>

definition aug_nvs_get_sta_config ::
  "layout \<Rightarrow> (nvs_sdk_call \<Rightarrow> esp_err) \<Rightarrow> nvs_store \<Rightarrow> aug_wifi_sta_config_t \<Rightarrow>
   esp_err \<times> aug_wifi_sta_config_t" where
  "aug_nvs_get_sta_config ly sdk st cfg =
     (case get_blob sdk wifi_sta_config_namespace_str config_str (sta_size ly) st of
        Inl e \<Rightarrow> (e, cfg)
      | Inr bs \<Rightarrow> (ESP_OK, decode (sta_codec ly) bs))"

definition aug_nvs_set_sta_config ::
  "layout \<Rightarrow> (nvs_sdk_call \<Rightarrow> esp_err) \<Rightarrow> aug_wifi_sta_config_t \<Rightarrow> nvs_store \<Rightarrow> esp_err \<times> nvs_store" where
  "aug_nvs_set_sta_config ly sdk cfg st =
     set_blob sdk wifi_sta_config_namespace_str config_str (encode (sta_codec ly) cfg) st"

definition aug_nvs_get_ap_config ::
  "layout \<Rightarrow> (nvs_sdk_call \<Rightarrow> esp_err) \<Rightarrow> nvs_store \<Rightarrow> aug_wifi_ap_config_t \<Rightarrow>
   esp_err \<times> aug_wifi_ap_config_t" where
  "aug_nvs_get_ap_config ly sdk st cfg =
     (case get_blob sdk wifi_ap_config_namespace_str config_str (ap_size ly) st of
        Inl e \<Rightarrow> (e, cfg)
      | Inr bs \<Rightarrow> (ESP_OK, decode (ap_codec ly) bs))"

definition aug_nvs_set_ap_config ::
  "layout \<Rightarrow> (nvs_sdk_call \<Rightarrow> esp_err) \<Rightarrow> aug_wifi_ap_config_t \<Rightarrow> nvs_store \<Rightarrow> esp_err \<times> nvs_store" where
  "aug_nvs_set_ap_config ly sdk cfg st =
     set_blob sdk wifi_ap_config_namespace_str config_str (encode (ap_codec ly) cfg) st"

definition aug_nvs_get_mqtt_config ::
  "nat \<Rightarrow> (nvs_sdk_call \<Rightarrow> esp_err) \<Rightarrow> nvs_store \<Rightarrow> string \<Rightarrow> esp_err \<times> string" where
  "aug_nvs_get_mqtt_config uri_len sdk st uri =
     (case get_blob sdk mqtt_config_namespace_str uri_str_key uri_len st of
        Inl e \<Rightarrow> (e, uri)
      | Inr bs \<Rightarrow> (ESP_OK, uri_of_bytes bs))"

definition aug_nvs_set_mqtt_config ::
  "nat \<Rightarrow> (nvs_sdk_call \<Rightarrow> esp_err) \<Rightarrow> string \<Rightarrow> nvs_store \<Rightarrow> esp_err \<times> nvs_store" where
  "aug_nvs_set_mqtt_config uri_len sdk uri st =
     set_blob sdk mqtt_config_namespace_str uri_str_key (uri_bytes uri_len uri) st"

section \<open>Initialisation\<close>

text \<open>
  \<open>aug_nvs_init\<close> (\<open>main.c\<close>): a partition without free pages or written by a newer
  NVS version is erased and initialised again; any remaining error aborts.
\<close>

definition aug_nvs_init :: "esp_err \<Rightarrow> esp_err \<Rightarrow> esp_err \<Rightarrow> nvs_store \<Rightarrow> esp_err + nvs_store" where
  "aug_nvs_init init_ret erase_ret reinit_ret st =
     (if init_ret = ESP_ERR_NVS_NO_FREE_PAGES \<or> init_ret = ESP_ERR_NVS_NEW_VERSION_FOUND then
        (if erase_ret \<noteq> ESP_OK then Inl erase_ret
         else if reinit_ret \<noteq> ESP_OK then Inl reinit_ret else Inr Map.empty)
      else if init_ret \<noteq> ESP_OK then Inl init_ret else Inr st)"

section \<open>The abstract store\<close>

text \<open>
  Spec 4.6: \<open>get(kind)\<close> gives the configuration or \<open>NotFound\<close>. The abstraction of a
  flash partition under a layout: the decoded blob if a blob of the right size is there.
\<close>

definition stored :: "'c codec \<Rightarrow> nat \<Rightarrow> string \<Rightarrow> string \<Rightarrow> nvs_store \<Rightarrow> 'c option" where
  "stored cd n namespace str st =
     (case st (namespace, str) of
        Some bs \<Rightarrow> if length bs = n then Some (decode cd bs) else None
      | None \<Rightarrow> None)"

abbreviation nvs_ok :: "nvs_sdk_call \<Rightarrow> esp_err" where
  "nvs_ok \<equiv> \<lambda>_. ESP_OK"

text \<open>A one-byte layout, for evaluating the generic statements on a concrete store.\<close>

definition byte_codec :: "byte codec" where
  "byte_codec = \<lparr>encode = (\<lambda>b. [b]), decode = hd\<rparr>"


section \<open>Blob round trip and frame\<close>

lemma get_blob_ok:
  "get_blob nvs_ok ns k n st =
     (case st (ns, k) of None \<Rightarrow> Inl ESP_ERR_NVS_NOT_FOUND
      | Some bs \<Rightarrow> if length bs = n then Inr bs else Inl ESP_FAIL)"
  by (simp add: get_blob_def split: option.splits)

lemma set_blob_ok: "set_blob nvs_ok ns k bs st = (ESP_OK, st((ns, k) \<mapsto> bs))"
  by (simp add: set_blob_def)

text \<open>
  Writing a blob of the reader's buffer size with \<open>set_blob\<close> and reading it back
  with \<open>get_blob\<close> gives the same bytes.
\<close>

theorem blob_roundtrip:
  "length bs = n \<Longrightarrow> get_blob nvs_ok ns k n (snd (set_blob nvs_ok ns k bs st)) = Inr bs"
  by (simp add: set_blob_ok get_blob_ok)

text \<open>
  A write changes at most its own key, and then only to the new blob, and a failed
  \<open>nvs_open\<close> or \<open>nvs_set_blob\<close> leaves flash exactly as it was: the other
  configurations in flash are never touched.
\<close>

theorem set_blob_frame:
  "(sdk Nvs_open \<noteq> ESP_OK \<or> sdk Nvs_set_blob \<noteq> ESP_OK \<longrightarrow> snd (set_blob sdk ns k bs st) = st)
   \<and> (snd (set_blob sdk ns k bs st) = st \<or> snd (set_blob sdk ns k bs st) = st((ns, k) \<mapsto> bs))"
  by (auto simp: set_blob_def Let_def)

lemma set_blob_other [simp]:
  "(ns', k') \<noteq> (ns, k) \<Longrightarrow> snd (set_blob sdk ns k bs st) (ns', k') = st (ns', k')"
  by (auto simp: set_blob_def Let_def)

section \<open>Refinement of the abstract store\<close>

text \<open>
  Under a layout whose encoding has the struct's size and is reversed by decoding,
  the store refines spec 4.6: a successful \<open>get_blob\<close> returns the encoding of the
  abstract value, a missing or wrongly sized blob is an error, and a successful write of
  a value makes it the abstract value.
\<close>

theorem store_refines:
  assumes "codec_ok cd n"
  shows "(case get_blob nvs_ok ns k n st of Inl _ \<Rightarrow> None | Inr bs \<Rightarrow> Some (decode cd bs))
           = stored cd n ns k st
       \<and> stored cd n ns k (snd (set_blob nvs_ok ns k (encode cd c) st)) = Some c"
  using assms by (simp add: get_blob_ok stored_def set_blob_ok codec_ok_def split: option.splits)

text \<open>A failed read leaves the module's configuration as it was (\<open>memcpy\<close> only on success).\<close>

lemma aug_nvs_get_sta_config_unchanged:
  "fst (aug_nvs_get_sta_config ly sdk st cfg) \<noteq> ESP_OK \<Longrightarrow> snd (aug_nvs_get_sta_config ly sdk st cfg) = cfg"
  by (auto simp: aug_nvs_get_sta_config_def split: sum.splits)

lemma aug_nvs_get_ap_config_unchanged:
  "fst (aug_nvs_get_ap_config ly sdk st cfg) \<noteq> ESP_OK \<Longrightarrow> snd (aug_nvs_get_ap_config ly sdk st cfg) = cfg"
  by (auto simp: aug_nvs_get_ap_config_def split: sum.splits)

section \<open>The URI buffer\<close>

lemma unat_of_char_byte [simp]: "unat (of_char c :: byte) = of_char c"
proof -
  have "(of_char c :: byte) = of_nat (of_char c)" by (simp only: of_nat_of_char)
  then show ?thesis using nat_of_char_less_256 [of c] by (simp add: unat_of_nat)
qed

lemma of_char_byte_eq_0: "(of_char c :: byte) = 0 \<longleftrightarrow> c = CHR 0x00"
proof -
  have "(of_char c :: byte) = 0 \<longleftrightarrow> (of_char c :: nat) = of_char (CHR 0x00)"
    by (simp only: unat_eq_zero [symmetric] unat_of_char_byte) simp
  then show ?thesis by (simp only: of_char_eq_iff)
qed

lemma takeWhile_nonzero_uri:
  "CHR 0x00 \<notin> set u \<Longrightarrow> takeWhile (\<lambda>b. b \<noteq> 0) (map of_char u @ 0 # zs) = (map of_char u :: byte list)"
  by (induction u) (auto simp: of_char_byte_eq_0)

lemma uri_of_bytes_uri_bytes:
  assumes "length u < uri_len" "CHR 0x00 \<notin> set u"
  shows "uri_of_bytes (uri_bytes uri_len u) = u"
proof -
  obtain m where m: "uri_len = Suc (length u + m)" using assms(1) less_imp_Suc_add by blast
  have "take uri_len (map of_char u @ replicate uri_len 0) =
        map of_char u @ 0 # replicate m (0 :: byte)"
    by (simp add: m replicate_add [symmetric])
  then show ?thesis
    using takeWhile_nonzero_uri [OF assms(2), of "replicate m 0"]
    by (simp add: uri_of_bytes_def uri_bytes_def comp_def)
qed

lemma length_uri_bytes [simp]: "length (uri_bytes uri_len u) = uri_len"
  by (simp add: uri_bytes_def)

text \<open>
  C24: The broker URI round-trips through flash: \<open>aug_nvs_set_mqtt_config\<close> followed by
  \<open>aug_nvs_get_mqtt_config\<close> restores any NUL-free URI shorter than the buffer, the
  URIs the control surface can store.
\<close>

theorem mqtt_uri_roundtrip:
  "length u < uri_len \<Longrightarrow> CHR 0x00 \<notin> set u \<Longrightarrow>
   aug_nvs_get_mqtt_config uri_len nvs_ok (snd (aug_nvs_set_mqtt_config uri_len nvs_ok u st)) u0
   = (ESP_OK, u)"
  by (simp add: aug_nvs_get_mqtt_config_def aug_nvs_set_mqtt_config_def set_blob_ok get_blob_ok
      uri_of_bytes_uri_bytes)

text \<open>
  C27: When \<open>nvs_flash_init\<close> reports a full or newer-format partition, the firmware
  erases it, whatever it held: with the erase and the second initialisation
  succeeding, \<open>aug_nvs_init\<close> returns the empty partition, on which every getter
  reports \<open>ESP_ERR_NVS_NOT_FOUND\<close>, so boot falls back to the compiled defaults; a
  failing erase aborts with its error. Any other error of \<open>nvs_flash_init\<close> aborts
  with that error, and success keeps the partition.
\<close>

theorem nvs_init_erases:
  assumes "init_ret \<in> {ESP_ERR_NVS_NO_FREE_PAGES, ESP_ERR_NVS_NEW_VERSION_FOUND}"
  shows "(\<exists>st'. aug_nvs_init init_ret ESP_OK ESP_OK st = Inr st'
            \<and> fst (aug_nvs_get_sta_config ly nvs_ok st' cfg) = ESP_ERR_NVS_NOT_FOUND
            \<and> fst (aug_nvs_get_ap_config ly nvs_ok st' acfg) = ESP_ERR_NVS_NOT_FOUND
            \<and> fst (aug_nvs_get_mqtt_config n nvs_ok st' u) = ESP_ERR_NVS_NOT_FOUND)
       \<and> (erase_ret \<noteq> ESP_OK \<longrightarrow> aug_nvs_init init_ret erase_ret reinit_ret st = Inl erase_ret)
       \<and> (other \<notin> {ESP_OK, ESP_ERR_NVS_NO_FREE_PAGES, ESP_ERR_NVS_NEW_VERSION_FOUND} \<longrightarrow>
            aug_nvs_init other erase_ret reinit_ret st = Inl other)
       \<and> aug_nvs_init ESP_OK erase_ret reinit_ret st = Inr st"
  using assms
  by (auto simp: aug_nvs_init_def aug_nvs_get_sta_config_def aug_nvs_get_ap_config_def
      aug_nvs_get_mqtt_config_def get_blob_ok)

section \<open>Witnesses\<close>

lemma codec_ok_byte_codec: "codec_ok byte_codec 1"
  by (simp add: codec_ok_def byte_codec_def)

theorem blob_roundtrip_witness:
  "length [1, 2, 3 :: byte] = 3
   \<and> get_blob nvs_ok ''ns'' ''k'' 3 (snd (set_blob nvs_ok ''ns'' ''k'' [1, 2, 3] Map.empty)) = Inr [1, 2, 3]"
  using blob_roundtrip [of "[1, 2, 3 :: byte]" 3 "''ns''" "''k''" Map.empty] by simp

theorem set_blob_frame_witness:
  "(nvs_ok(Nvs_set_blob := ESP_FAIL)) Nvs_set_blob \<noteq> ESP_OK
   \<and> snd (set_blob (nvs_ok(Nvs_set_blob := ESP_FAIL)) ''ns'' ''k'' [1] Map.empty) = Map.empty"
  using set_blob_frame [of "nvs_ok(Nvs_set_blob := ESP_FAIL)" "''ns''" "''k''" "[1]" Map.empty] by simp

theorem store_refines_witness:
  "codec_ok byte_codec 1
   \<and> stored byte_codec 1 ''ns'' ''k'' (snd (set_blob nvs_ok ''ns'' ''k'' (encode byte_codec 7) Map.empty)) = Some 7"
  using store_refines [OF codec_ok_byte_codec, of "''ns''" "''k''" Map.empty 7] codec_ok_byte_codec by simp

theorem mqtt_uri_roundtrip_witness:
  "length ''mqtt://b'' < 64 \<and> CHR 0x00 \<notin> set ''mqtt://b''
   \<and> aug_nvs_get_mqtt_config 64 nvs_ok (snd (aug_nvs_set_mqtt_config 64 nvs_ok ''mqtt://b'' Map.empty)) ''x''
     = (ESP_OK, ''mqtt://b'')"
  using mqtt_uri_roundtrip [of "''mqtt://b''" 64 Map.empty "''x''"] by simp

theorem nvs_init_erases_witness:
  "ESP_ERR_NVS_NEW_VERSION_FOUND \<in> {ESP_ERR_NVS_NO_FREE_PAGES, ESP_ERR_NVS_NEW_VERSION_FOUND}
   \<and> aug_nvs_init ESP_ERR_NVS_NEW_VERSION_FOUND ESP_OK ESP_OK [(''mqtt_config'', ''uri'') \<mapsto> [0]] = Inr Map.empty
   \<and> fst (aug_nvs_get_mqtt_config 1 nvs_ok Map.empty ''x'') = ESP_ERR_NVS_NOT_FOUND
   \<and> aug_nvs_init ESP_ERR_NVS_NEW_VERSION_FOUND ESP_FAIL ESP_OK Map.empty = Inl ESP_FAIL
   \<and> aug_nvs_init ESP_FAIL ESP_OK ESP_OK Map.empty = Inl ESP_FAIL"
  using nvs_init_erases [where init_ret = ESP_ERR_NVS_NEW_VERSION_FOUND
      and st = "[(''mqtt_config'', ''uri'') \<mapsto> [0]]" and n = 1 and u = "''x''"
      and erase_ret = ESP_FAIL and reinit_ret = ESP_OK and other = ESP_FAIL]
    nvs_init_erases [where init_ret = ESP_ERR_NVS_NEW_VERSION_FOUND and st = Map.empty
      and erase_ret = ESP_FAIL and reinit_ret = ESP_OK and other = ESP_FAIL]
  by (simp add: aug_nvs_init_def)

end
