(* ===== verification/CLib.thy ===== *)
theory CLib
  imports Prelude
begin

text \<open>
  The C library functions the control surface applies to text: \<open>atoi\<close> (newlib's,
  which is \<open>(int) strtol(s, NULL, 10)\<close> with a 32-bit \<open>long\<close>), the \<open>%d\<close> and \<open>%s\<close>
  conversions of \<open>snprintf\<close>, and \<open>snprintf\<close>'s truncation to the buffer size. They
  are collaborators of the firmware, not part of it; the firmware's text handling in
  \<open>src/main/aug_http_server.c\<close> is built on them.
\<close>

section \<open>Characters\<close>

definition c_isspace :: "char \<Rightarrow> bool" where
  "c_isspace c \<longleftrightarrow> of_char c = (32 :: nat) \<or> (9 \<le> (of_char c :: nat) \<and> (of_char c :: nat) \<le> 13)"

definition c_isdigit :: "char \<Rightarrow> bool" where
  "c_isdigit c \<longleftrightarrow> 48 \<le> (of_char c :: nat) \<and> (of_char c :: nat) \<le> 57"

definition digit_val :: "char \<Rightarrow> nat" where
  "digit_val c = of_char c - 48"

definition digit_char :: "nat \<Rightarrow> char" where
  "digit_char d = char_of (48 + d)"

section \<open>atoi\<close>

text \<open>The value of a run of decimal digits, most significant first.\<close>

definition dec_value :: "string \<Rightarrow> nat" where
  "dec_value ds = foldl (\<lambda>acc c. 10 * acc + digit_val c) 0 ds"

definition INT32_MIN :: int where "INT32_MIN = - (2 ^ 31)"
definition INT32_MAX :: int where "INT32_MAX = 2 ^ 31 - 1"

text \<open>
  \<open>strtol\<close>: leading white space, an optional sign, the longest run of digits; the value
  saturates at \<open>LONG_MIN\<close> and \<open>LONG_MAX\<close>; no digits give 0.
\<close>

definition c_atoi :: "string \<Rightarrow> int" where
  "c_atoi s =
     (let t = dropWhile c_isspace s;
          (neg, u) = (case t of
                        [] \<Rightarrow> (False, [])
                      | c # r \<Rightarrow> if c = CHR ''-'' then (True, r)
                                 else if c = CHR ''+'' then (False, r) else (False, t));
          v = int (dec_value (takeWhile c_isdigit u))
      in if neg then max INT32_MIN (- v) else min INT32_MAX v)"

section \<open>printf\<close>

text \<open>\<open>%u\<close> and \<open>%d\<close>: decimal digits without leading zeros, a minus sign if negative.\<close>

fun dec_of_nat :: "nat \<Rightarrow> string" where
  "dec_of_nat n = (if n < 10 then [digit_char n] else dec_of_nat (n div 10) @ [digit_char (n mod 10)])"

definition dec_of_int :: "int \<Rightarrow> string" where
  "dec_of_int i = (if i < 0 then CHR ''-'' # dec_of_nat (nat (- i)) else dec_of_nat (nat i))"

text \<open>A format with one \<open>%s\<close>, the conversion replaced by the argument.\<close>

fun format_s :: "string \<Rightarrow> string \<Rightarrow> string" where
  "format_s (c # d # r) a = (if c = CHR ''%'' \<and> d = CHR ''s'' then a @ r else c # format_s (d # r) a)"
| "format_s r a = r"

text \<open>\<open>snprintf\<close> into a buffer of \<open>n\<close> bytes keeps at most \<open>n - 1\<close> characters.\<close>

definition c_snprintf :: "nat \<Rightarrow> string \<Rightarrow> string" where
  "c_snprintf n formatted = take (n - 1) formatted"

section \<open>Digits\<close>

lemma digit_val_digit_char [simp]: "d < 10 \<Longrightarrow> digit_val (digit_char d) = d"
  by (simp add: digit_val_def digit_char_def)

lemma of_char_digit_char [simp]: "d < 10 \<Longrightarrow> (of_char (digit_char d) :: nat) = 48 + d"
  by (simp add: digit_char_def)

lemma c_isdigit_digit_char [simp]: "d < 10 \<Longrightarrow> c_isdigit (digit_char d)"
  by (simp add: c_isdigit_def)

lemma digit_char_not_space [simp]: "d < 10 \<Longrightarrow> \<not> c_isspace (digit_char d)"
  by (simp add: c_isspace_def)

lemma digit_char_not_sign [simp]:
  assumes "d < 10"
  shows "digit_char d \<noteq> CHR ''-''" and "digit_char d \<noteq> CHR ''+''"
proof -
  have "(of_char (digit_char d) :: nat) = 48 + d" using assms by simp
  then show "digit_char d \<noteq> CHR ''-''" and "digit_char d \<noteq> CHR ''+''" by auto
qed

declare dec_of_nat.simps [simp del]

lemma dec_of_nat_digits: "\<forall>c \<in> set (dec_of_nat n). \<exists>d < 10. c = digit_char d"
proof (induction n rule: dec_of_nat.induct)
  case (1 n)
  then show ?case by (subst dec_of_nat.simps) (auto intro!: exI [where x = "n mod 10"])
qed

lemma dec_of_nat_ne: "dec_of_nat n \<noteq> []"
  by (subst dec_of_nat.simps) simp

lemma dec_of_nat_isdigit: "\<forall>c \<in> set (dec_of_nat n). c_isdigit c"
  using dec_of_nat_digits [of n] by auto

lemma dec_value_snoc: "dec_value (xs @ [c]) = 10 * dec_value xs + digit_val c"
  by (simp add: dec_value_def)

lemma dec_value_dec_of_nat [simp]: "dec_value (dec_of_nat n) = n"
proof (induction n rule: dec_of_nat.induct)
  case (1 n)
  show ?case
  proof (cases "n < 10")
    case True
    then show ?thesis by (subst dec_of_nat.simps) (simp add: dec_value_def)
  next
    case False
    with "1.IH" show ?thesis by (subst dec_of_nat.simps) (simp add: dec_value_snoc)
  qed
qed

lemma length_dec_of_nat: "n < 10 ^ Suc k \<Longrightarrow> length (dec_of_nat n) \<le> Suc k"
proof (induction n arbitrary: k rule: dec_of_nat.induct)
  case (1 n)
  show ?case
  proof (cases "n < 10")
    case True
    then show ?thesis by (subst dec_of_nat.simps) simp
  next
    case False
    with "1.prems" have k: "n div 10 < 10 ^ k" by (simp add: less_mult_imp_div_less mult.commute)
    with False obtain k' where k': "k = Suc k'" by (cases k) auto
    with "1.IH" False k have "length (dec_of_nat (n div 10)) \<le> k" by simp
    with False show ?thesis by (subst dec_of_nat.simps) simp
  qed
qed

lemma first_dec_of_nat: "\<exists>d r. d < 10 \<and> dec_of_nat n = digit_char d # r"
proof -
  obtain c r where cr: "dec_of_nat n = c # r" using dec_of_nat_ne by (cases "dec_of_nat n") auto
  then have "c \<in> set (dec_of_nat n)" by simp
  with dec_of_nat_digits [of n] cr show ?thesis by auto
qed

section \<open>atoi reads back what printf writes\<close>

lemma c_atoi_dec_of_nat: "c_atoi (dec_of_nat n) = min INT32_MAX (int n)"
proof -
  obtain d r where dr: "d < 10" "dec_of_nat n = digit_char d # r" using first_dec_of_nat by blast
  have t: "takeWhile c_isdigit (dec_of_nat n) = dec_of_nat n"
    using dec_of_nat_isdigit [of n] by (simp add: takeWhile_eq_all_conv)
  have dw: "dropWhile c_isspace (dec_of_nat n) = dec_of_nat n"
    using dr by simp
  have case_eq: "(case dec_of_nat n of [] \<Rightarrow> (False, [])
                  | c # r \<Rightarrow> if c = CHR ''-'' then (True, r)
                             else if c = CHR ''+'' then (False, r) else (False, dec_of_nat n))
                 = (False, dec_of_nat n)"
    using dr by simp
  show ?thesis by (simp add: c_atoi_def Let_def dw case_eq t)
qed

lemma c_atoi_neg_dec_of_nat:
  "c_atoi (CHR ''-'' # dec_of_nat n) = max INT32_MIN (- int n)"
proof -
  have t: "takeWhile c_isdigit (dec_of_nat n) = dec_of_nat n"
    using dec_of_nat_isdigit [of n] by (simp add: takeWhile_eq_all_conv)
  show ?thesis by (simp add: c_atoi_def c_isspace_def t)
qed

lemma c_atoi_dec_of_int:
  "INT32_MIN \<le> i \<Longrightarrow> i \<le> INT32_MAX \<Longrightarrow> c_atoi (dec_of_int i) = i"
  by (auto simp: dec_of_int_def c_atoi_dec_of_nat c_atoi_neg_dec_of_nat)

lemma c_atoi_range: "INT32_MIN \<le> c_atoi s \<and> c_atoi s \<le> INT32_MAX"
  by (auto simp: c_atoi_def Let_def INT32_MIN_def INT32_MAX_def split: list.splits prod.splits)

lemma length_dec_of_int:
  "INT32_MIN \<le> i \<Longrightarrow> i \<le> INT32_MAX \<Longrightarrow> length (dec_of_int i) \<le> 11"
proof -
  assume lo: "INT32_MIN \<le> i" and hi: "i \<le> INT32_MAX"
  have "nat (- i) < 10 ^ Suc 9" and "nat i < 10 ^ Suc 9"
    using lo hi by (simp_all add: INT32_MIN_def INT32_MAX_def)
  then have "length (dec_of_nat (nat (- i))) \<le> Suc 9" "length (dec_of_nat (nat i)) \<le> Suc 9"
    by (simp_all only: length_dec_of_nat)
  then show ?thesis by (simp add: dec_of_int_def)
qed

section \<open>Formatting\<close>

lemma format_s_length:
  "xs = pre @ CHR ''%'' # CHR ''s'' # post \<Longrightarrow> CHR ''%'' \<notin> set pre \<Longrightarrow>
   format_s xs a = pre @ a @ post"
proof (induction pre arbitrary: xs)
  case Nil
  then show ?case by simp
next
  case (Cons c pre)
  then show ?case by (cases pre) auto
qed

lemma c_snprintf_fits [simp]: "length s < n \<Longrightarrow> c_snprintf n s = s"
  by (simp add: c_snprintf_def)

end
