(* ===== verification/Mqtt.thy ===== *)
theory Mqtt
  imports Prelude
begin

text \<open>
  Model of \<open>src/main/aug_mqtt_client.c\<close>, the MQTT client wrapper. Its statics are the
  record \<open>mqtt_module\<close>: the broker URI buffer \<open>uri_str\<close>, whether the client
  configuration points at it, the client handle and the \<open>is_connected\<close> flag that the
  client's event handler keeps. The esp-mqtt library is a collaborator outside the
  repository; the model keeps the part of its state the wrapper's results depend on:
  whether the client task has been started (\<open>client_running\<close>) and the URI the client
  uses. Per the library's contract, \<open>esp_mqtt_client_start\<close> refuses a started client,
  \<open>esp_mqtt_client_stop\<close> refuses one that is not started, and both refuse a \<open>NULL\<close>
  handle.
\<close>

section \<open>State and library\<close>

text \<open>The events of the client that \<open>mqtt_event_handler\<close> distinguishes.\<close>

datatype mqtt_event =
    MQTT_EVENT_CONNECTED
  | MQTT_EVENT_DISCONNECTED
  | MQTT_EVENT_SUBSCRIBED
  | MQTT_EVENT_UNSUBSCRIBED
  | MQTT_EVENT_PUBLISHED
  | MQTT_EVENT_DATA
  | MQTT_EVENT_ERROR
  | MQTT_EVENT_OTHER

text \<open>
  The outcomes of the library calls that depend on the outside world: whether
  \<open>esp_mqtt_client_init\<close> allocates a client, the result of registering the handler and
  of destroying the client, and which URIs \<open>esp_mqtt_client_set_uri\<close> parses.
\<close>

record mqtt_env =
  client_init_ok :: bool
  register_ret :: esp_err
  destroy_ret :: esp_err
  uri_parses :: "string \<Rightarrow> bool"

record mqtt_module =
  uri_str :: string
  config_uri_set :: bool
  mqtt_client_handle :: bool
  client_running :: bool
  client_uri :: string
  is_connected :: bool

definition mqtt_module_init :: mqtt_module where
  "mqtt_module_init =
     \<lparr>uri_str = [], config_uri_set = False, mqtt_client_handle = False, client_running = False,
      client_uri = [], is_connected = False\<rparr>"

text \<open>The library calls, on the client state.\<close>

definition esp_mqtt_client_start :: "mqtt_module \<Rightarrow> esp_err \<times> mqtt_module" where
  "esp_mqtt_client_start s =
     (if \<not> mqtt_client_handle s then (ESP_ERR_INVALID_ARG, s)
      else if client_running s then (ESP_FAIL, s)
      else (ESP_OK, s\<lparr>client_running := True\<rparr>))"

definition esp_mqtt_client_stop :: "mqtt_module \<Rightarrow> esp_err \<times> mqtt_module" where
  "esp_mqtt_client_stop s =
     (if \<not> mqtt_client_handle s then (ESP_ERR_INVALID_ARG, s)
      else if \<not> client_running s then (ESP_FAIL, s)
      else (ESP_OK, s\<lparr>client_running := False\<rparr>))"

definition esp_mqtt_client_set_uri :: "mqtt_env \<Rightarrow> string \<Rightarrow> mqtt_module \<Rightarrow> esp_err \<times> mqtt_module" where
  "esp_mqtt_client_set_uri env u s =
     (if \<not> mqtt_client_handle s then (ESP_ERR_INVALID_ARG, s)
      else if \<not> uri_parses env u then (ESP_FAIL, s)
      else (ESP_OK, s\<lparr>client_uri := u\<rparr>))"

section \<open>The wrapper\<close>

text \<open>\<open>mqtt_event_handler\<close>: only the connection events change the module.\<close>

fun mqtt_event_handler :: "mqtt_module \<Rightarrow> mqtt_event \<Rightarrow> mqtt_module" where
  "mqtt_event_handler s MQTT_EVENT_CONNECTED = s\<lparr>is_connected := True\<rparr>"
| "mqtt_event_handler s MQTT_EVENT_DISCONNECTED = s\<lparr>is_connected := False\<rparr>"
| "mqtt_event_handler s _ = s"

text \<open>
  \<open>aug_mqtt_init\<close>: create the client from \<open>mqtt_config\<close> (its URI is \<open>uri_str\<close> once
  \<open>main_init\<close> has pointed the configuration at the buffer) and register the handler.
\<close>

definition aug_mqtt_init :: "mqtt_env \<Rightarrow> mqtt_module \<Rightarrow> esp_err \<times> mqtt_module" where
  "aug_mqtt_init env s =
     (if \<not> client_init_ok env then (ESP_FAIL, s\<lparr>mqtt_client_handle := False, client_running := False\<rparr>)
      else let s1 = s\<lparr>mqtt_client_handle := True, client_running := False,
                      client_uri := (if config_uri_set s then uri_str s else [])\<rparr> in
      aug_return_check (register_ret env, s1) (\<lambda>s2. (ESP_OK, s2)))"

definition aug_mqtt_deinit :: "mqtt_env \<Rightarrow> mqtt_module \<Rightarrow> esp_err \<times> mqtt_module" where
  "aug_mqtt_deinit env s =
     aug_return_check
       (if \<not> mqtt_client_handle s then ESP_ERR_INVALID_ARG else destroy_ret env, s)
       (\<lambda>s1. (ESP_OK, s1\<lparr>mqtt_client_handle := False, client_running := False, is_connected := False\<rparr>))"

definition aug_mqtt_start :: "mqtt_module \<Rightarrow> esp_err \<times> mqtt_module" where
  "aug_mqtt_start s = esp_mqtt_client_start s"

definition aug_mqtt_stop :: "mqtt_module \<Rightarrow> esp_err \<times> mqtt_module" where
  "aug_mqtt_stop s = esp_mqtt_client_stop s"

text \<open>\<open>aug_mqtt_set_uri\<close>: stop the client, give it the buffer's URI, start it again.\<close>

definition aug_mqtt_set_uri :: "mqtt_env \<Rightarrow> mqtt_module \<Rightarrow> esp_err \<times> mqtt_module" where
  "aug_mqtt_set_uri env s =
     aug_return_check (esp_mqtt_client_stop s) (\<lambda>s1.
     aug_return_check (esp_mqtt_client_set_uri env (uri_str s1) s1) (\<lambda>s2.
     aug_return_check (esp_mqtt_client_start s2) (\<lambda>s3. (ESP_OK, s3))))"

text \<open>
  \<open>aug_mqtt_get_uri\<close> hands out the buffer with \<open>MQTT_MAX_URI_LEN\<close> as its length (the
  array has one byte more, which stays \<open>NUL\<close>).
\<close>

definition aug_mqtt_get_uri :: "nat \<Rightarrow> mqtt_module \<Rightarrow> string \<times> nat" where
  "aug_mqtt_get_uri max_uri_len s = (uri_str s, max_uri_len)"

definition aug_mqtt_set_default_uri :: "string \<Rightarrow> mqtt_module \<Rightarrow> mqtt_module" where
  "aug_mqtt_set_default_uri default_uri s = s\<lparr>uri_str := default_uri\<rparr>"

text \<open>\<open>aug_mqtt_publish_str\<close> discards the message id, so it reports success even when the
  library refuses the message.\<close>

definition aug_mqtt_publish_str :: "mqtt_module \<Rightarrow> esp_err" where
  "aug_mqtt_publish_str s = ESP_OK"

definition aug_mqtt_is_init :: "mqtt_module \<Rightarrow> bool" where
  "aug_mqtt_is_init s = mqtt_client_handle s"

definition aug_mqtt_is_connected :: "mqtt_module \<Rightarrow> bool" where
  "aug_mqtt_is_connected s = is_connected s"

section \<open>Observations\<close>

text \<open>A running client has a handle: every operation keeps this.\<close>

definition mqtt_inv :: "mqtt_module \<Rightarrow> bool" where
  "mqtt_inv s \<longleftrightarrow> (client_running s \<longrightarrow> mqtt_client_handle s)"

text \<open>A started client, for evaluating the statements.\<close>

definition mqtt_started_example :: mqtt_module where
  "mqtt_started_example = mqtt_module_init\<lparr>uri_str := ''mqtt://b'', mqtt_client_handle := True,
     client_running := True\<rparr>"

section \<open>Properties\<close>

lemma esp_mqtt_client_frame [simp]:
  "uri_str (snd (esp_mqtt_client_start s)) = uri_str s"
  "uri_str (snd (esp_mqtt_client_stop s)) = uri_str s"
  "uri_str (snd (esp_mqtt_client_set_uri env u s)) = uri_str s"
  "mqtt_client_handle (snd (esp_mqtt_client_start s)) = mqtt_client_handle s"
  "mqtt_client_handle (snd (esp_mqtt_client_stop s)) = mqtt_client_handle s"
  "mqtt_client_handle (snd (esp_mqtt_client_set_uri env u s)) = mqtt_client_handle s"
  "is_connected (snd (esp_mqtt_client_start s)) = is_connected s"
  "is_connected (snd (esp_mqtt_client_stop s)) = is_connected s"
  "is_connected (snd (esp_mqtt_client_set_uri env u s)) = is_connected s"
  by (simp_all add: esp_mqtt_client_start_def esp_mqtt_client_stop_def esp_mqtt_client_set_uri_def)

lemma mqtt_inv_lib:
  "mqtt_inv s \<Longrightarrow> mqtt_inv (snd (esp_mqtt_client_start s))"
  "mqtt_inv s \<Longrightarrow> mqtt_inv (snd (esp_mqtt_client_stop s))"
  "mqtt_inv s \<Longrightarrow> mqtt_inv (snd (esp_mqtt_client_set_uri env u s))"
  by (auto simp: mqtt_inv_def esp_mqtt_client_start_def esp_mqtt_client_stop_def
      esp_mqtt_client_set_uri_def)

lemma mqtt_inv_ops:
  "mqtt_inv s \<Longrightarrow> mqtt_inv (snd (aug_mqtt_init env s))"
  "mqtt_inv s \<Longrightarrow> mqtt_inv (snd (aug_mqtt_deinit env s))"
  "mqtt_inv s \<Longrightarrow> mqtt_inv (mqtt_event_handler s ev)"
  "mqtt_inv s \<Longrightarrow> mqtt_inv (aug_mqtt_set_default_uri u s)"
  "mqtt_inv mqtt_module_init"
  subgoal by (simp add: mqtt_inv_def aug_mqtt_init_def aug_return_check_def Let_def)
  subgoal by (simp add: mqtt_inv_def aug_mqtt_deinit_def aug_return_check_def)
  subgoal by (cases ev) (simp_all add: mqtt_inv_def)
  subgoal by (simp add: mqtt_inv_def aug_mqtt_set_default_uri_def)
  subgoal by (simp add: mqtt_inv_def mqtt_module_init_def)
  done

lemma aug_mqtt_set_uri_inv: "mqtt_inv s \<Longrightarrow> mqtt_inv (snd (aug_mqtt_set_uri env s))"
  by (simp add: aug_mqtt_set_uri_def aug_return_check_def mqtt_inv_lib)

text \<open>
  C38: \<open>aug_mqtt_set_uri\<close> on a client that was never started (or has been stopped)
  fails with \<open>ESP_FAIL\<close> at its first call and changes nothing: the new URI is not
  applied, and the caller's \<open>ESP_ERROR_CHECK\<close> turns this into a reset.
\<close>

theorem set_uri_needs_running_client:
  "mqtt_client_handle s \<Longrightarrow> \<not> client_running s \<Longrightarrow> aug_mqtt_set_uri env s = (ESP_FAIL, s)"
  by (simp add: aug_mqtt_set_uri_def esp_mqtt_client_stop_def)

text \<open>
  On a running client and a URI the library accepts, \<open>aug_mqtt_set_uri\<close> succeeds,
  the client uses the buffer's URI and runs again; with a URI it rejects, it fails with
  the client stopped.
\<close>

theorem set_uri_running:
  assumes "mqtt_client_handle s" and "client_running s"
  shows "aug_mqtt_set_uri env s =
           (if uri_parses env (uri_str s) then (ESP_OK, s\<lparr>client_uri := uri_str s\<rparr>)
            else (ESP_FAIL, s\<lparr>client_running := False\<rparr>))"
  using assms
  by (simp add: aug_mqtt_set_uri_def esp_mqtt_client_stop_def esp_mqtt_client_set_uri_def
      esp_mqtt_client_start_def)

section \<open>Witnesses\<close>

theorem set_uri_needs_running_client_witness:
  "mqtt_client_handle (mqtt_started_example\<lparr>client_running := False\<rparr>)
   \<and> \<not> client_running (mqtt_started_example\<lparr>client_running := False\<rparr>)
   \<and> aug_mqtt_set_uri \<lparr>client_init_ok = True, register_ret = ESP_OK, destroy_ret = ESP_OK,
        uri_parses = (\<lambda>_. True)\<rparr> (mqtt_started_example\<lparr>client_running := False\<rparr>)
     = (ESP_FAIL, mqtt_started_example\<lparr>client_running := False\<rparr>)"
  using set_uri_needs_running_client [of "mqtt_started_example\<lparr>client_running := False\<rparr>"]
  by (simp add: mqtt_started_example_def mqtt_module_init_def)

theorem set_uri_running_witness:
  "mqtt_client_handle mqtt_started_example \<and> client_running mqtt_started_example
   \<and> fst (aug_mqtt_set_uri \<lparr>client_init_ok = True, register_ret = ESP_OK, destroy_ret = ESP_OK,
        uri_parses = (\<lambda>_. True)\<rparr> mqtt_started_example) = ESP_OK"
  using set_uri_running [of mqtt_started_example]
  by (simp add: mqtt_started_example_def mqtt_module_init_def)

end
