(* ===== verification/HttpOptions.thy ===== *)
theory HttpOptions
  imports CLib WifiConfig Mqtt
begin

text \<open>
  Model of the configuration half of \<open>src/main/aug_http_server.c\<close>: reading options from
  a request's query string into the station configuration and the broker URI, and the
  handlers of \<open>/set_options/sta\<close>, \<open>/set_options/mqtt\<close>, \<open>/init/sta\<close>,
  \<open>/init/mqtt\<close> and \<open>/restart\<close>. A handler's effects are its code, the responses it
  sends on the request (a list: the code can send more than one), the events it posts
  to the application loop and the configuration it writes.

  The query string's wire format belongs to the HTTP server library: a query is the list
  of its key/value pairs, and \<open>httpd_query_key_value\<close> finds the first pair with the key
  and copies the value into a buffer, reporting \<open>ESP_ERR_HTTPD_RESULT_TRUNC\<close> when the
  value and its \<open>NUL\<close> do not fit.
\<close>

section \<open>Requests and responses\<close>

datatype http_status =
    HTTP_200_SUCCESS
  | HTTP_400_BAD_REQUEST
  | HTTP_500_INTERNAL_SERVER_ERROR

type_synonym response = "http_status \<times> string"

type_synonym query = "(string \<times> string) list"

text \<open>The events of \<open>AUG_HTTP_SERVER_EVENTS\<close> (\<open>aug_http_server.h\<close>).\<close>

datatype http_event =
    AUG_HTTP_SERVER_EVENT_INIT_STA
  | AUG_HTTP_SERVER_EVENT_INIT_MQTT
  | AUG_HTTP_SERVER_EVENT_OTA_UPDATE
  | AUG_HTTP_SERVER_EVENT_RESTART

text \<open>
  The results of the server calls a handler makes that do not depend on the firmware:
  reading the query string, sending a response, posting to the application loop.
\<close>

record http_env =
  query_ret :: esp_err
  send_ret :: esp_err
  post_ret :: esp_err

definition crlf :: string where
  "crlf = [CHR 0x0D, CHR 0x0A]"

definition httpd_query_key_value :: "query \<Rightarrow> string \<Rightarrow> nat \<Rightarrow> esp_err \<times> string" where
  "httpd_query_key_value q key buf_len =
     (case map_of q key of
        None \<Rightarrow> (ESP_ERR_NOT_FOUND, [])
      | Some v \<Rightarrow> if length v < buf_len then (ESP_OK, v)
                  else (ESP_ERR_HTTPD_RESULT_TRUNC, take (buf_len - 1) v))"

text \<open>\<open>send_bad_request_msg\<close>: the message with the option's name, in a buffer of
  \<open>msg_len + option_len + 1\<close> bytes, as a 400 response.\<close>

definition send_bad_request_msg :: "string \<Rightarrow> nat \<Rightarrow> string \<Rightarrow> nat \<Rightarrow> response" where
  "send_bad_request_msg msg msg_len option_str option_len =
     (let total_size = msg_len + option_len + 1 in
      (HTTP_400_BAD_REQUEST, c_snprintf total_size (format_s msg option_str)))"

definition send_unexpected_error :: response where
  "send_unexpected_error = (HTTP_500_INTERNAL_SERVER_ERROR, ''<div>Unexpected error</div>'' @ crlf)"

definition LENGTH_MSG :: string where
  "LENGTH_MSG = ''<div>The %s length exceeds the limit</div>'' @ crlf"

definition INVALID_MSG :: string where
  "INVALID_MSG = ''<div>The %s has invalid value</div>'' @ crlf"

text \<open>\<open>sizeof(msg) - 2\<close>: the literal with its \<open>NUL\<close>, less the two characters of \<open>%s\<close>.\<close>

definition bad_request :: "string \<Rightarrow> string \<Rightarrow> response" where
  "bad_request msg option_str =
     send_bad_request_msg msg (c_sizeof_str msg - 2) option_str (length option_str)"

section \<open>Reading one option\<close>

text \<open>
  Each setter returns its code, the option's value afterwards (unchanged unless the
  option was present and valid) and the responses it sent.
\<close>

definition set_str_value :: "query \<Rightarrow> string \<Rightarrow> nat \<Rightarrow> string \<Rightarrow> esp_err \<times> string \<times> response list" where
  "set_str_value q option_str buffer_size old =
     (let (result, buffer) = httpd_query_key_value q option_str buffer_size in
      if result = ESP_ERR_HTTPD_RESULT_TRUNC
        then (ESP_ERR_HTTPD_RESULT_TRUNC, old, [bad_request LENGTH_MSG option_str])
      else if result = ESP_ERR_NOT_FOUND then (ESP_OK, old, [])
      else if result = ESP_OK then (ESP_OK, buffer, [])
      else (result, old, [send_unexpected_error]))"

definition max_int_chars :: nat where "max_int_chars = 24"

definition set_int_value :: "query \<Rightarrow> string \<Rightarrow> int \<Rightarrow> esp_err \<times> int \<times> response list" where
  "set_int_value q option_str old =
     (let (result, buffer) = httpd_query_key_value q option_str max_int_chars in
      if result = ESP_ERR_HTTPD_RESULT_TRUNC
        then (ESP_ERR_HTTPD_RESULT_TRUNC, old, [bad_request LENGTH_MSG option_str])
      else if result = ESP_ERR_NOT_FOUND then (ESP_OK, old, [])
      else if result = ESP_OK then (ESP_OK, c_atoi buffer, [])
      else (result, old, [send_unexpected_error]))"

definition set_auth_enum_value ::
  "query \<Rightarrow> string \<Rightarrow> wifi_auth_mode_t \<Rightarrow> esp_err \<times> wifi_auth_mode_t \<times> response list" where
  "set_auth_enum_value q option_str old =
     (let (result, buffer) = httpd_query_key_value q option_str aug_get_auth_mode_size in
      if result = ESP_ERR_HTTPD_RESULT_TRUNC
        then (ESP_ERR_HTTPD_RESULT_TRUNC, old, [bad_request LENGTH_MSG option_str])
      else if result = ESP_ERR_NOT_FOUND then (ESP_OK, old, [])
      else if result = ESP_OK then
        (case aug_str_to_auth_mode buffer (length buffer) of
           None \<Rightarrow> (ESP_FAIL, old, [bad_request INVALID_MSG option_str])
         | Some m \<Rightarrow> (ESP_OK, m, []))
      else (result, old, [send_unexpected_error]))"

definition set_sae_mode_enum_value ::
  "query \<Rightarrow> string \<Rightarrow> wifi_sae_pwe_method_t \<Rightarrow> esp_err \<times> wifi_sae_pwe_method_t \<times> response list" where
  "set_sae_mode_enum_value q option_str old =
     (let (result, buffer) = httpd_query_key_value q option_str aug_get_sae_mode_size in
      if result = ESP_ERR_HTTPD_RESULT_TRUNC
        then (ESP_ERR_HTTPD_RESULT_TRUNC, old, [bad_request LENGTH_MSG option_str])
      else if result = ESP_ERR_NOT_FOUND then (ESP_OK, old, [])
      else if result = ESP_OK then
        (case aug_str_to_sae_mode buffer (length buffer) of
           None \<Rightarrow> (ESP_FAIL, old, [bad_request INVALID_MSG option_str])
         | Some m \<Rightarrow> (ESP_OK, m, []))
      else (result, old, [send_unexpected_error]))"

text \<open>
  A setter writes through its pointer into the configuration: apply the value to the
  state and add the responses to the request's, keeping the setter's code for
  \<open>AUG_RETURN_CHECK\<close>.
\<close>

definition with_setter ::
  "esp_err \<times> 'v \<times> response list \<Rightarrow> ('v \<Rightarrow> 's \<Rightarrow> 's) \<Rightarrow> 's \<times> response list \<Rightarrow>
   esp_err \<times> ('s \<times> response list)" where
  "with_setter r upd st = (fst r, (upd (fst (snd r)) (fst st), snd st @ snd (snd r)))"

section \<open>The station options\<close>

definition upd_sta :: "(wifi_sta_config_t \<Rightarrow> wifi_sta_config_t) \<Rightarrow> aug_wifi_sta_config_t \<Rightarrow> aug_wifi_sta_config_t" where
  "upd_sta f c = c\<lparr>sta_wifi_config := f (sta_wifi_config c)\<rparr>"

text \<open>
  \<open>set_sta_options\<close>: SSID, password, retry bound, authentication threshold and SAE
  mode, each behind \<open>AUG_RETURN_CHECK\<close>, then the password identifier if the SAE
  mode, as it now is, uses hash-to-element.
\<close>

definition set_sta_options ::
  "query \<Rightarrow> aug_wifi_sta_config_t \<Rightarrow> esp_err \<times> (aug_wifi_sta_config_t \<times> response list)" where
  "set_sta_options q cfg =
     aug_return_check (with_setter (set_str_value q ''ssid'' SSID_SIZE (sta_ssid (sta_wifi_config cfg)))
                         (\<lambda>v. upd_sta (\<lambda>w. w\<lparr>sta_ssid := v\<rparr>)) (cfg, [])) (\<lambda>st1.
     aug_return_check (with_setter (set_str_value q ''password'' PASSWORD_SIZE
                                      (sta_password (sta_wifi_config (fst st1))))
                         (\<lambda>v. upd_sta (\<lambda>w. w\<lparr>sta_password := v\<rparr>)) st1) (\<lambda>st2.
     aug_return_check (with_setter (set_int_value q ''max_retry'' (max_retry (fst st2)))
                         (\<lambda>v c. c\<lparr>max_retry := v\<rparr>) st2) (\<lambda>st3.
     aug_return_check (with_setter (set_auth_enum_value q ''auth_mode''
                                      (sta_threshold_authmode (sta_wifi_config (fst st3))))
                         (\<lambda>v. upd_sta (\<lambda>w. w\<lparr>sta_threshold_authmode := v\<rparr>)) st3) (\<lambda>st4.
     aug_return_check (with_setter (set_sae_mode_enum_value q ''sae_mode''
                                      (sta_sae_pwe_h2e (sta_wifi_config (fst st4))))
                         (\<lambda>v. upd_sta (\<lambda>w. w\<lparr>sta_sae_pwe_h2e := v\<rparr>)) st4) (\<lambda>st5.
     if sta_sae_pwe_h2e (sta_wifi_config (fst st5)) = WPA3_SAE_PWE_HASH_TO_ELEMENT
        \<or> sta_sae_pwe_h2e (sta_wifi_config (fst st5)) = WPA3_SAE_PWE_BOTH then
       aug_return_check (with_setter (set_str_value q ''password_id'' SAE_H2E_IDENTIFIER_LEN
                                        (sta_sae_h2e_identifier (sta_wifi_config (fst st5))))
                           (\<lambda>v. upd_sta (\<lambda>w. w\<lparr>sta_sae_h2e_identifier := v\<rparr>)) st5) (\<lambda>st6.
       (ESP_OK, st6))
     else (ESP_OK, st5))))))"

definition options_set_msg :: string where
  "options_set_msg = ''<div>Options are set</div>'' @ crlf"

text \<open>
  \<open>set_options_sta_handler\<close>: read the query, apply it to the module's configuration
  (through the pointer \<open>aug_wifi_sta_get_config\<close> returns), answer.
\<close>

definition set_options_sta_handler ::
  "http_env \<Rightarrow> query \<Rightarrow> aug_wifi_sta_config_t \<Rightarrow> esp_err \<times> aug_wifi_sta_config_t \<times> response list" where
  "set_options_sta_handler env q cfg =
     (if query_ret env \<noteq> ESP_OK then (ESP_FAIL, cfg, [send_unexpected_error])
      else let (e, cfg', rs) = set_sta_options q cfg in
           if e \<noteq> ESP_OK then (ESP_FAIL, cfg', rs @ [send_unexpected_error])
           else (send_ret env, cfg', rs @ [(HTTP_200_SUCCESS, options_set_msg)]))"

section \<open>The broker URI\<close>

definition set_options_mqtt :: "query \<Rightarrow> string \<times> nat \<Rightarrow> esp_err \<times> string \<times> response list" where
  "set_options_mqtt q mqtt_uri =
     (let (e, v, rs) = set_str_value q ''uri'' (snd mqtt_uri) (fst mqtt_uri) in
      if e \<noteq> ESP_OK then (e, v, rs) else (ESP_OK, v, rs))"

text \<open>The handler writes into the module's buffer \<open>uri_str\<close>.\<close>

definition set_options_mqtt_handler ::
  "http_env \<Rightarrow> nat \<Rightarrow> query \<Rightarrow> mqtt_module \<Rightarrow> esp_err \<times> mqtt_module \<times> response list" where
  "set_options_mqtt_handler env max_uri_len q m =
     (if query_ret env \<noteq> ESP_OK then (ESP_FAIL, m, [send_unexpected_error])
      else let (e, u, rs) = set_options_mqtt q (aug_mqtt_get_uri max_uri_len m);
               m' = m\<lparr>uri_str := u\<rparr> in
           if e \<noteq> ESP_OK then (ESP_FAIL, m', rs @ [send_unexpected_error])
           else (send_ret env, m', rs @ [(HTTP_200_SUCCESS, options_set_msg)]))"

section \<open>Activation requests\<close>

text \<open>The report of \<open>send_sta_info\<close>, before and after the values are inserted.\<close>

definition sta_info_str :: string where
  "sta_info_str =
     ''<div>Trying to connect to sta with options:<br>'' @ crlf @ ''ssid: <br>'' @ crlf @
     ''password: <br>'' @ crlf @ ''max retries: <br>'' @ crlf @ ''auth mode: <br>'' @ crlf @
     ''sae mode: <br>'' @ crlf @ ''password id: </div><br>'' @ crlf"

definition sta_info_text :: "string \<Rightarrow> string \<Rightarrow> int \<Rightarrow> string \<Rightarrow> string \<Rightarrow> string \<Rightarrow> string" where
  "sta_info_text ssid password retries auth sae pw_id =
     ''<div>Trying to connect to sta with options:<br>'' @ crlf @ ''ssid: '' @ ssid @ ''<br>'' @ crlf @
     ''password: '' @ password @ ''<br>'' @ crlf @ ''max retries: '' @ dec_of_int retries @ ''<br>'' @ crlf @
     ''auth mode: '' @ auth @ ''<br>'' @ crlf @ ''sae mode: '' @ sae @ ''<br>'' @ crlf @
     ''password id: '' @ pw_id @ ''</div><br>'' @ crlf"

definition sta_info_max_size :: nat where
  "sta_info_max_size = SSID_SIZE + PASSWORD_SIZE + max_int_chars + aug_get_auth_mode_size
                       + aug_get_sae_mode_size + SAE_H2E_IDENTIFIER_LEN + c_sizeof_str sta_info_str"

definition send_sta_info :: "http_env \<Rightarrow> aug_wifi_sta_config_t \<Rightarrow> esp_err \<times> response list" where
  "send_sta_info env cfg =
     (case aug_auth_mode_to_str (sta_threshold_authmode (sta_wifi_config cfg)) aug_get_auth_mode_size of
        Inl _ \<Rightarrow> (ESP_FAIL, [send_unexpected_error])
      | Inr auth \<Rightarrow>
     (case aug_sae_mode_to_str (sta_sae_pwe_h2e (sta_wifi_config cfg)) aug_get_sae_mode_size of
        Inl _ \<Rightarrow> (ESP_FAIL, [send_unexpected_error])
      | Inr sae \<Rightarrow>
          (send_ret env,
           [(HTTP_200_SUCCESS,
             c_snprintf sta_info_max_size
               (sta_info_text (sta_ssid (sta_wifi_config cfg)) (sta_password (sta_wifi_config cfg))
                  (max_retry cfg) auth sae (sta_sae_h2e_identifier (sta_wifi_config cfg))))])))"

text \<open>
  \<open>init_sta_handler\<close>: report the configuration, then post \<open>INIT_STA\<close> (waiting for
  room in the queue). The result also lists the events posted.
\<close>

definition init_sta_handler ::
  "http_env \<Rightarrow> aug_wifi_sta_config_t \<Rightarrow> esp_err \<times> response list \<times> http_event list" where
  "init_sta_handler env cfg =
     (let (e, rs) = send_sta_info env cfg in
      if e \<noteq> ESP_OK then (ESP_FAIL, rs @ [send_unexpected_error], [])
      else if post_ret env \<noteq> ESP_OK then (ESP_FAIL, rs @ [send_unexpected_error], [])
      else (ESP_OK, rs, [AUG_HTTP_SERVER_EVENT_INIT_STA]))"

definition mqtt_info_str :: string where
  "mqtt_info_str = ''<div>Trying to connect to mqtt broker with options:<br>'' @ crlf @ ''URI: </div><br>'' @ crlf"

definition send_mqtt_info :: "http_env \<Rightarrow> string \<times> nat \<Rightarrow> esp_err \<times> response list" where
  "send_mqtt_info env mqtt_uri =
     (send_ret env,
      [(HTTP_200_SUCCESS,
        c_snprintf (snd mqtt_uri + c_sizeof_str mqtt_info_str + 1)
          (''<div>Trying to connect to mqtt broker with options:<br>'' @ crlf @ ''URI: '' @ fst mqtt_uri
           @ ''</div><br>'' @ crlf))])"

definition init_mqtt_handler ::
  "http_env \<Rightarrow> nat \<Rightarrow> mqtt_module \<Rightarrow> esp_err \<times> response list \<times> http_event list" where
  "init_mqtt_handler env max_uri_len m =
     (let (e, rs) = send_mqtt_info env (aug_mqtt_get_uri max_uri_len m) in
      if e \<noteq> ESP_OK then (ESP_FAIL, rs @ [send_unexpected_error], [])
      else if post_ret env \<noteq> ESP_OK then (ESP_FAIL, rs @ [send_unexpected_error], [])
      else (ESP_OK, rs, [AUG_HTTP_SERVER_EVENT_INIT_MQTT]))"

definition restart_handler :: "http_env \<Rightarrow> esp_err \<times> response list \<times> http_event list" where
  "restart_handler env =
     (if post_ret env \<noteq> ESP_OK then (ESP_FAIL, [send_unexpected_error], [])
      else (send_ret env, [(HTTP_200_SUCCESS, ''<div>Rebooting...</div>'' @ crlf)],
            [AUG_HTTP_SERVER_EVENT_RESTART]))"

section \<open>The options a query asks for\<close>

text \<open>
  The abstract reading of a query: a present option replaces the field, a mode is looked
  up in the firmware's table read as a map, and the password identifier counts only
  under a hash-to-element SAE mode. A query is valid when every option it carries fits
  its buffer with the \<open>NUL\<close> and every mode is in the table.
\<close>

definition opt_or :: "query \<Rightarrow> string \<Rightarrow> (string \<Rightarrow> 'a) \<Rightarrow> 'a \<Rightarrow> 'a" where
  "opt_or q k f old = (case map_of q k of None \<Rightarrow> old | Some v \<Rightarrow> f v)"

definition opt_ok :: "query \<Rightarrow> string \<Rightarrow> (string \<Rightarrow> bool) \<Rightarrow> bool" where
  "opt_ok q k P = (case map_of q k of None \<Rightarrow> True | Some v \<Rightarrow> P v)"

definition table_lookup :: "string list \<Rightarrow> 'a list \<Rightarrow> string \<Rightarrow> 'a \<Rightarrow> 'a" where
  "table_lookup ss ms v old = (case map_of (zip ss ms) v of None \<Rightarrow> old | Some m \<Rightarrow> m)"

definition sta_options_valid :: "query \<Rightarrow> bool" where
  "sta_options_valid q \<longleftrightarrow>
     opt_ok q ''ssid'' (\<lambda>v. length v < SSID_SIZE)
     \<and> opt_ok q ''password'' (\<lambda>v. length v < PASSWORD_SIZE)
     \<and> opt_ok q ''max_retry'' (\<lambda>v. length v < max_int_chars)
     \<and> opt_ok q ''auth_mode'' (\<lambda>v. v \<in> set AUG_AUTH_MODES_STR)
     \<and> opt_ok q ''sae_mode'' (\<lambda>v. v \<in> set AUG_SAE_MODES_STR)
     \<and> opt_ok q ''password_id'' (\<lambda>v. length v < SAE_H2E_IDENTIFIER_LEN)"

definition sta_options_apply :: "query \<Rightarrow> aug_wifi_sta_config_t \<Rightarrow> aug_wifi_sta_config_t" where
  "sta_options_apply q cfg =
     (let w = sta_wifi_config cfg;
          sae = opt_or q ''sae_mode''
                  (\<lambda>v. table_lookup AUG_SAE_MODES_STR AUG_SAE_MODES_ENUM v (sta_sae_pwe_h2e w))
                  (sta_sae_pwe_h2e w)
      in cfg\<lparr>sta_wifi_config := w\<lparr>
            sta_ssid := opt_or q ''ssid'' id (sta_ssid w),
            sta_password := opt_or q ''password'' id (sta_password w),
            sta_threshold_authmode := opt_or q ''auth_mode''
              (\<lambda>v. table_lookup AUG_AUTH_MODES_STR AUG_AUTH_MODES_ENUM v (sta_threshold_authmode w))
              (sta_threshold_authmode w),
            sta_sae_pwe_h2e := sae,
            sta_sae_h2e_identifier :=
              (if sae = WPA3_SAE_PWE_HASH_TO_ELEMENT \<or> sae = WPA3_SAE_PWE_BOTH
               then opt_or q ''password_id'' id (sta_sae_h2e_identifier w)
               else sta_sae_h2e_identifier w)\<rparr>,
          max_retry := opt_or q ''max_retry'' c_atoi (max_retry cfg)\<rparr>)"

text \<open>A request environment in which every server call succeeds.\<close>

definition http_env_ok :: http_env where
  "http_env_ok = \<lparr>query_ret = ESP_OK, send_ret = ESP_OK, post_ret = ESP_OK\<rparr>"

section \<open>Setters on valid options\<close>

lemma with_setter_ok [simp]: "with_setter (ESP_OK, v, []) upd (c, rs) = (ESP_OK, (upd v c, rs))"
  by (simp add: with_setter_def)

lemma set_str_value_valid:
  "opt_ok q k (\<lambda>v. length v < n) \<Longrightarrow> set_str_value q k n old = (ESP_OK, opt_or q k id old, [])"
  by (auto simp: set_str_value_def httpd_query_key_value_def opt_ok_def opt_or_def split: option.splits)

lemma set_int_value_valid:
  "opt_ok q k (\<lambda>v. length v < max_int_chars) \<Longrightarrow>
   set_int_value q k old = (ESP_OK, opt_or q k c_atoi old, [])"
  by (auto simp: set_int_value_def httpd_query_key_value_def opt_ok_def opt_or_def split: option.splits)

lemma table_entry_fits:
  "v \<in> set AUG_AUTH_MODES_STR \<Longrightarrow> length v < aug_get_auth_mode_size"
  "v \<in> set AUG_SAE_MODES_STR \<Longrightarrow> length v < aug_get_sae_mode_size"
  using auth_tables_wf(4) sae_tables_wf(4)
  by (fastforce simp: aug_get_auth_mode_size_def aug_get_sae_mode_size_def c_sizeof_str_def)+

lemma set_auth_enum_value_valid:
  "opt_ok q k (\<lambda>v. v \<in> set AUG_AUTH_MODES_STR) \<Longrightarrow>
   set_auth_enum_value q k old =
     (ESP_OK, opt_or q k (\<lambda>v. table_lookup AUG_AUTH_MODES_STR AUG_AUTH_MODES_ENUM v old) old, [])"
proof -
  assume ok: "opt_ok q k (\<lambda>v. v \<in> set AUG_AUTH_MODES_STR)"
  have lk: "v \<in> set AUG_AUTH_MODES_STR \<Longrightarrow>
            \<exists>m. aug_str_to_auth_mode v (length v) = Some m
                 \<and> table_lookup AUG_AUTH_MODES_STR AUG_AUTH_MODES_ENUM v old = m" for v
    using auth_tables_wf(3)
    by (auto simp: aug_str_to_auth_mode_def str_to_enum_loop_map_of table_lookup_def map_of_zip_is_None
        split: option.splits)
  show ?thesis
    using ok table_entry_fits(1) lk
    by (fastforce simp: set_auth_enum_value_def httpd_query_key_value_def opt_ok_def opt_or_def
        split: option.splits)
qed

lemma set_sae_mode_enum_value_valid:
  "opt_ok q k (\<lambda>v. v \<in> set AUG_SAE_MODES_STR) \<Longrightarrow>
   set_sae_mode_enum_value q k old =
     (ESP_OK, opt_or q k (\<lambda>v. table_lookup AUG_SAE_MODES_STR AUG_SAE_MODES_ENUM v old) old, [])"
proof -
  assume ok: "opt_ok q k (\<lambda>v. v \<in> set AUG_SAE_MODES_STR)"
  have lk: "v \<in> set AUG_SAE_MODES_STR \<Longrightarrow>
            \<exists>m. aug_str_to_sae_mode v (length v) = Some m
                 \<and> table_lookup AUG_SAE_MODES_STR AUG_SAE_MODES_ENUM v old = m" for v
    using sae_tables_wf(3)
    by (auto simp: aug_str_to_sae_mode_def str_to_enum_loop_map_of table_lookup_def map_of_zip_is_None
        split: option.splits)
  show ?thesis
    using ok table_entry_fits(2) lk
    by (fastforce simp: set_sae_mode_enum_value_def httpd_query_key_value_def opt_ok_def opt_or_def
        split: option.splits)
qed

lemma set_sta_options_valid:
  assumes "sta_options_valid q"
  shows "set_sta_options q cfg = (ESP_OK, (sta_options_apply q cfg, []))"
  using assms unfolding sta_options_valid_def
  by (simp add: set_sta_options_def sta_options_apply_def set_str_value_valid set_int_value_valid
      set_auth_enum_value_valid set_sae_mode_enum_value_valid upd_sta_def Let_def)

lemma length_sta_info_text:
  "length (sta_info_text a b i c d e) =
   length sta_info_str + length a + length b + length (dec_of_int i) + length c + length d + length e"
  by (simp add: sta_info_text_def sta_info_str_def crlf_def)

lemma auth_mode_to_str_table:
  "m \<in> set AUG_AUTH_MODES_ENUM \<Longrightarrow>
   \<exists>a. aug_auth_mode_to_str m aug_get_auth_mode_size = Inr a \<and> length a < aug_get_auth_mode_size"
  using auth_tables_wf enum_to_str_loop_None [of AUG_AUTH_MODES_STR AUG_AUTH_MODES_ENUM m]
    enum_to_str_loop_in_set [of m AUG_AUTH_MODES_STR AUG_AUTH_MODES_ENUM]
  by (fastforce simp: aug_auth_mode_to_str_def aug_get_auth_mode_size_def c_sizeof_str_def
      split: option.splits)

lemma sae_mode_to_str_table:
  "\<exists>a. aug_sae_mode_to_str m aug_get_sae_mode_size = Inr a \<and> length a < aug_get_sae_mode_size"
  using sae_tables_wf set_AUG_SAE_MODES_ENUM enum_to_str_loop_None [of AUG_SAE_MODES_STR AUG_SAE_MODES_ENUM m]
    enum_to_str_loop_in_set [of m AUG_SAE_MODES_STR AUG_SAE_MODES_ENUM]
  by (fastforce simp: aug_sae_mode_to_str_def aug_get_sae_mode_size_def c_sizeof_str_def
      split: option.splits)

section \<open>Setters on rejected options\<close>

text \<open>An option that does not fit its buffer with the \<open>NUL\<close> is refused with a 400.\<close>

lemma set_value_trunc:
  "map_of q k = Some v \<Longrightarrow> n \<le> length v \<Longrightarrow>
   set_str_value q k n old = (ESP_ERR_HTTPD_RESULT_TRUNC, old, [bad_request LENGTH_MSG k])"
  "map_of q k = Some v \<Longrightarrow> max_int_chars \<le> length v \<Longrightarrow>
   set_int_value q k i = (ESP_ERR_HTTPD_RESULT_TRUNC, i, [bad_request LENGTH_MSG k])"
  "map_of q k = Some v \<Longrightarrow> aug_get_auth_mode_size \<le> length v \<Longrightarrow>
   set_auth_enum_value q k a = (ESP_ERR_HTTPD_RESULT_TRUNC, a, [bad_request LENGTH_MSG k])"
  "map_of q k = Some v \<Longrightarrow> aug_get_sae_mode_size \<le> length v \<Longrightarrow>
   set_sae_mode_enum_value q k m = (ESP_ERR_HTTPD_RESULT_TRUNC, m, [bad_request LENGTH_MSG k])"
  by (simp_all add: set_str_value_def set_int_value_def set_auth_enum_value_def
      set_sae_mode_enum_value_def httpd_query_key_value_def)

text \<open>A mode that fits its buffer but is not in the table is refused with a 400.\<close>

lemma set_auth_enum_value_invalid:
  assumes "map_of q k = Some v" "v \<notin> set AUG_AUTH_MODES_STR" "length v < aug_get_auth_mode_size"
  shows "set_auth_enum_value q k old = (ESP_FAIL, old, [bad_request INVALID_MSG k])"
proof -
  have "aug_str_to_auth_mode v (length v) = None"
    using assms(2) auth_tables_wf(3)
    by (simp add: aug_str_to_auth_mode_def str_to_enum_loop_map_of map_of_zip_is_None)
  then show ?thesis using assms(1,3) by (simp add: set_auth_enum_value_def httpd_query_key_value_def)
qed

lemma opt_ok_Some: "map_of q k = Some v \<Longrightarrow> P v \<Longrightarrow> opt_ok q k P"
  and opt_or_Some: "map_of q k = Some v \<Longrightarrow> opt_or q k f old = f v"
  by (simp_all add: opt_ok_def opt_or_def)

section \<open>Properties of the option handlers\<close>

text \<open>
  C29: On a valid query, \<open>set_options_sta_handler\<close> implements the abstract reading of
  the options: it writes exactly \<open>sta_options_apply\<close> into the station configuration
  and answers with the one success response.
\<close>

theorem set_options_sta_refines:
  "sta_options_valid q \<Longrightarrow>
   set_options_sta_handler http_env_ok q cfg
   = (ESP_OK, sta_options_apply q cfg, [(HTTP_200_SUCCESS, options_set_msg)])"
  by (simp add: set_options_sta_handler_def set_sta_options_valid http_env_ok_def)

text \<open>
  C33: A rejected option does not undo the options before it. For any query with a
  valid SSID, a password and retry bound that fit, and an authentication mode that fits
  its buffer but is not in the table, the handler fails with the 400 naming
  \<open>auth_mode\<close> and a 500, yet the configuration already holds the new SSID, password
  and retry bound (spec 7(a): a validation error mutates nothing).
\<close>

theorem set_options_sta_partial_update:
  assumes "map_of q ''ssid'' = Some s" "length s < SSID_SIZE"
    and "opt_ok q ''password'' (\<lambda>v. length v < PASSWORD_SIZE)"
    and "opt_ok q ''max_retry'' (\<lambda>v. length v < max_int_chars)"
    and "map_of q ''auth_mode'' = Some m" "m \<notin> set AUG_AUTH_MODES_STR" "length m < aug_get_auth_mode_size"
  shows "set_options_sta_handler http_env_ok q cfg
         = (ESP_FAIL,
            (upd_sta (\<lambda>w. w\<lparr>sta_ssid := s, sta_password := opt_or q ''password'' id (sta_password w)\<rparr>) cfg)
              \<lparr>max_retry := opt_or q ''max_retry'' c_atoi (max_retry cfg)\<rparr>,
            [bad_request INVALID_MSG ''auth_mode'', send_unexpected_error])"
proof -
  have ssid: "opt_ok q ''ssid'' (\<lambda>v. length v < SSID_SIZE)" using assms(1,2) by (rule opt_ok_Some)
  show ?thesis
    by (simp add: set_options_sta_handler_def set_sta_options_def http_env_ok_def upd_sta_def with_setter_def
        set_str_value_valid [OF ssid] set_str_value_valid [OF assms(3)] set_int_value_valid [OF assms(4)]
        set_auth_enum_value_invalid [OF assms(5-7)] opt_or_Some [OF assms(1)])
qed

text \<open>
  C36: A request with an over-long option gets two responses: the 400 naming the option
  from the setter, then a 500 from the handler, on the same request. This holds for each
  of \<open>ssid\<close>, \<open>password\<close>, \<open>max_retry\<close>, \<open>auth_mode\<close> and \<open>sae_mode\<close> that does
  not fit its buffer with the \<open>NUL\<close> when the options read before it are valid.
\<close>

theorem set_options_sta_two_responses:
  assumes "map_of q k = Some v"
    and "(k = ''ssid'' \<and> SSID_SIZE \<le> length v)
         \<or> (k = ''password'' \<and> PASSWORD_SIZE \<le> length v \<and> opt_ok q ''ssid'' (\<lambda>v. length v < SSID_SIZE))
         \<or> (k = ''max_retry'' \<and> max_int_chars \<le> length v \<and> opt_ok q ''ssid'' (\<lambda>v. length v < SSID_SIZE)
            \<and> opt_ok q ''password'' (\<lambda>v. length v < PASSWORD_SIZE))
         \<or> (k = ''auth_mode'' \<and> aug_get_auth_mode_size \<le> length v \<and> opt_ok q ''ssid'' (\<lambda>v. length v < SSID_SIZE)
            \<and> opt_ok q ''password'' (\<lambda>v. length v < PASSWORD_SIZE)
            \<and> opt_ok q ''max_retry'' (\<lambda>v. length v < max_int_chars))
         \<or> (k = ''sae_mode'' \<and> aug_get_sae_mode_size \<le> length v \<and> opt_ok q ''ssid'' (\<lambda>v. length v < SSID_SIZE)
            \<and> opt_ok q ''password'' (\<lambda>v. length v < PASSWORD_SIZE)
            \<and> opt_ok q ''max_retry'' (\<lambda>v. length v < max_int_chars)
            \<and> opt_ok q ''auth_mode'' (\<lambda>v. v \<in> set AUG_AUTH_MODES_STR))"
  shows "fst (set_options_sta_handler http_env_ok q cfg) = ESP_FAIL
         \<and> snd (snd (set_options_sta_handler http_env_ok q cfg))
           = [bad_request LENGTH_MSG k, send_unexpected_error]"
  using assms(2)
proof (elim disjE conjE)
  assume "k = ''ssid''" "SSID_SIZE \<le> length v"
  then show ?thesis using assms(1)
    by (simp add: set_options_sta_handler_def set_sta_options_def http_env_ok_def with_setter_def set_value_trunc)
next
  assume "k = ''password''" "PASSWORD_SIZE \<le> length v" "opt_ok q ''ssid'' (\<lambda>v. length v < SSID_SIZE)"
  then show ?thesis using assms(1)
    by (simp add: set_options_sta_handler_def set_sta_options_def http_env_ok_def with_setter_def
        set_value_trunc set_str_value_valid)
next
  assume "k = ''max_retry''" "max_int_chars \<le> length v" "opt_ok q ''ssid'' (\<lambda>v. length v < SSID_SIZE)"
    "opt_ok q ''password'' (\<lambda>v. length v < PASSWORD_SIZE)"
  then show ?thesis using assms(1)
    by (simp add: set_options_sta_handler_def set_sta_options_def http_env_ok_def with_setter_def
        set_value_trunc set_str_value_valid)
next
  assume "k = ''auth_mode''" "aug_get_auth_mode_size \<le> length v" "opt_ok q ''ssid'' (\<lambda>v. length v < SSID_SIZE)"
    "opt_ok q ''password'' (\<lambda>v. length v < PASSWORD_SIZE)" "opt_ok q ''max_retry'' (\<lambda>v. length v < max_int_chars)"
  then show ?thesis using assms(1)
    by (simp add: set_options_sta_handler_def set_sta_options_def http_env_ok_def with_setter_def
        set_value_trunc set_str_value_valid set_int_value_valid)
next
  assume "k = ''sae_mode''" "aug_get_sae_mode_size \<le> length v" "opt_ok q ''ssid'' (\<lambda>v. length v < SSID_SIZE)"
    "opt_ok q ''password'' (\<lambda>v. length v < PASSWORD_SIZE)" "opt_ok q ''max_retry'' (\<lambda>v. length v < max_int_chars)"
    "opt_ok q ''auth_mode'' (\<lambda>v. v \<in> set AUG_AUTH_MODES_STR)"
  then show ?thesis using assms(1)
    by (simp add: set_options_sta_handler_def set_sta_options_def http_env_ok_def with_setter_def
        set_value_trunc set_str_value_valid set_int_value_valid set_auth_enum_value_valid)
qed

text \<open>
  C34: The retry bound read by \<open>atoi\<close> is what \<open>%d\<close> prints: every 32-bit value written
  in decimal into the \<open>max_retry\<close> option is read back exactly.
\<close>

theorem max_retry_roundtrip:
  "INT32_MIN \<le> i \<Longrightarrow> i \<le> INT32_MAX \<Longrightarrow>
   set_int_value [(''max_retry'', dec_of_int i)] ''max_retry'' old = (ESP_OK, i, [])"
proof -
  assume lo: "INT32_MIN \<le> i" and hi: "i \<le> INT32_MAX"
  then have "length (dec_of_int i) < max_int_chars"
    using length_dec_of_int [OF lo hi] by (simp add: max_int_chars_def)
  then have "opt_ok [(''max_retry'', dec_of_int i)] ''max_retry'' (\<lambda>v. length v < max_int_chars)"
    by (simp add: opt_ok_def)
  then show ?thesis
    by (simp add: set_int_value_valid opt_or_def c_atoi_dec_of_int [OF lo hi])
qed

text \<open>
  The retry bound is not validated: \<open>max_retry=-1\<close> is accepted and stored, while
  spec 3 requires a bound of at least 0 and spec 6 that validation happen at the surface.
\<close>

theorem negative_max_retry_accepted:
  "set_options_sta_handler http_env_ok [(''max_retry'', ''-1'')] cfg
   = (ESP_OK, cfg\<lparr>max_retry := -1\<rparr>, [(HTTP_200_SUCCESS, options_set_msg)])"
proof -
  have v: "sta_options_valid [(''max_retry'', ''-1'')]"
    by (simp add: sta_options_valid_def opt_ok_def max_int_chars_def)
  have "c_atoi ''-1'' = -1"
    by (simp add: c_atoi_def c_isspace_def c_isdigit_def dec_value_def digit_val_def INT32_MIN_def)
  with v show ?thesis
    by (simp add: set_options_sta_handler_def set_sta_options_valid http_env_ok_def
        sta_options_apply_def opt_or_def Let_def)
qed

text \<open>
  C37: A 32-byte SSID, the most the SDK's \<open>ssid[32]\<close> and 802.11 allow, cannot be
  configured: the setter needs room for a \<open>NUL\<close> and rejects it, leaving the SSID as
  it was.
\<close>

theorem ssid_of_32_bytes_rejected:
  "length s = SSID_SIZE \<Longrightarrow>
   fst (set_options_sta_handler http_env_ok [(''ssid'', s)] cfg) = ESP_FAIL
   \<and> sta_ssid (sta_wifi_config (fst (snd (set_options_sta_handler http_env_ok [(''ssid'', s)] cfg))))
     = sta_ssid (sta_wifi_config cfg)"
  by (simp add: set_options_sta_handler_def set_sta_options_def set_str_value_def
      httpd_query_key_value_def http_env_ok_def with_setter_def upd_sta_def)

text \<open>
  The report of \<open>/init/sta\<close> is never cut short: for a configuration whose strings
  fit their SDK buffers with a \<open>NUL\<close>, a table authentication mode and a 32-bit retry
  bound, the buffer of \<open>formatted_string_max_size\<close> bytes holds the whole text.
\<close>

theorem sta_info_fits:
  assumes "length (sta_ssid (sta_wifi_config cfg)) < SSID_SIZE"
    and "length (sta_password (sta_wifi_config cfg)) < PASSWORD_SIZE"
    and "length (sta_sae_h2e_identifier (sta_wifi_config cfg)) < SAE_H2E_IDENTIFIER_LEN"
    and "sta_threshold_authmode (sta_wifi_config cfg) \<in> set AUG_AUTH_MODES_ENUM"
    and "INT32_MIN \<le> max_retry cfg" and "max_retry cfg \<le> INT32_MAX"
  shows "\<exists>auth sae. send_sta_info env cfg =
           (send_ret env, [(HTTP_200_SUCCESS,
              sta_info_text (sta_ssid (sta_wifi_config cfg)) (sta_password (sta_wifi_config cfg))
                (max_retry cfg) auth sae (sta_sae_h2e_identifier (sta_wifi_config cfg)))])"
proof -
  obtain auth where a: "aug_auth_mode_to_str (sta_threshold_authmode (sta_wifi_config cfg))
                          aug_get_auth_mode_size = Inr auth" "length auth < aug_get_auth_mode_size"
    using auth_mode_to_str_table [OF assms(4)] by blast
  obtain sae where e: "aug_sae_mode_to_str (sta_sae_pwe_h2e (sta_wifi_config cfg))
                         aug_get_sae_mode_size = Inr sae" "length sae < aug_get_sae_mode_size"
    using sae_mode_to_str_table by blast
  have d: "length (dec_of_int (max_retry cfg)) \<le> 11" using assms(5,6) by (rule length_dec_of_int)
  let ?t = "sta_info_text (sta_ssid (sta_wifi_config cfg)) (sta_password (sta_wifi_config cfg))
              (max_retry cfg) auth sae (sta_sae_h2e_identifier (sta_wifi_config cfg))"
  have "length ?t < sta_info_max_size"
    using assms(1-3) a(2) e(2) d
    by (simp add: length_sta_info_text sta_info_max_size_def c_sizeof_str_def max_int_chars_def
        aug_get_auth_mode_size_def aug_get_sae_mode_size_def AUG_AUTH_MODE_MAX_SIZE_val
        AUG_SAE_MODE_MAX_SIZE_val SSID_SIZE_def PASSWORD_SIZE_def SAE_H2E_IDENTIFIER_LEN_def)
  then have "c_snprintf sta_info_max_size ?t = ?t" by simp
  then show ?thesis using a(1) e(1)
    by (intro exI [of _ auth] exI [of _ sae]) (simp add: send_sta_info_def)
qed

section \<open>Witnesses\<close>

theorem set_options_sta_refines_witness:
  "sta_options_valid [(''ssid'', ''home''), (''sae_mode'', ''h2e''), (''password_id'', ''id'')]
   \<and> set_options_sta_handler http_env_ok [(''ssid'', ''home''), (''sae_mode'', ''h2e''), (''password_id'', ''id'')]
       zero_sta_config
     = (ESP_OK, sta_options_apply [(''ssid'', ''home''), (''sae_mode'', ''h2e''), (''password_id'', ''id'')]
                  zero_sta_config, [(HTTP_200_SUCCESS, options_set_msg)])"
proof -
  have v: "sta_options_valid [(''ssid'', ''home''), (''sae_mode'', ''h2e''), (''password_id'', ''id'')]"
    by (simp add: sta_options_valid_def opt_ok_def SSID_SIZE_def SAE_H2E_IDENTIFIER_LEN_def
        AUG_SAE_MODES_STR_def)
  show ?thesis using v set_options_sta_refines [OF v, of zero_sta_config] by (rule conjI)
qed

theorem max_retry_roundtrip_witness:
  "INT32_MIN \<le> -5 \<and> (-5 :: int) \<le> INT32_MAX
   \<and> set_int_value [(''max_retry'', dec_of_int (-5))] ''max_retry'' 3 = (ESP_OK, -5, [])"
proof -
  have h: "INT32_MIN \<le> -5" "(-5 :: int) \<le> INT32_MAX" by (simp_all add: INT32_MIN_def INT32_MAX_def)
  show ?thesis using h max_retry_roundtrip [OF h, of 3] by simp
qed

theorem ssid_of_32_bytes_rejected_witness:
  "length (replicate 32 CHR ''a'') = SSID_SIZE
   \<and> fst (set_options_sta_handler http_env_ok [(''ssid'', replicate 32 CHR ''a'')] zero_sta_config) = ESP_FAIL"
proof -
  have h: "length (replicate 32 CHR ''a'') = SSID_SIZE" by (simp add: SSID_SIZE_def)
  show ?thesis using h ssid_of_32_bytes_rejected [OF h, of zero_sta_config] by simp
qed

theorem sta_info_fits_witness:
  "\<exists>auth sae. send_sta_info http_env_ok zero_sta_config =
     (ESP_OK, [(HTTP_200_SUCCESS, sta_info_text [] [] 0 auth sae [])])"
proof -
  have h: "length (sta_ssid (sta_wifi_config zero_sta_config)) < SSID_SIZE"
    "length (sta_password (sta_wifi_config zero_sta_config)) < PASSWORD_SIZE"
    "length (sta_sae_h2e_identifier (sta_wifi_config zero_sta_config)) < SAE_H2E_IDENTIFIER_LEN"
    "sta_threshold_authmode (sta_wifi_config zero_sta_config) \<in> set AUG_AUTH_MODES_ENUM"
    "INT32_MIN \<le> max_retry zero_sta_config" "max_retry zero_sta_config \<le> INT32_MAX"
    by (simp_all add: zero_sta_config_def SSID_SIZE_def PASSWORD_SIZE_def SAE_H2E_IDENTIFIER_LEN_def
        AUG_AUTH_MODES_ENUM_def INT32_MIN_def INT32_MAX_def)
  from sta_info_fits [OF h, of http_env_ok] show ?thesis
    by (simp add: zero_sta_config_def http_env_ok_def)
qed

theorem set_options_sta_partial_update_witness:
  "map_of [(''ssid'', ''home''), (''auth_mode'', ''wpa9'')] ''ssid'' = Some ''home'' \<and> length ''home'' < SSID_SIZE
   \<and> ''wpa9'' \<notin> set AUG_AUTH_MODES_STR \<and> length ''wpa9'' < aug_get_auth_mode_size
   \<and> set_options_sta_handler http_env_ok [(''ssid'', ''home''), (''auth_mode'', ''wpa9'')] zero_sta_config
     = (ESP_FAIL, upd_sta (\<lambda>w. w\<lparr>sta_ssid := ''home''\<rparr>) zero_sta_config,
        [bad_request INVALID_MSG ''auth_mode'', send_unexpected_error])"
proof -
  let ?q = "[(''ssid'', ''home''), (''auth_mode'', ''wpa9'')]"
  have h: "length ''home'' < SSID_SIZE" "''wpa9'' \<notin> set AUG_AUTH_MODES_STR"
    "length ''wpa9'' < aug_get_auth_mode_size"
    by (simp_all add: SSID_SIZE_def AUG_AUTH_MODES_STR_def aug_get_auth_mode_size_def AUG_AUTH_MODE_MAX_SIZE_val)
  have o: "opt_ok ?q ''password'' (\<lambda>v. length v < PASSWORD_SIZE)" "opt_ok ?q ''max_retry'' (\<lambda>v. length v < max_int_chars)"
    by (simp_all add: opt_ok_def)
  show ?thesis
    using h set_options_sta_partial_update [of ?q "''home''" "''wpa9''" zero_sta_config, OF _ h(1) o _ h(2,3)]
    by (simp add: opt_or_def upd_sta_def zero_sta_config_def)
qed

theorem set_options_sta_two_responses_witness:
  "map_of [(''password'', replicate 64 CHR ''x'')] ''password'' = Some (replicate 64 CHR ''x'')
   \<and> PASSWORD_SIZE \<le> length (replicate 64 CHR ''x'')
   \<and> fst (set_options_sta_handler http_env_ok [(''password'', replicate 64 CHR ''x'')] zero_sta_config) = ESP_FAIL
   \<and> snd (snd (set_options_sta_handler http_env_ok [(''password'', replicate 64 CHR ''x'')] zero_sta_config))
     = [bad_request LENGTH_MSG ''password'', send_unexpected_error]"
  using set_options_sta_two_responses [of "[(''password'', replicate 64 CHR ''x'')]" "''password''"
      "replicate 64 CHR ''x''" zero_sta_config]
  by (simp add: opt_ok_def PASSWORD_SIZE_def)

end
