(* ===== verification/HttpServer.thy ===== *)
theory HttpServer
  imports HttpOptions
begin

text \<open>
  Model of the rest of \<open>src/main/aug_http_server.c\<close>: the firmware upload handler
  \<open>ota_update_handler\<close>, the index page, and the server's life cycle
  (\<open>aug_http_start\<close>, \<open>aug_http_stop_webserver\<close>, \<open>aug_http_is_init\<close>).

  The upload is a loop over the request body: ask the socket for the next chunk of at most
  \<open>OTA_CHUNK_SIZE\<close> bytes, retry on a socket timeout, fail on any other error or on a
  failed flash write, and subtract what arrived. The socket is the environment: the
  \<open>i\<close>-th call to \<open>httpd_req_recv\<close> for \<open>k\<close> bytes returns \<open>ota_recv env i k\<close>. Since the
  loop retries a timeout without bound it need not end; it is defined with fuel, one unit
  per call, and \<open>None\<close> is "has not returned after that many calls". The OTA library is a
  collaborator: it keeps the running and the boot partition and the open update handles;
  \<open>esp_ota_end\<close> releases the handle whatever its result.
\<close>

section \<open>Partitions and the upload\<close>

datatype partition = OTA_0 | OTA_1

record ota_state =
  running_partition :: partition
  boot_partition :: partition
  open_handles :: nat

definition esp_ota_get_next_update_partition :: "ota_state \<Rightarrow> partition" where
  "esp_ota_get_next_update_partition st =
     (case running_partition st of OTA_0 \<Rightarrow> OTA_1 | OTA_1 \<Rightarrow> OTA_0)"

record ota_env =
  ota_begin_ret :: esp_err
  ota_recv :: "nat \<Rightarrow> nat \<Rightarrow> int"
  ota_write_ret :: "nat \<Rightarrow> esp_err"
  ota_end_ret :: esp_err
  ota_set_boot_ret :: esp_err

definition OTA_CHUNK_SIZE :: nat where "OTA_CHUNK_SIZE = 1024"

definition HTTPD_SOCK_ERR_TIMEOUT :: int where "HTTPD_SOCK_ERR_TIMEOUT = -3"

text \<open>
  The receive loop from call \<open>i\<close> with \<open>written\<close> bytes written and \<open>content_len\<close> to
  go: its code, the calls made and the bytes written when it leaves the loop.
\<close>

fun ota_receive :: "ota_env \<Rightarrow> nat \<Rightarrow> nat \<Rightarrow> nat \<Rightarrow> nat \<Rightarrow> (esp_err \<times> nat \<times> nat) option" where
  "ota_receive env 0 i written content_len =
     (if content_len = 0 then Some (ESP_OK, i, written) else None)"
| "ota_receive env (Suc fuel) i written content_len =
     (if content_len = 0 then Some (ESP_OK, i, written)
      else let sent = ota_recv env i (min content_len OTA_CHUNK_SIZE) in
           if sent = HTTPD_SOCK_ERR_TIMEOUT then ota_receive env fuel (Suc i) written content_len
           else if sent \<le> 0 then Some (ESP_FAIL, Suc i, written)
           else if ota_write_ret env i \<noteq> ESP_OK then Some (ESP_FAIL, Suc i, written)
           else ota_receive env fuel (Suc i) (written + nat sent) (content_len - nat sent))"

definition ota_done_msg :: string where
  "ota_done_msg = ''<div>Loading firmware complete</div>'' @ crlf"

text \<open>
  \<open>ota_update_handler\<close>: \<open>Inl e\<close> when \<open>ESP_ERROR_CHECK(esp_ota_begin(..))\<close> aborts;
  \<open>Inr None\<close> when the loop has not returned; otherwise the code, the OTA state, the
  responses and the events posted. After a failed receive or write the handler returns
  without \<open>esp_ota_abort\<close>, so the handle stays open.
\<close>

definition ota_update_handler ::
  "ota_env \<Rightarrow> http_env \<Rightarrow> nat \<Rightarrow> nat \<Rightarrow> ota_state \<Rightarrow>
   esp_err + (esp_err \<times> ota_state \<times> response list \<times> http_event list) option" where
  "ota_update_handler env henv fuel content_len st =
     (let ota_partition = esp_ota_get_next_update_partition st in
      if ota_begin_ret env \<noteq> ESP_OK then Inl (ota_begin_ret env)
      else let st1 = st\<lparr>open_handles := Suc (open_handles st)\<rparr> in
      Inr (case ota_receive env fuel 0 0 content_len of
             None \<Rightarrow> None
           | Some (e, _, _) \<Rightarrow> Some
               (if e \<noteq> ESP_OK then (ESP_FAIL, st1, [send_unexpected_error], [])
                else let st2 = st1\<lparr>open_handles := open_handles st1 - 1\<rparr> in
                if ota_end_ret env \<noteq> ESP_OK \<or> ota_set_boot_ret env \<noteq> ESP_OK
                  then (ESP_FAIL, st2, [send_unexpected_error], [])
                else let st3 = st2\<lparr>boot_partition := ota_partition\<rparr> in
                if post_ret henv \<noteq> ESP_OK then (ESP_FAIL, st3, [send_unexpected_error], [])
                else (send_ret henv, st3, [(HTTP_200_SUCCESS, ota_done_msg)],
                      [AUG_HTTP_SERVER_EVENT_OTA_UPDATE]))))"

text \<open>\<open>index_handler\<close>: the page embedded in the image.\<close>

definition index_handler :: "http_env \<Rightarrow> string \<Rightarrow> esp_err \<times> response list" where
  "index_handler henv index_html = (send_ret henv, [(HTTP_200_SUCCESS, index_html)])"

section \<open>The server\<close>

text \<open>The URIs of the seven handlers, in the order \<open>aug_http_start\<close> registers them.\<close>

definition http_uris :: "string list" where
  "http_uris = [''/set_options/sta'', ''/init/sta'', ''/set_options/mqtt'', ''/init/mqtt'',
                ''/ota_update'', ''/restart'', ''/'']"

datatype http_sdk_call = Httpd_start | Httpd_register string | Httpd_stop

record http_module =
  server :: bool
  registered :: "string list"

definition http_module_init :: http_module where
  "http_module_init = \<lparr>server = False, registered = []\<rparr>"

text \<open>
  Starting the server, then registering the handlers one after the other, each behind
  \<open>AUG_RETURN_CHECK\<close>: a failure returns with the handlers registered so far.
\<close>

fun register_uris :: "(http_sdk_call \<Rightarrow> esp_err) \<Rightarrow> string list \<Rightarrow> http_module \<Rightarrow> esp_err \<times> http_module" where
  "register_uris sdk [] s = (ESP_OK, s)"
| "register_uris sdk (u # us) s =
     (if sdk (Httpd_register u) \<noteq> ESP_OK then (sdk (Httpd_register u), s)
      else register_uris sdk us (s\<lparr>registered := registered s @ [u]\<rparr>))"

definition aug_http_start :: "(http_sdk_call \<Rightarrow> esp_err) \<Rightarrow> http_module \<Rightarrow> esp_err \<times> http_module" where
  "aug_http_start sdk s =
     (if sdk Httpd_start \<noteq> ESP_OK then (sdk Httpd_start, s)
      else register_uris sdk http_uris (s\<lparr>server := True, registered := []\<rparr>))"

definition aug_http_stop_webserver :: "(http_sdk_call \<Rightarrow> esp_err) \<Rightarrow> http_module \<Rightarrow> esp_err \<times> http_module" where
  "aug_http_stop_webserver sdk s =
     aug_return_check (sdk Httpd_stop, s) (\<lambda>s1. (ESP_OK, s1\<lparr>server := False, registered := []\<rparr>))"

definition aug_http_is_init :: "http_module \<Rightarrow> bool" where
  "aug_http_is_init s = server s"

section \<open>Observations\<close>

text \<open>
  A socket that always delivers the whole chunk asked for and a flash that accepts every
  write; the same socket stalled for ever; a device running from the first slot.
\<close>

definition ota_env_full :: ota_env where
  "ota_env_full =
     \<lparr>ota_begin_ret = ESP_OK, ota_recv = (\<lambda>i k. int k), ota_write_ret = (\<lambda>_. ESP_OK),
      ota_end_ret = ESP_OK, ota_set_boot_ret = ESP_OK\<rparr>"

definition ota_env_stalled :: ota_env where
  "ota_env_stalled = ota_env_full\<lparr>ota_recv := (\<lambda>i k. HTTPD_SOCK_ERR_TIMEOUT)\<rparr>"

definition ota_state_init :: ota_state where
  "ota_state_init = \<lparr>running_partition = OTA_0, boot_partition = OTA_0, open_handles = 0\<rparr>"

section \<open>The receive loop\<close>

text \<open>More fuel never changes a result.\<close>

lemma ota_receive_mono:
  "ota_receive env fuel i w n = Some r \<Longrightarrow> ota_receive env (Suc fuel) i w n = Some r"
proof (induction fuel arbitrary: i w n)
  case 0
  then show ?case by (simp split: if_splits)
next
  case (Suc fuel)
  show ?case
  proof (cases "n = 0")
    case True
    with Suc.prems show ?thesis by simp
  next
    case False
    let ?sent = "ota_recv env i (min n OTA_CHUNK_SIZE)"
    consider (t) "?sent = HTTPD_SOCK_ERR_TIMEOUT"
      | (f) "?sent \<noteq> HTTPD_SOCK_ERR_TIMEOUT" "?sent \<le> 0 \<or> ota_write_ret env i \<noteq> ESP_OK"
      | (g) "?sent \<noteq> HTTPD_SOCK_ERR_TIMEOUT" "\<not> (?sent \<le> 0 \<or> ota_write_ret env i \<noteq> ESP_OK)"
      by blast
    then show ?thesis
    proof cases
      case t
      with Suc.prems False have "ota_receive env fuel (Suc i) w n = Some r" by (simp add: Let_def)
      then have "ota_receive env (Suc fuel) (Suc i) w n = Some r" by (rule Suc.IH)
      with t False show ?thesis by (simp add: Let_def)
    next
      case f
      then have "ota_receive env (Suc fuel) i w n = Some (ESP_FAIL, Suc i, w)"
        and "ota_receive env (Suc (Suc fuel)) i w n = Some (ESP_FAIL, Suc i, w)"
        using False by (cases "?sent \<le> 0"; simp add: Let_def)+
      with Suc.prems show ?thesis by simp
    next
      case g
      with Suc.prems False
      have "ota_receive env fuel (Suc i) (w + nat ?sent) (n - nat ?sent) = Some r" by (simp add: Let_def)
      then have "ota_receive env (Suc fuel) (Suc i) (w + nat ?sent) (n - nat ?sent) = Some r"
        by (rule Suc.IH)
      with g False show ?thesis by (simp add: Let_def)
    qed
  qed
qed

text \<open>
  Enough fuel: a socket that never times out and never reports more than was asked for
  makes progress on every call, so as many calls as there are bytes suffice.
\<close>

lemma ota_receive_enough:
  assumes "\<forall>i k. 0 < k \<longrightarrow> ota_recv env i k \<noteq> HTTPD_SOCK_ERR_TIMEOUT \<and> ota_recv env i k \<le> int k"
  shows "n \<le> fuel \<Longrightarrow> \<exists>r. ota_receive env fuel i w n = Some r"
proof (induction fuel arbitrary: i w n)
  case 0
  then show ?case by simp
next
  case (Suc fuel)
  show ?case
  proof (cases "n = 0")
    case True
    then show ?thesis by simp
  next
    case False
    let ?sent = "ota_recv env i (min n OTA_CHUNK_SIZE)"
    have pos: "0 < min n OTA_CHUNK_SIZE" using False by (simp add: OTA_CHUNK_SIZE_def)
    with assms have nt: "?sent \<noteq> HTTPD_SOCK_ERR_TIMEOUT" and le: "?sent \<le> int (min n OTA_CHUNK_SIZE)"
      by blast+
    show ?thesis
    proof (cases "?sent \<le> 0 \<or> ota_write_ret env i \<noteq> ESP_OK")
      case True
      with False nt show ?thesis by (auto simp: Let_def)
    next
      case ok: False
      then have "n - nat ?sent \<le> fuel" using Suc.prems by linarith
      then obtain r where rr: "ota_receive env fuel (Suc i) (w + nat ?sent) (n - nat ?sent) = Some r"
        using Suc.IH by blast
      have "ota_receive env (Suc fuel) i w n = Some r" using False nt ok rr by (simp add: Let_def)
      then show ?thesis by blast
    qed
  qed
qed

text \<open>A socket that only times out keeps the loop going whatever the fuel.\<close>

lemma ota_receive_stalled:
  "\<forall>i k. ota_recv env i k = HTTPD_SOCK_ERR_TIMEOUT \<Longrightarrow> 0 < n \<Longrightarrow> ota_receive env fuel i w n = None"
  by (induction fuel arbitrary: i) simp_all

section \<open>Properties of the upload handler\<close>

text \<open>
  C31: The upload handler returns: once \<open>esp_ota_begin\<close> succeeds, a socket that never
  times out and never delivers more than asked makes \<open>ota_update_handler\<close> return
  within as many receive calls as the body has bytes.
\<close>

theorem ota_handler_returns:
  assumes "ota_begin_ret env = ESP_OK"
    and "\<forall>i k. 0 < k \<longrightarrow> ota_recv env i k \<noteq> HTTPD_SOCK_ERR_TIMEOUT \<and> ota_recv env i k \<le> int k"
    and "content_len \<le> fuel"
  shows "\<exists>r. ota_update_handler env henv fuel content_len st = Inr (Some r)"
proof -
  obtain e c w where r: "ota_receive env fuel 0 0 content_len = Some (e, c, w)"
    using ota_receive_enough [OF assms(2) assms(3)] by (metis prod_cases3)
  show ?thesis using assms(1) r by (simp add: ota_update_handler_def Let_def)
qed

text \<open>
  C32: A client that stops sending keeps the handler, and with it the server's task, in
  the loop for ever: every receive times out, the handler retries, and it has not
  returned after any number of calls.
\<close>

theorem ota_handler_stalls:
  "ota_begin_ret env = ESP_OK \<Longrightarrow> \<forall>i k. ota_recv env i k = HTTPD_SOCK_ERR_TIMEOUT \<Longrightarrow>
   0 < content_len \<Longrightarrow> ota_update_handler env henv fuel content_len st = Inr None"
  by (simp add: ota_update_handler_def ota_receive_stalled)

text \<open>
  C30: No partially written image is ever made bootable (spec 4.5): whatever happens, the
  handler leaves the boot partition as it was unless the whole body was received and
  written, \<open>esp_ota_end\<close> validated the image and \<open>esp_ota_set_boot_partition\<close>
  succeeded, in which case the boot partition is the update slot.
\<close>

theorem ota_boot_partition_safe:
  "ota_update_handler env henv fuel n st = Inr (Some (e, st', rs, evs)) \<Longrightarrow>
   boot_partition st' = boot_partition st
   \<or> ((\<exists>c w. ota_receive env fuel 0 0 n = Some (ESP_OK, c, w))
      \<and> ota_end_ret env = ESP_OK \<and> ota_set_boot_ret env = ESP_OK
      \<and> boot_partition st' = esp_ota_get_next_update_partition st)"
  by (auto simp: ota_update_handler_def Let_def split: if_splits option.splits prod.splits)

text \<open>
  C35: A failed receive or write leaves the update handle open: the handler returns
  without \<open>esp_ota_abort\<close>, so every failed upload leaks one handle and its buffer.
\<close>

theorem ota_failure_leaks_handle:
  "ota_update_handler env henv fuel n st = Inr (Some (e, st', rs, evs)) \<Longrightarrow>
   ota_receive env fuel 0 0 n = Some (e', c, w) \<Longrightarrow> e' \<noteq> ESP_OK \<Longrightarrow>
   open_handles st' = Suc (open_handles st)"
  by (auto simp: ota_update_handler_def Let_def split: if_splits)

section \<open>Witnesses\<close>

theorem ota_handler_returns_witness:
  "ota_begin_ret ota_env_full = ESP_OK
   \<and> (\<exists>r. ota_update_handler ota_env_full http_env_ok 3000 3000 ota_state_init = Inr (Some r))"
proof -
  have h: "ota_begin_ret ota_env_full = ESP_OK"
    "\<forall>i k. 0 < k \<longrightarrow> ota_recv ota_env_full i k \<noteq> HTTPD_SOCK_ERR_TIMEOUT \<and> ota_recv ota_env_full i k \<le> int k"
    "(3000 :: nat) \<le> 3000"
    by (simp_all add: ota_env_full_def HTTPD_SOCK_ERR_TIMEOUT_def)
  show ?thesis using h(1) ota_handler_returns [OF h, of http_env_ok ota_state_init] by (rule conjI)
qed

theorem ota_handler_stalls_witness:
  "ota_begin_ret ota_env_stalled = ESP_OK
   \<and> ota_update_handler ota_env_stalled http_env_ok 1000 10 ota_state_init = Inr None"
proof -
  have h: "ota_begin_ret ota_env_stalled = ESP_OK"
    "\<forall>i k. ota_recv ota_env_stalled i k = HTTPD_SOCK_ERR_TIMEOUT" "0 < (10 :: nat)"
    by (simp_all add: ota_env_stalled_def ota_env_full_def)
  show ?thesis using h(1) ota_handler_stalls [OF h, of http_env_ok 1000 ota_state_init] by (rule conjI)
qed

theorem ota_boot_partition_safe_witness:
  "ota_update_handler (ota_env_full\<lparr>ota_end_ret := ESP_FAIL\<rparr>) http_env_ok 2 2 ota_state_init
     = Inr (Some (ESP_FAIL, ota_state_init, [send_unexpected_error], []))
   \<and> boot_partition ota_state_init = boot_partition ota_state_init"
proof -
  have r: "ota_update_handler (ota_env_full\<lparr>ota_end_ret := ESP_FAIL\<rparr>) http_env_ok 2 2 ota_state_init
     = Inr (Some (ESP_FAIL, ota_state_init, [send_unexpected_error], []))"
    by (simp add: ota_update_handler_def ota_env_full_def ota_state_init_def OTA_CHUNK_SIZE_def
        HTTPD_SOCK_ERR_TIMEOUT_def Let_def numeral_2_eq_2 esp_ota_get_next_update_partition_def)
  from ota_boot_partition_safe [OF r] r show ?thesis by simp
qed

theorem ota_failure_leaks_handle_witness:
  "ota_update_handler (ota_env_full\<lparr>ota_write_ret := (\<lambda>_. ESP_FAIL)\<rparr>) http_env_ok 2 2 ota_state_init
     = Inr (Some (ESP_FAIL, ota_state_init\<lparr>open_handles := 1\<rparr>, [send_unexpected_error], []))
   \<and> open_handles (ota_state_init\<lparr>open_handles := 1\<rparr>) = Suc (open_handles ota_state_init)"
proof -
  have r: "ota_update_handler (ota_env_full\<lparr>ota_write_ret := (\<lambda>_. ESP_FAIL)\<rparr>) http_env_ok 2 2 ota_state_init
     = Inr (Some (ESP_FAIL, ota_state_init\<lparr>open_handles := 1\<rparr>, [send_unexpected_error], []))"
    by (simp add: ota_update_handler_def ota_env_full_def ota_state_init_def OTA_CHUNK_SIZE_def
        HTTPD_SOCK_ERR_TIMEOUT_def Let_def numeral_2_eq_2)
  have c: "ota_receive (ota_env_full\<lparr>ota_write_ret := (\<lambda>_. ESP_FAIL)\<rparr>) 2 0 0 2 = Some (ESP_FAIL, 1, 0)"
    by (simp add: ota_env_full_def OTA_CHUNK_SIZE_def HTTPD_SOCK_ERR_TIMEOUT_def numeral_2_eq_2)
  from ota_failure_leaks_handle [OF r c] r show ?thesis by simp
qed

end
