(* ===== verification/Sensors.thy ===== *)
theory Sensors
  imports Prelude
begin

text \<open>
  Model of \<open>src/main/aug_ds18b20.c\<close>, the temperature sensor driver. Its statics are the
  record \<open>ds_module\<close>: \<open>is_initialized\<close>, \<open>ds18b20_device_num\<close> and the handle array
  \<open>ds18b20s[CONFIG_ONEWIRE_MAX_DS18B20]\<close>, read as a map from every index to a handle
  (\<open>None\<close> is \<open>NULL\<close>), so that a write past the end of the array is visible in the model
  instead of being lost. The 1-Wire bus and the DS18B20 library are the environment: the
  result of each of their calls, the result of the \<open>k\<close>-th call of the device iterator, and
  whether the \<open>k\<close>-th device found is a DS18B20. A handle is the number of the iterator call
  that found the device.

  The search loop runs until the iterator reports \<open>ESP_ERR_NOT_FOUND\<close> or the array is
  full; it retries on any other error, so it ends only if the iterator eventually reports
  the end. It is written with fuel: \<open>None\<close> is a search that has not ended. A failed
  \<open>assert\<close> or \<open>ESP_ERROR_CHECK\<close> aborts the device, which the accessors report as
  \<open>None\<close> (ESP-IDF builds keep \<open>assert\<close> enabled by default).
\<close>

section \<open>The driver's state and environment\<close>

datatype ow_call =
    Onewire_new_bus_rmt
  | Onewire_new_device_iter
  | Onewire_del_device_iter
  | Ds18b20_set_resolution "nat option"
  | Ds18b20_trigger_temperature_conversion "nat option"
  | Ds18b20_get_temperature "nat option"

record ow_env =
  ow_sdk :: "ow_call \<Rightarrow> esp_err"
  ow_next :: "nat \<Rightarrow> esp_err"
  ow_new_device :: "nat \<Rightarrow> esp_err"
  ow_temperature :: "nat option \<Rightarrow> int"

record ds_module =
  is_initialized :: bool
  ds18b20_device_num :: nat
  ds18b20s :: "nat \<Rightarrow> nat option"

definition ds_module_init :: ds_module where
  "ds_module_init = \<lparr>is_initialized = False, ds18b20_device_num = 0, ds18b20s = (\<lambda>_. None)\<rparr>"

section \<open>Initialisation\<close>

text \<open>
  The \<open>do ... while\<close> loop of \<open>search_ds18b20_devices\<close>, from the \<open>k\<close>-th iterator call:
  a DS18B20 is stored at index \<open>ds18b20_device_num\<close>, which is then incremented, and the
  search stops once the count reaches \<open>max_ds\<close> (\<open>CONFIG_ONEWIRE_MAX_DS18B20\<close>).
\<close>

fun search_loop :: "ow_env \<Rightarrow> nat \<Rightarrow> nat \<Rightarrow> nat \<Rightarrow> ds_module \<Rightarrow> ds_module option" where
  "search_loop env max_ds 0 k s = None"
| "search_loop env max_ds (Suc f) k s =
     (let r = ow_next env k in
      if r = ESP_OK \<and> ow_new_device env k = ESP_OK then
        let s' = s\<lparr>ds18b20s := (ds18b20s s)(ds18b20_device_num s := Some k),
                   ds18b20_device_num := ds18b20_device_num s + 1\<rparr>
        in if max_ds \<le> ds18b20_device_num s' then Some s' else search_loop env max_ds f (Suc k) s'
      else if r = ESP_ERR_NOT_FOUND then Some s
      else search_loop env max_ds f (Suc k) s)"

definition search_ds18b20_devices :: "ow_env \<Rightarrow> nat \<Rightarrow> nat \<Rightarrow> ds_module \<Rightarrow> (esp_err \<times> ds_module) option" where
  "search_ds18b20_devices env max_ds fuel s =
     aug_return_check_opt (ow_sdk env Onewire_new_device_iter, s) (\<lambda>s1.
     case search_loop env max_ds fuel 0 s1 of
       None \<Rightarrow> None
     | Some s2 \<Rightarrow>
         aug_return_check_opt (ow_sdk env Onewire_del_device_iter, s2) (\<lambda>s3.
         if ds18b20_device_num s3 \<le> 0 then Some (ESP_FAIL, s3) else Some (ESP_OK, s3)))"

text \<open>\<open>set_resolution_for_devices\<close>: the first failing call's code, over indices \<open>is\<close>.\<close>

fun set_resolution_loop :: "ow_env \<Rightarrow> (nat \<Rightarrow> nat option) \<Rightarrow> nat list \<Rightarrow> esp_err" where
  "set_resolution_loop env hs [] = ESP_OK"
| "set_resolution_loop env hs (i # is) =
     (if ow_sdk env (Ds18b20_set_resolution (hs i)) \<noteq> ESP_OK
      then ow_sdk env (Ds18b20_set_resolution (hs i)) else set_resolution_loop env hs is)"

definition set_resolution_for_devices :: "ow_env \<Rightarrow> ds_module \<Rightarrow> esp_err" where
  "set_resolution_for_devices env s = set_resolution_loop env (ds18b20s s) [0..<ds18b20_device_num s]"

definition aug_ds18b20_init :: "ow_env \<Rightarrow> nat \<Rightarrow> nat \<Rightarrow> ds_module \<Rightarrow> (esp_err \<times> ds_module) option" where
  "aug_ds18b20_init env max_ds fuel s =
     (let s0 = s\<lparr>ds18b20_device_num := 0\<rparr> in
      aug_return_check_opt (ow_sdk env Onewire_new_bus_rmt, s0) (\<lambda>s1.
      case search_ds18b20_devices env max_ds fuel s1 of
        None \<Rightarrow> None
      | Some r \<Rightarrow>
          aug_return_check_opt r (\<lambda>s2.
          aug_return_check_opt (set_resolution_for_devices env s2, s2) (\<lambda>s3.
          Some (ESP_OK, s3\<lparr>is_initialized := True\<rparr>)))))"

section \<open>Accessors\<close>

definition aug_ds18b20_deinit :: "ds_module \<Rightarrow> (esp_err \<times> ds_module) option" where
  "aug_ds18b20_deinit s =
     (if \<not> is_initialized s then None
      else Some (ESP_OK, s\<lparr>ds18b20_device_num := 0, ds18b20s := (\<lambda>_. None), is_initialized := False\<rparr>))"

definition aug_get_sensors_number :: "ds_module \<Rightarrow> nat option" where
  "aug_get_sensors_number s = (if \<not> is_initialized s then None else Some (ds18b20_device_num s))"

text \<open>The reading of sensor \<open>index\<close>, in hundredths of a degree Celsius.\<close>

definition aug_get_temperature :: "ow_env \<Rightarrow> ds_module \<Rightarrow> nat \<Rightarrow> int option" where
  "aug_get_temperature env s index =
     (if \<not> is_initialized s then None
      else if ow_sdk env (Ds18b20_trigger_temperature_conversion (ds18b20s s index)) \<noteq> ESP_OK then None
      else if ow_sdk env (Ds18b20_get_temperature (ds18b20s s index)) \<noteq> ESP_OK then None
      else Some (ow_temperature env (ds18b20s s index)))"

section \<open>Observations\<close>

text \<open>
  The driver's well-formedness: at most \<open>max_ds\<close> sensors are counted, each counted
  sensor has a handle, and an initialised driver has found at least one sensor.
\<close>

definition ds_wf :: "nat \<Rightarrow> ds_module \<Rightarrow> bool" where
  "ds_wf max_ds s \<longleftrightarrow>
     ds18b20_device_num s \<le> max_ds \<and> (\<forall>i < ds18b20_device_num s. ds18b20s s i \<noteq> None)
     \<and> (is_initialized s \<longrightarrow> 0 < ds18b20_device_num s)"

text \<open>A bus with two DS18B20 and one other device, and every call succeeding.\<close>

definition ow_env_example :: ow_env where
  "ow_env_example =
     \<lparr>ow_sdk = (\<lambda>_. ESP_OK), ow_next = (\<lambda>k. if k < 3 then ESP_OK else ESP_ERR_NOT_FOUND),
      ow_new_device = (\<lambda>k. if k = 1 then ESP_FAIL else ESP_OK), ow_temperature = (\<lambda>_. 2150)\<rparr>"

text \<open>The same bus with no DS18B20 on it.\<close>

definition ow_env_no_sensor :: ow_env where
  "ow_env_no_sensor = ow_env_example\<lparr>ow_new_device := (\<lambda>_. ESP_FAIL)\<rparr>"

section \<open>The search loop\<close>

lemma search_loop_mono:
  "search_loop env max_ds f k s = Some s' \<Longrightarrow> f \<le> f' \<Longrightarrow> search_loop env max_ds f' k s = Some s'"
proof (induction f arbitrary: f' k s)
  case 0
  then show ?case by simp
next
  case (Suc f)
  then obtain f'' where f': "f' = Suc f''" and le: "f \<le> f''" by (cases f') auto
  let ?s1 = "s\<lparr>ds18b20s := (ds18b20s s)(ds18b20_device_num s := Some k),
               ds18b20_device_num := ds18b20_device_num s + 1\<rparr>"
  show ?case
  proof (cases "ow_next env k = ESP_OK \<and> ow_new_device env k = ESP_OK")
    case found: True
    show ?thesis
    proof (cases "max_ds \<le> ds18b20_device_num s + 1")
      case True
      with found Suc.prems(1) have "s' = ?s1" by (simp add: Let_def)
      with found True show ?thesis by (simp add: f' Let_def)
    next
      case False
      with found Suc.prems(1) have "search_loop env max_ds f (Suc k) ?s1 = Some s'" by (simp add: Let_def)
      from Suc.IH [OF this le] found False show ?thesis by (simp add: f' Let_def)
    qed
  next
    case other: False
    show ?thesis
    proof (cases "ow_next env k = ESP_ERR_NOT_FOUND")
      case True
      with other Suc.prems(1) show ?thesis by (simp add: f' Let_def)
    next
      case False
      with other Suc.prems(1) have "search_loop env max_ds f (Suc k) s = Some s'" by (auto simp: Let_def)
      from Suc.IH [OF this le] other False show ?thesis by (auto simp: f' Let_def)
    qed
  qed
qed

text \<open>The search ends once the iterator reports the end, given one unit of fuel per call.\<close>

lemma search_loop_ends:
  "ow_next env (k + n) = ESP_ERR_NOT_FOUND \<Longrightarrow> n < f \<Longrightarrow> \<exists>s'. search_loop env max_ds f k s = Some s'"
proof (induction n arbitrary: k s f)
  case 0
  then obtain f' where "f = Suc f'" by (cases f) auto
  with "0.prems" show ?case by (simp add: Let_def)
next
  case (Suc n)
  then obtain f' where f: "f = Suc f'" and n: "n < f'" by (cases f) auto
  have IH: "\<exists>s'. search_loop env max_ds f' (Suc k) t = Some s'" for t
    using Suc.IH [of "Suc k"] Suc.prems(1) n by simp
  show ?case using IH by (simp add: f Let_def)
qed

text \<open>
  The loop writes only below the bound: from a count below \<open>max_ds\<close>, every slot it
  writes is a slot it counts, the count stays at most \<open>max_ds\<close>, and each newly counted
  slot holds a handle.
\<close>

lemma search_loop_bounds:
  "search_loop env max_ds f k s = Some s' \<Longrightarrow> ds18b20_device_num s < max_ds \<Longrightarrow>
   ds18b20_device_num s \<le> ds18b20_device_num s' \<and> ds18b20_device_num s' \<le> max_ds
   \<and> (\<forall>i. i < ds18b20_device_num s \<or> ds18b20_device_num s' \<le> i \<longrightarrow> ds18b20s s' i = ds18b20s s i)
   \<and> (\<forall>i. ds18b20_device_num s \<le> i \<and> i < ds18b20_device_num s' \<longrightarrow> ds18b20s s' i \<noteq> None)"
proof (induction f arbitrary: k s)
  case 0
  then show ?case by simp
next
  case (Suc f)
  let ?n = "ds18b20_device_num s"
  let ?s1 = "s\<lparr>ds18b20s := (ds18b20s s)(?n := Some k), ds18b20_device_num := ?n + 1\<rparr>"
  show ?case
  proof (cases "ow_next env k = ESP_OK \<and> ow_new_device env k = ESP_OK")
    case found: True
    show ?thesis
    proof (cases "max_ds \<le> ?n + 1")
      case True
      with found Suc.prems have "s' = ?s1" by (simp add: Let_def)
      with Suc.prems(2) show ?thesis by auto
    next
      case False
      with found Suc.prems(1) have r: "search_loop env max_ds f (Suc k) ?s1 = Some s'" by (simp add: Let_def)
      from False have "ds18b20_device_num ?s1 < max_ds" by simp
      from Suc.IH [OF r this] have
        a: "?n + 1 \<le> ds18b20_device_num s'" and b: "ds18b20_device_num s' \<le> max_ds" and
        c: "\<forall>i. i < ?n + 1 \<or> ds18b20_device_num s' \<le> i \<longrightarrow> ds18b20s s' i = ((ds18b20s s)(?n := Some k)) i" and
        d: "\<forall>i. ?n + 1 \<le> i \<and> i < ds18b20_device_num s' \<longrightarrow> ds18b20s s' i \<noteq> None"
        by simp_all
      have e: "\<forall>i. i < ?n \<or> ds18b20_device_num s' \<le> i \<longrightarrow> ds18b20s s' i = ds18b20s s i"
        using a c by auto
      have g: "\<forall>i. ?n \<le> i \<and> i < ds18b20_device_num s' \<longrightarrow> ds18b20s s' i \<noteq> None"
      proof (intro allI impI)
        fix i assume i: "?n \<le> i \<and> i < ds18b20_device_num s'"
        show "ds18b20s s' i \<noteq> None"
        proof (cases "i = ?n")
          case True
          with c show ?thesis by simp
        next
          case False
          with i d show ?thesis by simp
        qed
      qed
      from a b e g show ?thesis by simp
    qed
  next
    case other: False
    show ?thesis
    proof (cases "ow_next env k = ESP_ERR_NOT_FOUND")
      case True
      with other Suc.prems show ?thesis by (auto simp: Let_def)
    next
      case False
      with other Suc.prems(1) have r: "search_loop env max_ds f (Suc k) s = Some s'" by (auto simp: Let_def)
      show ?thesis using Suc.IH [OF r Suc.prems(2)] .
    qed
  qed
qed

text \<open>An iterator that keeps failing with an error other than the end keeps the search running.\<close>

lemma search_loop_stalls:
  "(\<And>k. ow_next env k \<noteq> ESP_OK \<and> ow_next env k \<noteq> ESP_ERR_NOT_FOUND) \<Longrightarrow> search_loop env max_ds f k s = None"
  by (induction f arbitrary: k) (simp_all add: Let_def)

lemma search_loop_no_device:
  "(\<And>k. ow_new_device env k \<noteq> ESP_OK) \<Longrightarrow> search_loop env max_ds f k s = Some s' \<Longrightarrow> s' = s"
  by (induction f arbitrary: k) (auto simp: Let_def split: if_splits)

lemma search_loop_initialized:
  "search_loop env max_ds f k s = Some s' \<Longrightarrow> is_initialized s' = is_initialized s"
  by (induction f arbitrary: k s) (auto simp: Let_def split: if_splits)

section \<open>Properties of the initialisation\<close>

lemma search_devices_bounds:
  assumes "search_ds18b20_devices env max_ds fuel s = Some (e, s')" "ds18b20_device_num s = 0" "0 < max_ds"
  shows "ds18b20_device_num s' \<le> max_ds \<and> (\<forall>i. ds18b20_device_num s' \<le> i \<longrightarrow> ds18b20s s' i = ds18b20s s i)
         \<and> (\<forall>i < ds18b20_device_num s'. ds18b20s s' i \<noteq> None) \<and> (e = ESP_OK \<longrightarrow> 0 < ds18b20_device_num s')
         \<and> is_initialized s' = is_initialized s"
proof (cases "ow_sdk env Onewire_new_device_iter = ESP_OK")
  case False
  with assms show ?thesis by (simp add: search_ds18b20_devices_def)
next
  case True
  then obtain s2 where l: "search_loop env max_ds fuel 0 s = Some s2"
    using assms(1) by (auto simp: search_ds18b20_devices_def split: option.splits)
  have s': "s' = s2" and e: "e = ESP_OK \<longrightarrow> 0 < ds18b20_device_num s2"
    using assms(1) True l by (auto simp: search_ds18b20_devices_def aug_return_check_opt_def split: if_splits)
  have i: "is_initialized s2 = is_initialized s" using l by (rule search_loop_initialized)
  from search_loop_bounds [OF l] assms(2,3) s' e i show ?thesis by auto
qed

lemma init_result:
  assumes "aug_ds18b20_init env max_ds fuel s = Some (e, s')"
  obtains (bus) "s' = s\<lparr>ds18b20_device_num := 0\<rparr>" "e \<noteq> ESP_OK"
    | (search) s2 where "search_ds18b20_devices env max_ds fuel (s\<lparr>ds18b20_device_num := 0\<rparr>) = Some (e, s2)"
        "e \<noteq> ESP_OK" "s' = s2"
    | (res) s2 where "search_ds18b20_devices env max_ds fuel (s\<lparr>ds18b20_device_num := 0\<rparr>) = Some (ESP_OK, s2)"
        "e \<noteq> ESP_OK" "s' = s2"
    | (ok) s2 where "search_ds18b20_devices env max_ds fuel (s\<lparr>ds18b20_device_num := 0\<rparr>) = Some (ESP_OK, s2)"
        "e = ESP_OK" "s' = s2\<lparr>is_initialized := True\<rparr>"
  using assms
  by (auto simp: aug_ds18b20_init_def aug_return_check_opt_def Let_def split: if_splits option.splits)

text \<open>
  C13: The driver never writes past the end of its handle array: with room for at least
  one sensor, whatever the bus reports, \<open>aug_ds18b20_init\<close> counts at most
  \<open>CONFIG_ONEWIRE_MAX_DS18B20\<close> sensors and leaves every slot from that index on as it was.
\<close>

theorem init_no_overflow:
  assumes "0 < max_ds" "aug_ds18b20_init env max_ds fuel s = Some (e, s')"
  shows "ds18b20_device_num s' \<le> max_ds \<and> (\<forall>i. max_ds \<le> i \<longrightarrow> ds18b20s s' i = ds18b20s s i)"
  using assms(2)
proof (cases rule: init_result)
  case bus
  then show ?thesis by simp
next
  case (search s2)
  with search_devices_bounds [OF search(1)] assms(1) show ?thesis by fastforce
next
  case (res s2)
  with search_devices_bounds [OF res(1)] assms(1) show ?thesis by fastforce
next
  case (ok s2)
  with search_devices_bounds [OF ok(1)] assms(1) show ?thesis by fastforce
qed

text \<open>
  C14: Initialisation keeps the driver well formed: started uninitialised, with room for at
  least one sensor, \<open>aug_ds18b20_init\<close> leaves at most \<open>max_ds\<close> sensors counted, a
  handle for each, and the driver initialised exactly when it returns \<open>ESP_OK\<close>, in
  which case at least one sensor was found.
\<close>

theorem init_wf:
  assumes "\<not> is_initialized s" "0 < max_ds" "aug_ds18b20_init env max_ds fuel s = Some (e, s')"
  shows "ds_wf max_ds s' \<and> (is_initialized s' \<longleftrightarrow> e = ESP_OK)"
  using assms(3)
proof (cases rule: init_result)
  case bus
  with assms(1) show ?thesis by (simp add: ds_wf_def)
next
  case (search s2)
  with search_devices_bounds [OF search(1)] assms(1,2) show ?thesis by (simp add: ds_wf_def)
next
  case (res s2)
  with search_devices_bounds [OF res(1)] assms(1,2) show ?thesis by (simp add: ds_wf_def)
next
  case (ok s2)
  with search_devices_bounds [OF ok(1)] assms(1,2) show ?thesis by (simp add: ds_wf_def)
qed

text \<open>
  C15: Initialisation returns once the bus reports the end of its devices: if the
  \<open>k\<close>-th iterator call reports \<open>ESP_ERR_NOT_FOUND\<close>, \<open>aug_ds18b20_init\<close> returns given
  more than \<open>k\<close> loop iterations, whatever the other calls return.
\<close>

theorem init_returns:
  assumes "ow_next env k = ESP_ERR_NOT_FOUND" "k < fuel"
  shows "\<exists>r. aug_ds18b20_init env max_ds fuel s = Some r"
proof -
  obtain s2 where l: "search_loop env max_ds fuel 0 (s\<lparr>ds18b20_device_num := 0\<rparr>) = Some s2"
    using search_loop_ends [of env 0 k fuel max_ds "s\<lparr>ds18b20_device_num := 0\<rparr>"] assms by auto
  then show ?thesis
    by (simp add: aug_ds18b20_init_def search_ds18b20_devices_def aug_return_check_opt_def Let_def)
qed

text \<open>
  A gateway with no DS18B20 cannot initialise the driver: if no device on the bus is
  a DS18B20, \<open>aug_ds18b20_init\<close> with a working bus returns \<open>ESP_FAIL\<close> with no sensor
  counted and the initialised flag as it was. \<open>main_init\<close> calls it under
  \<open>ESP_ERROR_CHECK\<close>, so such a device aborts at every boot.
\<close>

theorem init_without_sensor_fails:
  assumes "ow_sdk env = (\<lambda>_. ESP_OK)" "\<forall>k. ow_new_device env k \<noteq> ESP_OK"
    "aug_ds18b20_init env max_ds fuel s = Some (e, s')"
  shows "e = ESP_FAIL \<and> ds18b20_device_num s' = 0 \<and> is_initialized s' = is_initialized s"
proof -
  let ?s0 = "s\<lparr>ds18b20_device_num := 0\<rparr>"
  from assms(1,3) obtain t where l: "search_loop env max_ds fuel 0 ?s0 = Some t"
    by (auto simp: aug_ds18b20_init_def search_ds18b20_devices_def Let_def split: option.splits)
  from assms(2) l have "t = ?s0" by (blast intro: search_loop_no_device)
  with l assms(1,3) show ?thesis
    by (auto simp: aug_ds18b20_init_def search_ds18b20_devices_def Let_def)
qed

section \<open>Witnesses\<close>

lemma set_resolution_all_ok:
  "ow_sdk env = (\<lambda>_. ESP_OK) \<Longrightarrow> set_resolution_for_devices env s = ESP_OK"
proof -
  assume ok: "ow_sdk env = (\<lambda>_. ESP_OK)"
  have "set_resolution_loop env hs is = ESP_OK" for hs "is" using ok by (induction "is") simp_all
  then show ?thesis by (simp add: set_resolution_for_devices_def)
qed

lemma init_example:
  "aug_ds18b20_init ow_env_example 4 5 ds_module_init =
   Some (ESP_OK, \<lparr>is_initialized = True, ds18b20_device_num = 2, ds18b20s = (\<lambda>_. None)(0 := Some 0, 1 := Some 2)\<rparr>)"
  by (simp add: aug_ds18b20_init_def search_ds18b20_devices_def set_resolution_all_ok
      ow_env_example_def ds_module_init_def eval_nat_numeral Let_def)

lemma init_no_sensor_example:
  "aug_ds18b20_init ow_env_no_sensor 4 5 ds_module_init = Some (ESP_FAIL, ds_module_init)"
  by (simp add: aug_ds18b20_init_def search_ds18b20_devices_def ow_env_no_sensor_def ow_env_example_def
      ds_module_init_def eval_nat_numeral Let_def)

theorem init_no_overflow_witness:
  "0 < (4 :: nat) \<and> aug_ds18b20_init ow_env_example 4 5 ds_module_init
     = Some (ESP_OK, \<lparr>is_initialized = True, ds18b20_device_num = 2, ds18b20s = (\<lambda>_. None)(0 := Some 0, 1 := Some 2)\<rparr>)
   \<and> (2 :: nat) \<le> 4 \<and> ((\<lambda>_. None)((0::nat) := Some 0, 1 := Some (2::nat))) (4::nat) = ds18b20s ds_module_init 4"
proof -
  have h: "0 < (4 :: nat)" by simp
  from init_no_overflow [OF h init_example] show ?thesis using init_example by simp
qed

theorem init_wf_witness:
  "\<not> is_initialized ds_module_init \<and> 0 < (4 :: nat)
   \<and> aug_ds18b20_init ow_env_example 4 5 ds_module_init
     = Some (ESP_OK, \<lparr>is_initialized = True, ds18b20_device_num = 2, ds18b20s = (\<lambda>_. None)(0 := Some 0, 1 := Some 2)\<rparr>)
   \<and> ds_wf 4 \<lparr>is_initialized = True, ds18b20_device_num = 2, ds18b20s = (\<lambda>_. None)(0 := Some 0, 1 := Some 2)\<rparr>"
proof -
  have h: "\<not> is_initialized ds_module_init" "0 < (4 :: nat)" by (simp_all add: ds_module_init_def)
  from init_wf [OF h init_example] h init_example show ?thesis by simp
qed

theorem init_returns_witness:
  "ow_next ow_env_example 3 = ESP_ERR_NOT_FOUND \<and> (3 :: nat) < 5
   \<and> (\<exists>r. aug_ds18b20_init ow_env_example 4 5 ds_module_init = Some r)"
proof -
  have h: "ow_next ow_env_example 3 = ESP_ERR_NOT_FOUND" "(3 :: nat) < 5" by (simp_all add: ow_env_example_def)
  from init_returns [OF h, of 4 ds_module_init] h show ?thesis by simp
qed

theorem init_without_sensor_fails_witness:
  "ow_sdk ow_env_no_sensor = (\<lambda>_. ESP_OK) \<and> (\<forall>k. ow_new_device ow_env_no_sensor k \<noteq> ESP_OK)
   \<and> aug_ds18b20_init ow_env_no_sensor 4 5 ds_module_init = Some (ESP_FAIL, ds_module_init)"
proof -
  have h: "ow_sdk ow_env_no_sensor = (\<lambda>_. ESP_OK)" "\<forall>k. ow_new_device ow_env_no_sensor k \<noteq> ESP_OK"
    by (simp_all add: ow_env_no_sensor_def ow_env_example_def)
  from init_without_sensor_fails [OF h init_no_sensor_example] h init_no_sensor_example show ?thesis by simp
qed

end
