(* ===== verification/Orchestrator.thy ===== *)
theory Orchestrator
  imports WifiSta WifiAp Nvs HttpServer Sensors
begin

text \<open>
  Model of \<open>src/main/main.c\<close>, the firmware's connectivity controller, composed with
  the modules it drives. The whole device is the record \<open>gateway\<close>: the statics of the
  station, access-point, HTTP, MQTT and sensor modules, the flash store, the OTA library's
  partitions, and the application event loop created by \<open>event_loop_init\<close> (a queue of
  \<open>queue_size = 2\<close> events served by one task, \<open>second_loop\<close>, which runs the callbacks
  \<open>register_events\<close> attached to them).

  The device is a set of tasks that interleave: the default event loop delivering radio
  events to the station and access-point handlers, the idle task of the access point,
  the HTTP server's task running request handlers, the MQTT client's task, the
  application loop dispatching queued events, and the main task, which runs
  \<open>app_main\<close> once. A step of the model is one such activity running to its next
  blocking point; a run is a list of inputs. Two activities block inside the firmware:
  \<open>aug_wifi_sta_connect\<close>, called by \<open>main_init\<close> or by \<open>callback_init_sta\<close>, waits
  for the station's result bits (the caller's continuation resumes when a radio event
  sets one), and \<open>esp_event_post_to\<close> with \<open>portMAX_DELAY\<close> waits for room in the
  queue (the posting activity is not taken until there is room). \<open>ESP_ERROR_CHECK\<close>
  failures abort the device (\<open>Aborted\<close>); \<open>esp_restart\<close> reboots it (\<open>Rebooting\<close>).
\<close>

section \<open>Events, callbacks and the device state\<close>

datatype core_event =
    STA_FAILED_ATTEMPTS
  | AP_IDLE
  | HTTP_SERVER_EVENT http_event

datatype callback =
    Callback_init_sta
  | Callback_init_ap
  | Callback_init_mqtt
  | Callback_esp_restart

text \<open>\<open>register_events\<close>: the six registrations, in order, and the callback of each.\<close>

definition registered_events :: "core_event list" where
  "registered_events =
     [STA_FAILED_ATTEMPTS, AP_IDLE, HTTP_SERVER_EVENT AUG_HTTP_SERVER_EVENT_INIT_STA,
      HTTP_SERVER_EVENT AUG_HTTP_SERVER_EVENT_INIT_MQTT, HTTP_SERVER_EVENT AUG_HTTP_SERVER_EVENT_OTA_UPDATE,
      HTTP_SERVER_EVENT AUG_HTTP_SERVER_EVENT_RESTART]"

fun callback_of :: "core_event \<Rightarrow> callback" where
  "callback_of STA_FAILED_ATTEMPTS = Callback_init_ap"
| "callback_of AP_IDLE = Callback_init_sta"
| "callback_of (HTTP_SERVER_EVENT AUG_HTTP_SERVER_EVENT_INIT_STA) = Callback_init_sta"
| "callback_of (HTTP_SERVER_EVENT AUG_HTTP_SERVER_EVENT_INIT_MQTT) = Callback_init_mqtt"
| "callback_of (HTTP_SERVER_EVENT AUG_HTTP_SERVER_EVENT_OTA_UPDATE) = Callback_esp_restart"
| "callback_of (HTTP_SERVER_EVENT AUG_HTTP_SERVER_EVENT_RESTART) = Callback_esp_restart"

text \<open>\<open>event_loop_args.queue_size\<close>.\<close>

definition EVENT_QUEUE_SIZE :: nat where "EVENT_QUEUE_SIZE = 2"

datatype phase = Running | Rebooting | Aborted esp_err

text \<open>
  Who is blocked in the station's wait: nobody, \<open>callback_init_sta\<close> (so the application
  loop is busy), or \<open>main_init\<close> (the main task).
\<close>

datatype sta_waiter = No_waiter | Waiter_callback | Waiter_main_init

record gateway =
  g_sta :: sta_module
  g_ap :: ap_module
  g_http :: http_module
  g_mqtt :: mqtt_module
  g_nvs :: nvs_store
  g_ota :: ota_state
  g_ds :: ds_module
  g_queue :: "core_event list"
  g_posted :: "core_event list"
  g_dispatched :: "core_event list"
  g_registered :: "core_event list"
  g_waiter :: sta_waiter
  g_http_stuck :: bool
  g_phase :: phase

text \<open>
  The environment of a run: the build configuration, the struct layouts, and the
  results of the SDK and library calls of each module.
\<close>

record gw_env =
  e_kc :: kconfig
  e_layout :: layout
  e_wifi_sdk :: "wifi_sdk_call \<Rightarrow> esp_err"
  e_sta_sdk :: "sta_sdk_call \<Rightarrow> esp_err"
  e_ap_sdk :: "ap_sdk_call \<Rightarrow> esp_err"
  e_scan_sdk :: "scan_sdk_call \<Rightarrow> esp_err"
  e_scan_aps :: "byte list"
  e_http_sdk :: "http_sdk_call \<Rightarrow> esp_err"
  e_nvs_sdk :: "nvs_sdk_call \<Rightarrow> esp_err"
  e_nvs_init :: "esp_err \<times> esp_err \<times> esp_err"
  e_mqtt :: mqtt_env
  e_henv :: http_env
  e_ota :: ota_env
  e_ota_fuel :: nat
  e_index :: string
  e_loop_create :: esp_err
  e_register_ret :: "core_event \<Rightarrow> esp_err"
  e_ow :: ow_env
  e_max_ds :: nat
  e_ds_fuel :: nat

text \<open>The inputs of a run: which activity takes the next step.\<close>

datatype http_request =
    Req_set_options_sta query
  | Req_init_sta
  | Req_set_options_mqtt query
  | Req_init_mqtt
  | Req_ota_update nat
  | Req_restart
  | Req_index

datatype gw_input =
    In_sta_radio sta_event
  | In_ap_radio ap_event
  | In_idle_tick
  | In_mqtt mqtt_event
  | In_http http_request
  | In_dispatch
  | In_resume

section \<open>Sequencing\<close>

text \<open>\<open>ESP_ERROR_CHECK\<close> on a call's code and state, and the rest of a function after it.\<close>

definition esp_error_check :: "esp_err \<times> gateway \<Rightarrow> gateway" where
  "esp_error_check r = (if fst r = ESP_OK then snd r else (snd r)\<lparr>g_phase := Aborted (fst r)\<rparr>)"

definition and_then :: "gateway \<Rightarrow> (gateway \<Rightarrow> gateway) \<Rightarrow> gateway" where
  "and_then g k = (if g_phase g = Running then k g else g)"

definition with_sta :: "(sta_module \<Rightarrow> esp_err \<times> sta_module) \<Rightarrow> gateway \<Rightarrow> esp_err \<times> gateway" where
  "with_sta f g = (let (e, s) = f (g_sta g) in (e, g\<lparr>g_sta := s\<rparr>))"

definition with_ap :: "(ap_module \<Rightarrow> esp_err \<times> ap_module) \<Rightarrow> gateway \<Rightarrow> esp_err \<times> gateway" where
  "with_ap f g = (let (e, a) = f (g_ap g) in (e, g\<lparr>g_ap := a\<rparr>))"

definition with_http :: "(http_module \<Rightarrow> esp_err \<times> http_module) \<Rightarrow> gateway \<Rightarrow> esp_err \<times> gateway" where
  "with_http f g = (let (e, h) = f (g_http g) in (e, g\<lparr>g_http := h\<rparr>))"

definition with_mqtt :: "(mqtt_module \<Rightarrow> esp_err \<times> mqtt_module) \<Rightarrow> gateway \<Rightarrow> esp_err \<times> gateway" where
  "with_mqtt f g = (let (e, m) = f (g_mqtt g) in (e, g\<lparr>g_mqtt := m\<rparr>))"

definition with_nvs :: "(nvs_store \<Rightarrow> esp_err \<times> nvs_store) \<Rightarrow> gateway \<Rightarrow> esp_err \<times> gateway" where
  "with_nvs f g = (let (e, st) = f (g_nvs g) in (e, g\<lparr>g_nvs := st\<rparr>))"

text \<open>Posting to the application loop, once there is room.\<close>

definition queue_room :: "gateway \<Rightarrow> bool" where
  "queue_room g \<longleftrightarrow> length (g_queue g) < EVENT_QUEUE_SIZE"

definition post_event :: "core_event \<Rightarrow> gateway \<Rightarrow> gateway" where
  "post_event ev g = g\<lparr>g_queue := g_queue g @ [ev], g_posted := g_posted g @ [ev]\<rparr>"

section \<open>The callbacks\<close>

text \<open>\<open>aug_http_start\<close> is called without looking at its result.\<close>

definition http_start :: "gw_env \<Rightarrow> gateway \<Rightarrow> gateway" where
  "http_start env g = g\<lparr>g_http := snd (aug_http_start (e_http_sdk env) (g_http g))\<rparr>"

text \<open>\<open>if (aug_mqtt_is_connected()) ESP_ERROR_CHECK(aug_mqtt_stop());\<close>\<close>

definition stop_mqtt_if_connected :: "gateway \<Rightarrow> gateway" where
  "stop_mqtt_if_connected g =
     (if aug_mqtt_is_connected (g_mqtt g) then esp_error_check (with_mqtt aug_mqtt_stop g) else g)"

definition deinit_modules :: "gw_env \<Rightarrow> gateway \<Rightarrow> gateway" where
  "deinit_modules env g =
     and_then (if aug_http_is_init (g_http g)
               then esp_error_check (with_http (aug_http_stop_webserver (e_http_sdk env)) g) else g) (\<lambda>g1.
     and_then (if aug_wifi_sta_is_init (g_sta g1)
               then esp_error_check (with_sta (aug_wifi_sta_disconnect (e_sta_sdk env)) g1) else g1) (\<lambda>g2.
     if aug_wifi_ap_is_init (g_ap g2)
     then esp_error_check (with_ap (aug_wifi_ap_stop (e_ap_sdk env)) g2) else g2))"

definition write_nvs_data :: "gw_env \<Rightarrow> gateway \<Rightarrow> gateway" where
  "write_nvs_data env g =
     and_then (esp_error_check (with_nvs (aug_nvs_set_ap_config (e_layout env) (e_nvs_sdk env)
                                           (ap_config (g_ap g))) g)) (\<lambda>g1.
     and_then (esp_error_check (with_nvs (aug_nvs_set_sta_config (e_layout env) (e_nvs_sdk env)
                                           (sta_config (g_sta g1))) g1)) (\<lambda>g2.
     esp_error_check (with_nvs (aug_nvs_set_mqtt_config (kc_max_uri_len (e_kc env)) (e_nvs_sdk env)
                                 (uri_str (g_mqtt g2))) g2)))"

text \<open>
  \<open>callback_init_sta\<close>: stop the broker client if connected, tear every module down,
  connect the station and block until the result; the rest runs when the result is
  there (\<open>finish_init_sta\<close>): on success, start the server and the broker client.
\<close>

definition callback_init_sta :: "gw_env \<Rightarrow> gateway \<Rightarrow> gateway" where
  "callback_init_sta env g =
     and_then (stop_mqtt_if_connected g) (\<lambda>g1.
     and_then (deinit_modules env g1) (\<lambda>g2.
     case aug_wifi_sta_connect_begin (e_sta_sdk env) (g_sta g2) of
       Inl (e, s) \<Rightarrow> g2\<lparr>g_sta := s\<rparr>
     | Inr s \<Rightarrow> g2\<lparr>g_sta := s, g_waiter := Waiter_callback\<rparr>))"

definition finish_init_sta :: "gw_env \<Rightarrow> esp_err \<Rightarrow> gateway \<Rightarrow> gateway" where
  "finish_init_sta env r g =
     (if r \<noteq> ESP_OK then g
      else esp_error_check (with_mqtt aug_mqtt_start (http_start env g)))"

definition callback_init_ap :: "gw_env \<Rightarrow> gateway \<Rightarrow> gateway" where
  "callback_init_ap env g =
     and_then (stop_mqtt_if_connected g) (\<lambda>g1.
     and_then (deinit_modules env g1) (\<lambda>g2.
     case aug_wifi_ap_start (e_ap_sdk env) (e_scan_sdk env) (kc_scan_list_size (e_kc env))
            (e_scan_aps env) (g_ap g2) of
       Inl e \<Rightarrow> g2\<lparr>g_phase := Aborted e\<rparr>
     | Inr (e, a) \<Rightarrow> and_then (esp_error_check (e, g2\<lparr>g_ap := a\<rparr>)) (http_start env)))"

definition callback_init_mqtt :: "gw_env \<Rightarrow> gateway \<Rightarrow> gateway" where
  "callback_init_mqtt env g = esp_error_check (with_mqtt (aug_mqtt_set_uri (e_mqtt env)) g)"

definition callback_esp_restart :: "gw_env \<Rightarrow> gateway \<Rightarrow> gateway" where
  "callback_esp_restart env g =
     and_then (stop_mqtt_if_connected g) (\<lambda>g1.
     and_then (deinit_modules env g1) (\<lambda>g2.
     and_then (write_nvs_data env g2) (\<lambda>g3. g3\<lparr>g_phase := Rebooting\<rparr>)))"

fun run_callback :: "gw_env \<Rightarrow> callback \<Rightarrow> gateway \<Rightarrow> gateway" where
  "run_callback env Callback_init_sta g = callback_init_sta env g"
| "run_callback env Callback_init_ap g = callback_init_ap env g"
| "run_callback env Callback_init_mqtt g = callback_init_mqtt env g"
| "run_callback env Callback_esp_restart g = callback_esp_restart env g"

section \<open>Boot\<close>

text \<open>\<open>register_events\<close>: each registration behind \<open>ESP_ERROR_CHECK\<close>.\<close>

fun register_events :: "gw_env \<Rightarrow> core_event list \<Rightarrow> gateway \<Rightarrow> gateway" where
  "register_events env [] g = g"
| "register_events env (ev # evs) g =
     and_then (esp_error_check (e_register_ret env ev, g\<lparr>g_registered := g_registered g @ [ev]\<rparr>))
       (register_events env evs)"

text \<open>
  The part of \<open>main_init\<close> after the station or access point has been brought up:
  broker URI from flash or the default, event registration, the sensor driver
  (\<open>aug_ds18b20_init\<close> of \<open>Sensors\<close>; if its device search never ends, the main task
  stays blocked there and the rest of the boot never runs), server, broker client, and
  the client's start when the station netif exists.
\<close>

definition boot_rest :: "gw_env \<Rightarrow> gateway \<Rightarrow> gateway" where
  "boot_rest env g =
     (let kc = e_kc env;
          (em, u) = aug_nvs_get_mqtt_config (kc_max_uri_len kc) (e_nvs_sdk env) (g_nvs g) (uri_str (g_mqtt g));
          m1 = (if em \<noteq> ESP_OK then aug_mqtt_set_default_uri (kc_broker_uri kc) (g_mqtt g)
                else (g_mqtt g)\<lparr>uri_str := u\<rparr>);
          g1 = g\<lparr>g_mqtt := m1\<lparr>config_uri_set := True\<rparr>\<rparr>
      in and_then (register_events env registered_events g1) (\<lambda>g2.
         case aug_ds18b20_init (e_ow env) (e_max_ds env) (e_ds_fuel env) (g_ds g2) of
           None \<Rightarrow> g2
         | Some (e, ds) \<Rightarrow>
         and_then (esp_error_check (e, g2\<lparr>g_ds := ds\<rparr>)) (\<lambda>g3.
         and_then (esp_error_check (with_mqtt (aug_mqtt_init (e_mqtt env)) (http_start env g3))) (\<lambda>g4.
         if aug_wifi_sta_is_init (g_sta g4) then esp_error_check (with_mqtt aug_mqtt_start g4) else g4))))"

text \<open>
  \<open>main_init\<close> up to the station's wait: create the loop, load both configurations
  (zeroed, then the compiled defaults, when absent), and connect the station if a
  configuration was found or one is compiled in, otherwise start the access point.
  The result of \<open>aug_wifi_sta_connect\<close> is not looked at.
\<close>

definition main_init :: "gw_env \<Rightarrow> gateway \<Rightarrow> gateway" where
  "main_init env g =
     and_then (esp_error_check (e_loop_create env, g)) (\<lambda>g1.
     let kc = e_kc env; ly = e_layout env; nvs = e_nvs_sdk env;
         (es, cfg) = aug_nvs_get_sta_config ly nvs (g_nvs g1) (sta_config (g_sta g1));
         cfg' = (if es \<noteq> ESP_OK
                 then (if kc_wifi_info kc then aug_wifi_get_default_sta_config kc else zero_sta_config)
                 else cfg);
         (ea, acfg) = aug_nvs_get_ap_config ly nvs (g_nvs g1) (ap_config (g_ap g1));
         acfg' = (if ea \<noteq> ESP_OK then aug_wifi_get_default_ap_config kc else acfg);
         g2 = g1\<lparr>g_sta := (g_sta g1)\<lparr>sta_config := cfg'\<rparr>, g_ap := (g_ap g1)\<lparr>ap_config := acfg'\<rparr>\<rparr>
     in if es = ESP_OK \<or> kc_wifi_info kc then
          (case aug_wifi_sta_connect_begin (e_sta_sdk env) (g_sta g2) of
             Inl (e, s) \<Rightarrow> boot_rest env (g2\<lparr>g_sta := s\<rparr>)
           | Inr s \<Rightarrow> g2\<lparr>g_sta := s, g_waiter := Waiter_main_init\<rparr>)
        else (case aug_wifi_ap_start (e_ap_sdk env) (e_scan_sdk env) (kc_scan_list_size kc)
                     (e_scan_aps env) (g_ap g2) of
                Inl e \<Rightarrow> g2\<lparr>g_phase := Aborted e\<rparr>
              | Inr (e, a) \<Rightarrow> and_then (esp_error_check (e, g2\<lparr>g_ap := a\<rparr>)) (boot_rest env)))"

definition gateway_init :: "nvs_store \<Rightarrow> gateway" where
  "gateway_init st =
     \<lparr>g_sta = sta_module_init, g_ap = ap_module_init, g_http = http_module_init,
      g_mqtt = mqtt_module_init, g_nvs = st, g_ota = ota_state_init, g_ds = ds_module_init, g_queue = [], g_posted = [],
      g_dispatched = [], g_registered = [], g_waiter = No_waiter, g_http_stuck = False,
      g_phase = Running\<rparr>"

text \<open>
  \<open>app_main\<close> on a partition holding \<open>st\<close>: \<open>aug_nvs_init\<close>, \<open>aug_wifi_init\<close> and
  \<open>main_init\<close>. (\<open>verify_app\<close> only confirms the running image to the bootloader.)
\<close>

definition app_main :: "gw_env \<Rightarrow> nvs_store \<Rightarrow> gateway" where
  "app_main env st =
     (let (r1, r2, r3) = e_nvs_init env in
      case aug_nvs_init r1 r2 r3 st of
        Inl e \<Rightarrow> (gateway_init st)\<lparr>g_phase := Aborted e\<rparr>
      | Inr st' \<Rightarrow>
          and_then (esp_error_check (aug_wifi_init (e_wifi_sdk env), gateway_init st')) (main_init env))"

section \<open>Steps\<close>

text \<open>
  The blocked caller of the station's wait resumes once a result bit is set. It is a
  step of its own: the task that sets the bit and the waiting task are different tasks,
  and others (the application loop above all, at the highest priority) may run between.
\<close>

definition resume_waiter :: "gw_env \<Rightarrow> gateway \<Rightarrow> gateway" where
  "resume_waiter env g =
     (case sta_wait_result (g_sta g) of
        None \<Rightarrow> g
      | Some r \<Rightarrow>
          (case g_waiter g of
             No_waiter \<Rightarrow> g
           | Waiter_callback \<Rightarrow> finish_init_sta env r (g\<lparr>g_waiter := No_waiter\<rparr>)
           | Waiter_main_init \<Rightarrow> boot_rest env (g\<lparr>g_waiter := No_waiter\<rparr>)))"

text \<open>
  A station radio event, delivered to \<open>event_handler\<close> if its instance is registered. If
  the handler posts \<open>FAILED_ATTEMPTS\<close> while the queue is full, the default loop waits
  inside the handler: the event is taken later.
\<close>

definition deliver_sta :: "gw_env \<Rightarrow> sta_event \<Rightarrow> gateway \<Rightarrow> gateway" where
  "deliver_sta env e g =
     (let s = g_sta g;
          reg = (if e = IP_EVENT_STA_GOT_IP then sta_got_ip_registered s else sta_any_registered s)
      in if \<not> reg then g
         else let s' = event_handler s e; posts = (sta_posts s' \<noteq> sta_posts s) in
         if posts \<and> \<not> queue_room g then g
         else if posts then post_event STA_FAILED_ATTEMPTS (g\<lparr>g_sta := s'\<rparr>) else g\<lparr>g_sta := s'\<rparr>)"

definition deliver_ap :: "ap_event \<Rightarrow> gateway \<Rightarrow> gateway" where
  "deliver_ap e g =
     (if ap_handler_registered (g_ap g) then g\<lparr>g_ap := wifi_event_handler (g_ap g) e\<rparr> else g)"

text \<open>A wake-up of \<open>idle_check_task\<close>; its post waits for room like the others.\<close>

definition idle_tick :: "gateway \<Rightarrow> gateway" where
  "idle_tick g =
     (if \<not> idle_task (g_ap g) then g
      else let a' = idle_check_task (g_ap g) in
           if ap_posts a' = ap_posts (g_ap g) then g\<lparr>g_ap := a'\<rparr>
           else if queue_room g then post_event AP_IDLE (g\<lparr>g_ap := a'\<rparr>) else g)"

definition deliver_mqtt :: "mqtt_event \<Rightarrow> gateway \<Rightarrow> gateway" where
  "deliver_mqtt e g =
     (if mqtt_client_handle (g_mqtt g) then g\<lparr>g_mqtt := mqtt_event_handler (g_mqtt g) e\<rparr> else g)"

text \<open>Posting a handler's events, if there is room for them.\<close>

definition post_http :: "http_event list \<Rightarrow> gateway \<Rightarrow> gateway option" where
  "post_http evs g =
     (if evs = [] then Some g
      else if length (g_queue g) + length evs \<le> EVENT_QUEUE_SIZE
      then Some (fold (\<lambda>ev. post_event (HTTP_SERVER_EVENT ev)) evs g) else None)"

definition request_uri :: "http_request \<Rightarrow> string" where
  "request_uri r = (case r of
       Req_set_options_sta _ \<Rightarrow> ''/set_options/sta'' | Req_init_sta \<Rightarrow> ''/init/sta''
     | Req_set_options_mqtt _ \<Rightarrow> ''/set_options/mqtt'' | Req_init_mqtt \<Rightarrow> ''/init/mqtt''
     | Req_ota_update _ \<Rightarrow> ''/ota_update'' | Req_restart \<Rightarrow> ''/restart'' | Req_index \<Rightarrow> ''/'')"

text \<open>
  A request, run by the server's task if the server is up, the URI's handler is
  registered and the task is not stuck in an earlier upload.
\<close>

definition serve :: "gw_env \<Rightarrow> http_request \<Rightarrow> gateway \<Rightarrow> gateway" where
  "serve env r g =
     (let henv = e_henv env; kc = e_kc env;
          posted = (\<lambda>evs g'. case post_http evs g' of None \<Rightarrow> g | Some g'' \<Rightarrow> g'')
      in if \<not> server (g_http g) \<or> request_uri r \<notin> set (registered (g_http g)) \<or> g_http_stuck g then g
      else case r of
        Req_set_options_sta q \<Rightarrow>
          (let (_, cfg, _) = set_options_sta_handler henv q (sta_config (g_sta g))
           in g\<lparr>g_sta := (g_sta g)\<lparr>sta_config := cfg\<rparr>\<rparr>)
      | Req_init_sta \<Rightarrow>
          (let (_, _, evs) = init_sta_handler henv (sta_config (g_sta g)) in posted evs g)
      | Req_set_options_mqtt q \<Rightarrow>
          (let (_, m, _) = set_options_mqtt_handler henv (kc_max_uri_len kc) q (g_mqtt g)
           in g\<lparr>g_mqtt := m\<rparr>)
      | Req_init_mqtt \<Rightarrow>
          (let (_, _, evs) = init_mqtt_handler henv (kc_max_uri_len kc) (g_mqtt g) in posted evs g)
      | Req_ota_update n \<Rightarrow>
          (case ota_update_handler (e_ota env) henv (e_ota_fuel env) n (g_ota g) of
             Inl e \<Rightarrow> g\<lparr>g_phase := Aborted e\<rparr>
           | Inr None \<Rightarrow> g\<lparr>g_http_stuck := True\<rparr>
           | Inr (Some (_, ota', _, evs)) \<Rightarrow> posted evs (g\<lparr>g_ota := ota'\<rparr>))
      | Req_restart \<Rightarrow> (let (_, _, evs) = restart_handler henv in posted evs g)
      | Req_index \<Rightarrow> g)"

text \<open>
  The application loop takes the oldest event and runs the callback registered for it;
  an event no callback is registered for is consumed with no effect.
\<close>

definition dispatch :: "gw_env \<Rightarrow> gateway \<Rightarrow> gateway" where
  "dispatch env g =
     (case g_queue g of
        [] \<Rightarrow> g
      | ev # rest \<Rightarrow>
          let g1 = g\<lparr>g_queue := rest, g_dispatched := g_dispatched g @ [ev]\<rparr> in
          if ev \<in> set (g_registered g1) then run_callback env (callback_of ev) g1 else g1)"

definition gw_step :: "gw_env \<Rightarrow> gateway \<Rightarrow> gw_input \<Rightarrow> gateway" where
  "gw_step env g i =
     (if g_phase g \<noteq> Running then g
      else case i of
        In_sta_radio e \<Rightarrow> deliver_sta env e g
      | In_ap_radio e \<Rightarrow> deliver_ap e g
      | In_idle_tick \<Rightarrow> idle_tick g
      | In_mqtt e \<Rightarrow> deliver_mqtt e g
      | In_http r \<Rightarrow> serve env r g
      | In_dispatch \<Rightarrow> (if g_waiter g = Waiter_callback then g else dispatch env g)
      | In_resume \<Rightarrow> resume_waiter env g)"

definition gw_run :: "gw_env \<Rightarrow> gateway \<Rightarrow> gw_input list \<Rightarrow> gateway" where
  "gw_run env g ins = fold (\<lambda>i g. gw_step env g i) ins g"

text \<open>The states a device can reach from a boot on some partition contents.\<close>

inductive gw_reachable :: "gw_env \<Rightarrow> gateway \<Rightarrow> bool" for env where
  boot: "gw_reachable env (app_main env st)"
| step: "gw_reachable env g \<Longrightarrow> gw_reachable env (gw_step env g i)"

section \<open>Example environments\<close>

text \<open>
  A build with compiled-in station credentials and no retries, a one-byte stand-in for
  the struct layouts, and SDK and library calls that all succeed; and the same build
  without station credentials.
\<close>

definition kc_example :: kconfig where
  "kc_example =
     \<lparr>kc_wifi_info = True, kc_sta_ssid = ''home'', kc_sta_password = ''secret'', kc_maximum_retry = 0,
      kc_sae_mode = WPA3_SAE_PWE_HUNT_AND_PECK, kc_pw_id = [], kc_scan_auth_threshold = WIFI_AUTH_WPA2_PSK,
      kc_ap_ssid = ''gateway'', kc_ap_password = ''password'', kc_max_sta_conn = 4, kc_timeout_idle = 60,
      kc_softap_sae = False, kc_scan_list_size = 20, kc_max_uri_len = 128,
      kc_broker_uri = ''mqtt://broker''\<rparr>"

definition layout_example :: layout where
  "layout_example =
     \<lparr>sta_size = 1, sta_codec = \<lparr>encode = (\<lambda>_. [0]), decode = (\<lambda>_. zero_sta_config)\<rparr>,
      ap_size = 1, ap_codec = \<lparr>encode = (\<lambda>_. [0]), decode = (\<lambda>_. zero_ap_config)\<rparr>\<rparr>"

definition gw_env_example :: gw_env where
  "gw_env_example =
     \<lparr>e_kc = kc_example, e_layout = layout_example, e_wifi_sdk = (\<lambda>_. ESP_OK),
      e_sta_sdk = (\<lambda>_. ESP_OK), e_ap_sdk = (\<lambda>_. ESP_OK), e_scan_sdk = (\<lambda>_. ESP_OK), e_scan_aps = [],
      e_http_sdk = (\<lambda>_. ESP_OK), e_nvs_sdk = (\<lambda>_. ESP_OK), e_nvs_init = (ESP_OK, ESP_OK, ESP_OK),
      e_mqtt = \<lparr>client_init_ok = True, register_ret = ESP_OK, destroy_ret = ESP_OK, uri_parses = (\<lambda>_. True)\<rparr>,
      e_henv = http_env_ok, e_ota = ota_env_full, e_ota_fuel = 2, e_index = [], e_loop_create = ESP_OK,
      e_register_ret = (\<lambda>_. ESP_OK), e_ow = ow_env_example, e_max_ds = 4, e_ds_fuel = 5\<rparr>"

definition gw_env_ap_example :: gw_env where
  "gw_env_ap_example = gw_env_example\<lparr>e_kc := kc_example\<lparr>kc_wifi_info := False\<rparr>\<rparr>"

text \<open>The access-point build on a bus with no DS18B20.\<close>

definition gw_env_no_sensor :: gw_env where
  "gw_env_no_sensor = gw_env_ap_example\<lparr>e_ow := ow_env_no_sensor\<rparr>"

end
