(* ===== verification/GatewayInvariants.thy ===== *)
theory GatewayInvariants
  imports Orchestrator
begin

text \<open>
  Invariants of the device model of \<open>Orchestrator\<close>, by rule induction over
  \<open>gw_reachable\<close>: the station and access-point netifs never exist together (the
  callbacks of \<open>main.c\<close> tear every module down before bringing one up), and the
  application event loop is a bounded FIFO queue: what has been posted is what has been
  dispatched followed by what is queued, and the queue never holds more than
  \<open>queue_size\<close> events; no handler post is lost: the \<open>FAILED_ATTEMPTS\<close> and \<open>IDLE\<close>
  events posted are exactly those the station handler and the idle monitor record
  (\<open>post_inv\<close>). The projections \<open>bus\<close>, \<open>netifs\<close> and \<open>logs\<close> carry the frame
  lemmas: each module call leaves the other parts of the device alone.
\<close>


definition bus :: "gateway \<Rightarrow> core_event list \<times> core_event list \<times> core_event list" where
  "bus g = (g_queue g, g_posted g, g_dispatched g)"

definition netifs :: "gateway \<Rightarrow> bool \<times> bool" where
  "netifs g = (sta_netif (g_sta g), ap_netif (g_ap g))"

definition bus_inv :: "gateway \<Rightarrow> bool" where
  "bus_inv g \<longleftrightarrow> g_posted g = g_dispatched g @ g_queue g \<and> length (g_queue g) \<le> EVENT_QUEUE_SIZE"

definition mode_excl :: "gateway \<Rightarrow> bool" where
  "mode_excl g \<longleftrightarrow> \<not> (sta_netif (g_sta g) \<and> ap_netif (g_ap g))"

text \<open>
  The handlers' own record of their posts: the station module's log holds a
  \<open>FAILED_ATTEMPTS\<close> post for each time \<open>event_handler\<close> gave up, the access point's
  an \<open>IDLE\<close> post for each idle wake-up with no station.
\<close>

definition logs :: "gateway \<Rightarrow> sta_action list \<times> ap_action list" where
  "logs g = (sta_log (g_sta g), ap_log (g_ap g))"

definition post_inv :: "gateway \<Rightarrow> bool" where
  "post_inv g \<longleftrightarrow> count_list (g_posted g) STA_FAILED_ATTEMPTS = sta_posts (g_sta g)
                 \<and> count_list (g_posted g) AP_IDLE = ap_posts (g_ap g)"

lemma and_then_keeps:
  "p g' = p g \<Longrightarrow> (\<And>h. p h = p g \<Longrightarrow> p (k h) = p g) \<Longrightarrow> p (and_then g' k) = p g"
  by (simp add: and_then_def)

lemma bus_upd [simp]:
  "bus (g\<lparr>g_sta := x1\<rparr>) = bus g" "bus (g\<lparr>g_ap := x2\<rparr>) = bus g" "bus (g\<lparr>g_http := x3\<rparr>) = bus g"
  "bus (g\<lparr>g_mqtt := x4\<rparr>) = bus g" "bus (g\<lparr>g_nvs := x5\<rparr>) = bus g" "bus (g\<lparr>g_ota := x6\<rparr>) = bus g"
  "bus (g\<lparr>g_registered := x7\<rparr>) = bus g" "bus (g\<lparr>g_waiter := x8\<rparr>) = bus g"
  "bus (g\<lparr>g_http_stuck := x9\<rparr>) = bus g" "bus (g\<lparr>g_phase := x10\<rparr>) = bus g"
  "bus (g\<lparr>g_ds := x14\<rparr>) = bus g"
  by (simp_all add: bus_def)

lemma netifs_upd [simp]:
  "netifs (g\<lparr>g_http := x3\<rparr>) = netifs g"
  "netifs (g\<lparr>g_mqtt := x4\<rparr>) = netifs g" "netifs (g\<lparr>g_nvs := x5\<rparr>) = netifs g" "netifs (g\<lparr>g_ota := x6\<rparr>) = netifs g"
  "netifs (g\<lparr>g_registered := x7\<rparr>) = netifs g" "netifs (g\<lparr>g_waiter := x8\<rparr>) = netifs g"
  "netifs (g\<lparr>g_http_stuck := x9\<rparr>) = netifs g" "netifs (g\<lparr>g_phase := x10\<rparr>) = netifs g"
  "netifs (g\<lparr>g_queue := x11\<rparr>) = netifs g" "netifs (g\<lparr>g_posted := x12\<rparr>) = netifs g"
  "netifs (g\<lparr>g_dispatched := x13\<rparr>) = netifs g" "netifs (g\<lparr>g_ds := x14\<rparr>) = netifs g"
  by (simp_all add: netifs_def)

lemma gateway_calls [simp]:
  "bus (esp_error_check r) = bus (snd r)"
  "netifs (esp_error_check r) = netifs (snd r)"
  "bus (snd (with_sta f1 g)) = bus g"
  "bus (snd (with_ap f2 g)) = bus g"
  "bus (snd (with_http f3 g)) = bus g"
  "bus (snd (with_mqtt f4 g)) = bus g"
  "bus (snd (with_nvs f5 g)) = bus g"
  "netifs (snd (with_http f3 g)) = netifs g"
  "netifs (snd (with_mqtt f4 g)) = netifs g"
  "netifs (snd (with_nvs f5 g)) = netifs g"
  "bus (http_start env g) = bus g"
  "netifs (http_start env g) = netifs g"
  by (simp_all add: esp_error_check_def with_sta_def with_ap_def with_http_def with_mqtt_def
      with_nvs_def http_start_def split: prod.splits)

lemma stop_mqtt_frame [simp]:
  "bus (stop_mqtt_if_connected g) = bus g" "netifs (stop_mqtt_if_connected g) = netifs g"
  "g_sta (stop_mqtt_if_connected g) = g_sta g" "g_ap (stop_mqtt_if_connected g) = g_ap g"
  by (simp_all add: stop_mqtt_if_connected_def esp_error_check_def with_mqtt_def split: prod.splits)

lemma write_nvs_frame [simp]:
  "bus (write_nvs_data env g) = bus g" "netifs (write_nvs_data env g) = netifs g"
  unfolding write_nvs_data_def by (auto intro!: and_then_keeps)

lemma register_events_frame [simp]:
  "bus (register_events env evs g) = bus g" "netifs (register_events env evs g) = netifs g"
  by (induction evs arbitrary: g) (auto intro!: and_then_keeps)

lemma boot_rest_frame [simp]:
  "bus (boot_rest env g) = bus g" "netifs (boot_rest env g) = netifs g"
  unfolding boot_rest_def Let_def by (auto intro!: and_then_keeps split: prod.splits option.splits)

lemma finish_init_sta_frame [simp]:
  "bus (finish_init_sta env r g) = bus g" "netifs (finish_init_sta env r g) = netifs g"
  by (simp_all add: finish_init_sta_def)

lemma callback_init_mqtt_frame [simp]:
  "bus (callback_init_mqtt env g) = bus g" "netifs (callback_init_mqtt env g) = netifs g"
  by (simp_all add: callback_init_mqtt_def)

lemma deinit_bus [simp]: "bus (deinit_modules env g) = bus g"
  unfolding deinit_modules_def by (auto intro!: and_then_keeps)

lemma bus_callbacks [simp]:
  "bus (callback_init_sta env g) = bus g"
  "bus (callback_init_ap env g) = bus g"
  "bus (callback_esp_restart env g) = bus g"
  unfolding callback_init_sta_def callback_init_ap_def callback_esp_restart_def
  by (auto intro!: and_then_keeps split: sum.splits prod.splits)

lemma bus_run_callback [simp]: "bus (run_callback env c g) = bus g"
  by (cases c) simp_all

lemma aug_wifi_sta_disconnect_netif:
  "sta_netif (snd (aug_wifi_sta_disconnect sdk s)) \<longleftrightarrow>
   sta_netif s \<and> fst (aug_wifi_sta_disconnect sdk s) \<noteq> ESP_OK"
  by (simp add: aug_wifi_sta_disconnect_def aug_return_check_def Let_def)

lemma aug_wifi_ap_stop_netif:
  "ap_netif (snd (aug_wifi_ap_stop sdk a)) \<longleftrightarrow> ap_netif a \<and> fst (aug_wifi_ap_stop sdk a) \<noteq> ESP_OK"
  by (simp add: aug_wifi_ap_stop_def aug_return_check_def Let_def)

lemma deinit_netifs:
  "sta_netif (g_sta (deinit_modules env g)) \<Longrightarrow> sta_netif (g_sta g)"
  "ap_netif (g_ap (deinit_modules env g)) \<Longrightarrow> ap_netif (g_ap g)"
  "g_phase (deinit_modules env g) = Running \<Longrightarrow>
   \<not> sta_netif (g_sta (deinit_modules env g)) \<and> \<not> ap_netif (g_ap (deinit_modules env g))"
  by (auto simp: deinit_modules_def and_then_def esp_error_check_def with_http_def with_sta_def
      with_ap_def aug_wifi_sta_is_init_def aug_wifi_ap_is_init_def aug_http_stop_webserver_def
      aug_return_check_def aug_wifi_sta_disconnect_netif aug_wifi_ap_stop_netif case_prod_beta
      split: if_splits)


lemma sta_handler_netif [simp]: "sta_netif (event_handler s e) = sta_netif s"
  by (cases e) simp_all

lemma ap_handler_netif [simp]:
  "ap_netif (wifi_event_handler a e) = ap_netif a" "ap_netif (idle_check_task a) = ap_netif a"
  by (cases e; simp add: idle_check_task_def)+

lemma mode_excl_mono:
  "mode_excl g \<Longrightarrow> (sta_netif (g_sta g') \<Longrightarrow> sta_netif (g_sta g)) \<Longrightarrow>
   (ap_netif (g_ap g') \<Longrightarrow> ap_netif (g_ap g)) \<Longrightarrow> mode_excl g'"
  by (auto simp: mode_excl_def)

lemma mode_excl_netifs: "netifs g' = netifs g \<Longrightarrow> mode_excl g' = mode_excl g"
  by (simp add: mode_excl_def netifs_def)

lemma excl_no_netif:
  "\<not> sta_netif (g_sta g) \<Longrightarrow> mode_excl g" "\<not> ap_netif (g_ap g) \<Longrightarrow> mode_excl g"
  by (simp_all add: mode_excl_def)

lemma excl_and_then:
  "mode_excl g \<Longrightarrow> (\<And>h. g_phase h = Running \<Longrightarrow> mode_excl h \<Longrightarrow> mode_excl (k h)) \<Longrightarrow>
   mode_excl (and_then g k)"
  by (simp add: and_then_def)

lemma excl_deinit: "mode_excl g \<Longrightarrow> mode_excl (deinit_modules env g)"
  by (metis mode_excl_mono deinit_netifs(1) deinit_netifs(2))

lemma excl_after_deinit:
  assumes "mode_excl g"
    and "\<And>h. g_phase h = Running \<Longrightarrow> \<not> sta_netif (g_sta h) \<Longrightarrow> \<not> ap_netif (g_ap h) \<Longrightarrow> mode_excl (k h)"
  shows "mode_excl (and_then (deinit_modules env g) k)"
  using assms excl_deinit [OF assms(1)] deinit_netifs(3) [of env g] by (simp add: and_then_def)

lemma excl_stop_mqtt: "mode_excl g \<Longrightarrow> mode_excl (stop_mqtt_if_connected g)"
  by (simp add: mode_excl_def)

lemma excl_callback_init_sta: "mode_excl g \<Longrightarrow> mode_excl (callback_init_sta env g)"
  unfolding callback_init_sta_def
  apply (rule excl_and_then, erule excl_stop_mqtt)
  apply (rule excl_after_deinit, assumption)
  apply (rule excl_no_netif(2))
  by (simp split: sum.split prod.split)

lemma excl_callback_init_ap: "mode_excl g \<Longrightarrow> mode_excl (callback_init_ap env g)"
  unfolding callback_init_ap_def
  apply (rule excl_and_then, erule excl_stop_mqtt)
  apply (rule excl_after_deinit, assumption)
  apply (rule excl_no_netif(1))
  by (simp add: and_then_def esp_error_check_def http_start_def split: sum.split prod.split)

lemma excl_callback_esp_restart: "mode_excl g \<Longrightarrow> mode_excl (callback_esp_restart env g)"
  unfolding callback_esp_restart_def
  apply (rule excl_and_then, erule excl_stop_mqtt)
  apply (rule excl_and_then, erule excl_deinit)
  apply (rule excl_and_then)
   apply (subst mode_excl_netifs [OF write_nvs_frame(2)], assumption)
  by (simp add: mode_excl_def)

lemma excl_callback_init_mqtt: "mode_excl g \<Longrightarrow> mode_excl (callback_init_mqtt env g)"
  by (subst mode_excl_netifs [OF callback_init_mqtt_frame(2)])

lemma excl_run_callback: "mode_excl g \<Longrightarrow> mode_excl (run_callback env c g)"
  by (cases c) (simp_all add: excl_callback_init_sta excl_callback_init_ap excl_callback_init_mqtt
      excl_callback_esp_restart)

lemma netifs_sta_ap_upd [simp]:
  "netifs (g\<lparr>g_sta := s\<rparr>) = (sta_netif s, ap_netif (g_ap g))"
  "netifs (g\<lparr>g_ap := a\<rparr>) = (sta_netif (g_sta g), ap_netif a)"
  by (simp_all add: netifs_def)

lemma boot_rest_netif [simp]:
  "sta_netif (g_sta (boot_rest env g)) = sta_netif (g_sta g)"
  "ap_netif (g_ap (boot_rest env g)) = ap_netif (g_ap g)"
  using boot_rest_frame(2) [of env g] by (simp_all add: netifs_def)

lemma excl_main_init:
  "\<not> sta_netif (g_sta g) \<Longrightarrow> \<not> ap_netif (g_ap g) \<Longrightarrow> mode_excl (main_init env g)"
  unfolding main_init_def and_then_def esp_error_check_def Let_def
  by (simp add: mode_excl_def split: prod.split sum.split)

lemma excl_app_main: "mode_excl (app_main env st)"
  unfolding app_main_def and_then_def esp_error_check_def
  by (simp add: excl_main_init excl_no_netif(1) gateway_init_def sta_module_init_def ap_module_init_def
      split: prod.split sum.split)

lemma bus_inv_bus: "bus_inv g \<longleftrightarrow> (case bus g of (q, p, d) \<Rightarrow> p = d @ q \<and> length q \<le> EVENT_QUEUE_SIZE)"
  by (simp add: bus_inv_def bus_def)

lemma bus_inv_frame: "bus g' = bus g \<Longrightarrow> bus_inv g' = bus_inv g"
  by (simp add: bus_inv_bus)

lemma post_event_frame [simp]:
  "netifs (post_event ev g) = netifs g"
  "bus (post_event ev g) = (g_queue g @ [ev], g_posted g @ [ev], g_dispatched g)"
  by (simp_all add: post_event_def netifs_def bus_def)

lemma fold_post_event [simp]:
  "netifs (fold (\<lambda>ev. post_event (f ev)) evs g) = netifs g"
  "bus (fold (\<lambda>ev. post_event (f ev)) evs g) = (g_queue g @ map f evs, g_posted g @ map f evs, g_dispatched g)"
  by (induction evs arbitrary: g) (simp_all add: bus_def netifs_def post_event_def)

lemma post_http_frame:
  assumes "post_http evs g = Some g'"
  shows "netifs g' = netifs g"
    and "bus g' = (g_queue g @ map HTTP_SERVER_EVENT evs, g_posted g @ map HTTP_SERVER_EVENT evs, g_dispatched g)"
    and "length (g_queue g) + length evs \<le> EVENT_QUEUE_SIZE \<or> evs = []"
  using assms by (auto simp: post_http_def bus_def [symmetric] split: if_splits)

lemma netifs_steps [simp]:
  "netifs (deliver_sta env e g) = netifs g"
  "netifs (deliver_ap e' g) = netifs g"
  "netifs (idle_tick g) = netifs g"
  "netifs (deliver_mqtt m g) = netifs g"
  "netifs (resume_waiter env g) = netifs g"
  by (simp_all add: deliver_sta_def Let_def deliver_ap_def idle_tick_def deliver_mqtt_def
      resume_waiter_def netifs_def [symmetric] split: option.split sta_waiter.split)

lemma bus_inv_upd [simp]:
  "bus_inv (g\<lparr>g_sta := x1\<rparr>) = bus_inv g" "bus_inv (g\<lparr>g_ap := x2\<rparr>) = bus_inv g"
  "bus_inv (g\<lparr>g_mqtt := x4\<rparr>) = bus_inv g" "bus_inv (g\<lparr>g_ota := x6\<rparr>) = bus_inv g"
  "bus_inv (g\<lparr>g_http_stuck := x9\<rparr>) = bus_inv g" "bus_inv (g\<lparr>g_phase := x10\<rparr>) = bus_inv g"
  by (simp_all add: bus_inv_def)

lemma bus_inv_posted:
  assumes "bus_inv g" "bus_inv g'"
  shows "bus_inv (case post_http evs g' of None \<Rightarrow> g | Some g'' \<Rightarrow> g'')"
proof (cases "post_http evs g'")
  case (Some g'')
  from post_http_frame(2,3) [OF Some] assms(2) show ?thesis by (auto simp: Some bus_def bus_inv_def)
qed (simp add: assms(1))

lemma serve_frame:
  "netifs (serve env r g) = netifs g"
  "bus_inv g \<Longrightarrow> bus_inv (serve env r g)"
  by (cases r; auto simp: serve_def Let_def netifs_def [symmetric] bus_inv_posted dest: post_http_frame(1)
      split: prod.split option.split sum.split)+

lemma excl_dispatch: "mode_excl g \<Longrightarrow> mode_excl (dispatch env g)"
  unfolding dispatch_def Let_def
  by (auto split: list.split intro!: excl_run_callback) (simp_all add: mode_excl_def)

lemma mode_excl_alt: "mode_excl g \<longleftrightarrow> (case netifs g of (s, a) \<Rightarrow> \<not> (s \<and> a))"
  by (simp add: mode_excl_def netifs_def)

lemma excl_step: "mode_excl g \<Longrightarrow> mode_excl (gw_step env g i)"
proof (cases "g_phase g = Running \<and> i = In_dispatch")
  case True
  then show "mode_excl g \<Longrightarrow> ?thesis" by (simp add: gw_step_def excl_dispatch)
next
  case False
  then show "mode_excl g \<Longrightarrow> ?thesis"
    by (cases i) (simp_all add: gw_step_def mode_excl_alt serve_frame(1))
qed

lemma bus_inv_post_event: "bus_inv g \<Longrightarrow> queue_room g \<Longrightarrow> bus_inv (post_event ev g)"
  by (simp add: bus_inv_def post_event_def queue_room_def)

lemma bus_resume [simp]: "bus (resume_waiter env g) = bus g"
  by (simp add: resume_waiter_def split: option.split sta_waiter.split)

lemma bus_inv_dispatch: "bus_inv g \<Longrightarrow> bus_inv (dispatch env g)"
  unfolding dispatch_def Let_def
  by (auto split: list.split simp: bus_inv_frame [OF bus_run_callback]) (simp_all add: bus_inv_def)

lemma bus_inv_step: "bus_inv g \<Longrightarrow> bus_inv (gw_step env g i)"
  by (cases i) (auto simp: gw_step_def deliver_sta_def idle_tick_def deliver_ap_def deliver_mqtt_def Let_def
      bus_inv_post_event serve_frame(2) bus_inv_dispatch bus_inv_frame [OF bus_resume] queue_room_def)

lemma bus_main_init [simp]: "bus (main_init env g) = bus g"
  unfolding main_init_def Let_def by (auto intro!: and_then_keeps split: prod.splits sum.splits)

lemma bus_gateway_init [simp]: "bus (gateway_init st) = ([], [], [])"
  by (simp add: bus_def gateway_init_def)

lemma bus_app_main: "bus (app_main env st) = ([], [], [])"
proof -
  have "bus (and_then (esp_error_check (e, gateway_init st')) (main_init env)) = bus (gateway_init st')" for e st'
    by (rule and_then_keeps) simp_all
  then show ?thesis by (simp add: app_main_def split: prod.split sum.split)
qed

lemma bus_inv_app_main: "bus_inv (app_main env st)"
  by (simp add: bus_inv_bus bus_app_main)

lemma gw_run_reachable: "gw_reachable env g \<Longrightarrow> gw_reachable env (gw_run env g ins)"
  by (induction ins arbitrary: g) (simp_all add: gw_run_def gw_reachable.step)

lemma mode_excl_reachable: "gw_reachable env g \<Longrightarrow> mode_excl g"
  by (induction rule: gw_reachable.induct) (simp_all add: excl_app_main excl_step)

lemma bus_inv_reachable: "gw_reachable env g \<Longrightarrow> bus_inv g"
  by (induction rule: gw_reachable.induct) (simp_all add: bus_inv_app_main bus_inv_step)

section \<open>No handler post is lost\<close>

text \<open>
  Only the handlers' posts change the logs; every other operation of the device keeps
  them, and the HTTP handlers post only \<open>HTTP_SERVER_EVENT\<close>s.
\<close>

lemma logs_upd [simp]:
  "logs (g\<lparr>g_http := x3\<rparr>) = logs g"
  "logs (g\<lparr>g_mqtt := x4\<rparr>) = logs g" "logs (g\<lparr>g_nvs := x5\<rparr>) = logs g" "logs (g\<lparr>g_ota := x6\<rparr>) = logs g"
  "logs (g\<lparr>g_registered := x7\<rparr>) = logs g" "logs (g\<lparr>g_waiter := x8\<rparr>) = logs g"
  "logs (g\<lparr>g_http_stuck := x9\<rparr>) = logs g" "logs (g\<lparr>g_phase := x10\<rparr>) = logs g"
  "logs (g\<lparr>g_queue := x11\<rparr>) = logs g" "logs (g\<lparr>g_posted := x12\<rparr>) = logs g"
  "logs (g\<lparr>g_dispatched := x13\<rparr>) = logs g" "logs (g\<lparr>g_ds := x14\<rparr>) = logs g"
  "logs (g\<lparr>g_sta := (g_sta g)\<lparr>sta_config := c\<rparr>\<rparr>) = logs g"
  "logs (g\<lparr>g_ap := (g_ap g)\<lparr>ap_config := c'\<rparr>\<rparr>) = logs g"
  by (simp_all add: logs_def)

lemma module_logs:
  "sta_log (snd (aug_wifi_sta_disconnect sdk s)) = sta_log s"
  "ap_log (snd (aug_wifi_ap_stop sdk' a)) = ap_log a"
  "aug_wifi_sta_connect_begin sdk s = Inl (e, s') \<Longrightarrow> sta_log s' = sta_log s"
  "aug_wifi_sta_connect_begin sdk s = Inr s' \<Longrightarrow> sta_log s' = sta_log s"
  by (auto simp: aug_wifi_sta_disconnect_def aug_wifi_ap_stop_def aug_wifi_sta_connect_begin_def
      aug_return_check_def Let_def split: if_splits)

lemma ap_start_log:
  "aug_wifi_ap_start sdk sc n aps a = Inr (e, a') \<Longrightarrow> ap_log a' = ap_log a"
  by (auto simp: aug_wifi_ap_start_def aug_return_check_def Let_def split: if_splits sum.splits)

lemma logs_calls [simp]:
  "logs (esp_error_check r) = logs (snd r)"
  "logs (snd (with_http f3 g)) = logs g"
  "logs (snd (with_mqtt f4 g)) = logs g"
  "logs (snd (with_nvs f5 g)) = logs g"
  "logs (http_start env g) = logs g"
  by (simp_all add: esp_error_check_def with_http_def with_mqtt_def
      with_nvs_def http_start_def logs_def split: prod.splits)

lemma logs_module_calls [simp]:
  "logs (snd (with_sta (aug_wifi_sta_disconnect sdk) g)) = logs g"
  "logs (snd (with_ap (aug_wifi_ap_stop sdk') g)) = logs g"
  by (simp_all add: with_sta_def with_ap_def logs_def case_prod_beta module_logs)

lemma logs_register_events [simp]: "logs (register_events env evs g) = logs g"
  by (induction evs arbitrary: g) (auto intro!: and_then_keeps)

lemma logs_frame [simp]:
  "logs (stop_mqtt_if_connected g) = logs g"
  "logs (write_nvs_data env g) = logs g"
  "logs (boot_rest env g) = logs g"
  "logs (finish_init_sta env r g) = logs g"
  "logs (callback_init_mqtt env g) = logs g"
  "logs (deinit_modules env g) = logs g"
  subgoal by (simp add: stop_mqtt_if_connected_def)
  subgoal unfolding write_nvs_data_def by (auto intro!: and_then_keeps)
  subgoal unfolding boot_rest_def Let_def
    by (auto intro!: and_then_keeps split: prod.splits option.splits)
  subgoal by (simp add: finish_init_sta_def)
  subgoal by (simp add: callback_init_mqtt_def)
  subgoal unfolding deinit_modules_def by (auto intro!: and_then_keeps)
  done

lemma logs_callbacks [simp]:
  "logs (callback_init_sta env g) = logs g"
  "logs (callback_init_ap env g) = logs g"
  "logs (callback_esp_restart env g) = logs g"
  unfolding callback_init_sta_def callback_init_ap_def callback_esp_restart_def
  by (auto intro!: and_then_keeps dest!: module_logs(3,4) ap_start_log split: sum.splits prod.splits)
     (simp_all add: logs_def)

lemma logs_run_callback [simp]: "logs (run_callback env c g) = logs g"
  by (cases c) simp_all

lemma logs_resume [simp]: "logs (resume_waiter env g) = logs g"
  by (simp add: resume_waiter_def split: option.split sta_waiter.split)

lemma logs_main_init [simp]: "logs (main_init env g) = logs g"
  unfolding main_init_def Let_def
  by (auto intro!: and_then_keeps dest!: module_logs(3,4) ap_start_log split: prod.splits sum.splits)
     (simp_all add: logs_def)

lemma logs_fold_post [simp]: "logs (fold (\<lambda>ev. post_event (f ev)) evs g) = logs g"
  by (induction evs arbitrary: g) (simp_all add: post_event_def logs_def)

lemma posted_fold_post [simp]:
  "g_posted (fold (\<lambda>ev. post_event (f ev)) evs g) = g_posted g @ map f evs"
  by (induction evs arbitrary: g) (simp_all add: post_event_def)

lemma count_http_events [simp]:
  "count_list (map HTTP_SERVER_EVENT evs) STA_FAILED_ATTEMPTS = 0"
  "count_list (map HTTP_SERVER_EVENT evs) AP_IDLE = 0"
  by (induction evs) simp_all

lemma post_inv_upd [simp]:
  "post_inv (g\<lparr>g_http := x3\<rparr>) = post_inv g" "post_inv (g\<lparr>g_mqtt := x4\<rparr>) = post_inv g"
  "post_inv (g\<lparr>g_ota := x6\<rparr>) = post_inv g" "post_inv (g\<lparr>g_waiter := x8\<rparr>) = post_inv g"
  "post_inv (g\<lparr>g_http_stuck := x9\<rparr>) = post_inv g" "post_inv (g\<lparr>g_phase := x10\<rparr>) = post_inv g"
  "post_inv (g\<lparr>g_queue := x11, g_dispatched := x13\<rparr>) = post_inv g"
  "post_inv (g\<lparr>g_sta := (g_sta g)\<lparr>sta_config := c\<rparr>\<rparr>) = post_inv g"
  by (simp_all add: post_inv_def)

lemma post_inv_frame: "g_posted g' = g_posted g \<Longrightarrow> logs g' = logs g \<Longrightarrow> post_inv g' = post_inv g"
  by (simp add: post_inv_def logs_def)

lemma post_inv_bus: "bus g' = bus g \<Longrightarrow> logs g' = logs g \<Longrightarrow> post_inv g' = post_inv g"
  by (rule post_inv_frame) (simp_all add: bus_def)

lemma handler_posts:
  "sta_posts (event_handler s e) = sta_posts s \<or> sta_posts (event_handler s e) = Suc (sta_posts s)"
  "ap_posts (idle_check_task a) = ap_posts a \<or> ap_posts (idle_check_task a) = Suc (ap_posts a)"
  by (cases e) (simp_all add: idle_check_task_def)

lemma post_inv_deliver_sta: "post_inv g \<Longrightarrow> post_inv (deliver_sta env e g)"
  using handler_posts(1) [of "g_sta g" e]
  by (auto simp: deliver_sta_def Let_def post_inv_def post_event_def)

lemma post_inv_idle_tick: "post_inv g \<Longrightarrow> post_inv (idle_tick g)"
  using handler_posts(2) [of "g_ap g"]
  by (auto simp: idle_tick_def post_inv_def post_event_def)

lemma post_inv_posted:
  assumes "post_inv g" "post_inv g'"
  shows "post_inv (case post_http evs g' of None \<Rightarrow> g | Some g'' \<Rightarrow> g'')"
proof (cases "post_http evs g'")
  case (Some g'')
  then have "logs g'' = logs g'" "g_posted g'' = g_posted g' @ map HTTP_SERVER_EVENT evs"
    by (auto simp: post_http_def split: if_splits)
  with assms(2) show ?thesis by (simp add: Some post_inv_def logs_def)
qed (simp add: assms(1))

lemma post_inv_serve: "post_inv g \<Longrightarrow> post_inv (serve env r g)"
  by (cases r) (auto simp: serve_def Let_def post_inv_posted split: prod.split option.split sum.split)

lemma post_inv_dispatch: "post_inv g \<Longrightarrow> post_inv (dispatch env g)"
  unfolding dispatch_def Let_def
  by (auto split: list.split simp: post_inv_bus [OF bus_run_callback logs_run_callback])

lemma post_inv_radio [simp]:
  "post_inv (deliver_ap e g) = post_inv g" "post_inv (deliver_mqtt m g) = post_inv g"
  by (simp_all add: deliver_ap_def deliver_mqtt_def post_inv_def)

lemma post_inv_step: "post_inv g \<Longrightarrow> post_inv (gw_step env g i)"
  by (cases i) (simp_all add: gw_step_def post_inv_deliver_sta post_inv_idle_tick post_inv_serve
      post_inv_dispatch post_inv_bus [OF bus_resume logs_resume])

lemma post_inv_app_main: "post_inv (app_main env st)"
proof -
  have "logs (and_then (esp_error_check (e, gateway_init st')) (main_init env)) = logs (gateway_init st')" for e st'
    by (rule and_then_keeps) simp_all
  then have "logs (app_main env st) = ([], [])"
    by (simp add: app_main_def logs_def gateway_init_def sta_module_init_def ap_module_init_def
        split: prod.split sum.split)
  with bus_app_main [of env st] show ?thesis by (simp add: post_inv_def bus_def logs_def)
qed

lemma post_inv_reachable: "gw_reachable env g \<Longrightarrow> post_inv g"
  by (induction rule: gw_reachable.induct) (simp_all add: post_inv_app_main post_inv_step)

section \<open>The device-wide claims\<close>

text \<open>
  C1: Station and access point exclude each other: in every state the device reaches
  from a boot, through any interleaving of radio events, idle ticks, HTTP requests,
  broker events, dispatches of the application loop and resumptions of a blocked
  connect, the station netif and the access-point netif do not both exist.
\<close>

theorem gw_reachable_mode_exclusive:
  "gw_reachable env g \<Longrightarrow> \<not> (sta_netif (g_sta g) \<and> ap_netif (g_ap g))"
  using mode_excl_reachable by (simp add: mode_excl_def)

theorem gw_reachable_mode_exclusive_witness:
  "gw_reachable gw_env_example (gw_run gw_env_example (app_main gw_env_example Map.empty)
     [In_sta_radio WIFI_EVENT_STA_START, In_sta_radio WIFI_EVENT_STA_DISCONNECTED, In_dispatch, In_resume])
   \<and> \<not> (sta_netif (g_sta (gw_run gw_env_example (app_main gw_env_example Map.empty)
          [In_sta_radio WIFI_EVENT_STA_START, In_sta_radio WIFI_EVENT_STA_DISCONNECTED, In_dispatch, In_resume]))
        \<and> ap_netif (g_ap (gw_run gw_env_example (app_main gw_env_example Map.empty)
          [In_sta_radio WIFI_EVENT_STA_START, In_sta_radio WIFI_EVENT_STA_DISCONNECTED, In_dispatch, In_resume])))"
proof -
  have r: "gw_reachable gw_env_example (gw_run gw_env_example (app_main gw_env_example Map.empty)
     [In_sta_radio WIFI_EVENT_STA_START, In_sta_radio WIFI_EVENT_STA_DISCONNECTED, In_dispatch, In_resume])"
    by (rule gw_run_reachable, rule gw_reachable.boot)
  show ?thesis using r gw_reachable_mode_exclusive [OF r] by (rule conjI)
qed

text \<open>
  C2: No event a handler raises is lost, and the application event loop is a bounded
  FIFO queue (spec 4.1). In every reachable state the events posted so far are the
  events dispatched, in order, followed by the events still queued; at most
  \<open>queue_size = 2\<close> events are queued; and the \<open>FAILED_ATTEMPTS\<close> and \<open>IDLE\<close> events
  in that history are exactly the posts \<open>event_handler\<close> and \<open>idle_check_task\<close> made:
  a post into a full queue waits instead of being dropped.
\<close>

theorem gw_reachable_event_fifo:
  "gw_reachable env g \<Longrightarrow>
   g_posted g = g_dispatched g @ g_queue g \<and> length (g_queue g) \<le> EVENT_QUEUE_SIZE
   \<and> count_list (g_posted g) STA_FAILED_ATTEMPTS = sta_posts (g_sta g)
   \<and> count_list (g_posted g) AP_IDLE = ap_posts (g_ap g)"
  using bus_inv_reachable post_inv_reachable by (simp add: bus_inv_def post_inv_def)

theorem gw_reachable_event_fifo_witness:
  "let g = gw_run gw_env_ap_example (app_main gw_env_ap_example Map.empty)
             [In_http Req_init_mqtt, In_http Req_restart, In_idle_tick]
   in gw_reachable gw_env_ap_example g
      \<and> g_posted g = g_dispatched g @ g_queue g \<and> length (g_queue g) \<le> EVENT_QUEUE_SIZE
      \<and> count_list (g_posted g) STA_FAILED_ATTEMPTS = sta_posts (g_sta g)
      \<and> count_list (g_posted g) AP_IDLE = ap_posts (g_ap g)"
proof -
  have r: "gw_reachable gw_env_ap_example (gw_run gw_env_ap_example (app_main gw_env_ap_example Map.empty)
     [In_http Req_init_mqtt, In_http Req_restart, In_idle_tick])"
    by (rule gw_run_reachable, rule gw_reachable.boot)
  show ?thesis unfolding Let_def using r gw_reachable_event_fifo [OF r] by blast
qed

end
