(* ===== verification/GatewayRuns.thy ===== *)
theory GatewayRuns
  imports GatewayInvariants
begin

text \<open>
  Runs of the device model: the effect of single steps under stated conditions, the
  boot sequence, and three behaviours in which the firmware's ordering of
  \<open>main_init\<close> and its callbacks departs from the specification, each proved over all
  states of its kind (a station failure while \<open>main_init\<close> waits, with the reachable
  invariant \<open>boot_wait_inv\<close>; \<open>/init/mqtt\<close> on an unstarted broker client; boot on a
  bus without DS18B20) and evaluated on the example builds as witnesses.
\<close>


text \<open>
  While \<open>main_init\<close> waits in the station's connect, \<open>register_events\<close> has not run yet:
  no callback is registered.
\<close>

definition boot_wait_inv :: "gateway \<Rightarrow> bool" where
  "boot_wait_inv g \<longleftrightarrow> (g_waiter g = Waiter_main_init \<longrightarrow> g_registered g = [])"

lemma step_sta_start:
  "g_phase g = Running \<Longrightarrow> sta_any_registered (g_sta g) \<Longrightarrow>
   gw_step env g (In_sta_radio WIFI_EVENT_STA_START) = g\<lparr>g_sta := event_handler (g_sta g) WIFI_EVENT_STA_START\<rparr>"
  by (simp add: gw_step_def deliver_sta_def Let_def)

lemma step_sta_give_up:
  "g_phase g = Running \<Longrightarrow> sta_any_registered (g_sta g) \<Longrightarrow>
   max_retry (sta_config (g_sta g)) \<le> retry_num (g_sta g) \<Longrightarrow> queue_room g \<Longrightarrow>
   gw_step env g (In_sta_radio WIFI_EVENT_STA_DISCONNECTED) =
   post_event STA_FAILED_ATTEMPTS (g\<lparr>g_sta := event_handler (g_sta g) WIFI_EVENT_STA_DISCONNECTED\<rparr>)"
  by (simp add: gw_step_def deliver_sta_def Let_def)

lemma step_dispatch_unregistered:
  "g_phase g = Running \<Longrightarrow> g_waiter g \<noteq> Waiter_callback \<Longrightarrow> g_queue g = ev # rest \<Longrightarrow>
   ev \<notin> set (g_registered g) \<Longrightarrow>
   gw_step env g In_dispatch = g\<lparr>g_queue := rest, g_dispatched := g_dispatched g @ [ev]\<rparr>"
  by (simp add: gw_step_def dispatch_def)

lemma step_resume_main_init:
  "g_phase g = Running \<Longrightarrow> sta_wait_result (g_sta g) = Some r \<Longrightarrow> g_waiter g = Waiter_main_init \<Longrightarrow>
   gw_step env g In_resume = boot_rest env (g\<lparr>g_waiter := No_waiter\<rparr>)"
  by (simp add: gw_step_def resume_waiter_def)

lemma app_main_ex:
  "app_main gw_env_example Map.empty = main_init gw_env_example (gateway_init Map.empty)"
  by (simp add: app_main_def gw_env_example_def aug_nvs_init_def aug_wifi_init_def
      esp_error_check_def and_then_def gateway_init_def)

lemma main_init_ex:
  "main_init gw_env_example (gateway_init Map.empty) =
   (let g = gateway_init Map.empty in
    g\<lparr>g_sta := (g_sta g)\<lparr>sta_config := aug_wifi_get_default_sta_config kc_example,
          sta_loop_set := True, sta_netif := True, sta_group := True, connected_bit := False, fail_bit := False,
          sta_any_registered := True, sta_got_ip_registered := True\<rparr>,
      g_ap := (g_ap g)\<lparr>ap_config := aug_wifi_get_default_ap_config kc_example\<rparr>,
      g_waiter := Waiter_main_init\<rparr>)"
  by (simp add: main_init_def gw_env_example_def esp_error_check_def and_then_def gateway_init_def
      aug_nvs_get_sta_config_def aug_nvs_get_ap_config_def get_blob_def aug_wifi_sta_connect_begin_def
      kc_example_def Let_def)

lemma run_ex:
  "gw_run gw_env_example (app_main gw_env_example Map.empty)
     [In_sta_radio WIFI_EVENT_STA_START, In_sta_radio WIFI_EVENT_STA_DISCONNECTED, In_dispatch, In_resume] =
   boot_rest gw_env_example
         ((gateway_init Map.empty)\<lparr>g_sta := sta_module_init\<lparr>sta_config := aug_wifi_get_default_sta_config kc_example,
          sta_loop_set := True, sta_netif := True, sta_group := True, connected_bit := False, fail_bit := True,
          sta_any_registered := True, sta_got_ip_registered := True, retry_num := 0,
          sta_log := [Esp_wifi_connect, Post_failed_attempts]\<rparr>,
          g_ap := ap_module_init\<lparr>ap_config := aug_wifi_get_default_ap_config kc_example\<rparr>,
             g_queue := [], g_posted := [STA_FAILED_ATTEMPTS], g_dispatched := [STA_FAILED_ATTEMPTS],
             g_waiter := No_waiter\<rparr>)"
  unfolding gw_run_def app_main_ex main_init_ex
  by (simp add: step_sta_start step_sta_give_up step_dispatch_unregistered
      step_resume_main_init gateway_init_def sta_module_init_def queue_room_def EVENT_QUEUE_SIZE_def post_event_def sta_wait_result_def
      aug_wifi_get_default_sta_config_def kc_example_def)

lemma register_events_ok:
  "(\<And>ev. e_register_ret env ev = ESP_OK) \<Longrightarrow> g_phase g = Running \<Longrightarrow>
   register_events env evs g = g\<lparr>g_registered := g_registered g @ evs\<rparr>"
  by (induction evs arbitrary: g) (simp_all add: and_then_def esp_error_check_def)

lemma boot_rest_ok:
  assumes "g_phase g = Running" "\<And>ev. e_register_ret env ev = ESP_OK"
    "aug_ds18b20_init (e_ow env) (e_max_ds env) (e_ds_fuel env) (g_ds g) = Some (ESP_OK, ds)"
    "client_init_ok (e_mqtt env)" "register_ret (e_mqtt env) = ESP_OK"
  shows "g_phase (boot_rest env g) = Running \<and> g_registered (boot_rest env g) = g_registered g @ registered_events"
  using assms
  by (simp add: boot_rest_def Let_def and_then_def esp_error_check_def with_mqtt_def aug_mqtt_init_def
      aug_return_check_def aug_mqtt_start_def esp_mqtt_client_start_def http_start_def register_events_ok
      split: prod.split)

lemma boot_rest_keeps [simp]:
  "g_sta (boot_rest env g) = g_sta g" "g_ap (boot_rest env g) = g_ap g" "g_waiter (boot_rest env g) = g_waiter g"
proof -
  let ?p = "\<lambda>g. (g_sta g, g_ap g, g_waiter g)"
  have r0: "?p (register_events env evs h) = ?p h" for evs h
    by (induction evs arbitrary: h) (auto intro!: and_then_keeps simp: esp_error_check_def)
  have r: "g_sta (register_events env evs h) = g_sta h" "g_ap (register_events env evs h) = g_ap h"
    "g_waiter (register_events env evs h) = g_waiter h" for evs h
    using r0 [of evs h] by simp_all
  have "?p (boot_rest env g) = ?p g"
    unfolding boot_rest_def Let_def
    by (auto intro!: and_then_keeps simp: r esp_error_check_def with_mqtt_def http_start_def
        split: prod.split option.split)
  then show "g_sta (boot_rest env g) = g_sta g" "g_ap (boot_rest env g) = g_ap g"
    "g_waiter (boot_rest env g) = g_waiter g" by simp_all
qed

lemma gateway_init_ds [simp]: "g_ds (gateway_init st) = ds_module_init"
  by (simp add: gateway_init_def)

lemma sensors_example:
  "g_ds g = ds_module_init \<Longrightarrow>
   aug_ds18b20_init (e_ow gw_env_example) (e_max_ds gw_env_example) (e_ds_fuel gw_env_example) (g_ds g) =
   Some (ESP_OK, \<lparr>is_initialized = True, ds18b20_device_num = 2, ds18b20s = (\<lambda>_. None)(0 := Some 0, 1 := Some 2)\<rparr>)"
  by (simp add: gw_env_example_def init_example)

lemma sensors_ap_example:
  "g_ds g = ds_module_init \<Longrightarrow>
   aug_ds18b20_init (e_ow gw_env_ap_example) (e_max_ds gw_env_ap_example) (e_ds_fuel gw_env_ap_example) (g_ds g) =
   Some (ESP_OK, \<lparr>is_initialized = True, ds18b20_device_num = 2, ds18b20s = (\<lambda>_. None)(0 := Some 0, 1 := Some 2)\<rparr>)"
  by (simp add: gw_env_ap_example_def gw_env_example_def init_example)

section \<open>Boot-time waiting\<close>

lemma waiter_frame [simp]:
  "g_waiter (stop_mqtt_if_connected g) = g_waiter g"
  "g_waiter (deinit_modules env g) = g_waiter g"
  "g_waiter (write_nvs_data env g) = g_waiter g"
  "g_waiter (http_start env g) = g_waiter g"
  "g_waiter (finish_init_sta env r g) = g_waiter g"
  "g_waiter (callback_init_mqtt env g) = g_waiter g"
  subgoal by (simp add: stop_mqtt_if_connected_def esp_error_check_def with_mqtt_def split: prod.split)
  subgoal unfolding deinit_modules_def
    by (auto intro!: and_then_keeps simp: esp_error_check_def with_http_def with_sta_def with_ap_def
        split: prod.split)
  subgoal unfolding write_nvs_data_def
    by (auto intro!: and_then_keeps simp: esp_error_check_def with_nvs_def split: prod.split)
  subgoal by (simp add: http_start_def)
  subgoal by (simp add: finish_init_sta_def esp_error_check_def with_mqtt_def http_start_def split: prod.split)
  subgoal by (simp add: callback_init_mqtt_def esp_error_check_def with_mqtt_def split: prod.split)
  done

lemma run_callback_waiter:
  "g_waiter g \<noteq> Waiter_main_init \<Longrightarrow> g_waiter (run_callback env c g) \<noteq> Waiter_main_init"
  by (cases c) (auto simp: callback_init_sta_def callback_init_ap_def callback_esp_restart_def and_then_def
      esp_error_check_def split: sum.split prod.split)

lemma registered_frame [simp]:
  "g_registered (deliver_sta env e g) = g_registered g" "g_waiter (deliver_sta env e g) = g_waiter g"
  "g_registered (deliver_ap e' g) = g_registered g" "g_waiter (deliver_ap e' g) = g_waiter g"
  "g_registered (idle_tick g) = g_registered g" "g_waiter (idle_tick g) = g_waiter g"
  "g_registered (deliver_mqtt m g) = g_registered g" "g_waiter (deliver_mqtt m g) = g_waiter g"
  by (simp_all add: deliver_sta_def deliver_ap_def idle_tick_def deliver_mqtt_def Let_def post_event_def)

lemma fold_post_fields [simp]:
  "g_registered (fold (\<lambda>ev. post_event (f ev)) evs g) = g_registered g"
  "g_waiter (fold (\<lambda>ev. post_event (f ev)) evs g) = g_waiter g"
  by (induction evs arbitrary: g) (simp_all add: post_event_def)

lemma serve_fields [simp]:
  "g_registered (serve env r g) = g_registered g \<and> g_waiter (serve env r g) = g_waiter g"
  by (cases r) (auto simp: serve_def Let_def post_http_def split: prod.split option.split sum.split)

lemma boot_wait_inv_step: "boot_wait_inv g \<Longrightarrow> boot_wait_inv (gw_step env g i)"
proof (cases i)
  case In_dispatch
  assume inv: "boot_wait_inv g"
  show ?thesis
  proof (cases "g_phase g = Running \<and> g_waiter g \<noteq> Waiter_callback")
    case True
    then show ?thesis using inv In_dispatch run_callback_waiter
      by (auto simp: gw_step_def dispatch_def boot_wait_inv_def Let_def split: list.split if_splits)
  qed (auto simp: gw_step_def In_dispatch inv)
next
  case In_resume
  assume "boot_wait_inv g"
  then show ?thesis using In_resume
    by (auto simp: gw_step_def resume_waiter_def boot_wait_inv_def split: option.split sta_waiter.split)
qed (simp_all add: gw_step_def boot_wait_inv_def)

lemma boot_wait_inv_app_main: "boot_wait_inv (app_main env st)"
  unfolding app_main_def main_init_def Let_def
  by (auto simp: boot_wait_inv_def and_then_def esp_error_check_def gateway_init_def
      split: prod.split sum.split)

lemma boot_wait_inv_reachable: "gw_reachable env g \<Longrightarrow> boot_wait_inv g"
  by (induction rule: gw_reachable.induct) (simp_all add: boot_wait_inv_app_main boot_wait_inv_step)

text \<open>
  C3: A station failure during boot is lost. In every reachable state in which
  \<open>main_init\<close> waits in the station's connect (so \<open>register_events\<close> has not run), with
  the station handler at its retry bound, not connected, and the application queue
  empty, a disconnect makes the handler post \<open>FAILED_ATTEMPTS\<close>; the application loop
  dispatches it with no callback registered; and when the connect returns
  \<open>ESP_FAIL\<close> (a result \<open>main_init\<close> ignores), the rest of the boot runs. Afterwards the
  event is consumed, nothing is queued, the access point is as it was (not brought up),
  and nobody waits for the station. Spec 4.4 has the failure bring up the access point.
\<close>

theorem boot_failure_lost:
  assumes "gw_reachable env g" "g_phase g = Running" "g_waiter g = Waiter_main_init"
    "sta_any_registered (g_sta g)" "max_retry (sta_config (g_sta g)) \<le> retry_num (g_sta g)"
    "\<not> connected_bit (g_sta g)" "g_queue g = []"
  shows "let g' = gw_run env g [In_sta_radio WIFI_EVENT_STA_DISCONNECTED, In_dispatch, In_resume]
         in g_dispatched g' = g_dispatched g @ [STA_FAILED_ATTEMPTS] \<and> g_queue g' = []
            \<and> g_ap g' = g_ap g \<and> g_waiter g' = No_waiter \<and> sta_wait_result (g_sta g') = Some ESP_FAIL"
proof -
  have reg: "g_registered g = []" using boot_wait_inv_reachable [OF assms(1)] assms(3)
    by (simp add: boot_wait_inv_def)
  let ?s = "event_handler (g_sta g) WIFI_EVENT_STA_DISCONNECTED"
  let ?g1 = "post_event STA_FAILED_ATTEMPTS (g\<lparr>g_sta := ?s\<rparr>)"
  let ?g2 = "?g1\<lparr>g_queue := [], g_dispatched := g_dispatched ?g1 @ [STA_FAILED_ATTEMPTS]\<rparr>"
  have room: "queue_room g" using assms(7) by (simp add: queue_room_def EVENT_QUEUE_SIZE_def)
  have s1: "gw_step env g (In_sta_radio WIFI_EVENT_STA_DISCONNECTED) = ?g1"
    using step_sta_give_up [OF assms(2,4,5) room] .
  have s2: "gw_step env ?g1 In_dispatch = ?g2"
    using assms(2,3,7) reg by (intro step_dispatch_unregistered) (simp_all add: post_event_def)
  have fail: "sta_wait_result (g_sta ?g2) = Some ESP_FAIL"
    using assms(5,6) by (simp add: post_event_def sta_wait_result_def)
  have s3: "gw_step env ?g2 In_resume = boot_rest env (?g2\<lparr>g_waiter := No_waiter\<rparr>)"
    using assms(2,3) fail by (intro step_resume_main_init) (simp_all add: post_event_def)
  have b: "bus (boot_rest env (?g2\<lparr>g_waiter := No_waiter\<rparr>)) = bus (?g2\<lparr>g_waiter := No_waiter\<rparr>)"
    by (rule boot_rest_frame(1))
  show ?thesis
    using s1 s2 s3 b fail assms(7) unfolding gw_run_def
    by (simp add: bus_def post_event_def Let_def)
qed

lemma register_uris_ok: "register_uris (\<lambda>_. ESP_OK) us s = (ESP_OK, s\<lparr>registered := registered s @ us\<rparr>)"
  by (induction us arbitrary: s) simp_all

lemma http_start_ok:
  "e_http_sdk env = (\<lambda>_. ESP_OK) \<Longrightarrow>
   http_start env g = g\<lparr>g_http := (g_http g)\<lparr>server := True, registered := http_uris\<rparr>\<rparr>"
  by (simp add: http_start_def aug_http_start_def register_uris_ok)

lemma aug_mqtt_init_ok:
  "client_init_ok env \<Longrightarrow> register_ret env = ESP_OK \<Longrightarrow>
   aug_mqtt_init env m = (ESP_OK, m\<lparr>mqtt_client_handle := True, client_running := False,
                                    client_uri := (if config_uri_set m then uri_str m else [])\<rparr>)"
  by (simp add: aug_mqtt_init_def aug_return_check_def Let_def)

lemma register_events_stuck [simp]: "g_http_stuck (register_events env evs g) = g_http_stuck g"
  by (induction evs arbitrary: g) (simp_all add: and_then_def esp_error_check_def)

lemma boot_rest_stuck [simp]: "g_http_stuck (boot_rest env g) = g_http_stuck g"
  by (simp add: boot_rest_def Let_def and_then_def esp_error_check_def with_mqtt_def http_start_def
      if_distrib [of g_http_stuck] split: prod.split option.split)

lemma boot_rest_services:
  assumes "g_phase g = Running" "\<And>ev. e_register_ret env ev = ESP_OK"
    "aug_ds18b20_init (e_ow env) (e_max_ds env) (e_ds_fuel env) (g_ds g) = Some (ESP_OK, ds)"
    "client_init_ok (e_mqtt env)" "register_ret (e_mqtt env) = ESP_OK" "e_http_sdk env = (\<lambda>_. ESP_OK)"
  shows "server (g_http (boot_rest env g)) \<and> registered (g_http (boot_rest env g)) = http_uris
         \<and> mqtt_client_handle (g_mqtt (boot_rest env g))
         \<and> client_running (g_mqtt (boot_rest env g)) = sta_netif (g_sta g)"
proof -
  obtain em u where m: "aug_nvs_get_mqtt_config (kc_max_uri_len (e_kc env)) (e_nvs_sdk env) (g_nvs g)
                          (uri_str (g_mqtt g)) = (em, u)" by fastforce
  show ?thesis
    using assms
    by (simp add: boot_rest_def m Let_def and_then_def esp_error_check_def with_mqtt_def aug_mqtt_init_ok
        aug_mqtt_start_def esp_mqtt_client_start_def http_start_ok register_events_ok aug_wifi_sta_is_init_def)
qed

lemma gw_env_example_fields [simp]:
  "e_kc gw_env_example = kc_example" "e_layout gw_env_example = layout_example"
  "e_wifi_sdk gw_env_example = (\<lambda>_. ESP_OK)" "e_sta_sdk gw_env_example = (\<lambda>_. ESP_OK)"
  "e_ap_sdk gw_env_example = (\<lambda>_. ESP_OK)" "e_scan_sdk gw_env_example = (\<lambda>_. ESP_OK)"
  "e_scan_aps gw_env_example = []" "e_http_sdk gw_env_example = (\<lambda>_. ESP_OK)"
  "e_nvs_sdk gw_env_example = (\<lambda>_. ESP_OK)" "e_nvs_init gw_env_example = (ESP_OK, ESP_OK, ESP_OK)"
  "e_mqtt gw_env_example = \<lparr>client_init_ok = True, register_ret = ESP_OK, destroy_ret = ESP_OK,
                           uri_parses = (\<lambda>_. True)\<rparr>"
  "e_henv gw_env_example = http_env_ok" "e_loop_create gw_env_example = ESP_OK"
  "e_register_ret gw_env_example = (\<lambda>_. ESP_OK)" "e_ow gw_env_example = ow_env_example"
  "e_max_ds gw_env_example = 4" "e_ds_fuel gw_env_example = 5"
  by (simp_all add: gw_env_example_def)

lemma gw_env_ap_example_fields [simp]:
  "e_kc gw_env_ap_example = kc_example\<lparr>kc_wifi_info := False\<rparr>"
  "e_layout gw_env_ap_example = layout_example"
  "e_wifi_sdk gw_env_ap_example = (\<lambda>_. ESP_OK)" "e_sta_sdk gw_env_ap_example = (\<lambda>_. ESP_OK)"
  "e_ap_sdk gw_env_ap_example = (\<lambda>_. ESP_OK)" "e_scan_sdk gw_env_ap_example = (\<lambda>_. ESP_OK)"
  "e_scan_aps gw_env_ap_example = []" "e_http_sdk gw_env_ap_example = (\<lambda>_. ESP_OK)"
  "e_nvs_sdk gw_env_ap_example = (\<lambda>_. ESP_OK)" "e_nvs_init gw_env_ap_example = (ESP_OK, ESP_OK, ESP_OK)"
  "e_mqtt gw_env_ap_example = e_mqtt gw_env_example"
  "e_henv gw_env_ap_example = http_env_ok" "e_loop_create gw_env_ap_example = ESP_OK"
  "e_register_ret gw_env_ap_example = (\<lambda>_. ESP_OK)" "e_ow gw_env_ap_example = ow_env_example"
  "e_max_ds gw_env_ap_example = 4" "e_ds_fuel gw_env_ap_example = 5"
  by (simp_all add: gw_env_ap_example_def gw_env_example_def)

lemma app_main_ok:
  "e_nvs_init env = (ESP_OK, ESP_OK, ESP_OK) \<Longrightarrow> e_wifi_sdk env = (\<lambda>_. ESP_OK) \<Longrightarrow>
   app_main env st = main_init env (gateway_init st)"
  by (simp add: app_main_def aug_nvs_init_def aug_wifi_init_def esp_error_check_def and_then_def
      gateway_init_def)

lemma main_init_ap:
  assumes "e_kc env = kc_example\<lparr>kc_wifi_info := False\<rparr>" "e_nvs_sdk env = (\<lambda>_. ESP_OK)"
    "e_loop_create env = ESP_OK" "e_ap_sdk env = (\<lambda>_. ESP_OK)" "e_scan_sdk env = (\<lambda>_. ESP_OK)"
    "e_scan_aps env = []"
  shows "\<exists>a. main_init env (gateway_init Map.empty) =
       boot_rest env ((gateway_init Map.empty)\<lparr>g_sta := sta_module_init\<lparr>sta_config := zero_sta_config\<rparr>,
                                    g_ap := a\<rparr>) \<and> ap_netif a"
proof -
  have ch: "aug_get_least_freq_channel (\<lambda>_. ESP_OK) n [] = Inr (of_nat (least_busy_channel []))" for n
    using least_freq_channel_eq [of n "[]"] by simp
  let ?a0 = "ap_module_init\<lparr>ap_config := aug_wifi_get_default_ap_config (kc_example\<lparr>kc_wifi_info := False\<rparr>)\<rparr>"
  let ?a = "?a0\<lparr>ap_loop_set := True, current_connections := 0,
          ap_config := (ap_config ?a0)\<lparr>ap_wifi_config :=
            (ap_wifi_config (ap_config ?a0))\<lparr>ap_channel := of_nat (least_busy_channel [])\<rparr>\<rparr>,
          ap_netif := True, ap_handler_registered := True, idle_task := True\<rparr>"
  show ?thesis
    by (rule exI [of _ ?a]) (simp add: assms main_init_def esp_error_check_def and_then_def gateway_init_def
        aug_nvs_get_sta_config_def aug_nvs_get_ap_config_def get_blob_def aug_wifi_ap_start_all_ok [OF ch] Let_def)
qed

lemmas main_init_ap_ex = main_init_ap [OF gw_env_ap_example_fields(1,9,13,5,6,7)]

lemma step_serve_init_mqtt:
  "g_phase g = Running \<Longrightarrow> server (g_http g) \<Longrightarrow> ''/init/mqtt'' \<in> set (registered (g_http g)) \<Longrightarrow>
   \<not> g_http_stuck g \<Longrightarrow> length (g_queue g) < EVENT_QUEUE_SIZE \<Longrightarrow> e_henv env = http_env_ok \<Longrightarrow>
   gw_step env g (In_http Req_init_mqtt) = post_event (HTTP_SERVER_EVENT AUG_HTTP_SERVER_EVENT_INIT_MQTT) g"
  by (simp add: gw_step_def serve_def request_uri_def init_mqtt_handler_def send_mqtt_info_def http_env_ok_def
      post_http_def Let_def)

lemma step_dispatch_registered:
  "g_phase g = Running \<Longrightarrow> g_waiter g \<noteq> Waiter_callback \<Longrightarrow> g_queue g = ev # rest \<Longrightarrow>
   ev \<in> set (g_registered g) \<Longrightarrow>
   gw_step env g In_dispatch =
   run_callback env (callback_of ev) (g\<lparr>g_queue := rest, g_dispatched := g_dispatched g @ [ev]\<rparr>)"
  by (simp add: gw_step_def dispatch_def)

lemma callback_init_mqtt_idle_client:
  "mqtt_client_handle (g_mqtt g) \<Longrightarrow> \<not> client_running (g_mqtt g) \<Longrightarrow>
   callback_init_mqtt env g = g\<lparr>g_phase := Aborted ESP_FAIL\<rparr>"
  by (simp add: callback_init_mqtt_def esp_error_check_def with_mqtt_def aug_mqtt_set_uri_def
      esp_mqtt_client_stop_def aug_return_check_def)

text \<open>
  C4: \<open>/init/mqtt\<close> on a device whose broker client exists but is not started aborts
  the device. In any running state in which the HTTP server serves \<open>/init/mqtt\<close>, the
  application loop has \<open>INIT_MQTT\<close> registered and nothing queued, and the broker
  client has been created but not started (the state access-point mode boots into),
  the request posts \<open>INIT_MQTT\<close>, whose callback runs \<open>aug_mqtt_set_uri\<close> under
  \<open>ESP_ERROR_CHECK\<close>; its first call, \<open>esp_mqtt_client_stop\<close> on a client that is not
  running, fails, and the device aborts with \<open>ESP_FAIL\<close>.
\<close>

theorem init_mqtt_in_ap_mode_aborts:
  assumes "g_phase g = Running" "server (g_http g)" "''/init/mqtt'' \<in> set (registered (g_http g))"
    "\<not> g_http_stuck g" "g_queue g = []" "g_waiter g \<noteq> Waiter_callback" "e_henv env = http_env_ok"
    "HTTP_SERVER_EVENT AUG_HTTP_SERVER_EVENT_INIT_MQTT \<in> set (g_registered g)"
    "mqtt_client_handle (g_mqtt g)" "\<not> client_running (g_mqtt g)"
  shows "g_phase (gw_run env g [In_http Req_init_mqtt, In_dispatch]) = Aborted ESP_FAIL
         \<and> g_dispatched (gw_run env g [In_http Req_init_mqtt, In_dispatch])
           = g_dispatched g @ [HTTP_SERVER_EVENT AUG_HTTP_SERVER_EVENT_INIT_MQTT]"
proof -
  let ?ev = "HTTP_SERVER_EVENT AUG_HTTP_SERVER_EVENT_INIT_MQTT"
  have s1: "gw_step env g (In_http Req_init_mqtt) = post_event ?ev g"
    using assms(1-5,7) by (intro step_serve_init_mqtt) (simp_all add: EVENT_QUEUE_SIZE_def)
  have s2: "gw_step env (post_event ?ev g) In_dispatch
            = run_callback env (callback_of ?ev) ((post_event ?ev g)\<lparr>g_queue := [],
                g_dispatched := g_dispatched (post_event ?ev g) @ [?ev]\<rparr>)"
    using assms(1,5,6,8) by (intro step_dispatch_registered) (simp_all add: post_event_def)
  show ?thesis
    unfolding gw_run_def using s1 s2 assms(9,10)
    by (simp add: callback_init_mqtt_idle_client post_event_def)
qed

lemma init_mqtt_ap_boot:
  "let g = app_main gw_env_ap_example Map.empty
   in g_phase g = Running \<and> server (g_http g) \<and> ''/init/mqtt'' \<in> set (registered (g_http g))
      \<and> \<not> g_http_stuck g \<and> g_queue g = [] \<and> g_waiter g \<noteq> Waiter_callback
      \<and> HTTP_SERVER_EVENT AUG_HTTP_SERVER_EVENT_INIT_MQTT \<in> set (g_registered g)
      \<and> mqtt_client_handle (g_mqtt g) \<and> \<not> client_running (g_mqtt g) \<and> ap_netif (g_ap g)
      \<and> g_dispatched g = []"
proof -
  obtain a where a: "main_init gw_env_ap_example (gateway_init Map.empty) =
       boot_rest gw_env_ap_example ((gateway_init Map.empty)\<lparr>g_sta := sta_module_init\<lparr>sta_config := zero_sta_config\<rparr>,
                                    g_ap := a\<rparr>)" and n: "ap_netif a"
    using main_init_ap_ex by blast
  let ?g0 = "(gateway_init Map.empty)\<lparr>g_sta := sta_module_init\<lparr>sta_config := zero_sta_config\<rparr>, g_ap := a\<rparr>"
  let ?g1 = "boot_rest gw_env_ap_example ?g0"
  have ok: "g_phase ?g0 = Running" "client_init_ok (e_mqtt gw_env_ap_example)"
    "register_ret (e_mqtt gw_env_ap_example) = ESP_OK"
    by (simp_all add: gateway_init_def gw_env_example_def)
  have b: "g_phase ?g1 = Running \<and> g_registered ?g1 = registered_events"
    using boot_rest_ok [OF ok(1) _ sensors_ap_example ok(2,3)] by (simp add: gateway_init_def)
  have sv: "server (g_http ?g1) \<and> registered (g_http ?g1) = http_uris \<and> mqtt_client_handle (g_mqtt ?g1)
            \<and> \<not> client_running (g_mqtt ?g1)"
    using boot_rest_services [OF ok(1) _ sensors_ap_example ok(2,3)] by (simp add: sta_module_init_def)
  have q: "g_queue ?g1 = [] \<and> g_dispatched ?g1 = []"
    using boot_rest_frame(1) [of gw_env_ap_example ?g0] by (simp add: bus_def gateway_init_def)
  have w: "g_waiter ?g1 = No_waiter \<and> \<not> g_http_stuck ?g1" by (simp add: gateway_init_def)
  show ?thesis
    unfolding app_main_ok [OF gw_env_ap_example_fields(10,3)] a Let_def
    using b sv q w n by (simp add: http_uris_def registered_events_def)
qed

section \<open>Restart\<close>


lemma deinit_modules_ok:
  assumes "e_http_sdk env = (\<lambda>_. ESP_OK)" "e_sta_sdk env = (\<lambda>_. ESP_OK)" "e_ap_sdk env = (\<lambda>_. ESP_OK)"
    "g_phase g = Running"
  shows "g_phase (deinit_modules env g) = Running \<and> sta_config (g_sta (deinit_modules env g)) = sta_config (g_sta g)
         \<and> ap_config (g_ap (deinit_modules env g)) = ap_config (g_ap g)
         \<and> g_mqtt (deinit_modules env g) = g_mqtt g \<and> g_nvs (deinit_modules env g) = g_nvs g"
  using assms
  by (simp add: deinit_modules_def and_then_def esp_error_check_def with_http_def with_sta_def with_ap_def
      aug_http_stop_webserver_def aug_wifi_sta_disconnect_def aug_wifi_ap_stop_def Let_def)

lemma stop_mqtt_ok:
  assumes "aug_mqtt_is_connected (g_mqtt g) \<longrightarrow> mqtt_client_handle (g_mqtt g) \<and> client_running (g_mqtt g)"
    "g_phase g = Running"
  shows "g_phase (stop_mqtt_if_connected g) = Running \<and> uri_str (g_mqtt (stop_mqtt_if_connected g)) = uri_str (g_mqtt g)
         \<and> g_sta (stop_mqtt_if_connected g) = g_sta g \<and> g_ap (stop_mqtt_if_connected g) = g_ap g
         \<and> g_nvs (stop_mqtt_if_connected g) = g_nvs g"
  using assms
  by (simp add: stop_mqtt_if_connected_def esp_error_check_def with_mqtt_def aug_mqtt_stop_def
      esp_mqtt_client_stop_def)

lemma write_nvs_data_ok:
  assumes "e_nvs_sdk env = (\<lambda>_. ESP_OK)" "g_phase g = Running"
  shows "write_nvs_data env g =
         g\<lparr>g_nvs := (g_nvs g)((wifi_ap_config_namespace_str, config_str) \<mapsto> encode (ap_codec (e_layout env)) (ap_config (g_ap g)),
                              (wifi_sta_config_namespace_str, config_str) \<mapsto> encode (sta_codec (e_layout env)) (sta_config (g_sta g)),
                              (mqtt_config_namespace_str, uri_str_key) \<mapsto> uri_bytes (kc_max_uri_len (e_kc env)) (uri_str (g_mqtt g)))\<rparr>"
  using assms
  by (simp add: write_nvs_data_def and_then_def esp_error_check_def with_nvs_def aug_nvs_set_ap_config_def
      aug_nvs_set_sta_config_def aug_nvs_set_mqtt_config_def set_blob_def)

text \<open>
  C19: A restart persists the whole configuration before the reset (spec 8, the OTA
  scenario): with the module and flash calls succeeding and a connected broker client
  running, \<open>callback_esp_restart\<close> ends in \<open>Rebooting\<close> with the access-point
  configuration, the station configuration and the broker URI the device held written
  to their flash keys.
\<close>

theorem restart_persists_configs:
  assumes "e_http_sdk env = (\<lambda>_. ESP_OK)" "e_sta_sdk env = (\<lambda>_. ESP_OK)" "e_ap_sdk env = (\<lambda>_. ESP_OK)"
    "e_nvs_sdk env = (\<lambda>_. ESP_OK)" "g_phase g = Running"
    "aug_mqtt_is_connected (g_mqtt g) \<longrightarrow> mqtt_client_handle (g_mqtt g) \<and> client_running (g_mqtt g)"
  shows "g_phase (callback_esp_restart env g) = Rebooting
         \<and> g_nvs (callback_esp_restart env g) (wifi_ap_config_namespace_str, config_str)
             = Some (encode (ap_codec (e_layout env)) (ap_config (g_ap g)))
         \<and> g_nvs (callback_esp_restart env g) (wifi_sta_config_namespace_str, config_str)
             = Some (encode (sta_codec (e_layout env)) (sta_config (g_sta g)))
         \<and> g_nvs (callback_esp_restart env g) (mqtt_config_namespace_str, uri_str_key)
             = Some (uri_bytes (kc_max_uri_len (e_kc env)) (uri_str (g_mqtt g)))"
proof -
  let ?g1 = "stop_mqtt_if_connected g"
  let ?g2 = "deinit_modules env ?g1"
  have s: "g_phase ?g1 = Running \<and> uri_str (g_mqtt ?g1) = uri_str (g_mqtt g) \<and> g_sta ?g1 = g_sta g
           \<and> g_ap ?g1 = g_ap g" using stop_mqtt_ok [OF assms(6,5)] by simp
  have d: "g_phase ?g2 = Running \<and> sta_config (g_sta ?g2) = sta_config (g_sta g)
           \<and> ap_config (g_ap ?g2) = ap_config (g_ap g) \<and> uri_str (g_mqtt ?g2) = uri_str (g_mqtt g)"
    using deinit_modules_ok [OF assms(1-3), of ?g1] s by simp
  have "callback_esp_restart env g = (write_nvs_data env ?g2)\<lparr>g_phase := Rebooting\<rparr>"
    using s d write_nvs_data_ok [OF assms(4), of ?g2]
    by (simp add: callback_esp_restart_def and_then_def)
  then show ?thesis
    using d write_nvs_data_ok [OF assms(4), of ?g2]
    by (simp add: wifi_ap_config_namespace_str_def wifi_sta_config_namespace_str_def
        mqtt_config_namespace_str_def config_str_def uri_str_key_def)
qed

theorem restart_persists_configs_witness:
  "e_http_sdk gw_env_example = (\<lambda>_. ESP_OK) \<and> e_sta_sdk gw_env_example = (\<lambda>_. ESP_OK)
   \<and> e_ap_sdk gw_env_example = (\<lambda>_. ESP_OK) \<and> e_nvs_sdk gw_env_example = (\<lambda>_. ESP_OK)
   \<and> g_phase (gateway_init Map.empty) = Running
   \<and> \<not> aug_mqtt_is_connected (g_mqtt (gateway_init Map.empty))
   \<and> g_phase (callback_esp_restart gw_env_example (gateway_init Map.empty)) = Rebooting
   \<and> g_nvs (callback_esp_restart gw_env_example (gateway_init Map.empty)) (mqtt_config_namespace_str, uri_str_key)
     = Some (uri_bytes 128 (uri_str mqtt_module_init))"
proof -
  have h: "e_http_sdk gw_env_example = (\<lambda>_. ESP_OK)" "e_sta_sdk gw_env_example = (\<lambda>_. ESP_OK)"
    "e_ap_sdk gw_env_example = (\<lambda>_. ESP_OK)" "e_nvs_sdk gw_env_example = (\<lambda>_. ESP_OK)"
    "g_phase (gateway_init Map.empty) = Running"
    "aug_mqtt_is_connected (g_mqtt (gateway_init Map.empty)) \<longrightarrow>
       mqtt_client_handle (g_mqtt (gateway_init Map.empty)) \<and> client_running (g_mqtt (gateway_init Map.empty))"
    and n: "\<not> aug_mqtt_is_connected (g_mqtt (gateway_init Map.empty))"
    by (simp_all add: gateway_init_def mqtt_module_init_def aug_mqtt_is_connected_def)
  from restart_persists_configs [OF h] h(1-5) n show ?thesis
    by (simp add: gateway_init_def kc_example_def)
qed

section \<open>A gateway without sensors\<close>

lemma gw_env_no_sensor_fields [simp]:
  "e_kc gw_env_no_sensor = kc_example\<lparr>kc_wifi_info := False\<rparr>"
  "e_nvs_sdk gw_env_no_sensor = (\<lambda>_. ESP_OK)" "e_loop_create gw_env_no_sensor = ESP_OK"
  "e_ap_sdk gw_env_no_sensor = (\<lambda>_. ESP_OK)" "e_scan_sdk gw_env_no_sensor = (\<lambda>_. ESP_OK)"
  "e_scan_aps gw_env_no_sensor = []" "e_nvs_init gw_env_no_sensor = (ESP_OK, ESP_OK, ESP_OK)"
  "e_wifi_sdk gw_env_no_sensor = (\<lambda>_. ESP_OK)" "e_register_ret gw_env_no_sensor = (\<lambda>_. ESP_OK)"
  "e_ow gw_env_no_sensor = ow_env_no_sensor" "e_max_ds gw_env_no_sensor = 4" "e_ds_fuel gw_env_no_sensor = 5"
  by (simp_all add: gw_env_no_sensor_def gw_env_ap_example_def gw_env_example_def)

lemma boot_rest_sensor_fail:
  assumes "g_phase g = Running" "\<And>ev. e_register_ret env ev = ESP_OK"
    "aug_ds18b20_init (e_ow env) (e_max_ds env) (e_ds_fuel env) (g_ds g) = Some (e, ds)" "e \<noteq> ESP_OK"
  shows "g_phase (boot_rest env g) = Aborted e \<and> g_http (boot_rest env g) = g_http g
         \<and> mqtt_client_handle (g_mqtt (boot_rest env g)) = mqtt_client_handle (g_mqtt g)"
proof -
  obtain em u where m: "aug_nvs_get_mqtt_config (kc_max_uri_len (e_kc env)) (e_nvs_sdk env) (g_nvs g)
                          (uri_str (g_mqtt g)) = (em, u)" by fastforce
  show ?thesis
    using assms
    by (simp add: boot_rest_def m Let_def and_then_def esp_error_check_def register_events_ok
        aug_mqtt_set_default_uri_def)
qed

lemma no_sensor_boot_example:
  "let g = app_main gw_env_no_sensor Map.empty
   in g_phase g = Aborted ESP_FAIL \<and> ap_netif (g_ap g) \<and> \<not> server (g_http g)
      \<and> \<not> mqtt_client_handle (g_mqtt g)"
proof -
  obtain a where a: "main_init gw_env_no_sensor (gateway_init Map.empty) =
       boot_rest gw_env_no_sensor ((gateway_init Map.empty)\<lparr>g_sta := sta_module_init\<lparr>sta_config := zero_sta_config\<rparr>,
                                    g_ap := a\<rparr>)" and n: "ap_netif a"
    using main_init_ap [OF gw_env_no_sensor_fields(1-6)] by blast
  let ?g0 = "(gateway_init Map.empty)\<lparr>g_sta := sta_module_init\<lparr>sta_config := zero_sta_config\<rparr>, g_ap := a\<rparr>"
  have r: "g_phase ?g0 = Running" by (simp add: gateway_init_def)
  have ds: "aug_ds18b20_init (e_ow gw_env_no_sensor) (e_max_ds gw_env_no_sensor) (e_ds_fuel gw_env_no_sensor)
              (g_ds ?g0) = Some (ESP_FAIL, ds_module_init)"
    by (simp add: init_no_sensor_example)
  have f: "g_phase (boot_rest gw_env_no_sensor ?g0) = Aborted ESP_FAIL \<and> g_http (boot_rest gw_env_no_sensor ?g0) = g_http ?g0
           \<and> mqtt_client_handle (g_mqtt (boot_rest gw_env_no_sensor ?g0)) = mqtt_client_handle (g_mqtt ?g0)"
    using boot_rest_sensor_fail [OF r _ ds] by simp
  show ?thesis
    unfolding app_main_ok [OF gw_env_no_sensor_fields(7,8)] a Let_def
    using f n by (simp add: gateway_init_def http_module_init_def mqtt_module_init_def)
qed


text \<open>
  C16: A gateway with no DS18B20 attached never becomes reachable. Whatever the build
  and the mode it came up in, once boot reaches the part of \<open>main_init\<close> after the
  radio (\<open>boot_rest\<close>) on a bus that works but has no DS18B20 and reports its last
  device, \<open>ESP_ERROR_CHECK(aug_ds18b20_init())\<close> aborts the device with \<open>ESP_FAIL\<close>
  before the HTTP server and the broker client are created, with the radio as it was:
  the device can be neither reached nor reconfigured, and it aborts again on every boot.
\<close>

theorem no_sensor_boot_aborts:
  assumes "g_phase g = Running" "\<And>ev. e_register_ret env ev = ESP_OK"
    "ow_sdk (e_ow env) = (\<lambda>_. ESP_OK)" "\<forall>k. ow_new_device (e_ow env) k \<noteq> ESP_OK"
    "ow_next (e_ow env) k = ESP_ERR_NOT_FOUND" "k < e_ds_fuel env"
  shows "g_phase (boot_rest env g) = Aborted ESP_FAIL \<and> g_http (boot_rest env g) = g_http g
         \<and> mqtt_client_handle (g_mqtt (boot_rest env g)) = mqtt_client_handle (g_mqtt g)
         \<and> g_sta (boot_rest env g) = g_sta g \<and> g_ap (boot_rest env g) = g_ap g"
proof -
  let ?s0 = "(g_ds g)\<lparr>ds18b20_device_num := 0\<rparr>"
  obtain t where l: "search_loop (e_ow env) (e_max_ds env) (e_ds_fuel env) 0 ?s0 = Some t"
    using search_loop_ends [of "e_ow env" 0 k "e_ds_fuel env"] assms(5,6) by auto
  have "\<exists>r. aug_ds18b20_init (e_ow env) (e_max_ds env) (e_ds_fuel env) (g_ds g) = Some r"
    using l assms(3)
    by (simp add: aug_ds18b20_init_def search_ds18b20_devices_def aug_return_check_opt_def Let_def)
  then obtain e ds where i: "aug_ds18b20_init (e_ow env) (e_max_ds env) (e_ds_fuel env) (g_ds g) = Some (e, ds)"
    by auto
  have e: "e = ESP_FAIL" using init_without_sensor_fails [OF assms(3,4) i] by simp
  have "e_register_ret env ev = ESP_OK" for ev by (rule assms(2))
  then show ?thesis
    using boot_rest_sensor_fail [OF assms(1) _ i] e by simp
qed

section \<open>Witnesses\<close>

theorem boot_failure_lost_witness:
  "let g = gw_run gw_env_example (app_main gw_env_example Map.empty) [In_sta_radio WIFI_EVENT_STA_START];
       g' = gw_run gw_env_example g [In_sta_radio WIFI_EVENT_STA_DISCONNECTED, In_dispatch, In_resume]
   in gw_reachable gw_env_example g \<and> g_phase g = Running \<and> g_waiter g = Waiter_main_init
      \<and> sta_any_registered (g_sta g) \<and> max_retry (sta_config (g_sta g)) \<le> retry_num (g_sta g)
      \<and> \<not> connected_bit (g_sta g) \<and> g_queue g = []
      \<and> g_dispatched g' = [STA_FAILED_ATTEMPTS] \<and> g_queue g' = [] \<and> \<not> ap_netif (g_ap g')
      \<and> g_waiter g' = No_waiter \<and> sta_wait_result (g_sta g') = Some ESP_FAIL"
proof -
  let ?g = "gw_run gw_env_example (app_main gw_env_example Map.empty) [In_sta_radio WIFI_EVENT_STA_START]"
  have r: "gw_reachable gw_env_example ?g" by (rule gw_run_reachable, rule gw_reachable.boot)
  have g: "g_phase ?g = Running" "g_waiter ?g = Waiter_main_init" "sta_any_registered (g_sta ?g)"
    "max_retry (sta_config (g_sta ?g)) \<le> retry_num (g_sta ?g)" "\<not> connected_bit (g_sta ?g)" "g_queue ?g = []"
    "g_dispatched ?g = []" "\<not> ap_netif (g_ap ?g)"
    unfolding gw_run_def app_main_ex main_init_ex
    by (simp_all add: step_sta_start gateway_init_def sta_module_init_def ap_module_init_def
        aug_wifi_get_default_sta_config_def kc_example_def)
  show ?thesis
    using r g boot_failure_lost [OF r g(1-6)] unfolding Let_def by simp
qed

theorem init_mqtt_in_ap_mode_aborts_witness:
  "let g = app_main gw_env_ap_example Map.empty
   in g_phase g = Running \<and> server (g_http g) \<and> ''/init/mqtt'' \<in> set (registered (g_http g))
      \<and> \<not> g_http_stuck g \<and> g_queue g = [] \<and> g_waiter g \<noteq> Waiter_callback
      \<and> e_henv gw_env_ap_example = http_env_ok
      \<and> HTTP_SERVER_EVENT AUG_HTTP_SERVER_EVENT_INIT_MQTT \<in> set (g_registered g)
      \<and> mqtt_client_handle (g_mqtt g) \<and> \<not> client_running (g_mqtt g) \<and> ap_netif (g_ap g)
      \<and> g_phase (gw_run gw_env_ap_example g [In_http Req_init_mqtt, In_dispatch]) = Aborted ESP_FAIL
      \<and> g_dispatched (gw_run gw_env_ap_example g [In_http Req_init_mqtt, In_dispatch])
        = [HTTP_SERVER_EVENT AUG_HTTP_SERVER_EVENT_INIT_MQTT]"
  using init_mqtt_ap_boot
    init_mqtt_in_ap_mode_aborts [of "app_main gw_env_ap_example Map.empty" gw_env_ap_example]
  unfolding Let_def by simp

theorem no_sensor_boot_aborts_witness:
  "g_phase (gateway_init Map.empty) = Running \<and> (\<forall>ev. e_register_ret gw_env_no_sensor ev = ESP_OK)
   \<and> ow_sdk (e_ow gw_env_no_sensor) = (\<lambda>_. ESP_OK) \<and> (\<forall>k. ow_new_device (e_ow gw_env_no_sensor) k \<noteq> ESP_OK)
   \<and> ow_next (e_ow gw_env_no_sensor) 3 = ESP_ERR_NOT_FOUND \<and> 3 < e_ds_fuel gw_env_no_sensor
   \<and> g_phase (boot_rest gw_env_no_sensor (gateway_init Map.empty)) = Aborted ESP_FAIL
   \<and> \<not> server (g_http (boot_rest gw_env_no_sensor (gateway_init Map.empty)))
   \<and> \<not> mqtt_client_handle (g_mqtt (boot_rest gw_env_no_sensor (gateway_init Map.empty)))"
proof -
  have h: "g_phase (gateway_init Map.empty) = Running" "ow_sdk (e_ow gw_env_no_sensor) = (\<lambda>_. ESP_OK)"
    "\<forall>k. ow_new_device (e_ow gw_env_no_sensor) k \<noteq> ESP_OK" "ow_next (e_ow gw_env_no_sensor) 3 = ESP_ERR_NOT_FOUND"
    "(3::nat) < e_ds_fuel gw_env_no_sensor"
    by (simp_all add: gateway_init_def ow_env_no_sensor_def ow_env_example_def)
  show ?thesis
    using h no_sensor_boot_aborts [OF h(1) _ h(2-5)]
    by (simp add: gateway_init_def http_module_init_def mqtt_module_init_def)
qed

end
