(* ===== verification/Lifecycle.thy ===== *)
theory Lifecycle
  imports WifiSta Mqtt WifiAp HttpServer Sensors
begin

text \<open>
  The module life cycle of the headers. \<open>aug_mqtt_client.h\<close>, \<open>aug_wifi_ap.h\<close>,
  \<open>aug_http_server.h\<close> and \<open>aug_ds18b20.h\<close> document one contract for the modules that
  hold resources: the start call "allocates resources that should be freed with" the
  stop call, which "deallocates resources that was allocated with" the start call, and
  \<open>is_init\<close> reports "true if the module is initialized". \<open>deinit_modules\<close> of
  \<open>main.c\<close> relies on it with the pattern \<open>if (is_init()) ESP_ERROR_CHECK(stop())\<close>.

  The interface is a record of the three operations and of the resources a state
  holds. The contract is a pair of predicates on a state; the client's pattern is proved
  once against the interface; each module's operations are an instance, proved to meet
  the contract for every state, except the sensor driver, whose failed initialisation
  keeps device handles that its deinitialisation can never release.
\<close>

section \<open>The interface\<close>

text \<open>
  A start or stop call that does not return to its caller (an abort, a failed
  \<open>assert\<close>, or a search that never ends) is \<open>None\<close>.
\<close>

record 's lifecycle =
  lc_is_init :: "'s \<Rightarrow> bool"
  lc_held :: "'s \<Rightarrow> bool"
  lc_start :: "'s \<Rightarrow> (esp_err \<times> 's) option"
  lc_stop :: "'s \<Rightarrow> (esp_err \<times> 's) option"

text \<open>\<open>is_init\<close> reports every state that holds resources, so a caller can free them.\<close>

definition lc_inv :: "'s lifecycle \<Rightarrow> 's \<Rightarrow> bool" where
  "lc_inv M s \<longleftrightarrow> (lc_held M s \<longrightarrow> lc_is_init M s)"

text \<open>A successful start leaves the module initialised; every start keeps \<open>lc_inv\<close>.\<close>

definition start_contract :: "'s lifecycle \<Rightarrow> 's \<Rightarrow> bool" where
  "start_contract M s \<longleftrightarrow>
     (case lc_start M s of
        None \<Rightarrow> True
      | Some (e, s') \<Rightarrow> lc_inv M s' \<and> (e = ESP_OK \<longrightarrow> lc_is_init M s'))"

text \<open>A successful stop releases everything and leaves the module uninitialised.\<close>

definition stop_contract :: "'s lifecycle \<Rightarrow> 's \<Rightarrow> bool" where
  "stop_contract M s \<longleftrightarrow>
     (case lc_stop M s of
        None \<Rightarrow> True
      | Some (e, s') \<Rightarrow> lc_inv M s' \<and> (e = ESP_OK \<longrightarrow> \<not> lc_held M s' \<and> \<not> lc_is_init M s'))"

definition lifecycle_contract :: "'s lifecycle \<Rightarrow> 's \<Rightarrow> bool" where
  "lifecycle_contract M s \<longleftrightarrow> (lc_inv M s \<longrightarrow> start_contract M s \<and> stop_contract M s)"

text \<open>The client's pattern in \<open>deinit_modules\<close>: stop a module only if it reports itself initialised.\<close>

definition stop_if_init :: "'s lifecycle \<Rightarrow> 's \<Rightarrow> (esp_err \<times> 's) option" where
  "stop_if_init M s = (if lc_is_init M s then lc_stop M s else Some (ESP_OK, s))"

section \<open>The instances\<close>

text \<open>
  \<open>aug_mqtt_init\<close>/\<open>aug_mqtt_deinit\<close>: the client handle, and the client's task
  while it runs.
\<close>

definition mqtt_lifecycle :: "mqtt_env \<Rightarrow> mqtt_module lifecycle" where
  "mqtt_lifecycle env =
     \<lparr>lc_is_init = aug_mqtt_is_init, lc_held = (\<lambda>s. mqtt_client_handle s \<or> client_running s),
      lc_start = (\<lambda>s. Some (aug_mqtt_init env s)), lc_stop = (\<lambda>s. Some (aug_mqtt_deinit env s))\<rparr>"

text \<open>
  \<open>aug_wifi_ap_start\<close>/\<open>aug_wifi_ap_stop\<close>: the netif, the handler instance and the
  idle task. A failed scan aborts in \<open>aug_get_least_freq_channel\<close>.
\<close>

definition ap_lifecycle ::
  "(ap_sdk_call \<Rightarrow> esp_err) \<Rightarrow> (scan_sdk_call \<Rightarrow> esp_err) \<Rightarrow> nat \<Rightarrow> byte list \<Rightarrow> ap_module lifecycle" where
  "ap_lifecycle sdk scan_sdk scan_list_size aps =
     \<lparr>lc_is_init = aug_wifi_ap_is_init,
      lc_held = (\<lambda>s. ap_netif s \<or> ap_handler_registered s \<or> idle_task s),
      lc_start = (\<lambda>s. case aug_wifi_ap_start sdk scan_sdk scan_list_size aps s of
                        Inl _ \<Rightarrow> None | Inr r \<Rightarrow> Some r),
      lc_stop = (\<lambda>s. Some (aug_wifi_ap_stop sdk s))\<rparr>"

text \<open>\<open>aug_http_start\<close>/\<open>aug_http_stop_webserver\<close>: the server and its handlers.\<close>

definition http_lifecycle :: "(http_sdk_call \<Rightarrow> esp_err) \<Rightarrow> http_module lifecycle" where
  "http_lifecycle sdk =
     \<lparr>lc_is_init = aug_http_is_init, lc_held = (\<lambda>s. server s \<or> registered s \<noteq> []),
      lc_start = (\<lambda>s. Some (aug_http_start sdk s)), lc_stop = (\<lambda>s. Some (aug_http_stop_webserver sdk s))\<rparr>"

text \<open>
  \<open>aug_ds18b20_init\<close>/\<open>aug_ds18b20_deinit\<close>: the device handles. The header has no
  \<open>is_init\<close>; the module's flag \<open>is_initialized\<close> is what \<open>aug_ds18b20_deinit\<close> asserts.
\<close>

definition ds_lifecycle :: "ow_env \<Rightarrow> nat \<Rightarrow> nat \<Rightarrow> ds_module lifecycle" where
  "ds_lifecycle env max_ds fuel =
     \<lparr>lc_is_init = is_initialized, lc_held = (\<lambda>s. is_initialized s \<or> ds18b20_device_num s \<noteq> 0),
      lc_start = aug_ds18b20_init env max_ds fuel, lc_stop = aug_ds18b20_deinit\<rparr>"

text \<open>
  The station module has no header of its own; \<open>deinit_modules\<close> treats it the same
  way, with \<open>aug_wifi_sta_connect\<close> (on the radio events \<open>evs\<close>) as its start and
  \<open>aug_wifi_sta_disconnect\<close> as its stop: the netif, the event group and the two
  handler instances.
\<close>

definition sta_lifecycle :: "(sta_sdk_call \<Rightarrow> esp_err) \<Rightarrow> sta_event list \<Rightarrow> sta_module lifecycle" where
  "sta_lifecycle sdk evs =
     \<lparr>lc_is_init = aug_wifi_sta_is_init,
      lc_held = (\<lambda>s. sta_netif s \<or> sta_group s \<or> sta_any_registered s \<or> sta_got_ip_registered s),
      lc_start = (\<lambda>s. case aug_wifi_sta_connect sdk evs s of None \<Rightarrow> None | Some (e, s', _) \<Rightarrow> Some (e, s')),
      lc_stop = (\<lambda>s. Some (aug_wifi_sta_disconnect sdk s))\<rparr>"

text \<open>A bus whose sensors are found but refuse the resolution setting.\<close>

definition ow_env_no_resolution :: ow_env where
  "ow_env_no_resolution =
     ow_env_example\<lparr>ow_sdk := (\<lambda>c. case c of Ds18b20_set_resolution _ \<Rightarrow> ESP_FAIL | _ \<Rightarrow> ESP_OK)\<rparr>"

section \<open>The client's pattern\<close>

lemma stop_if_init_inv:
  assumes "lifecycle_contract M s" "lc_inv M s" "stop_if_init M s = Some (e, s')"
  shows "lc_inv M s'"
  using assms
  by (auto simp: lifecycle_contract_def stop_contract_def stop_if_init_def split: if_splits)

lemma stop_if_init_releases:
  assumes "lifecycle_contract M s" "lc_inv M s" "stop_if_init M s = Some (ESP_OK, s')"
  shows "\<not> lc_held M s'"
  using assms
  by (auto simp: lifecycle_contract_def stop_contract_def stop_if_init_def lc_inv_def split: if_splits)

section \<open>The instances meet the contract\<close>

lemma mqtt_lifecycle_contract: "lifecycle_contract (mqtt_lifecycle env) s"
  by (simp add: lifecycle_contract_def start_contract_def stop_contract_def lc_inv_def mqtt_lifecycle_def
      aug_mqtt_init_def aug_mqtt_deinit_def aug_mqtt_is_init_def aug_return_check_def Let_def)

lemma ap_lifecycle_contract: "lifecycle_contract (ap_lifecycle sdk scan_sdk n aps) s"
  by (simp add: lifecycle_contract_def start_contract_def stop_contract_def lc_inv_def ap_lifecycle_def
      aug_wifi_ap_start_def aug_wifi_ap_stop_def aug_wifi_ap_is_init_def aug_return_check_def Let_def
      split: sum.split)

lemma sta_wait_netif: "sta_wait s evs = Some (e, s', r) \<Longrightarrow> sta_netif s' = sta_netif s"
proof (induction s evs rule: sta_wait.induct)
  case (2 s e es)
  then show ?case
    by (cases e) (auto split: if_splits)
qed (auto split: if_splits)

lemma sta_lifecycle_contract: "lifecycle_contract (sta_lifecycle sdk evs) s"
  by (auto simp: lifecycle_contract_def start_contract_def stop_contract_def lc_inv_def sta_lifecycle_def
      aug_wifi_sta_connect_def aug_wifi_sta_disconnect_def aug_wifi_sta_is_init_def aug_return_check_def
      Let_def split: option.splits prod.splits dest!: sta_wait_netif)

lemma register_uris_server: "register_uris sdk us s = (e, s') \<Longrightarrow> server s' = server s"
  by (induction us arbitrary: s) (auto split: if_splits)

lemma http_lifecycle_contract: "lifecycle_contract (http_lifecycle sdk) s"
  by (auto simp: lifecycle_contract_def start_contract_def stop_contract_def lc_inv_def http_lifecycle_def
      aug_http_start_def aug_http_stop_webserver_def aug_http_is_init_def aug_return_check_def
      split: prod.split dest!: register_uris_server)

lemma ds_lifecycle_ok:
  "lc_start (ds_lifecycle env max_ds fuel) s = Some (ESP_OK, s') \<Longrightarrow> lc_is_init (ds_lifecycle env max_ds fuel) s'"
  "lc_stop (ds_lifecycle env max_ds fuel) s = Some (ESP_OK, s') \<Longrightarrow>
   \<not> lc_held (ds_lifecycle env max_ds fuel) s' \<and> \<not> lc_is_init (ds_lifecycle env max_ds fuel) s'"
  by (auto simp: ds_lifecycle_def aug_ds18b20_init_def aug_ds18b20_deinit_def aug_return_check_opt_def
      Let_def split: option.splits if_splits prod.splits)

lemma init_no_resolution_example:
  "aug_ds18b20_init ow_env_no_resolution 4 5 ds_module_init =
   Some (ESP_FAIL, \<lparr>is_initialized = False, ds18b20_device_num = 2, ds18b20s = (\<lambda>_. None)(0 := Some 0, 1 := Some 2)\<rparr>)"
  by (simp add: aug_ds18b20_init_def search_ds18b20_devices_def set_resolution_for_devices_def
      ow_env_no_resolution_def ow_env_example_def ds_module_init_def eval_nat_numeral Let_def upt_conv_Cons)

text \<open>
  C20: The modules with a start and a stop call meet the header contract in every state:
  for the broker client (\<open>aug_mqtt_init\<close>/\<open>aug_mqtt_deinit\<close>), the access point
  (\<open>aug_wifi_ap_start\<close>/\<open>aug_wifi_ap_stop\<close>) and the HTTP server
  (\<open>aug_http_start\<close>/\<open>aug_http_stop_webserver\<close>), whatever the SDK calls return, a state
  whose \<open>is_init\<close> reports its resources keeps doing so after a start or a stop, a
  successful start leaves the module initialised, and a successful stop releases
  everything.
\<close>

theorem modules_meet_lifecycle_contract:
  "lifecycle_contract (mqtt_lifecycle env) m \<and> lifecycle_contract (ap_lifecycle sdk scan_sdk n aps) a
   \<and> lifecycle_contract (http_lifecycle hsdk) h"
  by (simp add: mqtt_lifecycle_contract ap_lifecycle_contract http_lifecycle_contract)

theorem modules_meet_lifecycle_contract_witness:
  "lifecycle_contract (mqtt_lifecycle \<lparr>client_init_ok = True, register_ret = ESP_OK, destroy_ret = ESP_OK,
                                        uri_parses = (\<lambda>_. True)\<rparr>) mqtt_started_example
   \<and> lifecycle_contract (ap_lifecycle (\<lambda>_. ESP_OK) (\<lambda>_. ESP_OK) 20 []) ap_module_init
   \<and> lifecycle_contract (http_lifecycle (\<lambda>_. ESP_OK)) http_module_init
   \<and> lc_inv (mqtt_lifecycle \<lparr>client_init_ok = True, register_ret = ESP_OK, destroy_ret = ESP_OK,
                              uri_parses = (\<lambda>_. True)\<rparr>) mqtt_started_example
   \<and> lc_inv (ap_lifecycle (\<lambda>_. ESP_OK) (\<lambda>_. ESP_OK) 20 []) ap_module_init
   \<and> lc_inv (http_lifecycle (\<lambda>_. ESP_OK)) http_module_init"
  using modules_meet_lifecycle_contract [of "\<lparr>client_init_ok = True, register_ret = ESP_OK, destroy_ret = ESP_OK,
      uri_parses = (\<lambda>_. True)\<rparr>" mqtt_started_example "\<lambda>_. ESP_OK" "\<lambda>_. ESP_OK" 20 "[]" ap_module_init
      "\<lambda>_. ESP_OK" http_module_init]
  by (simp add: lc_inv_def mqtt_lifecycle_def ap_lifecycle_def http_lifecycle_def mqtt_started_example_def
      mqtt_module_init_def ap_module_init_def http_module_init_def aug_mqtt_is_init_def aug_wifi_ap_is_init_def
      aug_http_is_init_def)

text \<open>
  C21: The sensor driver breaks the header contract. From any reset state (uninitialised,
  no sensor counted), with room for a sensor and the bus created, when the device search
  finds sensors but a \<open>ds18b20_set_resolution\<close> fails, \<open>aug_ds18b20_init\<close> returns
  that error with the found device handles created and counted but \<open>is_initialized\<close>
  still false, and \<open>aug_ds18b20_deinit\<close> on that state fails its \<open>assert\<close>: the
  handles can never be released, although \<open>aug_ds18b20.h\<close> says the resources
  initialised by \<open>aug_ds18b20_init\<close> "should be cleaned up with aug_ds18b20_deinit".
  The driver's life cycle violates the contract in every such state.
\<close>

theorem ds_failed_init_strands_handles:
  assumes "\<not> is_initialized s" "ds18b20_device_num s = 0" "0 < max_ds"
    "ow_sdk env Onewire_new_bus_rmt = ESP_OK"
    "search_ds18b20_devices env max_ds fuel (s\<lparr>ds18b20_device_num := 0\<rparr>) = Some (ESP_OK, s2)"
    "set_resolution_for_devices env s2 \<noteq> ESP_OK"
  shows "lc_start (ds_lifecycle env max_ds fuel) s = Some (set_resolution_for_devices env s2, s2)
         \<and> 0 < ds18b20_device_num s2 \<and> (\<forall>i < ds18b20_device_num s2. ds18b20s s2 i \<noteq> None)
         \<and> \<not> is_initialized s2 \<and> lc_stop (ds_lifecycle env max_ds fuel) s2 = None
         \<and> \<not> lifecycle_contract (ds_lifecycle env max_ds fuel) s"
proof -
  have b: "0 < ds18b20_device_num s2" "\<forall>i < ds18b20_device_num s2. ds18b20s s2 i \<noteq> None"
    "\<not> is_initialized s2"
    using search_devices_bounds [OF assms(5) _ assms(3)] assms(1) by simp_all
  have i: "lc_start (ds_lifecycle env max_ds fuel) s = Some (set_resolution_for_devices env s2, s2)"
    using assms(4-6) by (simp add: ds_lifecycle_def aug_ds18b20_init_def Let_def aug_return_check_opt_def)
  have inv: "lc_inv (ds_lifecycle env max_ds fuel) s"
    using assms(1,2) by (simp add: lc_inv_def ds_lifecycle_def)
  have "\<not> start_contract (ds_lifecycle env max_ds fuel) s"
    using i b by (simp add: start_contract_def lc_inv_def ds_lifecycle_def)
  with inv have "\<not> lifecycle_contract (ds_lifecycle env max_ds fuel) s"
    by (simp add: lifecycle_contract_def)
  then show ?thesis
    using i b by (simp add: ds_lifecycle_def aug_ds18b20_deinit_def)
qed

lemma search_no_resolution_example:
  "search_ds18b20_devices ow_env_no_resolution 4 5 (ds_module_init\<lparr>ds18b20_device_num := 0\<rparr>) =
   Some (ESP_OK, \<lparr>is_initialized = False, ds18b20_device_num = 2, ds18b20s = (\<lambda>_. None)(0 := Some 0, 1 := Some 2)\<rparr>)"
  by (simp add: search_ds18b20_devices_def ow_env_no_resolution_def ow_env_example_def ds_module_init_def
      eval_nat_numeral Let_def)

theorem ds_failed_init_strands_handles_witness:
  "\<not> is_initialized ds_module_init \<and> ds18b20_device_num ds_module_init = 0
   \<and> ow_sdk ow_env_no_resolution Onewire_new_bus_rmt = ESP_OK
   \<and> set_resolution_for_devices ow_env_no_resolution
       \<lparr>is_initialized = False, ds18b20_device_num = 2, ds18b20s = (\<lambda>_. None)(0 := Some 0, 1 := Some 2)\<rparr> = ESP_FAIL
   \<and> lc_start (ds_lifecycle ow_env_no_resolution 4 5) ds_module_init
     = Some (ESP_FAIL, \<lparr>is_initialized = False, ds18b20_device_num = 2,
                        ds18b20s = (\<lambda>_. None)(0 := Some 0, 1 := Some 2)\<rparr>)
   \<and> lc_stop (ds_lifecycle ow_env_no_resolution 4 5)
       \<lparr>is_initialized = False, ds18b20_device_num = 2, ds18b20s = (\<lambda>_. None)(0 := Some 0, 1 := Some 2)\<rparr> = None
   \<and> \<not> lifecycle_contract (ds_lifecycle ow_env_no_resolution 4 5) ds_module_init"
proof -
  have h: "\<not> is_initialized ds_module_init" "ds18b20_device_num ds_module_init = 0" "0 < (4::nat)"
    "ow_sdk ow_env_no_resolution Onewire_new_bus_rmt = ESP_OK"
    "set_resolution_for_devices ow_env_no_resolution
       \<lparr>is_initialized = False, ds18b20_device_num = 2, ds18b20s = (\<lambda>_. None)(0 := Some 0, 1 := Some 2)\<rparr> = ESP_FAIL"
    by (simp_all add: ds_module_init_def ow_env_no_resolution_def ow_env_example_def
        set_resolution_for_devices_def upt_conv_Cons)
  show ?thesis
    using h ds_failed_init_strands_handles [OF h(1-4) search_no_resolution_example] by simp
qed

end
