(* ===== verification/GatewayRecovery.thy ===== *)
theory GatewayRecovery
  imports GatewayRuns Lifecycle
begin

text \<open>
  Switching back to station mode on a running device. \<open>callback_init_sta\<close> stops the
  broker client only when \<open>aug_mqtt_is_connected()\<close> holds, and \<open>finish_init_sta\<close>
  starts it under \<open>ESP_ERROR_CHECK\<close> once the station is connected. A client that was
  started but is not connected (a broker that cannot be reached, or a Wi-Fi outage that
  dropped the connection) is therefore started a second time, which esp-mqtt refuses.
  The theory holds the steps of that sequence as lemmas over any state and a station
  build whose driver calls succeed, and the scenario from boot.
\<close>

section \<open>The steps\<close>

lemma stop_mqtt_unconnected:
  "\<not> aug_mqtt_is_connected (g_mqtt g) \<Longrightarrow> stop_mqtt_if_connected g = g"
  by (simp add: stop_mqtt_if_connected_def)

lemma deinit_modules_frame:
  assumes "e_http_sdk env = (\<lambda>_. ESP_OK)" "e_sta_sdk env = (\<lambda>_. ESP_OK)" "e_ap_sdk env = (\<lambda>_. ESP_OK)"
    "g_phase g = Running"
  shows "g_phase (deinit_modules env g) = Running \<and> g_mqtt (deinit_modules env g) = g_mqtt g
         \<and> g_waiter (deinit_modules env g) = g_waiter g \<and> g_queue (deinit_modules env g) = g_queue g
         \<and> \<not> server (g_http (deinit_modules env g))"
  using assms
  by (simp add: deinit_modules_def and_then_def esp_error_check_def with_http_def with_sta_def with_ap_def
      aug_http_stop_webserver_def aug_wifi_sta_disconnect_def aug_wifi_ap_stop_def aug_http_is_init_def
      Let_def)

lemma connect_begin_ok:
  "aug_wifi_sta_connect_begin (\<lambda>_. ESP_OK) s =
   Inr (s\<lparr>sta_loop_set := True, sta_netif := True, sta_group := True, connected_bit := False,
          fail_bit := False, sta_any_registered := True, sta_got_ip_registered := True\<rparr>)"
  by (simp add: aug_wifi_sta_connect_begin_def)

text \<open>
  With working drivers the callback tears the modules down, leaves an unconnected
  client as it was, and blocks in the station's wait with both result bits clear.
\<close>

lemma callback_init_sta_unconnected:
  assumes "g_phase g = Running" "\<not> aug_mqtt_is_connected (g_mqtt g)"
    "e_http_sdk env = (\<lambda>_. ESP_OK)" "e_sta_sdk env = (\<lambda>_. ESP_OK)" "e_ap_sdk env = (\<lambda>_. ESP_OK)"
  shows "g_phase (callback_init_sta env g) = Running \<and> g_mqtt (callback_init_sta env g) = g_mqtt g
         \<and> g_waiter (callback_init_sta env g) = Waiter_callback
         \<and> sta_got_ip_registered (g_sta (callback_init_sta env g))
         \<and> sta_wait_result (g_sta (callback_init_sta env g)) = None"
proof -
  let ?g2 = "deinit_modules env g"
  have d: "g_phase ?g2 = Running" "g_mqtt ?g2 = g_mqtt g"
    using deinit_modules_frame [OF assms(3-5,1)] by simp_all
  have "callback_init_sta env g =
        ?g2\<lparr>g_sta := (g_sta ?g2)\<lparr>sta_loop_set := True, sta_netif := True, sta_group := True,
              connected_bit := False, fail_bit := False, sta_any_registered := True,
              sta_got_ip_registered := True\<rparr>, g_waiter := Waiter_callback\<rparr>"
    using assms(1,2) d(1)
    by (simp add: callback_init_sta_def stop_mqtt_unconnected and_then_def assms(4) connect_begin_ok)
  then show ?thesis using d by (simp add: sta_wait_result_def)
qed

lemma step_got_ip:
  "g_phase g = Running \<Longrightarrow> sta_got_ip_registered (g_sta g) \<Longrightarrow>
   gw_step env g (In_sta_radio IP_EVENT_STA_GOT_IP) =
   g\<lparr>g_sta := (g_sta g)\<lparr>retry_num := 0, connected_bit := True\<rparr>\<rparr>"
  by (simp add: gw_step_def deliver_sta_def Let_def)

lemma http_start_mqtt [simp]: "g_mqtt (http_start env g) = g_mqtt g"
  by (simp add: http_start_def)

lemma http_start_phase [simp]: "g_phase (http_start env g) = g_phase g"
  by (simp add: http_start_def)

text \<open>The completion of the callback's connect starts a client that is already running.\<close>

lemma step_resume_running_client:
  assumes "g_phase g = Running" "g_waiter g = Waiter_callback" "sta_wait_result (g_sta g) = Some ESP_OK"
    "mqtt_client_handle (g_mqtt g)" "client_running (g_mqtt g)"
  shows "g_phase (gw_step env g In_resume) = Aborted ESP_FAIL"
  using assms
  by (simp add: gw_step_def resume_waiter_def finish_init_sta_def esp_error_check_def with_mqtt_def
      aug_mqtt_start_def esp_mqtt_client_start_def split: prod.split)

section \<open>Booting in station mode\<close>

lemma step_sta_start_connect:
  "g_phase g = Running \<Longrightarrow> sta_any_registered (g_sta g) \<Longrightarrow>
   gw_step env g (In_sta_radio WIFI_EVENT_STA_START) =
   g\<lparr>g_sta := (g_sta g)\<lparr>sta_log := sta_log (g_sta g) @ [Esp_wifi_connect]\<rparr>\<rparr>"
  by (simp add: gw_step_def deliver_sta_def Let_def)

lemma run_sta_ex:
  "gw_run gw_env_example (app_main gw_env_example Map.empty)
     [In_sta_radio WIFI_EVENT_STA_START, In_sta_radio IP_EVENT_STA_GOT_IP, In_resume] =
   boot_rest gw_env_example
         ((gateway_init Map.empty)\<lparr>g_sta := sta_module_init\<lparr>sta_config := aug_wifi_get_default_sta_config kc_example,
          sta_loop_set := True, sta_netif := True, sta_group := True, connected_bit := True, fail_bit := False,
          sta_any_registered := True, sta_got_ip_registered := True, retry_num := 0,
          sta_log := [Esp_wifi_connect]\<rparr>,
          g_ap := ap_module_init\<lparr>ap_config := aug_wifi_get_default_ap_config kc_example\<rparr>,
          g_waiter := No_waiter\<rparr>)"
  unfolding gw_run_def app_main_ex main_init_ex
  by (simp add: step_sta_start_connect step_got_ip step_resume_main_init gateway_init_def sta_module_init_def
      sta_wait_result_def)

lemma boot_rest_connected [simp]:
  "is_connected (g_mqtt (boot_rest env g)) = is_connected (g_mqtt g)"
proof -
  obtain em u where m: "aug_nvs_get_mqtt_config (kc_max_uri_len (e_kc env)) (e_nvs_sdk env) (g_nvs g)
                          (uri_str (g_mqtt g)) = (em, u)" by fastforce
  have r: "g_mqtt (register_events env evs h) = g_mqtt h" for evs h
    by (induction evs arbitrary: h) (simp_all add: and_then_def esp_error_check_def)
  show ?thesis
    by (simp add: boot_rest_def m Let_def and_then_def esp_error_check_def with_mqtt_def r
        aug_mqtt_init_def aug_return_check_def aug_mqtt_start_def esp_mqtt_client_start_def
        aug_mqtt_set_default_uri_def split: prod.split option.split)
qed

lemma boot_sta_state:
  "let g = gw_run gw_env_example (app_main gw_env_example Map.empty)
             [In_sta_radio WIFI_EVENT_STA_START, In_sta_radio IP_EVENT_STA_GOT_IP, In_resume]
   in g_phase g = Running \<and> mqtt_client_handle (g_mqtt g) \<and> client_running (g_mqtt g)
      \<and> \<not> aug_mqtt_is_connected (g_mqtt g)"
proof -
  let ?g0 = "(gateway_init Map.empty)\<lparr>g_sta := sta_module_init\<lparr>sta_config := aug_wifi_get_default_sta_config kc_example,
          sta_loop_set := True, sta_netif := True, sta_group := True, connected_bit := True, fail_bit := False,
          sta_any_registered := True, sta_got_ip_registered := True, retry_num := 0,
          sta_log := [Esp_wifi_connect]\<rparr>,
          g_ap := ap_module_init\<lparr>ap_config := aug_wifi_get_default_ap_config kc_example\<rparr>,
          g_waiter := No_waiter\<rparr>"
  have ok: "g_phase ?g0 = Running" "client_init_ok (e_mqtt gw_env_example)"
    "register_ret (e_mqtt gw_env_example) = ESP_OK"
    by (simp_all add: gateway_init_def)
  have b: "g_phase (boot_rest gw_env_example ?g0) = Running"
    using boot_rest_ok [OF ok(1) _ sensors_example ok(2,3)] by (simp add: gateway_init_def)
  have sv: "mqtt_client_handle (g_mqtt (boot_rest gw_env_example ?g0))
            \<and> client_running (g_mqtt (boot_rest gw_env_example ?g0))"
    using boot_rest_services [OF ok(1) _ sensors_example ok(2,3)] by (simp add: gateway_init_def)
  show ?thesis
    unfolding run_sta_ex Let_def
    using b sv by (simp add: aug_mqtt_is_connected_def gateway_init_def mqtt_module_init_def)
qed

section \<open>The scenario\<close>

text \<open>
  C5: Returning to station mode aborts the device when the broker client is started but
  not connected. From any running state whose client has a handle and is running but
  has no connection, with working Wi-Fi, server and access-point drivers,
  \<open>callback_init_sta\<close> leaves the client running and blocks in the station's wait;
  once the station gets its address and the callback resumes, its
  \<open>ESP_ERROR_CHECK(aug_mqtt_start())\<close> aborts the device with \<open>ESP_FAIL\<close>. Spec 4.4 takes
  ReconfigureStation and IdleTimeout to ConnectingStation and, once the station has an
  address, to ConnectedStation.
\<close>

theorem sta_reinit_aborts_unconnected_client:
  assumes "g_phase g = Running" "mqtt_client_handle (g_mqtt g)" "client_running (g_mqtt g)"
    "\<not> aug_mqtt_is_connected (g_mqtt g)"
    "e_http_sdk env = (\<lambda>_. ESP_OK)" "e_sta_sdk env = (\<lambda>_. ESP_OK)" "e_ap_sdk env = (\<lambda>_. ESP_OK)"
  shows "g_waiter (callback_init_sta env g) = Waiter_callback
         \<and> g_phase (gw_run env (callback_init_sta env g) [In_sta_radio IP_EVENT_STA_GOT_IP, In_resume])
             = Aborted ESP_FAIL"
proof -
  let ?g1 = "callback_init_sta env g"
  let ?g2 = "?g1\<lparr>g_sta := (g_sta ?g1)\<lparr>retry_num := 0, connected_bit := True\<rparr>\<rparr>"
  have c: "g_phase ?g1 = Running" "g_mqtt ?g1 = g_mqtt g" "g_waiter ?g1 = Waiter_callback"
    "sta_got_ip_registered (g_sta ?g1)"
    using callback_init_sta_unconnected [OF assms(1,4-7)] by simp_all
  have s: "gw_step env ?g1 (In_sta_radio IP_EVENT_STA_GOT_IP) = ?g2"
    using step_got_ip [OF c(1,4)] .
  have "g_phase (gw_step env ?g2 In_resume) = Aborted ESP_FAIL"
    using c assms(2,3) by (intro step_resume_running_client) (simp_all add: sta_wait_result_def)
  then show ?thesis using c(3) s by (simp add: gw_run_def)
qed

theorem sta_reinit_aborts_unconnected_client_witness:
  "let g = gw_run gw_env_example (app_main gw_env_example Map.empty)
             [In_sta_radio WIFI_EVENT_STA_START, In_sta_radio IP_EVENT_STA_GOT_IP, In_resume]
   in g_phase g = Running \<and> mqtt_client_handle (g_mqtt g) \<and> client_running (g_mqtt g)
      \<and> \<not> aug_mqtt_is_connected (g_mqtt g)
      \<and> g_waiter (callback_init_sta gw_env_example g) = Waiter_callback
      \<and> g_phase (gw_run gw_env_example (callback_init_sta gw_env_example g)
                  [In_sta_radio IP_EVENT_STA_GOT_IP, In_resume]) = Aborted ESP_FAIL"
  using boot_sta_state
    sta_reinit_aborts_unconnected_client [of "gw_run gw_env_example (app_main gw_env_example Map.empty)
             [In_sta_radio WIFI_EVENT_STA_START, In_sta_radio IP_EVENT_STA_GOT_IP, In_resume]" gw_env_example]
  unfolding Let_def by simp

section \<open>Tearing the modules down\<close>

text \<open>
  \<open>deinit_modules\<close> is the life-cycle client of \<open>Lifecycle\<close>: each of its three steps
  is \<open>stop_if_init\<close> of a module's instance, and a run that does not abort took the
  successful branch of each.
\<close>

lemma and_then_Running: "g_phase (and_then g k) = Running \<Longrightarrow> g_phase g = Running \<and> and_then g k = k g"
  by (simp add: and_then_def split: if_splits)

lemma deinit_modules_run:
  assumes run: "g_phase (deinit_modules env g) = Running"
  obtains g1 g2 where
    "g1 = (if aug_http_is_init (g_http g)
           then esp_error_check (with_http (aug_http_stop_webserver (e_http_sdk env)) g) else g)"
    "g2 = (if aug_wifi_sta_is_init (g_sta g1)
           then esp_error_check (with_sta (aug_wifi_sta_disconnect (e_sta_sdk env)) g1) else g1)"
    "g_phase g1 = Running" "g_phase g2 = Running"
    "deinit_modules env g = (if aug_wifi_ap_is_init (g_ap g2)
           then esp_error_check (with_ap (aug_wifi_ap_stop (e_ap_sdk env)) g2) else g2)"
proof -
  define g1 where "g1 = (if aug_http_is_init (g_http g)
           then esp_error_check (with_http (aug_http_stop_webserver (e_http_sdk env)) g) else g)"
  define g2 where "g2 = (if aug_wifi_sta_is_init (g_sta g1)
           then esp_error_check (with_sta (aug_wifi_sta_disconnect (e_sta_sdk env)) g1) else g1)"
  define g3 where "g3 = (if aug_wifi_ap_is_init (g_ap g2)
           then esp_error_check (with_ap (aug_wifi_ap_stop (e_ap_sdk env)) g2) else g2)"
  have d: "deinit_modules env g = and_then g1 (\<lambda>_. and_then g2 (\<lambda>_. g3))"
    by (simp add: deinit_modules_def g1_def g2_def g3_def and_then_def)
  have r1: "g_phase g1 = Running" and x: "deinit_modules env g = and_then g2 (\<lambda>_. g3)"
    using and_then_Running [of g1 "\<lambda>_. and_then g2 (\<lambda>_. g3)"] run unfolding d by simp_all
  have "g_phase g2 = Running" "deinit_modules env g = g3"
    using and_then_Running [of g2 "\<lambda>_. g3"] run unfolding x by simp_all
  then show ?thesis using that g1_def g2_def r1 g3_def by blast
qed

lemma with_module_Running:
  "g_phase (esp_error_check (with_http fh g)) = Running \<Longrightarrow>
   fh (g_http g) = (ESP_OK, g_http (esp_error_check (with_http fh g)))
   \<and> g_sta (esp_error_check (with_http fh g)) = g_sta g \<and> g_ap (esp_error_check (with_http fh g)) = g_ap g"
  "g_phase (esp_error_check (with_sta fs g)) = Running \<Longrightarrow>
   fs (g_sta g) = (ESP_OK, g_sta (esp_error_check (with_sta fs g))) \<and> g_ap (esp_error_check (with_sta fs g)) = g_ap g"
  "g_phase (esp_error_check (with_ap fa g)) = Running \<Longrightarrow>
   fa (g_ap g) = (ESP_OK, g_ap (esp_error_check (with_ap fa g))) \<and> g_sta (esp_error_check (with_ap fa g)) = g_sta g"
    apply (cases "fh (g_http g)"; simp add: esp_error_check_def with_http_def split: if_splits)
   apply (cases "fs (g_sta g)"; simp add: esp_error_check_def with_sta_def split: if_splits)
  apply (cases "fa (g_ap g)"; simp add: esp_error_check_def with_ap_def split: if_splits)
  done

lemma deinit_ap_stop_if_init:
  assumes run: "g_phase (deinit_modules env g) = Running"
  shows "stop_if_init (ap_lifecycle (e_ap_sdk env) sc n aps) (g_ap g) = Some (ESP_OK, g_ap (deinit_modules env g))"
proof -
  obtain g1 g2 where e1: "g1 = (if aug_http_is_init (g_http g)
           then esp_error_check (with_http (aug_http_stop_webserver (e_http_sdk env)) g) else g)"
    and e2: "g2 = (if aug_wifi_sta_is_init (g_sta g1)
           then esp_error_check (with_sta (aug_wifi_sta_disconnect (e_sta_sdk env)) g1) else g1)"
    and r1: "g_phase g1 = Running" and r2: "g_phase g2 = Running"
    and e3: "deinit_modules env g = (if aug_wifi_ap_is_init (g_ap g2)
           then esp_error_check (with_ap (aug_wifi_ap_stop (e_ap_sdk env)) g2) else g2)"
    by (rule deinit_modules_run [OF run])
  have "g_ap g1 = g_ap g" using r1 unfolding e1 by (auto dest: with_module_Running(1))
  moreover have "g_ap g2 = g_ap g1" using r2 unfolding e2 by (auto dest: with_module_Running(2))
  ultimately have a: "g_ap g2 = g_ap g" by simp
  show ?thesis
  proof (cases "aug_wifi_ap_is_init (g_ap g2)")
    case True
    then have "g_phase (esp_error_check (with_ap (aug_wifi_ap_stop (e_ap_sdk env)) g2)) = Running"
      using run e3 by simp
    then have "aug_wifi_ap_stop (e_ap_sdk env) (g_ap g2) =
               (ESP_OK, g_ap (esp_error_check (with_ap (aug_wifi_ap_stop (e_ap_sdk env)) g2)))"
      by (rule with_module_Running(3) [THEN conjunct1])
    then show ?thesis using True e3 a by (simp add: stop_if_init_def ap_lifecycle_def)
  next
    case False
    then show ?thesis using e3 a by (simp add: stop_if_init_def ap_lifecycle_def)
  qed
qed

lemma deinit_sta_stop_if_init:
  assumes run: "g_phase (deinit_modules env g) = Running"
  shows "stop_if_init (sta_lifecycle (e_sta_sdk env) evs) (g_sta g) = Some (ESP_OK, g_sta (deinit_modules env g))"
proof -
  obtain g1 g2 where e1: "g1 = (if aug_http_is_init (g_http g)
           then esp_error_check (with_http (aug_http_stop_webserver (e_http_sdk env)) g) else g)"
    and e2: "g2 = (if aug_wifi_sta_is_init (g_sta g1)
           then esp_error_check (with_sta (aug_wifi_sta_disconnect (e_sta_sdk env)) g1) else g1)"
    and r1: "g_phase g1 = Running" and r2: "g_phase g2 = Running"
    and e3: "deinit_modules env g = (if aug_wifi_ap_is_init (g_ap g2)
           then esp_error_check (with_ap (aug_wifi_ap_stop (e_ap_sdk env)) g2) else g2)"
    by (rule deinit_modules_run [OF run])
  have a: "g_sta g1 = g_sta g" using r1 unfolding e1 by (auto dest: with_module_Running(1))
  have f: "g_sta (deinit_modules env g) = g_sta g2"
    using run unfolding e3 by (auto dest: with_module_Running(3))
  show ?thesis
  proof (cases "aug_wifi_sta_is_init (g_sta g1)")
    case True
    then have "g_phase (esp_error_check (with_sta (aug_wifi_sta_disconnect (e_sta_sdk env)) g1)) = Running"
      using r2 e2 by simp
    then have "aug_wifi_sta_disconnect (e_sta_sdk env) (g_sta g1) =
               (ESP_OK, g_sta (esp_error_check (with_sta (aug_wifi_sta_disconnect (e_sta_sdk env)) g1)))"
      by (rule with_module_Running(2) [THEN conjunct1])
    then show ?thesis using True e2 a f by (simp add: stop_if_init_def sta_lifecycle_def)
  next
    case False
    then show ?thesis using e2 a f by (simp add: stop_if_init_def sta_lifecycle_def)
  qed
qed

lemma deinit_http_stop_if_init:
  assumes run: "g_phase (deinit_modules env g) = Running"
  shows "stop_if_init (http_lifecycle (e_http_sdk env)) (g_http g) = Some (ESP_OK, g_http (deinit_modules env g))"
proof -
  obtain g1 g2 where e1: "g1 = (if aug_http_is_init (g_http g)
           then esp_error_check (with_http (aug_http_stop_webserver (e_http_sdk env)) g) else g)"
    and e2: "g2 = (if aug_wifi_sta_is_init (g_sta g1)
           then esp_error_check (with_sta (aug_wifi_sta_disconnect (e_sta_sdk env)) g1) else g1)"
    and r1: "g_phase g1 = Running" and r2: "g_phase g2 = Running"
    and e3: "deinit_modules env g = (if aug_wifi_ap_is_init (g_ap g2)
           then esp_error_check (with_ap (aug_wifi_ap_stop (e_ap_sdk env)) g2) else g2)"
    by (rule deinit_modules_run [OF run])
  have "g_http (deinit_modules env g) = g_http g2"
    using run unfolding e3 by (auto simp: esp_error_check_def with_ap_def split: prod.splits)
  moreover have "g_http g2 = g_http g1"
    using r2 unfolding e2 by (auto simp: esp_error_check_def with_sta_def split: prod.splits)
  ultimately have f: "g_http (deinit_modules env g) = g_http g1" by simp
  show ?thesis
  proof (cases "aug_http_is_init (g_http g)")
    case True
    then have "g_phase (esp_error_check (with_http (aug_http_stop_webserver (e_http_sdk env)) g)) = Running"
      using r1 e1 by simp
    then have "aug_http_stop_webserver (e_http_sdk env) (g_http g) =
               (ESP_OK, g_http (esp_error_check (with_http (aug_http_stop_webserver (e_http_sdk env)) g)))"
      by (rule with_module_Running(1) [THEN conjunct1])
    then show ?thesis using True e1 f by (simp add: stop_if_init_def http_lifecycle_def)
  next
    case False
    then show ?thesis using e1 f by (simp add: stop_if_init_def http_lifecycle_def)
  qed
qed

text \<open>
  \<open>deinit_modules\<close> as a client of the life-cycle interface: if the server, the
  station and the access point each report their resources through \<open>is_init\<close> and
  \<open>deinit_modules\<close> does not abort, afterwards no module holds any.
\<close>

lemma deinit_modules_releases_inv:
  assumes "g_phase (deinit_modules env g) = Running"
    and "lc_inv (http_lifecycle (e_http_sdk env)) (g_http g)"
    and "lc_inv (sta_lifecycle (e_sta_sdk env) evs) (g_sta g)"
    and "lc_inv (ap_lifecycle (e_ap_sdk env) sc n aps) (g_ap g)"
  shows "\<not> lc_held (http_lifecycle (e_http_sdk env)) (g_http (deinit_modules env g))
         \<and> \<not> lc_held (sta_lifecycle (e_sta_sdk env) evs) (g_sta (deinit_modules env g))
         \<and> \<not> lc_held (ap_lifecycle (e_ap_sdk env) sc n aps) (g_ap (deinit_modules env g))"
  using stop_if_init_releases [OF http_lifecycle_contract assms(2) deinit_http_stop_if_init [OF assms(1)]]
    stop_if_init_releases [OF sta_lifecycle_contract assms(3) deinit_sta_stop_if_init [OF assms(1)]]
    stop_if_init_releases [OF ap_lifecycle_contract assms(4) deinit_ap_stop_if_init [OF assms(1)]]
  by blast

end
