(* ===== verification/GatewayLifecycle.thy ===== *)
theory GatewayLifecycle
  imports GatewayRecovery
begin

text \<open>
  The life-cycle invariant of \<open>Lifecycle\<close> on the whole device: in every reachable
  state the HTTP server, the station and the access point each report their resources
  through \<open>is_init\<close>. Every module call the device makes keeps it (the starts and stops
  by the contracts of their instances), every other step leaves the resources alone.
  With it, \<open>deinit_modules\<close> in any reachable state that does not abort releases every
  resource of the three modules.
\<close>

definition gw_lc_inv :: "gw_env \<Rightarrow> gateway \<Rightarrow> bool" where
  "gw_lc_inv env g \<longleftrightarrow>
     lc_inv (http_lifecycle (e_http_sdk env)) (g_http g) \<and> lc_inv (sta_lifecycle (e_sta_sdk env) []) (g_sta g)
     \<and> lc_inv (ap_lifecycle (e_ap_sdk env) (e_scan_sdk env) (kc_scan_list_size (e_kc env)) (e_scan_aps env))
         (g_ap g)"

text \<open>The resources of the three modules.\<close>

definition res :: "gateway \<Rightarrow> http_module \<times> (bool \<times> bool \<times> bool \<times> bool) \<times> (bool \<times> bool \<times> bool)" where
  "res g = (g_http g, (sta_netif (g_sta g), sta_group (g_sta g), sta_any_registered (g_sta g),
                       sta_got_ip_registered (g_sta g)),
            (ap_netif (g_ap g), ap_handler_registered (g_ap g), idle_task (g_ap g)))"

section \<open>The interface\<close>

lemma lc_start_inv:
  "lifecycle_contract M s \<Longrightarrow> lc_inv M s \<Longrightarrow> lc_start M s = Some (e, s') \<Longrightarrow> lc_inv M s'"
  by (simp add: lifecycle_contract_def start_contract_def)

lemma lc_stop_inv:
  "lifecycle_contract M s \<Longrightarrow> lc_inv M s \<Longrightarrow> lc_stop M s = Some (e, s') \<Longrightarrow> lc_inv M s'"
  by (simp add: lifecycle_contract_def stop_contract_def)

section \<open>Frame\<close>

lemma gw_lc_inv_res: "res g' = res g \<Longrightarrow> gw_lc_inv env g' = gw_lc_inv env g"
  by (simp add: res_def gw_lc_inv_def lc_inv_def http_lifecycle_def sta_lifecycle_def ap_lifecycle_def
      aug_http_is_init_def aug_wifi_sta_is_init_def aug_wifi_ap_is_init_def)

lemma res_upd [simp]:
  "res (g\<lparr>g_mqtt := x4\<rparr>) = res g" "res (g\<lparr>g_nvs := x5\<rparr>) = res g" "res (g\<lparr>g_ota := x6\<rparr>) = res g"
  "res (g\<lparr>g_registered := x7\<rparr>) = res g" "res (g\<lparr>g_waiter := x8\<rparr>) = res g"
  "res (g\<lparr>g_http_stuck := x9\<rparr>) = res g" "res (g\<lparr>g_phase := x10\<rparr>) = res g"
  "res (g\<lparr>g_queue := x11\<rparr>) = res g" "res (g\<lparr>g_posted := x12\<rparr>) = res g"
  "res (g\<lparr>g_dispatched := x13\<rparr>) = res g" "res (g\<lparr>g_ds := x14\<rparr>) = res g"
  by (simp_all add: res_def)

lemma res_handlers [simp]:
  "res (g\<lparr>g_sta := event_handler (g_sta g) e\<rparr>) = res g"
  "res (g\<lparr>g_sta := (g_sta g)\<lparr>sta_config := c\<rparr>\<rparr>) = res g"
  "res (g\<lparr>g_ap := wifi_event_handler (g_ap g) e'\<rparr>) = res g"
  "res (g\<lparr>g_ap := idle_check_task (g_ap g)\<rparr>) = res g"
  by (cases e; cases e'; simp add: res_def idle_check_task_def)+

lemma res_calls [simp]:
  "res (esp_error_check r) = res (snd r)"
  "res (snd (with_mqtt f g)) = res g"
  "res (snd (with_nvs f' g)) = res g"
  "res (post_event ev g) = res g"
  "res (fold (\<lambda>ev. post_event (h ev)) evs g) = res g"
  by (simp_all add: esp_error_check_def with_mqtt_def with_nvs_def post_event_def res_def split: prod.splits)
     (induction evs arbitrary: g; simp add: post_event_def res_def)

section \<open>The module calls keep the invariant\<close>

text \<open>By the contracts of the instances.\<close>

lemma http_ops_inv:
  "lc_inv (http_lifecycle sdk) h \<Longrightarrow> lc_inv (http_lifecycle sdk) (snd (aug_http_start sdk h))"
  "lc_inv (http_lifecycle sdk) h \<Longrightarrow> lc_inv (http_lifecycle sdk) (snd (aug_http_stop_webserver sdk h))"
  using lc_start_inv [OF http_lifecycle_contract, of sdk h "fst (aug_http_start sdk h)"]
    lc_stop_inv [OF http_lifecycle_contract, of sdk h "fst (aug_http_stop_webserver sdk h)"]
  by (simp_all add: http_lifecycle_def)

lemma sta_ops_inv:
  "lc_inv (sta_lifecycle sdk evs) s \<Longrightarrow> lc_inv (sta_lifecycle sdk evs) (snd (aug_wifi_sta_disconnect sdk s))"
  using lc_stop_inv [OF sta_lifecycle_contract, of sdk evs s "fst (aug_wifi_sta_disconnect sdk s)"]
  by (simp add: sta_lifecycle_def)

lemma ap_ops_inv:
  "lc_inv (ap_lifecycle sdk sc n aps) a \<Longrightarrow> aug_wifi_ap_start sdk sc n aps a = Inr (e, a') \<Longrightarrow>
   lc_inv (ap_lifecycle sdk sc n aps) a'"
  "lc_inv (ap_lifecycle sdk sc n aps) a \<Longrightarrow> lc_inv (ap_lifecycle sdk sc n aps) (snd (aug_wifi_ap_stop sdk a))"
  using lc_start_inv [OF ap_lifecycle_contract, of sdk sc n aps a e a']
    lc_stop_inv [OF ap_lifecycle_contract, of sdk sc n aps a "fst (aug_wifi_ap_stop sdk a)"]
  by (simp_all add: ap_lifecycle_def)

text \<open>The part of \<open>aug_wifi_sta_connect\<close> before the wait creates the netif first.\<close>

lemma connect_begin_netif:
  "aug_wifi_sta_connect_begin sdk s = Inl (e, s') \<Longrightarrow> sta_netif s'"
  "aug_wifi_sta_connect_begin sdk s = Inr s' \<Longrightarrow> sta_netif s'"
  by (auto simp: aug_wifi_sta_connect_begin_def Let_def split: if_splits)

lemma inv_http_start: "gw_lc_inv env g \<Longrightarrow> gw_lc_inv env (http_start env g)"
  by (simp add: gw_lc_inv_def http_start_def http_ops_inv(1))

lemma inv_deinit: "gw_lc_inv env g \<Longrightarrow> gw_lc_inv env (deinit_modules env g)"
  unfolding deinit_modules_def and_then_def
  by (simp add: gw_lc_inv_def esp_error_check_def with_http_def with_sta_def with_ap_def http_ops_inv(2)
      sta_ops_inv ap_ops_inv(2) case_prod_beta)

lemma inv_and_then:
  "gw_lc_inv env g \<Longrightarrow> (\<And>h. g_phase h = Running \<Longrightarrow> gw_lc_inv env h \<Longrightarrow> gw_lc_inv env (k h)) \<Longrightarrow>
   gw_lc_inv env (and_then g k)"
  by (simp add: and_then_def)

lemma inv_upd [simp]:
  "gw_lc_inv env (esp_error_check r) = gw_lc_inv env (snd r)"
  "gw_lc_inv env (g\<lparr>g_phase := x10\<rparr>) = gw_lc_inv env g"
  "gw_lc_inv env (g\<lparr>g_waiter := x8\<rparr>) = gw_lc_inv env g"
  "gw_lc_inv env (g\<lparr>g_mqtt := x4\<rparr>) = gw_lc_inv env g"
  "gw_lc_inv env (g\<lparr>g_ds := x14\<rparr>) = gw_lc_inv env g"
  "gw_lc_inv env (g\<lparr>g_ota := x6\<rparr>) = gw_lc_inv env g"
  "gw_lc_inv env (g\<lparr>g_http_stuck := x9\<rparr>) = gw_lc_inv env g"
  "gw_lc_inv env (g\<lparr>g_queue := x11, g_dispatched := x13\<rparr>) = gw_lc_inv env g"
  by (simp_all add: gw_lc_inv_def esp_error_check_def)

lemma res_stop_mqtt [simp]: "res (stop_mqtt_if_connected g) = res g"
  by (simp add: stop_mqtt_if_connected_def)

lemma res_write_nvs [simp]: "res (write_nvs_data env g) = res g"
  unfolding write_nvs_data_def by (auto intro!: and_then_keeps)

lemma res_register_events [simp]: "res (register_events env evs g) = res g"
  by (induction evs arbitrary: g) (auto intro!: and_then_keeps)

lemma res_callback_init_mqtt [simp]: "res (callback_init_mqtt env g) = res g"
  by (simp add: callback_init_mqtt_def)

lemma lc_inv_sta_netif: "sta_netif s \<Longrightarrow> lc_inv (sta_lifecycle sdk evs) s"
  by (simp add: lc_inv_def sta_lifecycle_def aug_wifi_sta_is_init_def)

lemma inv_connect_begin:
  "gw_lc_inv env g \<Longrightarrow> aug_wifi_sta_connect_begin sdk s0 = Inl (e, s) \<Longrightarrow> gw_lc_inv env (g\<lparr>g_sta := s\<rparr>)"
  "gw_lc_inv env g \<Longrightarrow> aug_wifi_sta_connect_begin sdk s0 = Inr s \<Longrightarrow> gw_lc_inv env (g\<lparr>g_sta := s\<rparr>)"
  by (simp_all add: gw_lc_inv_def lc_inv_sta_netif connect_begin_netif)

lemma inv_ap_start:
  "gw_lc_inv env g \<Longrightarrow>
   lc_inv (ap_lifecycle (e_ap_sdk env) (e_scan_sdk env) (kc_scan_list_size (e_kc env)) (e_scan_aps env)) a0 \<Longrightarrow>
   aug_wifi_ap_start (e_ap_sdk env) (e_scan_sdk env) (kc_scan_list_size (e_kc env)) (e_scan_aps env) a0
     = Inr (e, a) \<Longrightarrow> gw_lc_inv env (g\<lparr>g_ap := a\<rparr>)"
  by (auto simp: gw_lc_inv_def intro: ap_ops_inv(1))

lemma lc_inv_ap_config [simp]:
  "lc_inv (ap_lifecycle sdk sc n aps) (a\<lparr>ap_config := c\<rparr>) = lc_inv (ap_lifecycle sdk sc n aps) a"
  by (simp add: lc_inv_def ap_lifecycle_def aug_wifi_ap_is_init_def)

lemma inv_ap: "gw_lc_inv env g \<Longrightarrow>
   lc_inv (ap_lifecycle (e_ap_sdk env) (e_scan_sdk env) (kc_scan_list_size (e_kc env)) (e_scan_aps env)) (g_ap g)"
  by (simp add: gw_lc_inv_def)

lemma inv_callback_init_sta: "gw_lc_inv env g \<Longrightarrow> gw_lc_inv env (callback_init_sta env g)"
  unfolding callback_init_sta_def
  by (auto intro!: inv_and_then inv_deinit simp: gw_lc_inv_res [OF res_stop_mqtt] inv_connect_begin
      split: sum.split)

lemma inv_callback_init_ap: "gw_lc_inv env g \<Longrightarrow> gw_lc_inv env (callback_init_ap env g)"
  unfolding callback_init_ap_def
  apply (rule inv_and_then, simp add: gw_lc_inv_res [OF res_stop_mqtt])
  apply (rule inv_and_then, erule inv_deinit)
  subgoal premises p for h1 h2
    using p(5) inv_ap_start [OF p(5) inv_ap [OF p(5)]] inv_http_start
    by (auto intro: inv_and_then split: sum.split)
  done

lemma inv_callback_esp_restart: "gw_lc_inv env g \<Longrightarrow> gw_lc_inv env (callback_esp_restart env g)"
  unfolding callback_esp_restart_def
  by (auto intro!: inv_and_then inv_deinit simp: gw_lc_inv_res [OF res_stop_mqtt] gw_lc_inv_res [OF res_write_nvs])

lemma inv_finish_init_sta: "gw_lc_inv env g \<Longrightarrow> gw_lc_inv env (finish_init_sta env r g)"
  by (simp add: finish_init_sta_def gw_lc_inv_res [OF res_calls(2)] inv_http_start)

lemma inv_run_callback: "gw_lc_inv env g \<Longrightarrow> gw_lc_inv env (run_callback env c g)"
  by (cases c) (simp_all add: inv_callback_init_sta inv_callback_init_ap inv_callback_esp_restart
      gw_lc_inv_res [OF res_callback_init_mqtt])

lemma res_configs [simp]:
  "res (g\<lparr>g_sta := (g_sta g)\<lparr>sta_config := c\<rparr>, g_ap := (g_ap g)\<lparr>ap_config := ac\<rparr>\<rparr>) = res g"
  by (simp add: res_def)

lemma inv_boot_rest: "gw_lc_inv env g \<Longrightarrow> gw_lc_inv env (boot_rest env g)"
  unfolding boot_rest_def Let_def
  by (auto intro!: inv_and_then inv_http_start simp: gw_lc_inv_res [OF res_register_events]
      gw_lc_inv_res [OF res_calls(2)] split: prod.split option.split)

lemma inv_sta_netif_upd: "gw_lc_inv env g \<Longrightarrow> sta_netif s \<Longrightarrow> gw_lc_inv env (g\<lparr>g_sta := s\<rparr>)"
  by (simp add: gw_lc_inv_def lc_inv_sta_netif)

lemma inv_main_init:
  assumes i: "gw_lc_inv env g"
  shows "gw_lc_inv env (main_init env g)"
  unfolding main_init_def
  apply (rule inv_and_then)
   apply (simp add: i)
  subgoal premises p for h
  proof -
    obtain es cfg where s: "aug_nvs_get_sta_config (e_layout env) (e_nvs_sdk env) (g_nvs h)
                              (sta_config (g_sta h)) = (es, cfg)" by fastforce
    obtain ea acfg where a: "aug_nvs_get_ap_config (e_layout env) (e_nvs_sdk env) (g_nvs h)
                               (ap_config (g_ap h)) = (ea, acfg)" by fastforce
    let ?c = "if es \<noteq> ESP_OK then (if kc_wifi_info (e_kc env) then aug_wifi_get_default_sta_config (e_kc env)
              else zero_sta_config) else cfg"
    let ?ac = "if ea \<noteq> ESP_OK then aug_wifi_get_default_ap_config (e_kc env) else acfg"
    let ?g2 = "h\<lparr>g_sta := (g_sta h)\<lparr>sta_config := ?c\<rparr>, g_ap := (g_ap h)\<lparr>ap_config := ?ac\<rparr>\<rparr>"
    have i2: "gw_lc_inv env ?g2" using p(2) gw_lc_inv_res [OF res_configs] by blast
    have sta: "gw_lc_inv env (boot_rest env (?g2\<lparr>g_sta := s'\<rparr>))" "gw_lc_inv env (?g2\<lparr>g_sta := s', g_waiter := w\<rparr>)"
      if "sta_netif s'" for s' w
      using inv_sta_netif_upd [OF i2 that] inv_boot_rest by simp_all
    have ap: "gw_lc_inv env (and_then (esp_error_check (e, ?g2\<lparr>g_ap := a'\<rparr>)) (boot_rest env))"
      if "aug_wifi_ap_start (e_ap_sdk env) (e_scan_sdk env) (kc_scan_list_size (e_kc env)) (e_scan_aps env)
            (g_ap ?g2) = Inr (e, a')" for e a'
      using inv_ap_start [OF i2 inv_ap [OF i2] that] inv_boot_rest by (auto intro: inv_and_then)
    show ?thesis
      using sta ap i2 s a by (auto simp: Let_def split: sum.split dest: connect_begin_netif)
  qed
  done

lemma inv_gateway_init: "gw_lc_inv env (gateway_init st)"
  by (simp add: gw_lc_inv_def lc_inv_def gateway_init_def http_lifecycle_def sta_lifecycle_def ap_lifecycle_def
      http_module_init_def sta_module_init_def ap_module_init_def)

lemma inv_app_main: "gw_lc_inv env (app_main env st)"
  unfolding app_main_def
  by (auto intro!: inv_and_then inv_main_init simp: inv_gateway_init split: prod.split sum.split)

lemma res_steps [simp]:
  "res (deliver_ap e g) = res g" "res (idle_tick g) = res g" "res (deliver_mqtt m g) = res g"
  by (simp_all add: deliver_ap_def idle_tick_def deliver_mqtt_def Let_def)

lemma res_deliver_sta [simp]: "res (deliver_sta env e g) = res g"
  by (cases e) (simp_all add: deliver_sta_def Let_def res_def post_event_def)

lemma res_serve [simp]: "res (serve env r g) = res g"
  by (cases r) (auto simp: serve_def Let_def post_http_def split: prod.split option.split sum.split)

lemma inv_dispatch: "gw_lc_inv env g \<Longrightarrow> gw_lc_inv env (dispatch env g)"
  unfolding dispatch_def Let_def
  by (auto intro: inv_run_callback split: list.split)

lemma inv_resume: "gw_lc_inv env g \<Longrightarrow> gw_lc_inv env (resume_waiter env g)"
  unfolding resume_waiter_def
  by (auto intro: inv_finish_init_sta inv_boot_rest split: option.split sta_waiter.split)

lemma inv_step: "gw_lc_inv env g \<Longrightarrow> gw_lc_inv env (gw_step env g i)"
  unfolding gw_step_def
  by (cases i) (auto intro: inv_dispatch inv_resume simp: gw_lc_inv_res [OF res_deliver_sta]
      gw_lc_inv_res [OF res_steps(1)] gw_lc_inv_res [OF res_steps(2)] gw_lc_inv_res [OF res_steps(3)]
      gw_lc_inv_res [OF res_serve])

lemma gw_lc_inv_reachable: "gw_reachable env g \<Longrightarrow> gw_lc_inv env g"
  by (induction rule: gw_reachable.induct) (simp_all add: inv_app_main inv_step)

section \<open>Tear-down in reachable states\<close>

text \<open>
  C6: \<open>deinit_modules\<close> releases every resource of the three modules it tears down. In
  every state the device reaches from \<open>app_main\<close> through any interleaving of its tasks,
  if \<open>deinit_modules\<close> does not abort, afterwards no module holds any resource: no
  server or handler, no station netif, event group or handler instance, and no
  access-point netif, handler or idle task (spec 4.4: "tear down all active mode
  resources").
\<close>

theorem deinit_modules_releases:
  assumes "gw_reachable env g" "g_phase (deinit_modules env g) = Running"
  shows "\<not> lc_held (http_lifecycle (e_http_sdk env)) (g_http (deinit_modules env g))
         \<and> \<not> lc_held (sta_lifecycle (e_sta_sdk env) []) (g_sta (deinit_modules env g))
         \<and> \<not> lc_held (ap_lifecycle (e_ap_sdk env) (e_scan_sdk env) (kc_scan_list_size (e_kc env))
               (e_scan_aps env)) (g_ap (deinit_modules env g))"
  using gw_lc_inv_reachable [OF assms(1)] deinit_modules_releases_inv [OF assms(2)]
  unfolding gw_lc_inv_def by blast

theorem deinit_modules_releases_witness:
  "let env = gw_env_example;
       g = gw_run env (app_main env Map.empty)
             [In_sta_radio WIFI_EVENT_STA_START, In_sta_radio IP_EVENT_STA_GOT_IP, In_resume]
   in gw_reachable env g \<and> g_phase (deinit_modules env g) = Running
      \<and> \<not> lc_held (http_lifecycle (e_http_sdk env)) (g_http (deinit_modules env g))
      \<and> \<not> lc_held (sta_lifecycle (e_sta_sdk env) []) (g_sta (deinit_modules env g))
      \<and> \<not> lc_held (ap_lifecycle (e_ap_sdk env) (e_scan_sdk env) (kc_scan_list_size (e_kc env))
            (e_scan_aps env)) (g_ap (deinit_modules env g))"
proof -
  let ?g = "gw_run gw_env_example (app_main gw_env_example Map.empty)
             [In_sta_radio WIFI_EVENT_STA_START, In_sta_radio IP_EVENT_STA_GOT_IP, In_resume]"
  have r: "gw_reachable gw_env_example ?g"
    by (rule gw_run_reachable [OF gw_reachable.boot])
  have d: "g_phase (deinit_modules gw_env_example ?g) = Running"
    using boot_sta_state deinit_modules_ok [of gw_env_example ?g]
    by (simp add: Let_def gw_env_example_def)
  show ?thesis
    unfolding Let_def using r d deinit_modules_releases [OF r d] by blast
qed

end
