(* ===== verification/Publish.thy ===== *)
theory Publish
  imports Sensors CLib Mqtt
begin

text \<open>
  Model of the publishing side of \<open>src/main/main.c\<close>: \<open>get_mac_hash\<close>, which folds the six
  bytes of the base MAC address into one \<open>uint8_t\<close>, and one round of the loop of
  \<open>publish_task\<close>, which reads every sensor of \<open>Sensors\<close> while the broker client is
  connected and publishes three messages per sensor. The \<open>snprintf\<close> conversions are those
  of \<open>CLib\<close>: \<open>%i\<close> of the \<open>uint8_t\<close> hash (promoted to \<open>int\<close>) and of the \<open>size_t\<close> index
  (read back as a 32-bit \<open>int\<close>, as the ESP32 ABI passes it), and \<open>%.2f\<close> of the reading,
  which the driver model gives in hundredths of a degree. The connection state the loop
  tests before sensor \<open>i\<close> is the broker module's state at that moment, an input of the
  round; the publish calls always report success (\<open>aug_mqtt_publish_str\<close>), so a round is
  the list of (topic, payload) pairs it publishes, or \<open>None\<close> when a failed reading aborts
  the device.
\<close>

section \<open>The MAC hash\<close>

text \<open>\<open>hash = hash * hash + mac[i]\<close> in \<open>uint8_t\<close> over the six bytes; 0 if the MAC cannot be read.\<close>

definition get_mac_hash :: "esp_err \<Rightarrow> byte list \<Rightarrow> byte" where
  "get_mac_hash ret mac = (if ret \<noteq> ESP_OK then 0 else foldl (\<lambda>hash i. hash * hash + mac ! i) 0 [0..<6])"

section \<open>Topics and payloads\<close>

definition topic_base :: "byte \<Rightarrow> nat \<Rightarrow> string" where
  "topic_base mac_hash i =
     ''/devices/rtl-esp-wroom'' @ dec_of_int (uint mac_hash) @ ''['' @
     dec_of_int (sint (word_of_nat (i + 1) :: 32 word)) @ '']/controls/temperature''"

definition topic_meta_type :: "byte \<Rightarrow> nat \<Rightarrow> string" where
  "topic_meta_type mac_hash i = c_snprintf 128 (topic_base mac_hash i @ ''/meta/type'')"

definition topic_meta_readonly :: "byte \<Rightarrow> nat \<Rightarrow> string" where
  "topic_meta_readonly mac_hash i = c_snprintf 128 (topic_base mac_hash i @ ''/meta/readonly'')"

definition topic_value :: "byte \<Rightarrow> nat \<Rightarrow> string" where
  "topic_value mac_hash i = c_snprintf 128 (topic_base mac_hash i)"

text \<open>\<open>%.2f\<close> of a reading given in hundredths: sign, integer part, two decimals.\<close>

definition fmt_2f :: "int \<Rightarrow> string" where
  "fmt_2f t =
     (if t < 0 then ''-'' else []) @ dec_of_nat (nat \<bar>t\<bar> div 100) @ ''.'' @
     [digit_char (nat \<bar>t\<bar> mod 100 div 10), digit_char (nat \<bar>t\<bar> mod 10)]"

definition temperature_str :: "int \<Rightarrow> string" where
  "temperature_str t = c_snprintf 8 (fmt_2f t)"

text \<open>The three messages of sensor \<open>i\<close>.\<close>

definition sensor_messages :: "byte \<Rightarrow> nat \<Rightarrow> int \<Rightarrow> (string \<times> string) list" where
  "sensor_messages mac_hash i t =
     [(topic_meta_type mac_hash i, ''temperature''), (topic_meta_readonly mac_hash i, ''1''),
      (topic_value mac_hash i, temperature_str t)]"

section \<open>One round of the publish loop\<close>

text \<open>
  \<open>for (i = 0; i < sensors_number && aug_mqtt_is_connected(); ++i)\<close>, from index \<open>i\<close>;
  \<open>conn i\<close> is the broker module when the condition is tested for \<open>i\<close>.
\<close>

fun publish_loop ::
  "ow_env \<Rightarrow> ds_module \<Rightarrow> byte \<Rightarrow> (nat \<Rightarrow> mqtt_module) \<Rightarrow> nat list \<Rightarrow> (string \<times> string) list option" where
  "publish_loop env s mac_hash conn [] = Some []"
| "publish_loop env s mac_hash conn (i # is) =
     (if \<not> aug_mqtt_is_connected (conn i) then Some []
      else case aug_get_temperature env s i of
        None \<Rightarrow> None
      | Some t \<Rightarrow> map_option (\<lambda>rest. sensor_messages mac_hash i t @ rest)
                   (publish_loop env s mac_hash conn is))"

definition publish_round ::
  "ow_env \<Rightarrow> ds_module \<Rightarrow> byte \<Rightarrow> (nat \<Rightarrow> mqtt_module) \<Rightarrow> (string \<times> string) list option" where
  "publish_round env s mac_hash conn =
     (case aug_get_sensors_number s of
        None \<Rightarrow> None
      | Some n \<Rightarrow> publish_loop env s mac_hash conn [0..<n])"

section \<open>Lengths of the formatted text\<close>

lemma length_dec_of_int_uint: "length (dec_of_int (uint (h :: byte))) \<le> 11"
proof (rule length_dec_of_int)
  show "INT32_MIN \<le> uint h" by (rule order_trans [OF _ uint_nonnegative]) (simp add: INT32_MIN_def)
  have "uint h < 2 ^ 8" using uint_bounded [of h] by simp
  then show "uint h \<le> INT32_MAX" by (simp add: INT32_MAX_def)
qed

lemma length_dec_of_int_sint: "length (dec_of_int (sint (x :: 32 word))) \<le> 11"
proof (rule length_dec_of_int)
  show "INT32_MIN \<le> sint x" using sint_ge [of x] by (simp add: INT32_MIN_def)
  show "sint x \<le> INT32_MAX" using sint_lt [of x] by (simp add: INT32_MAX_def)
qed

lemma length_topic_base: "length (topic_base h i) \<le> 67"
  using length_dec_of_int_uint [of h] length_dec_of_int_sint [of "word_of_nat (i + 1)"]
  by (simp add: topic_base_def)

lemma length_dec_of_nat_le: "n < 10 ^ k \<Longrightarrow> 0 < k \<Longrightarrow> length (dec_of_nat n) \<le> k"
  using length_dec_of_nat [of n "k - 1"] by simp

lemma length_fmt_2f: "- 99999 \<le> t \<Longrightarrow> t \<le> 999999 \<Longrightarrow> length (fmt_2f t) \<le> 7"
proof (cases "t < 0")
  case True
  assume lo: "- 99999 \<le> t"
  with True have "nat \<bar>t\<bar> div 100 < 10 ^ 3" by simp
  then have "length (dec_of_nat (nat \<bar>t\<bar> div 100)) \<le> 3" by (rule length_dec_of_nat_le) simp
  with True show ?thesis by (simp add: fmt_2f_def)
next
  case False
  assume "t \<le> 999999"
  with False have "nat \<bar>t\<bar> div 100 < 10 ^ 4" by simp
  then have "length (dec_of_nat (nat \<bar>t\<bar> div 100)) \<le> 4" by (rule length_dec_of_nat_le) simp
  with False show ?thesis by (simp add: fmt_2f_def)
qed

lemma temperature_str_fits: "- 99999 \<le> t \<Longrightarrow> t \<le> 999999 \<Longrightarrow> temperature_str t = fmt_2f t"
  using length_fmt_2f [of t] by (simp add: temperature_str_def c_snprintf_def)

section \<open>Properties of the publish task\<close>

text \<open>
  C18: The topics always fit their buffer: for every hash and every sensor index, each of the
  three topics \<open>publish_task\<close> formats into \<open>topic[128]\<close> is written whole, since the
  two \<open>%i\<close> conversions of 32-bit values take at most 11 characters each.
\<close>

theorem topics_fit:
  "topic_meta_type h i = topic_base h i @ ''/meta/type''
   \<and> topic_meta_readonly h i = topic_base h i @ ''/meta/readonly''
   \<and> topic_value h i = topic_base h i"
  using length_topic_base [of h i] by (simp add: topic_meta_type_def topic_meta_readonly_def topic_value_def)

text \<open>
  C17: One round of \<open>publish_task\<close> on an initialised driver whose readings succeed
  publishes, for each sensor in index order up to the first moment the broker client is
  found disconnected, its type, read-only flag and reading, and nothing else.
\<close>

theorem publish_round_messages:
  assumes "is_initialized s" "ow_sdk env = (\<lambda>_. ESP_OK)"
  shows "publish_round env s h conn =
         Some (concat (map (\<lambda>i. sensor_messages h i (ow_temperature env (ds18b20s s i)))
                 (takeWhile (\<lambda>i. aug_mqtt_is_connected (conn i)) [0..<ds18b20_device_num s])))"
proof -
  have "publish_loop env s h conn is =
        Some (concat (map (\<lambda>i. sensor_messages h i (ow_temperature env (ds18b20s s i)))
                (takeWhile (\<lambda>i. aug_mqtt_is_connected (conn i)) is)))" for "is"
    using assms by (induction "is") (simp_all add: aug_get_temperature_def)
  then show ?thesis using assms(1) by (simp add: publish_round_def aug_get_sensors_number_def)
qed

section \<open>Witnesses\<close>


theorem publish_round_messages_witness:
  "is_initialized (ds_module_init\<lparr>is_initialized := True, ds18b20_device_num := 1\<rparr>)
   \<and> ow_sdk ow_env_example = (\<lambda>_. ESP_OK)
   \<and> publish_round ow_env_example (ds_module_init\<lparr>is_initialized := True, ds18b20_device_num := 1\<rparr>) 191
       (\<lambda>_. mqtt_module_init\<lparr>is_connected := True\<rparr>)
     = Some (sensor_messages 191 0 2150)"
proof -
  have h: "is_initialized (ds_module_init\<lparr>is_initialized := True, ds18b20_device_num := 1\<rparr>)"
    "ow_sdk ow_env_example = (\<lambda>_. ESP_OK)" by (simp_all add: ow_env_example_def)
  from publish_round_messages [OF h, of 191 "\<lambda>_. mqtt_module_init\<lparr>is_connected := True\<rparr>"] h
  show ?thesis by (simp add: aug_mqtt_is_connected_def ow_env_example_def ds_module_init_def)
qed

end
