(* ===== verification/ConfigStore.thy ===== *)
theory ConfigStore
  imports Nvs
begin

text \<open>
  The contract of \<open>aug_nvs.h\<close>: each getter "retrieves the configuration stored in NVS
  memory and assigns it to the statically allocated configuration in the module", each
  setter "stores the configuration from the statically allocated configuration to the
  NVS memory". Spec 4.6 reads it as \<open>get(kind) -> config | NotFound\<close> and
  \<open>set(kind, config)\<close>. This theory gives that store as a record of the three
  configurations, the abstraction of a flash partition to it, and the refinement: every
  accessor of \<open>aug_nvs.c\<close> is the abstract operation on the abstraction, and a setter
  changes no other configuration.
\<close>

section \<open>The abstract store\<close>

record config_store =
  cs_ap :: "aug_wifi_ap_config_t option"
  cs_sta :: "aug_wifi_sta_config_t option"
  cs_mqtt :: "string option"

text \<open>
  The getter's result on a configuration that is present (\<open>Some\<close>) or absent: whether
  it was found, and the module's configuration afterwards (unchanged when absent).
\<close>

definition cs_get :: "'c option \<Rightarrow> 'c \<Rightarrow> bool \<times> 'c" where
  "cs_get v cfg = (case v of Some c \<Rightarrow> (True, c) | None \<Rightarrow> (False, cfg))"

text \<open>The broker URI buffer as stored: \<open>uri_len\<close> bytes, read up to the first \<open>NUL\<close>.\<close>

definition uri_codec :: "nat \<Rightarrow> string codec" where
  "uri_codec uri_len = \<lparr>encode = uri_bytes uri_len, decode = uri_of_bytes\<rparr>"

text \<open>What a reader with a buffer of \<open>n\<close> bytes makes of a blob.\<close>

definition blob_read :: "'c codec \<Rightarrow> nat \<Rightarrow> byte list \<Rightarrow> 'c option" where
  "blob_read cd n bs = (if length bs = n then Some (decode cd bs) else None)"

definition store_abs :: "layout \<Rightarrow> nat \<Rightarrow> nvs_store \<Rightarrow> config_store" where
  "store_abs ly uri_len st =
     \<lparr>cs_ap = stored (ap_codec ly) (ap_size ly) wifi_ap_config_namespace_str config_str st,
      cs_sta = stored (sta_codec ly) (sta_size ly) wifi_sta_config_namespace_str config_str st,
      cs_mqtt = stored (uri_codec uri_len) uri_len mqtt_config_namespace_str uri_str_key st\<rparr>"

section \<open>Refinement\<close>

lemma config_namespaces_distinct [simp]:
  "wifi_ap_config_namespace_str \<noteq> wifi_sta_config_namespace_str"
  "wifi_sta_config_namespace_str \<noteq> wifi_ap_config_namespace_str"
  "wifi_ap_config_namespace_str \<noteq> mqtt_config_namespace_str"
  "mqtt_config_namespace_str \<noteq> wifi_ap_config_namespace_str"
  "wifi_sta_config_namespace_str \<noteq> mqtt_config_namespace_str"
  "mqtt_config_namespace_str \<noteq> wifi_sta_config_namespace_str"
  by (simp_all add: wifi_ap_config_namespace_str_def wifi_sta_config_namespace_str_def
      mqtt_config_namespace_str_def)

text \<open>With every NVS call succeeding, the getters are \<open>cs_get\<close> on the abstraction.\<close>

lemma getters_refine:
  "(fst (aug_nvs_get_ap_config ly nvs_ok st a) = ESP_OK, snd (aug_nvs_get_ap_config ly nvs_ok st a))
     = cs_get (cs_ap (store_abs ly n st)) a"
  "(fst (aug_nvs_get_sta_config ly nvs_ok st c) = ESP_OK, snd (aug_nvs_get_sta_config ly nvs_ok st c))
     = cs_get (cs_sta (store_abs ly n st)) c"
  "(fst (aug_nvs_get_mqtt_config n nvs_ok st u) = ESP_OK, snd (aug_nvs_get_mqtt_config n nvs_ok st u))
     = cs_get (cs_mqtt (store_abs ly n st)) u"
  by (simp_all add: aug_nvs_get_ap_config_def aug_nvs_get_sta_config_def aug_nvs_get_mqtt_config_def
      store_abs_def get_blob_ok stored_def cs_get_def uri_codec_def split: option.splits)

text \<open>Whatever the NVS calls return, a getter that reports success returns the stored value.\<close>

lemma getters_sound:
  "fst (aug_nvs_get_ap_config ly sdk st a) = ESP_OK \<Longrightarrow>
   cs_ap (store_abs ly n st) = Some (snd (aug_nvs_get_ap_config ly sdk st a))"
  "fst (aug_nvs_get_sta_config ly sdk st c) = ESP_OK \<Longrightarrow>
   cs_sta (store_abs ly n st) = Some (snd (aug_nvs_get_sta_config ly sdk st c))"
  "fst (aug_nvs_get_mqtt_config n sdk st u) = ESP_OK \<Longrightarrow>
   cs_mqtt (store_abs ly n st) = Some (snd (aug_nvs_get_mqtt_config n sdk st u))"
  by (auto simp: aug_nvs_get_ap_config_def aug_nvs_get_sta_config_def aug_nvs_get_mqtt_config_def
      store_abs_def uri_codec_def get_blob_def stored_def split: sum.splits if_splits option.splits)

lemma stored_upd:
  "stored cd n ns k (st((ns, k) \<mapsto> bs)) = blob_read cd n bs"
  "ns' \<noteq> ns \<Longrightarrow> stored cd n ns' k' (st((ns, k) \<mapsto> bs)) = stored cd n ns' k' st"
  by (simp_all add: stored_def blob_read_def)

text \<open>
  With every NVS call succeeding, a setter writes into the abstraction what a reader of
  its buffer size makes of the configuration's encoding, and leaves the other two
  configurations as they were.
\<close>

lemma setters_refine:
  "store_abs ly n (snd (aug_nvs_set_ap_config ly nvs_ok a st))
     = (store_abs ly n st)\<lparr>cs_ap := blob_read (ap_codec ly) (ap_size ly) (encode (ap_codec ly) a)\<rparr>"
  "store_abs ly n (snd (aug_nvs_set_sta_config ly nvs_ok c st))
     = (store_abs ly n st)\<lparr>cs_sta := blob_read (sta_codec ly) (sta_size ly) (encode (sta_codec ly) c)\<rparr>"
  "store_abs ly n (snd (aug_nvs_set_mqtt_config n nvs_ok u st))
     = (store_abs ly n st)\<lparr>cs_mqtt := blob_read (uri_codec n) n (encode (uri_codec n) u)\<rparr>"
  by (simp_all add: aug_nvs_set_ap_config_def aug_nvs_set_sta_config_def aug_nvs_set_mqtt_config_def
      set_blob_ok store_abs_def stored_upd uri_codec_def)

text \<open>A failed \<open>nvs_open\<close> or \<open>nvs_set_blob\<close> leaves the abstraction as it was.\<close>

lemma setters_fail:
  "sdk Nvs_open \<noteq> ESP_OK \<or> sdk Nvs_set_blob \<noteq> ESP_OK \<Longrightarrow>
   store_abs ly n (snd (aug_nvs_set_ap_config ly sdk a st)) = store_abs ly n st
   \<and> store_abs ly n (snd (aug_nvs_set_sta_config ly sdk c st)) = store_abs ly n st
   \<and> store_abs ly n (snd (aug_nvs_set_mqtt_config n sdk u st)) = store_abs ly n st"
  by (auto simp: aug_nvs_set_ap_config_def aug_nvs_set_sta_config_def aug_nvs_set_mqtt_config_def
      set_blob_def)

text \<open>The URI buffer reads back every \<open>NUL\<close>-free URI shorter than the buffer.\<close>

lemma blob_read_uri:
  "length u < n \<Longrightarrow> CHR 0x00 \<notin> set u \<Longrightarrow> blob_read (uri_codec n) n (encode (uri_codec n) u) = Some u"
  by (simp add: blob_read_def uri_codec_def uri_of_bytes_uri_bytes)

lemma blob_read_codec: "codec_ok cd n \<Longrightarrow> blob_read cd n (encode cd c) = Some c"
  by (simp add: blob_read_def codec_ok_def)

section \<open>The contract\<close>

text \<open>
  C10: The accessors of \<open>aug_nvs.c\<close> implement the configuration store of
  \<open>aug_nvs.h\<close> and spec 4.6. With the NVS calls succeeding, each getter reports
  \<open>ESP_OK\<close> exactly when its configuration is in the abstract store and then assigns
  it, and otherwise leaves the module's configuration unchanged; each setter puts into
  the abstract store what a reader of its buffer size makes of the configuration's
  bytes, and leaves the other two configurations as they were.
\<close>

theorem config_store_refines:
  "(fst (aug_nvs_get_ap_config ly nvs_ok st a) = ESP_OK, snd (aug_nvs_get_ap_config ly nvs_ok st a))
     = cs_get (cs_ap (store_abs ly n st)) a
   \<and> (fst (aug_nvs_get_sta_config ly nvs_ok st c) = ESP_OK, snd (aug_nvs_get_sta_config ly nvs_ok st c))
     = cs_get (cs_sta (store_abs ly n st)) c
   \<and> (fst (aug_nvs_get_mqtt_config n nvs_ok st u) = ESP_OK, snd (aug_nvs_get_mqtt_config n nvs_ok st u))
     = cs_get (cs_mqtt (store_abs ly n st)) u
   \<and> store_abs ly n (snd (aug_nvs_set_ap_config ly nvs_ok a st))
     = (store_abs ly n st)\<lparr>cs_ap := blob_read (ap_codec ly) (ap_size ly) (encode (ap_codec ly) a)\<rparr>
   \<and> store_abs ly n (snd (aug_nvs_set_sta_config ly nvs_ok c st))
     = (store_abs ly n st)\<lparr>cs_sta := blob_read (sta_codec ly) (sta_size ly) (encode (sta_codec ly) c)\<rparr>
   \<and> store_abs ly n (snd (aug_nvs_set_mqtt_config n nvs_ok u st))
     = (store_abs ly n st)\<lparr>cs_mqtt := blob_read (uri_codec n) n (encode (uri_codec n) u)\<rparr>"
  by (intro conjI getters_refine setters_refine)

end
