(* ===== verification/Spec2Isabelle.thy ===== *)
theory Spec2Isabelle
  imports GatewayLifecycle Publish ConfigStore
begin

text \<open>
  \<^bold>\<open>Verification library of the mqtt-temperature gateway firmware.\<close>

  The firmware (\<open>src/main\<close>, ESP-IDF, C) runs a temperature gateway. It joins a Wi-Fi
  network as a station, or falls back to its own access point. It serves an HTTP control
  surface for configuration and firmware upload, and publishes DS18B20 readings to an MQTT
  broker. \<open>main.c\<close> is the connectivity controller: a private event loop whose callbacks
  tear the modules down and bring one mode up, driven by events that the modules post.
  The modules are station, access point, channel scan, configuration store, HTTP server,
  MQTT client and sensor driver. This library is a shallow embedding of that code:

  \<^item> \<open>Prelude\<close>: the \<open>esp_err_t\<close> codes, \<open>AUG_RETURN_CHECK\<close> as \<open>aug_return_check\<close> (a
    code and a state, the rest of the function a continuation), bytes as \<open>8 word\<close>, and
    generic lemmas on lists and arithmetic.
  \<^item> \<open>Utility\<close> (\<open>aug_utility.c\<close>): the string tables of authentication and SAE
    modes and their parse and print loops.
  \<^item> \<open>WifiConfig\<close> (\<open>aug_wifi.c\<close>, \<open>aug_wifi.h\<close>): the build options as the record
    \<open>kconfig\<close>, the configuration structs, the default constructors, and
    \<open>aug_wifi_init\<close>/\<open>aug_wifi_deinit\<close>.
  \<^item> \<open>WifiSta\<close> (\<open>aug_wifi_sta.c\<close>): the module's statics as a record.
    \<open>event_handler\<close> holds the retry policy. The blocking \<open>aug_wifi_sta_connect\<close> is
    modelled whole (the wait consumes a list of radio events, \<open>None\<close> if it never
    returns) and split at its wait (\<open>aug_wifi_sta_connect_begin\<close>,
    \<open>sta_wait_result\<close>) for callers that interleave with it.
  \<^item> \<open>Scan\<close> (\<open>aug_wifi_scan.c\<close>): the \<open>uint8_t\<close> channel counters and the
    selection loop, refined to the abstract least busy channel.
  \<^item> \<open>WifiAp\<close> (\<open>aug_wifi_ap.c\<close>): the association counter, the idle task's
    wake-ups as runs of inputs, start (with the scan) and stop.
  \<^item> \<open>Nvs\<close> (\<open>aug_nvs.c\<close>, \<open>aug_nvs_init\<close> of \<open>main.c\<close>): flash as a map from
    namespace and key to blobs, \<open>get_blob\<close>/\<open>set_blob\<close> with every NVS call failing
    on its own, struct layouts as a codec parameter, the URI buffer byte for byte.
    \<open>ConfigStore\<close> (\<open>aug_nvs.h\<close>): the store the header documents, as the record
    \<open>config_store\<close> of the three configurations, with the abstraction \<open>store_abs\<close>
    of a partition to it.
  \<^item> \<open>Mqtt\<close> (\<open>aug_mqtt_client.c\<close>): the wrapper's statics, with the esp-mqtt
    client modelled by its handle, run state and URI (\<open>esp_mqtt_client_*\<close>, from the
    library's documented behaviour).
  \<^item> \<open>CLib\<close>: \<open>atoi\<close>, the \<open>%d\<close>/\<open>%s\<close> conversions and \<open>snprintf\<close> truncation.
    \<open>HttpOptions\<close> (setters and handlers of \<open>aug_http_server.c\<close>, with the responses
    sent and the events posted) and \<open>HttpServer\<close> (the upload loop with fuel, OTA
    partition bookkeeping, start and stop of the server) build on them.
  \<^item> \<open>Sensors\<close> (\<open>aug_ds18b20.c\<close>): the handle array as a map over all indices, so
    that an overflow would be visible; the device search with fuel.
  \<^item> \<open>Publish\<close> (\<open>get_mac_hash\<close> and \<open>publish_task\<close> of \<open>main.c\<close>).
  \<^item> \<open>Orchestrator\<close> (\<open>main.c\<close>): the whole device as the record \<open>gateway\<close>, holding
    every module's statics (the DS18B20 driver's included, initialised by
    \<open>aug_ds18b20_init\<close> of \<open>Sensors\<close> inside \<open>main_init\<close>), the flash, the OTA partitions and the application queue. The
    callbacks, \<open>register_events\<close>, \<open>main_init\<close> and \<open>app_main\<close> are composed from the
    module operations with \<open>ESP_ERROR_CHECK\<close> as \<open>esp_error_check\<close> (failure sets
    \<open>Aborted\<close>). The tasks interleave through \<open>gw_step\<close>, one task running to its next
    blocking point per input: a radio event delivered, an idle wake-up, a broker event,
    an HTTP request served, a dispatch by the application loop, or the resumption of a
    caller blocked in the station's wait. A post into the full queue waits (the step is
    not taken). \<open>gw_reachable\<close> is the set of states reachable from \<open>app_main\<close>.
    \<open>GatewayInvariants\<close> holds the frame lemmas (projections \<open>bus\<close> and \<open>netifs\<close>) and
    the invariants by rule induction. \<open>GatewayRuns\<close> evaluates boot and single steps on
    example builds. \<open>GatewayRecovery\<close> holds the return to station mode and the
    teardown of \<open>deinit_modules\<close> as a client of \<open>Lifecycle\<close>.
    \<open>GatewayLifecycle\<close> proves the life-cycle invariant \<open>gw_lc_inv\<close> of the server,
    the station and the access point in every reachable state: every start and stop the
    device makes keeps it by its instance's contract, every other step leaves the
    resources (projection \<open>res\<close>) alone.
  \<^item> \<open>Lifecycle\<close> (the headers \<open>aug_mqtt_client.h\<close>, \<open>aug_wifi_ap.h\<close>,
    \<open>aug_http_server.h\<close>, \<open>aug_ds18b20.h\<close>): the documented start/stop/\<open>is_init\<close>
    contract as a record of operations (\<open>lifecycle\<close>) with predicates on a state
    (\<open>lc_inv\<close>, \<open>start_contract\<close>, \<open>stop_contract\<close>); each module's operations are an
    instance (\<open>mqtt_lifecycle\<close>, \<open>ap_lifecycle\<close>, \<open>http_lifecycle\<close>,
    \<open>ds_lifecycle\<close>, and \<open>sta_lifecycle\<close> for the station as \<open>deinit_modules\<close> uses it),
    and the caller's pattern \<open>if (is_init()) ESP_ERROR_CHECK(stop())\<close> is
    \<open>stop_if_init\<close>.

  \<^bold>\<open>What the lemmas show.\<close> The claims, grouped by component:
  \<^item> device-wide invariants: station and access point never coexist, and the
    application queue is a bounded FIFO queue that loses no handler post;
  \<^item> four device behaviours that depart from the specification, each over all states
    of its kind: a station failure while \<open>main_init\<close> waits (every reachable such
    state) is lost, \<open>/init/mqtt\<close> with a created but unstarted broker client aborts, a
    return to station mode aborts when the broker client is started but not connected,
    and boot on a bus without DS18B20 aborts before the HTTP server starts;
  \<^item> the module life cycle: the broker client, the access point and the HTTP server meet
    their headers' contract in every state, \<open>deinit_modules\<close> (proved once against the
    interface) releases every resource of the modules it tears down in every reachable
    state, and the sensor
    driver breaks the contract after a failed initialisation;
  \<^item> the retry policy: the count of posts, giving up from any counter, success, the
    counter's invariant, and the counter that survives a reconnection;
  \<^item> the sensor driver: no array overflow, well-formedness and termination;
  \<^item> the publish task: one publish round and topic bounds;
  \<^item> the channel choice against its specification, and for any scan the choice made on
    the counts mod 256 of its 8-bit counters (channel 0 when all are 255);
  \<^item> the configuration store: the six accessors against the abstract store of
    \<open>aug_nvs.h\<close>, the round trip of the broker URI, and every branch of
    \<open>aug_nvs_init\<close> (erase of a full or newer-format partition);
  \<^item> the idle monitor: a post exactly when no station is associated, repeated every
    empty period;
  \<^item> the string tables;
  \<^item> the option setters against an abstract reading of the query, with partial updates,
    double responses and buffer bounds;
  \<^item> the upload handler: termination, stalling, safety of the boot partition, and a
    leaked handle;
  \<^item> the broker URI change on a client that is not running.
  Each claim with a hypothesis has a closed witness evaluated by \<open>simp\<close>.

  \<^bold>\<open>Fuel and bounds.\<close> Loops that may not end take fuel and return \<open>None\<close> when it
  runs out:
  \<^item> \<open>ota_receive\<close>: one unit per receive call;
  \<^item> \<open>search_loop\<close>: one unit per iterator call.
  For each, an enough-fuel lemma gives the number of calls after which the loop has
  returned (the body length, the index of the iterator's last call), and a divergence
  lemma (\<open>ota_receive_stalled\<close>, \<open>search_loop_stalls\<close>) shows inputs that keep it
  running for any fuel. The station's wait \<open>sta_wait\<close> consumes a finite list of radio
  events and is \<open>None\<close> when they run out before a result bit is set. The example builds use fuel
  of 2 to 3000 units, enough for the concrete inputs of their witnesses. Machine
  integers are \<open>8 word\<close> (scan counters, MAC hash) or \<open>32 word\<close> (the \<open>%i\<close> of a
  \<open>size_t\<close>) where the wrap matters, and \<open>int\<close> or \<open>nat\<close> elsewhere.

  \<^bold>\<open>Not modelled.\<close>
  \<^item> The SDK and libraries below the firmware: Wi-Fi driver, netif, event loops,
    esp_http_server, esp-mqtt, 1-Wire/DS18B20, NVS and OTA flash. They are environment
    functions giving each call's result, or small state models of their documented
    behaviour (the esp-mqtt run state, the OTA partitions, the event queue).
  \<^item> The byte layout of the configuration structs (compiler-defined; a codec
    parameter).
  \<^item> The float rounding of \<open>%.2f\<close>: readings are hundredths of a degree.
  \<^item> Time: the delay of \<open>publish_task\<close> between rounds and the idle monitor's period
    \<open>DEFAULT_TIMEOUT_IDLE\<close> are not modelled; a wake-up of \<open>idle_check_task\<close> is an
    input. That the period ignores the configured \<open>timeout_idle\<close> is therefore a
    finding read from the source, not a theorem.
  \<^item> The wire-level HTTP and MQTT protocols.
  \<^item> \<open>verify_app\<close>, which only reads the running partition, and the logging calls.
\<close>

end
